(* ===== verification/KR_Prelude.thy ===== *)
theory KR_Prelude
  imports Main "HOL-Library.Word"
begin

text \<open>
  Vocabulary shared by every component: the names of Rust's machine integers,
  the \<open>Result\<close> type and its combinators, the collections of rewrite and
  invariant rules the component theories extend, and generic facts about
  lists, maps and words.

  Conventions of the whole development.  A Rust \<open>Result<T, E>\<close> is a value of
  \<open>('t, 'e) result\<close>; a Rust \<open>Option<T>\<close> is a HOL option.  A computation that
  may panic returns an option whose \<open>None\<close> is the panic; the comment at the
  definition says so.  Fixed-width integers are words: \<open>+\<close>, \<open>-\<close> and \<open>*\<close> wrap,
  which is what a release build of the source does; \<open>usize\<close> values that only
  index or count are naturals.
\<close>

section \<open>Machine integers\<close>

type_synonym u8 = "8 word"
type_synonym u16 = "16 word"
type_synonym u32 = "32 word"
type_synonym u64 = "64 word"
type_synonym i32 = int
type_synonym i64 = int
type_synonym usize = nat

section \<open>Rule collections\<close>

named_theorems kr_live "the driver resources that dropping an object releases"

section \<open>Results\<close>

datatype ('a, 'e) result = Ok 'a | Err 'e

definition is_ok :: "('a, 'e) result \<Rightarrow> bool" where
  "is_ok r = (case r of Ok _ \<Rightarrow> True | Err _ \<Rightarrow> False)"

definition result_bind :: "('a, 'e) result \<Rightarrow> ('a \<Rightarrow> ('b, 'e) result) \<Rightarrow> ('b, 'e) result" where
  "result_bind r f = (case r of Ok x \<Rightarrow> f x | Err e \<Rightarrow> Err e)"

definition map_err :: "('e \<Rightarrow> 'f) \<Rightarrow> ('a, 'e) result \<Rightarrow> ('a, 'f) result" where
  "map_err f r = (case r of Ok x \<Rightarrow> Ok x | Err e \<Rightarrow> Err (f e))"

definition result_map :: "('a \<Rightarrow> 'b) \<Rightarrow> ('a, 'e) result \<Rightarrow> ('b, 'e) result" where
  "result_map f r = (case r of Ok x \<Rightarrow> Ok (f x) | Err e \<Rightarrow> Err e)"

definition result_ok :: "('a, 'e) result \<Rightarrow> 'a option" where
  "result_ok r = (case r of Ok x \<Rightarrow> Some x | Err _ \<Rightarrow> None)"

definition ok_or :: "'e \<Rightarrow> 'a option \<Rightarrow> ('a, 'e) result" where
  "ok_or e x = (case x of Some y \<Rightarrow> Ok y | None \<Rightarrow> Err e)"

lemma is_ok_simps [simp]: "is_ok (Ok x)" "\<not> is_ok (Err e)"
  by (simp_all add: is_ok_def)

lemma is_ok_iff: "is_ok r \<longleftrightarrow> (\<exists>x. r = Ok x)"
  by (cases r) simp_all

lemma result_bind_simps [simp]:
  "result_bind (Ok x) f = f x" "result_bind (Err e) f = Err e"
  by (simp_all add: result_bind_def)

lemma result_bind_eq_Ok:
  "result_bind r f = Ok y \<longleftrightarrow> (\<exists>x. r = Ok x \<and> f x = Ok y)"
  by (cases r) simp_all

lemma map_err_simps [simp]: "map_err f (Ok x) = Ok x" "map_err f (Err e) = Err (f e)"
  by (simp_all add: map_err_def)

lemma map_err_eq_Ok [simp]: "map_err f r = Ok x \<longleftrightarrow> r = Ok x"
  by (cases r) simp_all

lemma result_map_simps [simp]:
  "result_map f (Ok x) = Ok (f x)" "result_map f (Err e) = Err e"
  by (simp_all add: result_map_def)

lemma result_ok_simps [simp]: "result_ok (Ok x) = Some x" "result_ok (Err e) = None"
  by (simp_all add: result_ok_def)

lemma ok_or_simps [simp]: "ok_or e (Some x) = Ok x" "ok_or e None = Err e"
  by (simp_all add: ok_or_def)

lemma ok_or_eq_Ok [simp]: "ok_or e x = Ok y \<longleftrightarrow> x = Some y"
  by (cases x) simp_all

section \<open>Words\<close>

lemma unat_mult_add_lt:
  fixes r b d :: "'a::len word"
  assumes "unat r * unat b + unat d < 2 ^ LENGTH('a)"
  shows "unat (r * b + d) = unat r * unat b + unat d"
proof -
  have "unat r * unat b < 2 ^ LENGTH('a)" using assms by simp
  then have mult: "unat (r * b) = unat r * unat b" by (simp add: unat_mult_lem)
  with assms have "unat (r * b) + unat d < 2 ^ LENGTH('a)" by simp
  then have "unat (r * b + d) = unat (r * b) + unat d" using unat_add_lem by blast
  with mult show ?thesis by simp
qed

lemma unat_Suc_lt:
  fixes n :: "'a::len word"
  assumes "Suc (unat n) < 2 ^ LENGTH('a)"
  shows "unat (n + 1) = Suc (unat n)"
  using assms by (metis Suc_eq_plus1 unat_1 unat_add_lem unsigned_1)

lemma unat_ucast_up:
  fixes x :: "'a::len word"
  assumes "LENGTH('a) \<le> LENGTH('b::len)"
  shows "unat (ucast x :: 'b word) = unat x"
proof -
  have "unat x < 2 ^ LENGTH('a)" by (rule unsigned_less)
  also have "(2 :: nat) ^ LENGTH('a) \<le> 2 ^ LENGTH('b)" using assms by simp
  finally show ?thesis by (simp add: unsigned_ucast_eq take_bit_nat_eq_self_iff)
qed

lemma unat_less_size: "unat (x :: 'a::len word) < 2 ^ LENGTH('a)"
  by (rule unsigned_less)

lemma unat_word_of_nat: "n < 2 ^ LENGTH('a) \<Longrightarrow> unat (word_of_nat n :: 'a::len word) = n"
  by (simp add: unsigned_of_nat take_bit_nat_eq_self_iff)

lemma unat_add_word_of_nat:
  fixes x :: "'a::len word"
  assumes "unat x + n < 2 ^ LENGTH('a)"
  shows "unat (x + word_of_nat n) = unat x + n"
proof -
  have "unat (word_of_nat n :: 'a word) = n" using assms by (intro unat_word_of_nat) simp
  with assms show ?thesis by (metis unat_add_lem)
qed

lemma sint_of_small_nat:
  assumes "n < 2 ^ 31" shows "sint (word_of_nat n :: u32) = int n"
proof -
  have "sint (word_of_int (int n) :: u32) = int n"
    unfolding sint_sbintrunc' using assms by (intro signed_take_bit_int_eq_self) simp_all
  then show ?thesis by simp
qed

lemma ucast_ucast_up:
  fixes x :: "'a::len word"
  assumes "LENGTH('a) \<le> LENGTH('b::len)"
  shows "ucast (ucast x :: 'b word) = x"
  using assms by (intro bit_eqI) (auto simp: bit_simps)

section \<open>Lists\<close>

lemma nth_append_length_plus: "i < length ys \<Longrightarrow> (xs @ ys) ! (length xs + i) = ys ! i"
  by simp

lemma take_Suc_update:
  "i < length xs \<Longrightarrow> take (Suc i) (xs[i := v]) = take i xs @ [v]"
  by (simp add: take_Suc_conv_app_nth)

end
