(* ===== verification/Net_Addr.thy ===== *)
theory Net_Addr
  imports KR_Prelude
begin

text \<open>
  The address types of the no-std-net crate: \<open>Guid\<close> (the RDMA GID of
  \<open>lib.rs\<close>), \<open>Ipv4Addr\<close>, \<open>Ipv6Addr\<close> and \<open>IpAddr\<close> of \<open>ip.rs\<close>, the socket
  addresses of \<open>addr.rs\<close>, and their \<open>Display\<close> implementations.  A Rust array
  \<open>[u8; 16]\<close> is a list; \<open>wf_guid\<close> and \<open>wf_v6\<close> record its length.
\<close>

unbundle bit_operations_syntax

section \<open>Two bytes of a segment\<close>

definition seg_hi :: "u16 \<Rightarrow> u8" where
  "seg_hi a = ucast (drop_bit 8 a)"

definition seg_lo :: "u16 \<Rightarrow> u8" where
  "seg_lo a = ucast a"

definition seg_join :: "u8 \<Rightarrow> u8 \<Rightarrow> u16" where
  "seg_join x y = push_bit 8 (ucast x) OR ucast y"

lemma seg_hi_join [simp]: "seg_hi (seg_join x y) = x"
  unfolding seg_hi_def seg_join_def
  by (rule bit_eqI) (auto simp: bit_simps dest: bit_imp_le_length)

lemma seg_lo_join [simp]: "seg_lo (seg_join x y) = y"
  unfolding seg_lo_def seg_join_def
  by (rule bit_eqI) (auto simp: bit_simps)

lemma seg_join_hi_lo [simp]: "seg_join (seg_hi a) (seg_lo a) = a"
  unfolding seg_hi_def seg_lo_def seg_join_def
proof (rule bit_eqI)
  fix n
  assume "possible_bit TYPE(16 word) n"
  then have "n < 16" by simp
  then show "bit (push_bit 8 (ucast (ucast (drop_bit 8 a) :: u8)) OR ucast (ucast a :: u8) :: u16) n
             = bit a n"
    by (cases "n < 8") (auto simp: bit_simps)
qed

section \<open>Number formatting of \<open>{}\<close> and \<open>{:x}\<close>\<close>

definition digit_char :: "nat \<Rightarrow> char" where
  "digit_char d = (if d < 10 then char_of (48 + d) else char_of (87 + d))"

fun fmt_radix :: "nat \<Rightarrow> nat \<Rightarrow> string" where
  "fmt_radix b n =
     (if b < 2 \<or> n < b then [digit_char n]
      else fmt_radix b (n div b) @ [digit_char (n mod b)])"

declare fmt_radix.simps [simp del]

definition fmt_hex :: "u16 \<Rightarrow> string" where
  "fmt_hex a = fmt_radix 16 (unat a)"

definition fmt_dec :: "'a::len word \<Rightarrow> string" where
  "fmt_dec a = fmt_radix 10 (unat a)"

fun fmt_joined :: "char \<Rightarrow> string list \<Rightarrow> string" where
  "fmt_joined c [] = []"
| "fmt_joined c [x] = x"
| "fmt_joined c (x # y # xs) = x @ c # fmt_joined c (y # xs)"

section \<open>Guid\<close>

record Guid =
  guid_inner :: "u8 list"

definition wf_guid :: "Guid \<Rightarrow> bool" where
  "wf_guid g \<longleftrightarrow> length (guid_inner g) = 16"

definition Guid_new_u8 :: "u8 list \<Rightarrow> Guid" where
  "Guid_new_u8 inner = \<lparr> guid_inner = inner \<rparr>"

definition Guid_get_raw :: "Guid \<Rightarrow> u8 list" where
  "Guid_get_raw g = guid_inner g"

definition Guid_new :: "u16 \<Rightarrow> u16 \<Rightarrow> u16 \<Rightarrow> u16 \<Rightarrow> u16 \<Rightarrow> u16 \<Rightarrow> u16 \<Rightarrow> u16 \<Rightarrow> Guid" where
  "Guid_new a b c d e f g h =
     \<lparr> guid_inner =
        [seg_hi a, seg_lo a, seg_hi b, seg_lo b, seg_hi c, seg_lo c, seg_hi d, seg_lo d,
         seg_hi e, seg_lo e, seg_hi f, seg_lo f, seg_hi g, seg_lo g, seg_hi h, seg_lo h] \<rparr>"

definition Guid_segments :: "Guid \<Rightarrow> u16 list" where
  "Guid_segments g =
     (let arr = guid_inner g in
      [seg_join (arr ! 0) (arr ! 1), seg_join (arr ! 2) (arr ! 3),
       seg_join (arr ! 4) (arr ! 5), seg_join (arr ! 6) (arr ! 7),
       seg_join (arr ! 8) (arr ! 9), seg_join (arr ! 10) (arr ! 11),
       seg_join (arr ! 12) (arr ! 13), seg_join (arr ! 14) (arr ! 15)])"

definition Guid_fmt :: "Guid \<Rightarrow> string" where
  "Guid_fmt g = fmt_joined CHR '':'' (map fmt_hex (Guid_segments g))"

lemma wf_guid_new [simp]: "wf_guid (Guid_new a b c d e f g h)"
  by (simp add: wf_guid_def Guid_new_def)

lemma length_Guid_segments [simp]: "length (Guid_segments g) = 8"
  by (simp add: Guid_segments_def Let_def)

lemma Guid_segments_new [simp]:
  "Guid_segments (Guid_new a b c d e f g h) = [a, b, c, d, e, f, g, h]"
  by (simp add: Guid_segments_def Guid_new_def)

lemma list16_cases:
  assumes "length xs = 16"
  obtains x0 x1 x2 x3 x4 x5 x6 x7 x8 x9 x10 x11 x12 x13 x14 x15
  where "xs = [x0, x1, x2, x3, x4, x5, x6, x7, x8, x9, x10, x11, x12, x13, x14, x15]"
  using assms by (auto simp: numeral_eq_Suc length_Suc_conv)

lemma wf_guid_cases:
  assumes "wf_guid g"
  obtains a b c d e f h i where "g = Guid_new a b c d e f h i"
proof -
  from assms have "length (guid_inner g) = 16" by (simp add: wf_guid_def)
  then obtain x0 x1 x2 x3 x4 x5 x6 x7 x8 x9 x10 x11 x12 x13 x14 x15 where
    "guid_inner g = [x0, x1, x2, x3, x4, x5, x6, x7, x8, x9, x10, x11, x12, x13, x14, x15]"
    by (rule list16_cases)
  then have "g = Guid_new (seg_join x0 x1) (seg_join x2 x3) (seg_join x4 x5) (seg_join x6 x7)
                   (seg_join x8 x9) (seg_join x10 x11) (seg_join x12 x13) (seg_join x14 x15)"
    by (simp add: Guid_new_def)
  then show thesis by (rule that)
qed

section \<open>Ipv4Addr\<close>

datatype Ipv4Addr = Ipv4Addr (v4_0: u8) (v4_1: u8) (v4_2: u8) (v4_3: u8)

definition Ipv4Addr_new :: "u8 \<Rightarrow> u8 \<Rightarrow> u8 \<Rightarrow> u8 \<Rightarrow> Ipv4Addr" where
  "Ipv4Addr_new a b c d = Ipv4Addr a b c d"

definition Ipv4Addr_octets :: "Ipv4Addr \<Rightarrow> u8 list" where
  "Ipv4Addr_octets a = [v4_0 a, v4_1 a, v4_2 a, v4_3 a]"

definition Ipv4Addr_get_inner_as_sockaddr :: "Ipv4Addr \<Rightarrow> int list" where
  "Ipv4Addr_get_inner_as_sockaddr a =
     [sint (v4_0 a), sint (v4_1 a), sint (v4_2 a), sint (v4_3 a),
      0, 0, 0, 0, 0, 0, 0, 0, 0, 0]"

definition Ipv4Addr_is_unspecified :: "Ipv4Addr \<Rightarrow> bool" where
  "Ipv4Addr_is_unspecified a = list_all (\<lambda>b. b = 0) (Ipv4Addr_octets a)"

definition Ipv4Addr_is_loopback :: "Ipv4Addr \<Rightarrow> bool" where
  "Ipv4Addr_is_loopback a = (v4_0 a = 127)"

definition Ipv4Addr_is_private :: "Ipv4Addr \<Rightarrow> bool" where
  "Ipv4Addr_is_private a =
     (if v4_0 a = 10 then True
      else if v4_0 a = 172 \<and> 16 \<le> v4_1 a \<and> v4_1 a \<le> 31 then True
      else if v4_0 a = 192 \<and> v4_1 a = 168 then True
      else False)"

definition Ipv4Addr_is_link_local :: "Ipv4Addr \<Rightarrow> bool" where
  "Ipv4Addr_is_link_local a = (v4_0 a = 169 \<and> v4_1 a = 254)"

definition Ipv4Addr_is_multicast :: "Ipv4Addr \<Rightarrow> bool" where
  "Ipv4Addr_is_multicast a = (v4_0 a AND 0xF0 = 0xE0)"

definition Ipv4Addr_is_broadcast :: "Ipv4Addr \<Rightarrow> bool" where
  "Ipv4Addr_is_broadcast a = list_all (\<lambda>b. b = 255) (Ipv4Addr_octets a)"

definition Ipv4Addr_is_documentation :: "Ipv4Addr \<Rightarrow> bool" where
  "Ipv4Addr_is_documentation a =
     (let t = (v4_0 a, v4_1 a, v4_2 a) in
      t = (192, 0, 2) \<or> t = (198, 51, 100) \<or> t = (203, 0, 113))"

definition Ipv4Addr_is_global :: "Ipv4Addr \<Rightarrow> bool" where
  "Ipv4Addr_is_global a =
     (\<not> Ipv4Addr_is_private a \<and> \<not> Ipv4Addr_is_loopback a \<and> \<not> Ipv4Addr_is_link_local a
      \<and> \<not> Ipv4Addr_is_broadcast a \<and> \<not> Ipv4Addr_is_documentation a
      \<and> \<not> Ipv4Addr_is_unspecified a)"

definition Ipv4Addr_fmt :: "Ipv4Addr \<Rightarrow> string" where
  "Ipv4Addr_fmt a = fmt_joined CHR ''.'' (map fmt_dec (Ipv4Addr_octets a))"

section \<open>Ipv6Addr\<close>

record Ipv6Addr =
  v6_inner :: "u8 list"

definition wf_v6 :: "Ipv6Addr \<Rightarrow> bool" where
  "wf_v6 a \<longleftrightarrow> length (v6_inner a) = 16"

datatype Ipv6MulticastScope =
  InterfaceLocal | LinkLocal | RealmLocal | AdminLocal | SiteLocal | OrganizationLocal | Global

definition Ipv6Addr_new ::
  "u16 \<Rightarrow> u16 \<Rightarrow> u16 \<Rightarrow> u16 \<Rightarrow> u16 \<Rightarrow> u16 \<Rightarrow> u16 \<Rightarrow> u16 \<Rightarrow> Ipv6Addr" where
  "Ipv6Addr_new a b c d e f g h =
     \<lparr> v6_inner =
        [seg_hi a, seg_lo a, seg_hi b, seg_lo b, seg_hi c, seg_lo c, seg_hi d, seg_lo d,
         seg_hi e, seg_lo e, seg_hi f, seg_lo f, seg_hi g, seg_lo g, seg_hi h, seg_lo h] \<rparr>"

definition Ipv6Addr_first_segment :: "Ipv6Addr \<Rightarrow> u16" where
  "Ipv6Addr_first_segment a = seg_join (v6_inner a ! 0) (v6_inner a ! 1)"

definition Ipv6Addr_second_segment :: "Ipv6Addr \<Rightarrow> u16" where
  "Ipv6Addr_second_segment a = seg_join (v6_inner a ! 2) (v6_inner a ! 3)"

definition Ipv6Addr_segments :: "Ipv6Addr \<Rightarrow> u16 list" where
  "Ipv6Addr_segments a =
     (let arr = v6_inner a in
      [seg_join (arr ! 0) (arr ! 1), seg_join (arr ! 2) (arr ! 3),
       seg_join (arr ! 4) (arr ! 5), seg_join (arr ! 6) (arr ! 7),
       seg_join (arr ! 8) (arr ! 9), seg_join (arr ! 10) (arr ! 11),
       seg_join (arr ! 12) (arr ! 13), seg_join (arr ! 14) (arr ! 15)])"

definition Ipv6Addr_is_unspecified :: "Ipv6Addr \<Rightarrow> bool" where
  "Ipv6Addr_is_unspecified a = list_all (\<lambda>b. b = 0) (v6_inner a)"

definition Ipv6Addr_is_loopback :: "Ipv6Addr \<Rightarrow> bool" where
  "Ipv6Addr_is_loopback a = (Ipv6Addr_segments a = [0, 0, 0, 0, 0, 0, 0, 1])"

definition Ipv6Addr_is_unique_local :: "Ipv6Addr \<Rightarrow> bool" where
  "Ipv6Addr_is_unique_local a = (v6_inner a ! 0 AND 0xfe = 0xfc)"

definition Ipv6Addr_is_unicast_link_local :: "Ipv6Addr \<Rightarrow> bool" where
  "Ipv6Addr_is_unicast_link_local a = (Ipv6Addr_first_segment a AND 0xffc0 = 0xfe80)"

definition Ipv6Addr_is_unicast_site_local :: "Ipv6Addr \<Rightarrow> bool" where
  "Ipv6Addr_is_unicast_site_local a = (Ipv6Addr_first_segment a AND 0xffc0 = 0xfec0)"

definition Ipv6Addr_is_documentation :: "Ipv6Addr \<Rightarrow> bool" where
  "Ipv6Addr_is_documentation a =
     (Ipv6Addr_first_segment a = 0x2001 \<and> Ipv6Addr_second_segment a = 0xdb8)"

definition Ipv6Addr_is_multicast :: "Ipv6Addr \<Rightarrow> bool" where
  "Ipv6Addr_is_multicast a = (v6_inner a ! 0 = 0xff)"

definition Ipv6Addr_is_unicast_global :: "Ipv6Addr \<Rightarrow> bool" where
  "Ipv6Addr_is_unicast_global a =
     (\<not> Ipv6Addr_is_multicast a \<and> \<not> Ipv6Addr_is_loopback a
      \<and> \<not> Ipv6Addr_is_unicast_link_local a \<and> \<not> Ipv6Addr_is_unicast_site_local a
      \<and> \<not> Ipv6Addr_is_unique_local a \<and> \<not> Ipv6Addr_is_unspecified a
      \<and> \<not> Ipv6Addr_is_documentation a)"

definition Ipv6Addr_multicast_scope :: "Ipv6Addr \<Rightarrow> Ipv6MulticastScope option" where
  "Ipv6Addr_multicast_scope a =
     (if Ipv6Addr_is_multicast a then
        (let s = v6_inner a ! 1 AND 0x0F in
         if s = 1 then Some InterfaceLocal
         else if s = 2 then Some LinkLocal
         else if s = 3 then Some RealmLocal
         else if s = 4 then Some AdminLocal
         else if s = 5 then Some SiteLocal
         else if s = 8 then Some OrganizationLocal
         else if s = 14 then Some Global
         else None)
      else None)"

definition Ipv6Addr_is_global :: "Ipv6Addr \<Rightarrow> bool" where
  "Ipv6Addr_is_global a =
     (case Ipv6Addr_multicast_scope a of
        Some Global \<Rightarrow> True
      | None \<Rightarrow> Ipv6Addr_is_unicast_global a
      | _ \<Rightarrow> False)"

definition Ipv6Addr_to_ipv4 :: "Ipv6Addr \<Rightarrow> Ipv4Addr option" where
  "Ipv6Addr_to_ipv4 a =
     (let s = Ipv6Addr_segments a; f = s ! 5; g = s ! 6; h = s ! 7 in
      if take 5 s = [0, 0, 0, 0, 0] \<and> (f = 0 \<or> f = 0xffff)
      then Some (Ipv4Addr_new (seg_hi g) (seg_lo g) (seg_hi h) (seg_lo h))
      else None)"

definition Ipv4Addr_to_ipv6_compatible :: "Ipv4Addr \<Rightarrow> Ipv6Addr" where
  "Ipv4Addr_to_ipv6_compatible a =
     Ipv6Addr_new 0 0 0 0 0 0 (seg_join (v4_0 a) (v4_1 a)) (seg_join (v4_2 a) (v4_3 a))"

definition Ipv4Addr_to_ipv6_mapped :: "Ipv4Addr \<Rightarrow> Ipv6Addr" where
  "Ipv4Addr_to_ipv6_mapped a =
     Ipv6Addr_new 0 0 0 0 0 0xffff (seg_join (v4_0 a) (v4_1 a)) (seg_join (v4_2 a) (v4_3 a))"

text \<open>
  \<open>Display\<close> of \<open>Ipv6Addr\<close>: the loop of \<open>find_zero_slice\<close> walks the segments
  with the four counters of the source; the result is (start, length) of the
  first longest run of zero segments.
\<close>

fun find_zero_slice_loop :: "u16 list \<Rightarrow> nat \<Rightarrow> nat \<Rightarrow> nat \<Rightarrow> nat \<Rightarrow> nat \<Rightarrow> nat \<times> nat" where
  "find_zero_slice_loop [] i longest_len longest_at cur_len cur_at = (longest_at, longest_len)"
| "find_zero_slice_loop (s # ss) i longest_len longest_at cur_len cur_at =
     (if s = 0 then
        (let cur_at' = (if cur_len = 0 then i else cur_at); cur_len' = cur_len + 1 in
         if cur_len' > longest_len
         then find_zero_slice_loop ss (i + 1) cur_len' cur_at' cur_len' cur_at'
         else find_zero_slice_loop ss (i + 1) longest_len longest_at cur_len' cur_at')
      else find_zero_slice_loop ss (i + 1) longest_len longest_at 0 0)"

definition find_zero_slice :: "u16 list \<Rightarrow> nat \<times> nat" where
  "find_zero_slice segments = find_zero_slice_loop segments 0 0 0 0 0"

fun fmt_subslice :: "u16 list \<Rightarrow> string" where
  "fmt_subslice [] = []"
| "fmt_subslice (s # ss) = fmt_hex s @ concat (map (\<lambda>seg. CHR '':'' # fmt_hex seg) ss)"

definition fmt_v4_tail :: "u16 \<Rightarrow> u16 \<Rightarrow> string" where
  "fmt_v4_tail g h =
     fmt_joined CHR ''.'' (map fmt_dec [seg_hi g, seg_lo g, seg_hi h, seg_lo h])"

definition Ipv6Addr_fmt :: "Ipv6Addr \<Rightarrow> string" where
  "Ipv6Addr_fmt a =
     (let s = Ipv6Addr_segments a in
      if s = [0, 0, 0, 0, 0, 0, 0, 0] then ''::''
      else if s = [0, 0, 0, 0, 0, 0, 0, 1] then ''::1''
      else if take 6 s = [0, 0, 0, 0, 0, 0] then ''::'' @ fmt_v4_tail (s ! 6) (s ! 7)
      else if take 6 s = [0, 0, 0, 0, 0, 0xffff] then ''::ffff:'' @ fmt_v4_tail (s ! 6) (s ! 7)
      else (let (zeros_at, zeros_len) = find_zero_slice s in
            if zeros_len > 1
            then fmt_subslice (take zeros_at s) @ ''::'' @ fmt_subslice (drop (zeros_at + zeros_len) s)
            else fmt_joined CHR '':'' (map fmt_hex s)))"

lemma wf_v6_new [simp]: "wf_v6 (Ipv6Addr_new a b c d e f g h)"
  by (simp add: wf_v6_def Ipv6Addr_new_def)

lemma length_Ipv6Addr_segments [simp]: "length (Ipv6Addr_segments a) = 8"
  by (simp add: Ipv6Addr_segments_def Let_def)

lemma Ipv6Addr_segments_new [simp]:
  "Ipv6Addr_segments (Ipv6Addr_new a b c d e f g h) = [a, b, c, d, e, f, g, h]"
  by (simp add: Ipv6Addr_segments_def Ipv6Addr_new_def)

lemma wf_v6_cases:
  assumes "wf_v6 x"
  obtains a b c d e f g h where "x = Ipv6Addr_new a b c d e f g h"
proof -
  from assms have "length (v6_inner x) = 16" by (simp add: wf_v6_def)
  then obtain x0 x1 x2 x3 x4 x5 x6 x7 x8 x9 x10 x11 x12 x13 x14 x15 where
    "v6_inner x = [x0, x1, x2, x3, x4, x5, x6, x7, x8, x9, x10, x11, x12, x13, x14, x15]"
    by (rule list16_cases)
  then have "x = Ipv6Addr_new (seg_join x0 x1) (seg_join x2 x3) (seg_join x4 x5) (seg_join x6 x7)
                   (seg_join x8 x9) (seg_join x10 x11) (seg_join x12 x13) (seg_join x14 x15)"
    by (simp add: Ipv6Addr_new_def)
  then show thesis by (rule that)
qed

section \<open>IpAddr and the socket addresses\<close>

datatype IpAddr = IpV4 Ipv4Addr | IpV6 Ipv6Addr

definition IpAddr_is_unspecified :: "IpAddr \<Rightarrow> bool" where
  "IpAddr_is_unspecified a =
     (case a of IpV4 x \<Rightarrow> Ipv4Addr_is_unspecified x | IpV6 x \<Rightarrow> Ipv6Addr_is_unspecified x)"

definition IpAddr_is_loopback :: "IpAddr \<Rightarrow> bool" where
  "IpAddr_is_loopback a =
     (case a of IpV4 x \<Rightarrow> Ipv4Addr_is_loopback x | IpV6 x \<Rightarrow> Ipv6Addr_is_loopback x)"

definition IpAddr_is_global :: "IpAddr \<Rightarrow> bool" where
  "IpAddr_is_global a =
     (case a of IpV4 x \<Rightarrow> Ipv4Addr_is_global x | IpV6 x \<Rightarrow> Ipv6Addr_is_global x)"

definition IpAddr_is_multicast :: "IpAddr \<Rightarrow> bool" where
  "IpAddr_is_multicast a =
     (case a of IpV4 x \<Rightarrow> Ipv4Addr_is_multicast x | IpV6 x \<Rightarrow> Ipv6Addr_is_multicast x)"

definition IpAddr_is_documentation :: "IpAddr \<Rightarrow> bool" where
  "IpAddr_is_documentation a =
     (case a of IpV4 x \<Rightarrow> Ipv4Addr_is_documentation x | IpV6 x \<Rightarrow> Ipv6Addr_is_documentation x)"

definition IpAddr_is_ipv4 :: "IpAddr \<Rightarrow> bool" where
  "IpAddr_is_ipv4 a = (case a of IpV4 _ \<Rightarrow> True | IpV6 _ \<Rightarrow> False)"

definition IpAddr_is_ipv6 :: "IpAddr \<Rightarrow> bool" where
  "IpAddr_is_ipv6 a = (case a of IpV4 _ \<Rightarrow> False | IpV6 _ \<Rightarrow> True)"

definition IpAddr_fmt :: "IpAddr \<Rightarrow> string" where
  "IpAddr_fmt a = (case a of IpV4 x \<Rightarrow> Ipv4Addr_fmt x | IpV6 x \<Rightarrow> Ipv6Addr_fmt x)"

record SocketAddrV4 =
  sa4_addr :: Ipv4Addr
  sa4_port :: u16

record SocketAddrV6 =
  sa6_addr :: Ipv6Addr
  sa6_port :: u16
  sa6_flow_info :: u32
  sa6_scope_id :: u32

datatype SocketAddr = SaV4 SocketAddrV4 | SaV6 SocketAddrV6

definition SocketAddrV4_new :: "Ipv4Addr \<Rightarrow> u16 \<Rightarrow> SocketAddrV4" where
  "SocketAddrV4_new ip port = \<lparr> sa4_addr = ip, sa4_port = port \<rparr>"

definition SocketAddrV6_new :: "Ipv6Addr \<Rightarrow> u16 \<Rightarrow> u32 \<Rightarrow> u32 \<Rightarrow> SocketAddrV6" where
  "SocketAddrV6_new ip port flowinfo scope_id =
     \<lparr> sa6_addr = ip, sa6_port = port, sa6_flow_info = flowinfo, sa6_scope_id = scope_id \<rparr>"

definition SocketAddr_new :: "IpAddr \<Rightarrow> u16 \<Rightarrow> SocketAddr" where
  "SocketAddr_new ip port =
     (case ip of IpV4 a \<Rightarrow> SaV4 (SocketAddrV4_new a port)
               | IpV6 a \<Rightarrow> SaV6 (SocketAddrV6_new a port 0 0))"

definition SocketAddr_ip :: "SocketAddr \<Rightarrow> IpAddr" where
  "SocketAddr_ip s = (case s of SaV4 a \<Rightarrow> IpV4 (sa4_addr a) | SaV6 a \<Rightarrow> IpV6 (sa6_addr a))"

definition SocketAddr_port :: "SocketAddr \<Rightarrow> u16" where
  "SocketAddr_port s = (case s of SaV4 a \<Rightarrow> sa4_port a | SaV6 a \<Rightarrow> sa6_port a)"

definition SocketAddr_set_ip :: "IpAddr \<Rightarrow> SocketAddr \<Rightarrow> SocketAddr" where
  "SocketAddr_set_ip new_ip s =
     (case (s, new_ip) of
        (SaV4 a, IpV4 ip) \<Rightarrow> SaV4 (a\<lparr> sa4_addr := ip \<rparr>)
      | (SaV6 a, IpV6 ip) \<Rightarrow> SaV6 (a\<lparr> sa6_addr := ip \<rparr>)
      | (s, ip) \<Rightarrow> SocketAddr_new ip (SocketAddr_port s))"

definition SocketAddr_set_port :: "u16 \<Rightarrow> SocketAddr \<Rightarrow> SocketAddr" where
  "SocketAddr_set_port port s =
     (case s of SaV4 a \<Rightarrow> SaV4 (a\<lparr> sa4_port := port \<rparr>)
              | SaV6 a \<Rightarrow> SaV6 (a\<lparr> sa6_port := port \<rparr>))"

definition SocketAddrV4_fmt :: "SocketAddrV4 \<Rightarrow> string" where
  "SocketAddrV4_fmt s = Ipv4Addr_fmt (sa4_addr s) @ '':'' @ fmt_dec (sa4_port s)"

definition SocketAddrV6_fmt :: "SocketAddrV6 \<Rightarrow> string" where
  "SocketAddrV6_fmt s = ''['' @ Ipv6Addr_fmt (sa6_addr s) @ '']:'' @ fmt_dec (sa6_port s)"

definition SocketAddr_fmt :: "SocketAddr \<Rightarrow> string" where
  "SocketAddr_fmt s = (case s of SaV4 a \<Rightarrow> SocketAddrV4_fmt a | SaV6 a \<Rightarrow> SocketAddrV6_fmt a)"

end
