(* ===== verification/Net_Parser.thy ===== *)
theory Net_Parser
  imports Net_Addr
begin

text \<open>
  The recursive-descent parser of \<open>no-std-net/src/parser.rs\<close>.  A parser method
  \<open>fn f(&mut self) -> Option<T>\<close> is a function from the parser state to the
  result and the new state.  The state keeps the whole input and a position,
  as in the source; \<open>wf_parser\<close> is the invariant that the position is inside
  the input, which makes the index in \<open>read_char\<close> safe.
\<close>

section \<open>State and combinators\<close>

record Parser =
  pr_s :: string
  pr_pos :: nat

type_synonym 'a reader = "Parser \<Rightarrow> 'a option \<times> Parser"

definition Parser_new :: "string \<Rightarrow> Parser" where
  "Parser_new s = \<lparr> pr_s = s, pr_pos = 0 \<rparr>"

definition wf_parser :: "Parser \<Rightarrow> bool" where
  "wf_parser p \<longleftrightarrow> pr_pos p \<le> length (pr_s p)"

definition is_eof :: "Parser \<Rightarrow> bool" where
  "is_eof p = (pr_pos p = length (pr_s p))"

definition read_atomically :: "'a reader \<Rightarrow> 'a reader" where
  "read_atomically cb p =
     (let (r, p') = cb p in
      if Option.is_none r then (r, p'\<lparr> pr_pos := pr_pos p \<rparr>) else (r, p'))"

definition read_till_eof :: "'a reader \<Rightarrow> 'a reader" where
  "read_till_eof cb =
     read_atomically (\<lambda>p. case cb p of
         (Some x, p') \<Rightarrow> (if is_eof p' then Some x else None, p')
       | (None, p') \<Rightarrow> (None, p'))"

definition read_seq_3 :: "'a reader \<Rightarrow> 'b reader \<Rightarrow> 'c reader \<Rightarrow> ('a \<times> 'b \<times> 'c) reader" where
  "read_seq_3 pa pb pc =
     read_atomically (\<lambda>p. case pa p of
         (None, p1) \<Rightarrow> (None, p1)
       | (Some a, p1) \<Rightarrow> (case pb p1 of
           (None, p2) \<Rightarrow> (None, p2)
         | (Some b, p2) \<Rightarrow> (case pc p2 of
             (None, p3) \<Rightarrow> (None, p3)
           | (Some c, p3) \<Rightarrow> (Some (a, b, c), p3))))"

definition reader_map :: "('a \<Rightarrow> 'b) \<Rightarrow> 'a reader \<Rightarrow> 'b reader" where
  "reader_map f cb p = (let (r, p') = cb p in (map_option f r, p'))"

text \<open>
  \<open>read_char\<close>: the last branch stands for the out-of-bounds panic of
  \<open>self.s[self.pos]\<close>; it is not reached when \<open>wf_parser\<close> holds.
\<close>

definition read_char :: "char reader" where
  "read_char p =
     (if is_eof p then (None, p)
      else if pr_pos p < length (pr_s p)
      then (Some (pr_s p ! pr_pos p), p\<lparr> pr_pos := pr_pos p + 1 \<rparr>)
      else (None, p))"

definition read_given_char :: "char \<Rightarrow> char reader" where
  "read_given_char c =
     read_atomically (\<lambda>p. case read_char p of
         (Some nxt, p') \<Rightarrow> (if nxt = c then Some nxt else None, p')
       | (None, p') \<Rightarrow> (None, p'))"

definition parse_digit :: "u8 \<Rightarrow> char \<Rightarrow> u8 option" where
  "parse_digit radix ch =
     (let c = of_char ch :: u8 in
      if c \<ge> 48 \<and> c \<le> 57 then Some (c - 48)
      else if radix > 10 \<and> c \<ge> 97 \<and> c < 97 + (radix - 10) then Some (c - 97 + 10)
      else if radix > 10 \<and> c \<ge> 65 \<and> c < 65 + (radix - 10) then Some (c - 65 + 10)
      else None)"

definition read_digit :: "u8 \<Rightarrow> u8 reader" where
  "read_digit radix =
     read_atomically (\<lambda>p. case read_char p of
         (Some c, p') \<Rightarrow> (parse_digit radix c, p')
       | (None, p') \<Rightarrow> (None, p'))"

lemma read_char_s [simp]: "pr_s (snd (read_char p)) = pr_s p"
  by (simp add: read_char_def)

lemma read_digit_None: "read_digit radix p = (None, q) \<Longrightarrow> q = p"
  by (auto simp: read_digit_def read_atomically_def read_char_def Option.is_none_def Let_def
      split: option.splits if_splits prod.splits)

lemma read_digit_Some:
  "read_digit radix p = (Some d, q) \<Longrightarrow>
     pr_pos p < length (pr_s p) \<and> q = p\<lparr> pr_pos := pr_pos p + 1 \<rparr>
     \<and> parse_digit radix (pr_s p ! pr_pos p) = Some d"
  by (auto simp: read_digit_def read_atomically_def read_char_def Option.is_none_def Let_def
      split: option.splits if_splits prod.splits)

section \<open>Numbers\<close>

function (sequential) read_number_loop ::
  "u8 \<Rightarrow> u32 \<Rightarrow> u32 \<Rightarrow> u32 \<Rightarrow> u32 \<Rightarrow> u32 reader" where
  "read_number_loop radix max_digits bound r digit_count p =
     (case read_digit radix p of
        (Some d, p') \<Rightarrow>
          (let r' = r * ucast radix + ucast d; dc = digit_count + 1 in
           if dc > max_digits \<or> r' \<ge> bound then (None, p')
           else read_number_loop radix max_digits bound r' dc p')
      | (None, p') \<Rightarrow> (if digit_count = 0 then None else Some r, p'))"
  by pat_completeness auto
termination
  by (relation "measure (\<lambda>(_, _, _, _, _, p). length (pr_s p) - pr_pos p)")
     (auto dest!: read_digit_Some [OF sym])

declare read_number_loop.simps [simp del]

definition read_number_impl :: "u8 \<Rightarrow> u32 \<Rightarrow> u32 \<Rightarrow> u32 reader" where
  "read_number_impl radix max_digits bound = read_number_loop radix max_digits bound 0 0"

definition read_number :: "u8 \<Rightarrow> u32 \<Rightarrow> u32 \<Rightarrow> u32 reader" where
  "read_number radix max_digits bound =
     read_atomically (read_number_impl radix max_digits bound)"

section \<open>Addresses\<close>

text \<open>
  \<open>read_fields\<close> is the \<open>while i < n\<close> loop shared by the IPv4 and the GUID
  reader: a separator before every field but the first, then a number stored
  at index \<open>i\<close> of the fixed array.
\<close>

function (sequential) read_fields ::
  "char \<Rightarrow> 'a reader \<Rightarrow> nat \<Rightarrow> nat \<Rightarrow> 'a list \<Rightarrow> 'a list reader" where
  "read_fields sep num n i bs p =
     (if i < n then
        (let (c, p1) = (if i \<noteq> 0 then read_given_char sep p else (Some sep, p)) in
         if Option.is_none c then (None, p1)
         else (case num p1 of
                 (Some v, p2) \<Rightarrow> read_fields sep num n (i + 1) (bs[i := v]) p2
               | (None, p2) \<Rightarrow> (None, p2)))
      else (Some bs, p))"
  by pat_completeness auto
termination by (relation "measure (\<lambda>(_, _, n, i, _, _). n - i)") auto

declare read_fields.simps [simp del]

definition read_ipv4_addr_impl :: "Ipv4Addr reader" where
  "read_ipv4_addr_impl p =
     (case read_fields CHR ''.'' (reader_map ucast (read_number 10 3 0x100)) 4 0 (replicate 4 0) p of
        (Some bs, p') \<Rightarrow> (Some (Ipv4Addr_new (bs ! 0) (bs ! 1) (bs ! 2) (bs ! 3)), p')
      | (None, p') \<Rightarrow> (None, p'))"

definition read_ipv4_addr :: "Ipv4Addr reader" where
  "read_ipv4_addr = read_atomically read_ipv4_addr_impl"

definition read_guid_addr_impl :: "Guid reader" where
  "read_guid_addr_impl p =
     (case read_fields CHR '':'' (reader_map ucast (read_number 16 4 0xffff)) 8 0 (replicate 8 0) p of
        (Some bs, p') \<Rightarrow>
          (Some (Guid_new (bs ! 0) (bs ! 1) (bs ! 2) (bs ! 3) (bs ! 4) (bs ! 5) (bs ! 6) (bs ! 7)), p')
      | (None, p') \<Rightarrow> (None, p'))"

definition read_guid_addr :: "Guid reader" where
  "read_guid_addr = read_atomically read_guid_addr_impl"

text \<open>
  \<open>ipv6_addr_from_head_tail\<close>: \<open>None\<close> is the failing
  \<open>assert!(head.len() + tail.len() <= 8)\<close>.
\<close>

definition ipv6_addr_from_head_tail :: "u16 list \<Rightarrow> u16 list \<Rightarrow> Ipv6Addr option" where
  "ipv6_addr_from_head_tail head tail =
     (if length head + length tail \<le> 8 then
        (let gs = head @ replicate (8 - length head - length tail) 0 @ tail in
         Some (Ipv6Addr_new (gs ! 0) (gs ! 1) (gs ! 2) (gs ! 3) (gs ! 4) (gs ! 5) (gs ! 6) (gs ! 7)))
      else None)"

text \<open>
  \<open>read_groups\<close>: the two \<open>read_atomically\<close> closures of the loop body are
  \<open>read_sep_then\<close> with the IPv4 and with the hexadecimal reader.
\<close>

definition read_sep_then :: "nat \<Rightarrow> 'a reader \<Rightarrow> 'a reader" where
  "read_sep_then i rd =
     read_atomically (\<lambda>p. if i = 0 then rd p
        else (case read_given_char CHR '':'' p of
                (Some _, p1) \<Rightarrow> rd p1
              | (None, p1) \<Rightarrow> (None, p1)))"

definition read_group :: "u16 reader" where
  "read_group = reader_map ucast (read_number 16 4 0x10000)"

function (sequential) read_groups_loop ::
  "nat \<Rightarrow> nat \<Rightarrow> u16 list \<Rightarrow> Parser \<Rightarrow> (nat \<times> bool) \<times> u16 list \<times> Parser" where
  "read_groups_loop limit i groups p =
     (if i < limit then
        (let (ipv4, p1) = (if i < limit - 1 then read_sep_then i read_ipv4_addr p else (None, p)) in
         case ipv4 of
           Some v4 \<Rightarrow>
             ((i + 2, True),
              groups[i := seg_join (v4_0 v4) (v4_1 v4), i + 1 := seg_join (v4_2 v4) (v4_3 v4)], p1)
         | None \<Rightarrow>
             (case read_sep_then i read_group p1 of
                (Some g, p2) \<Rightarrow> read_groups_loop limit (i + 1) (groups[i := g]) p2
              | (None, p2) \<Rightarrow> ((i, False), groups, p2)))
      else ((i, False), groups, p))"
  by pat_completeness auto
termination by (relation "measure (\<lambda>(limit, i, _, _). limit - i)") auto

declare read_groups_loop.simps [simp del]

text \<open>
  The outer option of \<open>read_ipv6_addr_impl\<close> is the result of the source; the
  \<open>assert!\<close> in \<open>ipv6_addr_from_head_tail\<close> cannot fail there
  (\<open>read_groups_size\<close> below), so its panic value \<open>None\<close> is folded into it.
\<close>

definition read_ipv6_addr_impl :: "Ipv6Addr reader" where
  "read_ipv6_addr_impl p =
     (let ((head_size, head_ipv4), head, p1) = read_groups_loop 8 0 (replicate 8 0) p in
      if head_size = 8 then
        (Some (Ipv6Addr_new (head ! 0) (head ! 1) (head ! 2) (head ! 3)
                            (head ! 4) (head ! 5) (head ! 6) (head ! 7)), p1)
      else if head_ipv4 then (None, p1)
      else (case read_given_char CHR '':'' p1 of
              (None, p2) \<Rightarrow> (None, p2)
            | (Some _, p2) \<Rightarrow>
                (case read_given_char CHR '':'' p2 of
                   (None, p3) \<Rightarrow> (None, p3)
                 | (Some _, p3) \<Rightarrow>
                     (let limit = 8 - (head_size + 1);
                          ((tail_size, _), tail, p4) = read_groups_loop limit 0 (replicate 8 0) p3 in
                      (ipv6_addr_from_head_tail (take head_size head) (take tail_size tail), p4)))))"

definition read_ipv6_addr :: "Ipv6Addr reader" where
  "read_ipv6_addr = read_atomically read_ipv6_addr_impl"

definition read_port :: "u16 reader" where
  "read_port = reader_map ucast (read_number 10 5 0x10000)"

definition read_socket_addr_v4 :: "SocketAddrV4 reader" where
  "read_socket_addr_v4 =
     reader_map (\<lambda>(ip, _, port). SocketAddrV4_new ip port)
       (read_seq_3 read_ipv4_addr (read_given_char CHR '':'') read_port)"

definition read_socket_addr_v6 :: "SocketAddrV6 reader" where
  "read_socket_addr_v6 =
     reader_map (\<lambda>(ip, _, port). SocketAddrV6_new ip port 0 0)
       (read_seq_3
          (reader_map (\<lambda>(_, ip, _). ip)
             (read_seq_3 (read_given_char CHR ''['') read_ipv6_addr (read_given_char CHR '']'')))
          (read_given_char CHR '':'') read_port)"

section \<open>FromStr\<close>

datatype AddrParseError = AddrParseError

definition from_str_with :: "'a reader \<Rightarrow> string \<Rightarrow> ('a, AddrParseError) result" where
  "from_str_with rd s = ok_or AddrParseError (fst (read_till_eof rd (Parser_new s)))"

definition Guid_from_str :: "string \<Rightarrow> (Guid, AddrParseError) result" where
  "Guid_from_str = from_str_with read_guid_addr"

definition Ipv4Addr_from_str :: "string \<Rightarrow> (Ipv4Addr, AddrParseError) result" where
  "Ipv4Addr_from_str = from_str_with read_ipv4_addr"

definition Ipv6Addr_from_str :: "string \<Rightarrow> (Ipv6Addr, AddrParseError) result" where
  "Ipv6Addr_from_str = from_str_with read_ipv6_addr"

definition SocketAddrV4_from_str :: "string \<Rightarrow> (SocketAddrV4, AddrParseError) result" where
  "SocketAddrV4_from_str = from_str_with read_socket_addr_v4"

definition SocketAddrV6_from_str :: "string \<Rightarrow> (SocketAddrV6, AddrParseError) result" where
  "SocketAddrV6_from_str = from_str_with read_socket_addr_v6"

definition IpAddr_from_str :: "string \<Rightarrow> (IpAddr, AddrParseError) result" where
  "IpAddr_from_str s =
     (case fst (read_till_eof read_ipv4_addr (Parser_new s)) of
        Some addr \<Rightarrow> Ok (IpV4 addr)
      | None \<Rightarrow> (case fst (read_till_eof read_ipv6_addr (Parser_new s)) of
                   Some addr \<Rightarrow> Ok (IpV6 addr)
                 | None \<Rightarrow> Err AddrParseError))"

definition SocketAddr_from_str :: "string \<Rightarrow> (SocketAddr, AddrParseError) result" where
  "SocketAddr_from_str s =
     (case fst (read_till_eof read_socket_addr_v4 (Parser_new s)) of
        Some addr \<Rightarrow> Ok (SaV4 addr)
      | None \<Rightarrow> (case fst (read_till_eof read_socket_addr_v6 (Parser_new s)) of
                   Some addr \<Rightarrow> Ok (SaV6 addr)
                 | None \<Rightarrow> Err AddrParseError))"

section \<open>The contract of a reader\<close>

text \<open>
  Every method of the parser keeps the input, never moves the position back
  and stays inside the input; the methods wrapped in \<open>read_atomically\<close> also
  leave the parser untouched when they fail.
\<close>

locale reader =
  fixes rd :: "'a reader"
  assumes keeps: "\<And>p r p'. wf_parser p \<Longrightarrow> rd p = (r, p') \<Longrightarrow>
                    pr_s p' = pr_s p \<and> pr_pos p \<le> pr_pos p' \<and> wf_parser p'"

locale atomic_reader = reader +
  assumes rewinds: "\<And>p p'. wf_parser p \<Longrightarrow> rd p = (None, p') \<Longrightarrow> p' = p"
begin

lemma from_str_consumes:
  assumes "from_str_with rd s = Ok x"
  shows "\<exists>p'. rd (Parser_new s) = (Some x, p') \<and> pr_pos p' = length s"
proof -
  obtain r p' where rd: "rd (Parser_new s) = (r, p')" by (cases "rd (Parser_new s)")
  have "wf_parser (Parser_new s)" by (simp add: wf_parser_def Parser_new_def)
  from keeps [OF this rd] have "pr_s p' = s" by (simp add: Parser_new_def)
  with assms rd show ?thesis
    by (auto simp: from_str_with_def read_till_eof_def read_atomically_def is_eof_def
        split: option.splits if_splits)
qed

lemma fails_in_place:
  assumes "wf_parser p" "fst (rd p) = None"
  shows "snd (rd p) = p"
  using assms rewinds [of p "snd (rd p)"] by (cases "rd p") auto

end

lemma reader_atomically:
  assumes "reader cb"
  shows "atomic_reader (read_atomically cb)"
proof (unfold_locales, goal_cases)
  case (1 p r p')
  obtain r0 p0 where "cb p = (r0, p0)" by (cases "cb p")
  with reader.keeps [OF assms 1(1) this] 1 show ?case
    by (auto simp: read_atomically_def wf_parser_def split: if_splits)
next
  case (2 p p')
  obtain r0 p0 where "cb p = (r0, p0)" by (cases "cb p")
  with reader.keeps [OF assms 2(1) this] 2 show ?case
    by (auto simp: read_atomically_def Option.is_none_def split: if_splits)
qed

lemma atomic_imp_reader: "atomic_reader rd \<Longrightarrow> reader rd"
  by (rule atomic_reader.axioms(1))

lemma reader_const: "reader (\<lambda>p. (c, p))"
  by unfold_locales auto

lemma reader_case:
  assumes "reader rd" "\<And>x. reader (f x)" "reader g"
  shows "reader (\<lambda>p. case rd p of (Some x, p') \<Rightarrow> f x p' | (None, p') \<Rightarrow> g p')"
proof (unfold_locales, goal_cases)
  case (1 p r p')
  obtain r0 p0 where e: "rd p = (r0, p0)" by (cases "rd p")
  have k: "pr_s p0 = pr_s p \<and> pr_pos p \<le> pr_pos p0 \<and> wf_parser p0"
    using reader.keeps [OF assms(1) 1(1) e] .
  show ?case
  proof (cases r0)
    case None
    with 1(2) e have "g p0 = (r, p')" by simp
    from reader.keeps [OF assms(3) _ this] k show ?thesis by auto
  next
    case (Some x)
    with 1(2) e have "f x p0 = (r, p')" by simp
    from reader.keeps [OF assms(2) _ this] k show ?thesis by auto
  qed
qed

lemma reader_map_reader:
  assumes "reader rd"
  shows "reader (reader_map f rd)"
proof (unfold_locales, goal_cases)
  case (1 p r p')
  obtain r0 p0 where e: "rd p = (r0, p0)" by (cases "rd p")
  with 1(2) have "p0 = p'" by (simp add: reader_map_def)
  with reader.keeps [OF assms 1(1) e] show ?case by simp
qed

lemma reader_read_char: "reader read_char"
  by unfold_locales (auto simp: read_char_def is_eof_def wf_parser_def split: if_splits)

lemma reader_read_given_char: "reader (read_given_char c)"
  unfolding read_given_char_def
  by (intro atomic_imp_reader reader_atomically reader_case reader_read_char reader_const)

lemma reader_read_digit: "reader (read_digit radix)"
  unfolding read_digit_def
  by (intro atomic_imp_reader reader_atomically reader_case reader_read_char reader_const)

lemma read_number_loop_keeps:
  "wf_parser p \<Longrightarrow> read_number_loop radix md bound r dc p = (res, p') \<Longrightarrow>
     pr_s p' = pr_s p \<and> pr_pos p \<le> pr_pos p' \<and> wf_parser p'"
proof (induction radix md bound r dc p rule: read_number_loop.induct)
  case (1 radix md bound r dc p)
  obtain d p1 where d: "read_digit radix p = (d, p1)" by (cases "read_digit radix p")
  have k: "pr_s p1 = pr_s p \<and> pr_pos p \<le> pr_pos p1 \<and> wf_parser p1"
    using reader.keeps [OF reader_read_digit 1(2) d] .
  show ?case
  proof (cases d)
    case None
    with 1(3) d k show ?thesis by (subst (asm) read_number_loop.simps) auto
  next
    case (Some v)
    show ?thesis
    proof (cases "dc + 1 > md \<or> r * ucast radix + ucast v \<ge> bound")
      case True
      with 1(3) d k Some show ?thesis by (subst (asm) read_number_loop.simps) auto
    next
      case False
      with 1(3) d Some have "read_number_loop radix md bound (r * ucast radix + ucast v) (dc + 1) p1 = (res, p')"
        by (subst (asm) read_number_loop.simps) auto
      from 1(1) [OF d [symmetric] Some refl refl False _ this] k show ?thesis by auto
    qed
  qed
qed

lemma reader_read_number_impl: "reader (read_number_impl radix md bound)"
  unfolding reader_def read_number_impl_def by (intro allI impI read_number_loop_keeps)

lemma reader_read_number: "reader (read_number radix md bound)"
  unfolding read_number_def
  by (intro atomic_imp_reader reader_atomically reader_read_number_impl)

lemma read_fields_keeps:
  assumes num: "reader num"
  shows "wf_parser p \<Longrightarrow> read_fields sep num n i bs p = (res, p') \<Longrightarrow>
     pr_s p' = pr_s p \<and> pr_pos p \<le> pr_pos p' \<and> wf_parser p'"
proof (induction "n - i" arbitrary: i bs p)
  case 0
  then show ?case by (subst (asm) read_fields.simps) auto
next
  case (Suc k)
  then have "i < n" by simp
  obtain c p1 where c: "(if i \<noteq> 0 then read_given_char sep p else (Some sep, p)) = (c, p1)"
    by (cases "if i \<noteq> 0 then read_given_char sep p else (Some sep, p)")
  have k1: "pr_s p1 = pr_s p \<and> pr_pos p \<le> pr_pos p1 \<and> wf_parser p1"
    using c Suc.prems(1) reader.keeps [OF reader_read_given_char Suc.prems(1), of sep c p1]
    by (cases "i = 0") auto
  show ?case
  proof (cases c)
    case None
    with Suc.prems(2) c k1 \<open>i < n\<close> show ?thesis
      by (subst (asm) read_fields.simps) (auto simp: Option.is_none_def)
  next
    case (Some c')
    obtain v p2 where v: "num p1 = (v, p2)" by (cases "num p1")
    have k2: "pr_s p2 = pr_s p1 \<and> pr_pos p1 \<le> pr_pos p2 \<and> wf_parser p2"
      using reader.keeps [OF num _ v] k1 by blast
    show ?thesis
    proof (cases v)
      case None
      with Suc.prems(2) c Some v k1 k2 \<open>i < n\<close> show ?thesis
        by (subst (asm) read_fields.simps) (auto simp: Option.is_none_def)
    next
      case (Some w)
      with Suc.prems(2) c \<open>c = Some c'\<close> v \<open>i < n\<close>
      have "read_fields sep num n (Suc i) (bs[i := w]) p2 = (res, p')"
        by (subst (asm) read_fields.simps) (auto simp: Option.is_none_def)
      moreover have "k = n - Suc i" using Suc.hyps(2) by simp
      ultimately show ?thesis using Suc.hyps(1) [of "Suc i" p2] k1 k2 by fastforce
    qed
  qed
qed

lemma reader_read_fields: "reader num \<Longrightarrow> reader (read_fields sep num n i bs)"
  using read_fields_keeps by (metis reader_def)

lemma reader_read_ipv4_impl: "reader read_ipv4_addr_impl"
  unfolding read_ipv4_addr_impl_def
  by (intro reader_case reader_read_fields reader_map_reader reader_read_number reader_const)

lemma reader_read_guid_impl: "reader read_guid_addr_impl"
  unfolding read_guid_addr_impl_def
  by (intro reader_case reader_read_fields reader_map_reader reader_read_number reader_const)

interpretation v4: atomic_reader read_ipv4_addr
  unfolding read_ipv4_addr_def by (rule reader_atomically [OF reader_read_ipv4_impl])

interpretation guid: atomic_reader read_guid_addr
  unfolding read_guid_addr_def by (rule reader_atomically [OF reader_read_guid_impl])

lemma reader_read_sep_then: "reader rd \<Longrightarrow> atomic_reader (read_sep_then i rd)"
  unfolding read_sep_then_def
  by (cases "i = 0") (auto intro!: reader_atomically reader_case reader_read_given_char reader_const)

lemma reader_read_group: "reader read_group"
  unfolding read_group_def by (intro reader_map_reader reader_read_number)

text \<open>
  The group loop also bounds the number of groups: with at most \<open>limit\<close> groups
  in head and tail the \<open>assert!\<close> of \<open>ipv6_addr_from_head_tail\<close> holds.
\<close>

lemma read_groups_size:
  "wf_parser p \<Longrightarrow> i \<le> limit \<Longrightarrow> read_groups_loop limit i gs p = ((n, v4), gs', p') \<Longrightarrow>
     n \<le> limit \<and> length gs' = length gs \<and> pr_s p' = pr_s p \<and> pr_pos p \<le> pr_pos p' \<and> wf_parser p'"
proof (induction "limit - i" arbitrary: i gs p)
  case 0
  then show ?case by (subst (asm) read_groups_loop.simps) auto
next
  case (Suc k)
  then have "i < limit" by simp
  obtain a p1 where a: "(if i < limit - 1 then read_sep_then i read_ipv4_addr p else (None, p)) = (a, p1)"
    by (cases "if i < limit - 1 then read_sep_then i read_ipv4_addr p else (None, p)")
  have k1: "pr_s p1 = pr_s p \<and> pr_pos p \<le> pr_pos p1 \<and> wf_parser p1"
    using a Suc.prems(1)
      reader.keeps [OF atomic_imp_reader [OF reader_read_sep_then [OF v4.reader_axioms]] Suc.prems(1), of i a p1]
    by (cases "i < limit - 1") auto
  show ?case
  proof (cases a)
    case (Some v)
    then have "i < limit - 1" using a by (auto split: if_splits)
    with Suc.prems(3) a Some k1 \<open>i < limit\<close> show ?thesis
      by (subst (asm) read_groups_loop.simps) auto
  next
    case None
    obtain g p2 where g: "read_sep_then i read_group p1 = (g, p2)" by (cases "read_sep_then i read_group p1")
    have k2: "pr_s p2 = pr_s p1 \<and> pr_pos p1 \<le> pr_pos p2 \<and> wf_parser p2"
      using reader.keeps [OF atomic_imp_reader [OF reader_read_sep_then [OF reader_read_group]] _ g] k1 by blast
    show ?thesis
    proof (cases g)
      case None
      with Suc.prems(3) a \<open>a = None\<close> g k1 k2 \<open>i < limit\<close> show ?thesis
        by (subst (asm) read_groups_loop.simps) auto
    next
      case (Some w)
      with Suc.prems(3) a \<open>a = None\<close> g \<open>i < limit\<close>
      have "read_groups_loop limit (Suc i) (gs[i := w]) p2 = ((n, v4), gs', p')"
        by (subst (asm) read_groups_loop.simps) auto
      moreover have "k = limit - Suc i" using Suc.hyps(2) by simp
      ultimately show ?thesis
        using Suc.hyps(1) [of "Suc i" p2 "gs[i := w]"] k1 k2 \<open>i < limit\<close> by fastforce
    qed
  qed
qed

lemma reader_read_ipv6_impl: "reader read_ipv6_addr_impl"
proof (unfold_locales, goal_cases)
  case (1 p r p')
  obtain hn hv head p1 where h: "read_groups_loop 8 0 (replicate 8 0) p = ((hn, hv), head, p1)"
    by (metis prod.collapse)
  have k1: "pr_s p1 = pr_s p \<and> pr_pos p \<le> pr_pos p1 \<and> wf_parser p1"
    using read_groups_size [OF 1(1) _ h] by blast
  show ?case
  proof (cases "hn = 8 \<or> hv")
    case True
    with 1(2) h k1 show ?thesis by (auto simp: read_ipv6_addr_impl_def split: if_splits)
  next
    case False
    let ?rest = "\<lambda>p3. let ((tail_size, _), tail, p4) = read_groups_loop (8 - (hn + 1)) 0 (replicate 8 0) p3 in
                   (ipv6_addr_from_head_tail (take hn head) (take tail_size tail), p4)"
    have rest: "reader ?rest"
    proof (unfold_locales, goal_cases)
      case (1 p3 r3 p3')
      obtain tn tv tail p4 where t: "read_groups_loop (8 - (hn + 1)) 0 (replicate 8 0) p3 = ((tn, tv), tail, p4)"
        by (metis prod.collapse)
      with read_groups_size [OF 1(1) _ t] 1(2) show ?case by auto
    qed
    let ?tl = "\<lambda>p1. case read_given_char CHR '':'' p1 of
              (Some _, p2) \<Rightarrow> (case read_given_char CHR '':'' p2 of
                   (Some _, p3) \<Rightarrow> ?rest p3 | (None, p3) \<Rightarrow> (None, p3))
            | (None, p2) \<Rightarrow> (None, p2)"
    have "reader ?tl"
      by (intro reader_case reader_read_given_char reader_const rest)
    moreover have "?tl p1 = (r, p')"
      using 1(2) h False by (simp add: read_ipv6_addr_impl_def Let_def cong: option.case_cong prod.case_cong)
    ultimately show ?thesis using k1 reader.keeps [of ?tl p1 r p'] by auto
  qed
qed

interpretation v6: atomic_reader read_ipv6_addr
  unfolding read_ipv6_addr_def by (rule reader_atomically [OF reader_read_ipv6_impl])

end
