(* ===== verification/Net_Roundtrip.thy ===== *)
theory Net_Roundtrip
  imports Net_Parser
begin

text \<open>
  What the readers of \<open>Net_Parser\<close> do on an input split at the position into
  what was read and what is left, and from it the round trips between
  \<open>Display\<close> and \<open>FromStr\<close>.
\<close>

section \<open>The parser at a split of the input\<close>

definition pat :: "string \<Rightarrow> string \<Rightarrow> Parser" where
  "pat pre rest = \<lparr> pr_s = pre @ rest, pr_pos = length pre \<rparr>"

lemma Parser_new_pat: "Parser_new s = pat [] s"
  by (simp add: Parser_new_def pat_def)

lemma pr_pos_pat [simp]: "pr_pos (pat pre rest) = length pre"
  by (simp add: pat_def)

lemma pr_s_pat [simp]: "pr_s (pat pre rest) = pre @ rest"
  by (simp add: pat_def)

lemma is_eof_pat [simp]: "is_eof (pat pre rest) \<longleftrightarrow> rest = []"
  by (simp add: is_eof_def)

lemma pat_reset [simp]:
  "pre @ rest = pre' @ rest' \<Longrightarrow> (pat pre rest)\<lparr> pr_pos := length pre' \<rparr> = pat pre' rest'"
  by (simp add: pat_def)

lemma read_atomically_Some: "cb p = (Some x, q) \<Longrightarrow> read_atomically cb p = (Some x, q)"
  by (simp add: read_atomically_def Option.is_none_def)

lemma read_atomically_None:
  "cb p = (None, q) \<Longrightarrow> pr_s q = pr_s p \<Longrightarrow> read_atomically cb p = (None, p)"
  by (simp add: read_atomically_def Option.is_none_def)

lemma read_char_pat [simp]:
  "read_char (pat pre (c # rest)) = (Some c, pat (pre @ [c]) rest)"
  "read_char (pat pre []) = (None, pat pre [])"
  by (simp_all add: read_char_def is_eof_def pat_def)

lemma read_given_char_pat:
  "read_given_char c (pat pre rest) =
     (case rest of
        [] \<Rightarrow> (None, pat pre [])
      | x # xs \<Rightarrow> if x = c then (Some c, pat (pre @ [c]) xs) else (None, pat pre (x # xs)))"
  by (cases rest) (simp_all add: read_given_char_def read_atomically_def Option.is_none_def)

lemma read_given_char_hit [simp]:
  "read_given_char c (pat pre (c # xs)) = (Some c, pat (pre @ [c]) xs)"
  by (simp add: read_given_char_pat)

lemma read_digit_pat:
  "read_digit radix (pat pre rest) =
     (case rest of
        [] \<Rightarrow> (None, pat pre [])
      | x # xs \<Rightarrow> (case parse_digit radix x of
                     Some d \<Rightarrow> (Some d, pat (pre @ [x]) xs)
                   | None \<Rightarrow> (None, pat pre (x # xs))))"
  by (cases rest) (auto simp: read_digit_def read_atomically_def Option.is_none_def
      split: option.splits)

section \<open>Digits\<close>

definition starts_digit :: "u8 \<Rightarrow> string \<Rightarrow> bool" where
  "starts_digit radix rest = (case rest of [] \<Rightarrow> False | c # _ \<Rightarrow> parse_digit radix c \<noteq> None)"

lemma starts_digit_simps [simp]:
  "\<not> starts_digit radix []"
  "starts_digit radix (c # cs) \<longleftrightarrow> parse_digit radix c \<noteq> None"
  by (simp_all add: starts_digit_def)

definition digits_val :: "u8 \<Rightarrow> nat \<Rightarrow> string \<Rightarrow> nat" where
  "digits_val radix = foldl (\<lambda>r c. r * unat radix + unat (the (parse_digit radix c)))"

lemma digits_val_simps [simp]:
  "digits_val radix r [] = r"
  "digits_val radix r (c # cs) = digits_val radix (r * unat radix + unat (the (parse_digit radix c))) cs"
  by (simp_all add: digits_val_def)

lemma digits_val_append:
  "digits_val radix r (xs @ ys) = digits_val radix (digits_val radix r xs) ys"
  by (simp add: digits_val_def)

lemma digits_val_ge: "0 < unat radix \<Longrightarrow> r \<le> digits_val radix r ds"
proof (induction ds arbitrary: r)
  case (Cons c ds)
  have "r \<le> r * unat radix + unat (the (parse_digit radix c))"
    using Cons.prems by (cases "unat radix") auto
  also have "\<dots> \<le> digits_val radix r (c # ds)" using Cons by simp
  finally show ?case .
qed simp

lemma parse_digit_lt:
  assumes "parse_digit radix c = Some d" "radix = 10 \<or> radix = 16"
  shows "unat d < unat radix"
proof -
  define x where "x = (of_char c :: u8)"
  have "d < radix"
    using assms unfolding parse_digit_def Let_def x_def [symmetric]
    by (auto split: if_splits) uint_arith+
  then show ?thesis by (simp add: word_less_nat_alt)
qed

lemma of_char_char_of_u8: "of_char (char_of (n::nat) :: char) = (word_of_nat n :: u8)"
proof -
  have "(of_char (char_of n :: char) :: u8) = of_nat (of_char (char_of n :: char))"
    by (simp only: of_nat_of_char)
  also have "\<dots> = word_of_nat n" by (simp add: word_of_nat_eq_iff take_bit_eq_mod)
  finally show ?thesis .
qed

lemma digits16: "d < 16 \<Longrightarrow> d \<in> {0,1,2,3,4,5,6,7,8,9,10,11,12,13,14,15::nat}"
  by (simp add: less_Suc_eq numeral_eq_Suc) 

lemma parse_digit_digit_char:
  "d < 16 \<Longrightarrow> parse_digit 16 (digit_char d) = Some (of_nat d)"
  "d < 10 \<Longrightarrow> parse_digit 10 (digit_char d) = Some (of_nat d)"
proof -
  show "parse_digit 16 (digit_char d) = Some (of_nat d)" if "d < 16"
    using digits16 [OF that] by (auto simp: parse_digit_def digit_char_def of_char_char_of_u8)
  show "parse_digit 10 (digit_char d) = Some (of_nat d)" if "d < 10"
    using digits16 [of d] that by (auto simp: parse_digit_def digit_char_def of_char_char_of_u8)
qed
lemma parse_digit_sep [simp]:
  "parse_digit 10 CHR ''.'' = None" "parse_digit 10 CHR '':'' = None"
  "parse_digit 16 CHR '':'' = None" "parse_digit 16 CHR ''.'' = None"
  "parse_digit 10 CHR '']'' = None" "parse_digit 16 CHR '']'' = None"
  by (simp_all add: parse_digit_def of_char_def)

section \<open>Numbers\<close>

text \<open>
  On a run of digits that is not followed by another digit the number loop
  accepts exactly when the run is short enough and its value is below the
  bound, and then has consumed the run.  The value cannot wrap: a bound of
  at most \<open>2^28\<close> leaves room for one more digit in 32 bits.
\<close>

lemma read_number_loop_digits:
  assumes "\<forall>c\<in>set ds. parse_digit radix c \<noteq> None" "\<not> starts_digit radix rest"
    and radix: "radix = 10 \<or> radix = 16"
    and "unat r < unat bound" "unat dc \<le> unat md" "md < 100" and bound: "bound \<le> 0x10000000"
  shows "\<exists>q. read_number_loop radix md bound r dc (pat pre (ds @ rest)) =
     (if unat dc + length ds \<le> unat md \<and> digits_val radix (unat r) ds < unat bound
      then (if dc = 0 \<and> ds = [] then None else Some (word_of_nat (digits_val radix (unat r) ds)),
            pat (pre @ ds) rest)
      else (None, q)) \<and> pr_s q = pre @ ds @ rest"
  using assms(1,4,5)
proof (induction ds arbitrary: r dc pre)
  case Nil
  have "read_digit radix (pat pre rest) = (None, pat pre rest)"
    using assms(2) by (auto simp: read_digit_pat split: list.splits)
  with Nil show ?case
    by (subst read_number_loop.simps) (auto intro!: exI [of _ "pat pre rest"])
next
  case (Cons c ds)
  then obtain d where d: "parse_digit radix c = Some d" by auto
  have ucast_nat: "unat (ucast radix :: u32) = unat radix" "unat (ucast d :: u32) = unat d"
    by (simp_all add: unat_ucast_up)
  have "unat d < unat radix" using parse_digit_lt [OF d radix] .
  moreover have rx: "unat radix \<le> 16" using radix by auto
  moreover have "unat r \<le> 0xFFFFFFF"
    using Cons.prems(2) bound by (simp add: word_le_nat_alt)
  ultimately have "unat r * unat radix + unat d \<le> 0xFFFFFFF * 16 + 15"
    by (intro add_mono mult_mono) auto
  then have r': "unat (r * ucast radix + ucast d) = unat r * unat radix + unat d"
    using unat_mult_add_lt [of r "ucast radix" "ucast d"] by (simp add: ucast_nat)
  have md: "unat md < 100" using assms(6) by (simp add: word_less_nat_alt)
  then have dc': "unat (dc + 1) = Suc (unat dc)"
    using Cons.prems(3) by (intro unat_Suc_lt) simp
  have step: "read_digit radix (pat pre ((c # ds) @ rest)) = (Some d, pat (pre @ [c]) (ds @ rest))"
    using d by (simp add: read_digit_pat)
  let ?r = "r * ucast radix + ucast d"
  show ?case
  proof (cases "dc + 1 > md \<or> ?r \<ge> bound")
    case True
    then have "unat dc + length (c # ds) > unat md \<or> unat r * unat radix + unat d \<ge> unat bound"
      using r' dc' by (auto simp: word_less_nat_alt word_le_nat_alt)
    moreover have "unat r * unat radix + unat d \<le> digits_val radix (unat r) (c # ds)"
      using digits_val_ge [of radix "unat r * unat radix + unat d" ds] radix d by auto
    ultimately have "\<not> (unat dc + length (c # ds) \<le> unat md \<and> digits_val radix (unat r) (c # ds) < unat bound)"
      by linarith
    with True step show ?thesis
      by (subst read_number_loop.simps) (auto intro!: exI [of _ "pat (pre @ [c]) (ds @ rest)"])
  next
    case False
    then have *: "unat ?r < unat bound" "unat (dc + 1) \<le> unat md"
      by (auto simp: word_less_nat_alt word_le_nat_alt not_le not_less)
    have "dc + 1 \<noteq> 0" using dc' by (metis Zero_not_Suc unat_0)
    with Cons.IH [OF _ *, of "pre @ [c]"] Cons.prems(1) False step d r' dc' show ?thesis
      by (subst read_number_loop.simps) auto
  qed
qed

lemma read_number_digits:
  assumes "\<forall>c\<in>set ds. parse_digit radix c \<noteq> None" "\<not> starts_digit radix rest"
    and "radix = 10 \<or> radix = 16" "md < 100" "0 < bound" "bound \<le> 0x10000000"
  shows "read_number radix md bound (pat pre (ds @ rest)) =
     (if ds \<noteq> [] \<and> length ds \<le> unat md \<and> digits_val radix 0 ds < unat bound
      then (Some (word_of_nat (digits_val radix 0 ds)), pat (pre @ ds) rest)
      else (None, pat pre (ds @ rest)))"
proof -
  have pos: "unat (0 :: u32) < unat bound"
    using assms(5) by (simp add: word_less_nat_alt)
  from read_number_loop_digits [OF assms(1-3) pos _ assms(4,6), of 0 pre] obtain q where
    q: "read_number_loop radix md bound 0 0 (pat pre (ds @ rest)) =
     (if length ds \<le> unat md \<and> digits_val radix 0 ds < unat bound
      then (if ds = [] then None else Some (word_of_nat (digits_val radix 0 ds)), pat (pre @ ds) rest)
      else (None, q)) \<and> pr_s q = pre @ ds @ rest" by (auto cong: if_cong)
  show ?thesis
  proof (cases "ds \<noteq> [] \<and> length ds \<le> unat md \<and> digits_val radix 0 ds < unat bound")
    case True
    then show ?thesis using q
      by (simp add: read_number_def read_number_impl_def read_atomically_Some)
  next
    case False
    then have "\<exists>q. read_number_impl radix md bound (pat pre (ds @ rest)) = (None, q)
                  \<and> pr_s q = pre @ ds @ rest"
      using q by (auto simp: read_number_impl_def)
    then show ?thesis using False
      by (auto simp: read_number_def intro!: read_atomically_None)
  qed
qed

lemma read_number_no_digit:
  assumes "\<not> starts_digit radix rest" "radix = 10 \<or> radix = 16" "md < 100" "0 < bound"
    "bound \<le> 0x10000000"
  shows "read_number radix md bound (pat pre rest) = (None, pat pre rest)"
  using read_number_digits [of "[]" radix rest md bound pre] assms by simp

section \<open>Printed numbers\<close>

lemma fmt_radix_digits:
  "2 \<le> b \<Longrightarrow> c \<in> set (fmt_radix b n) \<Longrightarrow> \<exists>d<b. c = digit_char d"
proof (induction b n rule: fmt_radix.induct)
  case (1 b n)
  from 1(3) have "c \<in> set (if n < b then [digit_char n]
                         else fmt_radix b (n div b) @ [digit_char (n mod b)])"
    using 1(2) by (subst (asm) fmt_radix.simps) auto
  moreover have "\<exists>d<b. digit_char (n mod b) = digit_char d"
    using 1(2) by (intro exI [of _ "n mod b"]) simp
  ultimately show ?case using 1(1,2) by (auto split: if_splits)
qed

lemma fmt_radix_nonempty [simp]: "fmt_radix b n \<noteq> []"
  by (subst fmt_radix.simps) simp

lemma length_fmt_radix:
  "2 \<le> b \<Longrightarrow> 0 < k \<Longrightarrow> n < b ^ k \<Longrightarrow> length (fmt_radix b n) \<le> k"
proof (induction b n arbitrary: k rule: fmt_radix.induct)
  case (1 b n)
  show ?case
  proof (cases "n < b")
    case True
    then show ?thesis using 1 by (subst fmt_radix.simps) simp
  next
    case False
    with 1(4) have "k \<noteq> 1" by auto
    then obtain k' where k: "k = Suc k'" "0 < k'" using 1(3) by (cases k) auto
    have "n div b < b ^ k'" using 1(4) k by (simp add: less_mult_imp_div_less mult.commute)
    with 1(1) False 1(2) k have "length (fmt_radix b (n div b)) \<le> k'" by simp
    then show ?thesis using False 1(2) k by (subst fmt_radix.simps) simp
  qed
qed

definition digit_ok :: "u8 \<Rightarrow> bool" where
  "digit_ok radix \<longleftrightarrow> (\<forall>d<unat radix. parse_digit radix (digit_char d) = Some (of_nat d))"

lemma digit_ok_10_16 [simp]: "digit_ok 10" "digit_ok 16"
  by (simp_all add: digit_ok_def parse_digit_digit_char)

lemma digits_val_fmt_radix:
  assumes "digit_ok radix" "2 \<le> unat radix"
  shows "digits_val radix 0 (fmt_radix (unat radix) n) = n"
proof (induction n rule: less_induct)
  case (less n)
  have one: "digits_val radix m [digit_char d] = m * unat radix + d" if "d < unat radix" for m d
  proof -
    have "parse_digit radix (digit_char d) = Some (of_nat d)"
      using assms(1) that by (simp add: digit_ok_def)
    moreover have "unat (of_nat d :: u8) = d"
      using that unat_less_size [of radix] by (simp add: unat_word_of_nat)
    ultimately show ?thesis by simp
  qed
  show ?case
  proof (cases "n < unat radix")
    case True
    then show ?thesis using one [of n 0] by (subst fmt_radix.simps) simp
  next
    case False
    then have "n div unat radix < n" using assms(2) by (simp add: div_less_dividend)
    with less have "digits_val radix 0 (fmt_radix (unat radix) (n div unat radix)) = n div unat radix" .
    then show ?thesis using one [of "n mod unat radix"] False assms(2)
      by (subst fmt_radix.simps) (simp add: digits_val_append)
  qed
qed

lemma fmt_radix_all_digits:
  assumes "digit_ok radix" "2 \<le> unat radix"
  shows "\<forall>c\<in>set (fmt_radix (unat radix) n). parse_digit radix c \<noteq> None"
proof
  fix c
  assume "c \<in> set (fmt_radix (unat radix) n)"
  from fmt_radix_digits [OF assms(2) this] obtain d where "d < unat radix" "c = digit_char d" by auto
  with assms(1) show "parse_digit radix c \<noteq> None" by (simp add: digit_ok_def)
qed

lemma read_number_fmt:
  assumes "radix = 10 \<or> radix = 16" "\<not> starts_digit radix rest"
    and "0 < md" "md < 100" "0 < bound" "bound \<le> 0x10000000" "n < unat radix ^ unat md"
  shows "read_number radix md bound (pat pre (fmt_radix (unat radix) n @ rest)) =
     (if n < unat bound then (Some (word_of_nat n), pat (pre @ fmt_radix (unat radix) n) rest)
      else (None, pat pre (fmt_radix (unat radix) n @ rest)))"
proof -
  have ok: "digit_ok radix" "2 \<le> unat radix" using assms(1) by auto
  have "length (fmt_radix (unat radix) n) \<le> unat md"
    using assms(3,7) ok(2) by (intro length_fmt_radix) (auto simp: word_less_nat_alt)
  then show ?thesis
    using read_number_digits [OF fmt_radix_all_digits [OF ok] assms(2,1,4,5,6)]
    by (simp add: digits_val_fmt_radix [OF ok])
qed

text \<open>The two field readers on a printed field.\<close>

lemma read_v4_field:
  assumes "\<not> starts_digit 10 rest"
  shows "reader_map ucast (read_number 10 3 0x100) (pat pre (fmt_dec (a :: u8) @ rest)) =
           (Some a, pat (pre @ fmt_dec a) rest)"
proof -
  have "unat a < 256" using unat_less_size [of a] by simp
  then show ?thesis
    using read_number_fmt [of 10 rest 3 "0x100" "unat a" pre] assms
    by (simp add: reader_map_def fmt_dec_def ucast_ucast_up)
qed

lemma read_hex_field:
  assumes "\<not> starts_digit 16 rest" "bound = 0xffff \<or> bound = 0x10000"
  shows "reader_map ucast (read_number 16 4 bound) (pat pre (fmt_hex (a :: u16) @ rest)) =
           (if unat a < unat bound then (Some a, pat (pre @ fmt_hex a) rest)
            else (None, pat pre (fmt_hex a @ rest)))"
proof -
  have "unat a < 65536" using unat_less_size [of a] by simp
  then show ?thesis
    using read_number_fmt [of 16 rest 4 bound "unat a" pre] assms
    by (auto simp: reader_map_def fmt_hex_def ucast_ucast_up)
qed

lemma read_port_fmt:
  assumes "\<not> starts_digit 10 rest"
  shows "read_port (pat pre (fmt_dec (a :: u16) @ rest)) = (Some a, pat (pre @ fmt_dec a) rest)"
proof -
  have "unat a < 65536" using unat_less_size [of a] by simp
  then show ?thesis
    using read_number_fmt [of 10 rest 5 "0x10000" "unat a" pre] assms
    by (simp add: read_port_def reader_map_def fmt_dec_def ucast_ucast_up)
qed

section \<open>Separated fields\<close>

text \<open>
  A field reader that reads each printed field and stops at the separator
  reads a whole list of printed fields; it fails as soon as one field fails.
\<close>

fun fmt_fields_from :: "char \<Rightarrow> nat \<Rightarrow> string list \<Rightarrow> string" where
  "fmt_fields_from sep i [] = []"
| "fmt_fields_from sep i (x # xs) = (if i = 0 then [] else [sep]) @ x @ fmt_fields_from sep (Suc i) xs"

lemma fmt_fields_from_Suc:
  "fmt_fields_from sep (Suc i) xs = concat (map (\<lambda>x. sep # x) xs)"
  by (induction xs arbitrary: i) simp_all

lemma fmt_joined_fields: "fmt_joined sep xs = fmt_fields_from sep 0 xs"
  by (induction sep xs rule: fmt_joined.induct) (simp_all add: fmt_fields_from_Suc)

lemma read_fields_printed:
  assumes field: "\<And>v pre rest. v \<in> set vs \<Longrightarrow> rest = [] \<or> hd rest = sep \<or> rest = final
                    \<Longrightarrow> num (pat pre (prn v @ rest)) = (Some v, pat (pre @ prn v) rest)"
    and "length bs = n" "n = i + length vs"
  shows "read_fields sep num n i bs (pat pre (fmt_fields_from sep i (map prn vs) @ final)) =
     (Some (take i bs @ vs), pat (pre @ fmt_fields_from sep i (map prn vs)) final)"
  using assms
proof (induction vs arbitrary: i bs pre)
  case Nil
  then show ?case by (simp add: read_fields.simps)
next
  case (Cons v vs)
  let ?tail = "fmt_fields_from sep (Suc i) (map prn vs) @ final"
  let ?sepo = "if i = 0 then [] else [sep]"
  have tail: "?tail = [] \<or> hd ?tail = sep \<or> ?tail = final"
    by (cases vs) (simp_all add: fmt_fields_from_Suc)
  have sep: "(if i \<noteq> 0 then read_given_char sep (pat pre (?sepo @ prn v @ ?tail))
              else (Some sep, pat pre (?sepo @ prn v @ ?tail)))
             = (Some sep, pat (pre @ ?sepo) (prn v @ ?tail))"
    by simp
  have num: "num (pat (pre @ ?sepo) (prn v @ ?tail)) = (Some v, pat (pre @ ?sepo @ prn v) ?tail)"
    using Cons.prems(1) [of v ?tail "pre @ ?sepo"] tail by simp
  have "read_fields sep num n (Suc i) (bs[i := v]) (pat (pre @ ?sepo @ prn v) ?tail)
        = (Some (take (Suc i) (bs[i := v]) @ vs),
           pat ((pre @ ?sepo @ prn v) @ fmt_fields_from sep (Suc i) (map prn vs)) final)"
    using Cons.prems by (intro Cons.IH) auto
  moreover have "take (Suc i) (bs[i := v]) @ vs = take i bs @ v # vs"
    using Cons.prems(2,3) by (simp add: take_Suc_update)
  ultimately show ?case using sep num Cons.prems(3)
    by (subst read_fields.simps) (cases "i = 0"; simp add: Option.is_none_def)
qed

lemma read_fields_printed_fail:
  assumes field: "\<And>v pre rest. v \<in> set vs \<Longrightarrow> rest = [] \<or> hd rest = sep \<or> rest = final
      \<Longrightarrow> num (pat pre (prn v @ rest)) =
          (if ok v then (Some v, pat (pre @ prn v) rest) else (None, pat pre (prn v @ rest)))"
    and "\<exists>v\<in>set vs. \<not> ok v" "n = i + length vs"
  shows "\<exists>q. read_fields sep num n i bs (pat pre (fmt_fields_from sep i (map prn vs) @ final))
           = (None, q) \<and> pr_s q = pre @ fmt_fields_from sep i (map prn vs) @ final"
  using assms
proof (induction vs arbitrary: i bs pre)
  case (Cons v vs)
  let ?tail = "fmt_fields_from sep (Suc i) (map prn vs) @ final"
  let ?sepo = "if i = 0 then [] else [sep]"
  have tail: "?tail = [] \<or> hd ?tail = sep \<or> ?tail = final"
    by (cases vs) (simp_all add: fmt_fields_from_Suc)
  have num: "num (pat (pre @ ?sepo) (prn v @ ?tail)) =
      (if ok v then (Some v, pat (pre @ ?sepo @ prn v) ?tail)
       else (None, pat (pre @ ?sepo) (prn v @ ?tail)))"
    using Cons.prems(1) [of v ?tail "pre @ ?sepo"] tail by simp
  show ?case
  proof (cases "ok v")
    case True
    then have "\<exists>v\<in>set vs. \<not> ok v" using Cons.prems(2) by auto
    with Cons.prems(1,3) have "\<exists>q. read_fields sep num n (Suc i) (bs[i := v])
        (pat (pre @ ?sepo @ prn v) ?tail) = (None, q)
        \<and> pr_s q = (pre @ ?sepo @ prn v) @ fmt_fields_from sep (Suc i) (map prn vs) @ final"
      by (intro Cons.IH) auto
    with num True Cons.prems(3) show ?thesis
      by (subst read_fields.simps) (cases "i = 0"; simp add: Option.is_none_def)
  next
    case False
    with num Cons.prems(3) show ?thesis
      by (subst read_fields.simps) (cases "i = 0"; simp add: Option.is_none_def)
  qed
qed simp

section \<open>Addresses\<close>

lemma list4_take: "length bs = 4 \<Longrightarrow> bs = [bs ! 0, bs ! 1, bs ! 2, bs ! 3]"
  by (auto simp: numeral_eq_Suc length_Suc_conv)

lemma read_ipv4_printed:
  assumes "\<not> starts_digit 10 rest"
  shows "read_ipv4_addr (pat pre (Ipv4Addr_fmt a @ rest)) = (Some a, pat (pre @ Ipv4Addr_fmt a) rest)"
proof -
  have "read_fields CHR ''.'' (reader_map ucast (read_number 10 3 0x100))
      4 0 (replicate 4 0)
      (pat pre (fmt_fields_from CHR ''.'' 0 (map fmt_dec (Ipv4Addr_octets a)) @ rest)) =
     (Some (take 0 (replicate 4 0) @ Ipv4Addr_octets a),
      pat (pre @ fmt_fields_from CHR ''.'' 0 (map fmt_dec (Ipv4Addr_octets a))) rest)"
  proof (rule read_fields_printed)
    fix v :: u8 and pre rest' :: string
    assume "rest' = [] \<or> hd rest' = CHR ''.'' \<or> rest' = rest"
    with assms have "\<not> starts_digit 10 rest'" by (cases rest') auto
    then show "reader_map ucast (read_number 10 3 0x100) (pat pre (fmt_dec v @ rest')) =
               (Some v, pat (pre @ fmt_dec v) rest')" by (rule read_v4_field)
  qed (simp_all add: Ipv4Addr_octets_def)
  then show ?thesis
    by (cases a) (simp add: read_ipv4_addr_def read_atomically_def read_ipv4_addr_impl_def
      Ipv4Addr_fmt_def fmt_joined_fields Ipv4Addr_octets_def Ipv4Addr_new_def Option.is_none_def)
qed

lemma read_guid_printed:
  assumes "\<not> starts_digit 16 rest"
  shows "\<exists>q. read_guid_addr (pat pre (Guid_fmt (Guid_new a b c d e f g h) @ rest)) =
    (if 0xffff \<in> set [a, b, c, d, e, f, g, h] then (None, q)
     else (Some (Guid_new a b c d e f g h), pat (pre @ Guid_fmt (Guid_new a b c d e f g h)) rest))
    \<and> pr_s q = pre @ Guid_fmt (Guid_new a b c d e f g h) @ rest"
proof -
  let ?vs = "[a, b, c, d, e, f, g, h]"
  let ?num = "reader_map ucast (read_number 16 4 0xffff) :: u16 reader"
  let ?s = "fmt_fields_from CHR '':'' 0 (map fmt_hex ?vs)"
  have s: "Guid_fmt (Guid_new a b c d e f g h) = ?s"
    by (simp only: Guid_fmt_def Guid_segments_new fmt_joined_fields)
  have lt: "unat v < unat (0xffff :: u32) \<longleftrightarrow> v \<noteq> 0xffff" for v :: u16
    using unat_less_size [of v] by (auto simp: word_unat_eq_iff)
  have field: "?num (pat pre (fmt_hex v @ rest')) =
        (if v \<noteq> 0xffff then (Some v, pat (pre @ fmt_hex v) rest') else (None, pat pre (fmt_hex v @ rest')))"
    if "rest' = [] \<or> hd rest' = CHR '':'' \<or> rest' = rest" for v pre rest'
  proof -
    have "\<not> starts_digit 16 rest'" using that assms by (cases rest') auto
    then show ?thesis using read_hex_field [of rest' "0xffff" pre v] by (simp only: lt) auto
  qed
  show ?thesis
  proof (cases "0xffff \<in> set ?vs")
    case True
    then have "\<exists>v\<in>set ?vs. \<not> v \<noteq> 0xffff" by auto
    from read_fields_printed_fail [where num = ?num and prn = fmt_hex and ok = "\<lambda>v. v \<noteq> 0xffff"
        and vs = ?vs and sep = "CHR '':''" and final = rest and i = 0 and n = 8 and bs = "replicate 8 0"
        and pre = pre, OF field this]
    obtain q where "read_fields CHR '':'' ?num 8 0 (replicate 8 0) (pat pre (?s @ rest)) = (None, q)"
      "pr_s q = pre @ ?s @ rest" by auto
    then have "read_guid_addr (pat pre (?s @ rest)) = (None, pat pre (?s @ rest))"
      by (simp only: read_guid_addr_def) (rule read_atomically_None [of _ _ q], simp_all add: read_guid_addr_impl_def)
    with True s show ?thesis by (auto intro!: exI [of _ "pat pre (?s @ rest)"])
  next
    case False
    have "read_fields CHR '':'' ?num 8 0 (replicate 8 0) (pat pre (?s @ rest)) =
       (Some (take 0 (replicate 8 0) @ ?vs), pat (pre @ ?s) rest)"
      using False field by (intro read_fields_printed) auto
    then have "read_fields CHR '':'' ?num 8 0 (replicate 8 0) (pat pre (?s @ rest)) =
       (Some ?vs, pat (pre @ ?s) rest)" by (simp del: fmt_fields_from.simps)
    then have "read_guid_addr (pat pre (?s @ rest)) = (Some (Guid_new a b c d e f g h), pat (pre @ ?s) rest)"
      by (simp only: read_guid_addr_def) (rule read_atomically_Some, simp add: read_guid_addr_impl_def)
    with False s show ?thesis by (auto intro!: exI [of _ "pat pre (?s @ rest)"])
  qed
qed

lemma from_str_with_Some:
  assumes "rd (pat [] s) = (Some x, pat s' [])"
  shows "from_str_with rd s = Ok x"
  using assms
  by (simp add: from_str_with_def read_till_eof_def read_atomically_def Parser_new_pat Option.is_none_def)

lemma from_str_with_None:
  assumes "rd (pat [] s) = (None, q)"
  shows "from_str_with rd s = Err AddrParseError"
  using assms
  by (simp add: from_str_with_def read_till_eof_def read_atomically_def Parser_new_pat)

end
