(* ===== verification/Net_Roundtrip6.thy ===== *)
theory Net_Roundtrip6
  imports Net_Roundtrip
begin

text \<open>
  The IPv6 reader on printed addresses: every form the \<open>Display\<close> implementation
  can produce (all eight groups, a compressed run of zeros, an embedded IPv4
  address) is read back to the same address.
\<close>

section \<open>Groups\<close>

text \<open>An IPv4 attempt gives up, and rewinds, unless a dot follows the decimal digits.\<close>

lemma not_starts_digit_dropWhile:
  "\<not> starts_digit radix (dropWhile (\<lambda>c. parse_digit radix c \<noteq> None) s)"
  by (induction s) auto

lemma read_ipv4_no_dot:
  assumes "\<And>c cs. dropWhile (\<lambda>c. parse_digit 10 c \<noteq> None) s = c # cs \<Longrightarrow> c \<noteq> CHR ''.''"
  shows "read_ipv4_addr (pat pre s) = (None, pat pre s)"
proof -
  let ?dec = "\<lambda>c. parse_digit 10 c \<noteq> None"
  let ?ds = "takeWhile ?dec s" and ?rest = "dropWhile ?dec s"
  let ?num = "reader_map ucast (read_number 10 3 0x100) :: u8 reader"
  have s: "s = ?ds @ ?rest" by simp
  have nd: "\<not> starts_digit 10 ?rest" by (rule not_starts_digit_dropWhile)
  have all: "\<forall>c\<in>set ?ds. ?dec c" by (auto dest: set_takeWhileD)
  have "\<exists>v. ?num (pat pre s) = (None, pat pre s) \<or> ?num (pat pre s) = (Some v, pat (pre @ ?ds) ?rest)"
    using read_number_digits [OF all nd, of 3 "0x100" pre]
    by (auto simp: reader_map_def split: if_splits)
  then consider "?num (pat pre s) = (None, pat pre s)"
    | v where "?num (pat pre s) = (Some v, pat (pre @ ?ds) ?rest)" by auto
  then have "\<exists>q. read_fields CHR ''.'' ?num 4 0 (replicate 4 0) (pat pre s) = (None, q) \<and> pr_s q = pre @ s"
  proof cases
    case 1
    then show ?thesis by (subst read_fields.simps) simp
  next
    case 2
    have "read_given_char CHR ''.'' (pat (pre @ ?ds) ?rest) = (None, pat (pre @ ?ds) ?rest)"
      using assms by (auto simp: read_given_char_pat split: list.splits)
    then have "read_fields CHR ''.'' ?num 4 1 ((replicate 4 0)[0 := v]) (pat (pre @ ?ds) ?rest)
               = (None, pat (pre @ ?ds) ?rest)"
      by (subst read_fields.simps) simp
    with 2 show ?thesis by (subst read_fields.simps) simp
  qed
  then show ?thesis
    by (auto simp: read_ipv4_addr_def read_ipv4_addr_impl_def intro!: read_atomically_None)
qed

definition group_end :: "string \<Rightarrow> bool" where
  "group_end rest \<longleftrightarrow> \<not> starts_digit 16 rest \<and> (\<forall>c cs. rest = c # cs \<longrightarrow> c \<noteq> CHR ''.'')"

lemma group_end_colon [simp]: "group_end (CHR '':'' # rest)" "group_end []"
  by (simp_all add: group_end_def)

lemma dec_is_hex: "parse_digit 16 c = None \<Longrightarrow> parse_digit 10 c = None"
  by (auto simp: parse_digit_def Let_def split: if_splits)

lemma dropWhile_append_cases:
  "dropWhile P (xs @ ys) = c # cs \<Longrightarrow> c \<in> set xs \<or> dropWhile P ys = c # cs"
  by (induction xs) (auto split: if_splits)

lemma read_ipv4_on_group:
  assumes "group_end rest"
  shows "read_ipv4_addr (pat pre (fmt_hex v @ rest)) = (None, pat pre (fmt_hex v @ rest))"
proof (rule read_ipv4_no_dot)
  fix c cs
  assume "dropWhile (\<lambda>c. parse_digit 10 c \<noteq> None) (fmt_hex v @ rest) = c # cs"
  then have "c \<in> set (fmt_hex v) \<or> dropWhile (\<lambda>c. parse_digit 10 c \<noteq> None) rest = c # cs"
    by (rule dropWhile_append_cases)
  then show "c \<noteq> CHR ''.''"
  proof
    assume "c \<in> set (fmt_hex v)"
    then have "parse_digit 16 c \<noteq> None"
      using fmt_radix_all_digits [of 16 "unat v"] by (auto simp: fmt_hex_def)
    then show ?thesis by auto
  next
    assume "dropWhile (\<lambda>c. parse_digit 10 c \<noteq> None) rest = c # cs"
    then show ?thesis using assms dec_is_hex
      by (cases rest) (auto simp: group_end_def split: if_splits)
  qed
qed

lemma read_group_printed:
  assumes "group_end rest"
  shows "read_group (pat pre (fmt_hex v @ rest)) = (Some v, pat (pre @ fmt_hex v) rest)"
  using assms read_hex_field [of rest "0x10000" pre v] unat_less_size [of v]
  by (simp add: read_group_def group_end_def)

lemma read_sep_then_0: "read_sep_then 0 rd = read_atomically rd"
  by (simp add: read_sep_then_def)

lemma read_sep_then_hit:
  assumes "rd (pat (pre @ [CHR '':'']) rest) = (Some x, q)"
  shows "read_sep_then (Suc i) rd (pat pre (CHR '':'' # rest)) = (Some x, q)"
  unfolding read_sep_then_def by (rule read_atomically_Some) (simp add: assms)

lemma read_sep_then_miss:
  assumes "rd (pat (pre @ [CHR '':'']) rest) = (None, pat (pre @ [CHR '':'']) rest)"
  shows "read_sep_then (Suc i) rd (pat pre (CHR '':'' # rest)) = (None, pat pre (CHR '':'' # rest))"
  unfolding read_sep_then_def
  by (rule read_atomically_None [of _ _ "pat (pre @ [CHR '':'']) rest"]) (simp_all add: assms)

lemma read_sep_then_group:
  fixes i v rest
  defines "sepo \<equiv> if i = 0 then [] else [CHR '':'']"
  assumes "group_end rest"
  shows "read_sep_then i read_ipv4_addr (pat pre (sepo @ fmt_hex v @ rest)) =
           (None, pat pre (sepo @ fmt_hex v @ rest))"
    and "read_sep_then i read_group (pat pre (sepo @ fmt_hex v @ rest)) =
           (Some v, pat (pre @ sepo @ fmt_hex v) rest)"
proof -
  show "read_sep_then i read_ipv4_addr (pat pre (sepo @ fmt_hex v @ rest)) =
           (None, pat pre (sepo @ fmt_hex v @ rest))"
    using assms(2) by (cases i)
      (auto simp: sepo_def read_sep_then_0 read_ipv4_on_group intro!: read_atomically_None read_sep_then_miss)
  show "read_sep_then i read_group (pat pre (sepo @ fmt_hex v @ rest)) =
           (Some v, pat (pre @ sepo @ fmt_hex v) rest)"
    using assms(2) by (cases i)
      (auto simp: sepo_def read_sep_then_0 read_group_printed intro!: read_atomically_Some read_sep_then_hit)
qed

text \<open>Input on which the group loop stops at group \<open>i\<close> without reading.\<close>

definition stops_at :: "nat \<Rightarrow> string \<Rightarrow> bool" where
  "stops_at i rest \<longleftrightarrow>
     (\<forall>pre. read_sep_then i read_ipv4_addr (pat pre rest) = (None, pat pre rest)
          \<and> read_sep_then i read_group (pat pre rest) = (None, pat pre rest))"

lemma read_none_at_non_digit:
  assumes "\<not> starts_digit 16 rest" "\<forall>c cs. rest = c # cs \<longrightarrow> c \<noteq> CHR ''.''"
  shows "read_ipv4_addr (pat pre rest) = (None, pat pre rest)"
    and "read_group (pat pre rest) = (None, pat pre rest)"
proof -
  show "read_ipv4_addr (pat pre rest) = (None, pat pre rest)"
    using assms dec_is_hex by (intro read_ipv4_no_dot) (cases rest; auto split: if_splits)
  show "read_group (pat pre rest) = (None, pat pre rest)"
    using read_number_no_digit [OF assms(1), of 4 "0x10000" pre]
    by (simp add: read_group_def reader_map_def)
qed

lemma stops_at_double_colon: "stops_at i (CHR '':'' # CHR '':'' # rest)"
  using read_none_at_non_digit [of "CHR '':'' # rest"] read_none_at_non_digit [of "CHR '':'' # CHR '':'' # rest"]
  by (cases i) (auto simp: stops_at_def read_sep_then_0 intro!: read_atomically_None read_sep_then_miss)

definition addr_end :: "string \<Rightarrow> bool" where
  "addr_end rest \<longleftrightarrow> rest = [] \<or> hd rest = CHR '']''"

lemma read_sep_then_addr_end:
  assumes "addr_end rest"
  shows "read_sep_then (Suc i) rd (pat pre rest) = (None, pat pre rest)"
  using assms by (cases rest)
    (auto simp: addr_end_def read_sep_then_def read_given_char_pat intro!: read_atomically_None)

lemma addr_end_facts:
  assumes "addr_end rest"
  shows "group_end rest" "stops_at i rest" "\<not> starts_digit 10 rest"
proof -
  show ge: "group_end rest" and "\<not> starts_digit 10 rest"
    using assms by (cases rest; auto simp: addr_end_def group_end_def)+
  show "stops_at i rest"
    using ge read_none_at_non_digit [of rest]
    by (cases i) (auto simp: read_sep_then_addr_end [OF assms] stops_at_def group_end_def read_sep_then_0 intro!: read_atomically_None)
qed

section \<open>The group loop\<close>

lemma read_groups_printed:
  assumes "i + length vs = limit \<or> (i + length vs < limit \<and> stops_at (i + length vs) final)"
    and "limit \<le> 8" "length gs = 8" "group_end final"
  shows "read_groups_loop limit i gs (pat pre (fmt_fields_from CHR '':'' i (map fmt_hex vs) @ final)) =
     ((i + length vs, False), take i gs @ vs @ drop (i + length vs) gs,
      pat (pre @ fmt_fields_from CHR '':'' i (map fmt_hex vs)) final)"
  using assms
proof (induction vs arbitrary: i gs pre)
  case Nil
  then show ?case
    by (subst read_groups_loop.simps) (auto simp: stops_at_def)
next
  case (Cons v vs)
  let ?tail = "fmt_fields_from CHR '':'' (Suc i) (map fmt_hex vs) @ final"
  let ?sepo = "if i = 0 then [] else [CHR '':'']"
  have ge: "group_end ?tail"
    using Cons.prems(4) by (cases vs) (simp_all add: fmt_fields_from_Suc)
  note grp = read_sep_then_group [OF ge, of i pre v]
  have "read_groups_loop limit (Suc i) (gs[i := v]) (pat (pre @ ?sepo @ fmt_hex v) ?tail) =
     ((Suc i + length vs, False), take (Suc i) (gs[i := v]) @ vs @ drop (Suc i + length vs) (gs[i := v]),
      pat ((pre @ ?sepo @ fmt_hex v) @ fmt_fields_from CHR '':'' (Suc i) (map fmt_hex vs)) final)"
    using Cons.prems by (intro Cons.IH) auto
  moreover have "i < limit" "i < length gs" using Cons.prems by auto
  moreover have "take (Suc i) (gs[i := v]) = take i gs @ [v]"
    using \<open>i < length gs\<close> by (rule take_Suc_update)
  ultimately show ?case using grp
    by (subst read_groups_loop.simps) auto
qed

lemma fmt_subslice_fields: "fmt_subslice vs = fmt_fields_from CHR '':'' 0 (map fmt_hex vs)"
  by (cases vs) (simp_all add: fmt_fields_from_Suc o_def)

lemma fmt_v4_tail_eq:
  "fmt_v4_tail g h = Ipv4Addr_fmt (Ipv4Addr (seg_hi g) (seg_lo g) (seg_hi h) (seg_lo h))"
  by (simp add: fmt_v4_tail_def Ipv4Addr_fmt_def Ipv4Addr_octets_def)

lemma read_groups_v4:
  assumes "addr_end final"
  shows "read_groups_loop 7 0 (replicate 8 0) (pat pre (fmt_v4_tail g h @ final)) =
     ((2, True), (replicate 8 0)[0 := g, 1 := h], pat (pre @ fmt_v4_tail g h) final)"
proof -
  let ?v4 = "Ipv4Addr (seg_hi g) (seg_lo g) (seg_hi h) (seg_lo h)"
  have "read_sep_then 0 read_ipv4_addr (pat pre (fmt_v4_tail g h @ final)) =
          (Some ?v4, pat (pre @ fmt_v4_tail g h) final)"
    using read_ipv4_printed [OF addr_end_facts(3) [OF assms], of pre ?v4]
    by (simp add: read_sep_then_0 fmt_v4_tail_eq read_atomically_Some)
  then show ?thesis by (subst read_groups_loop.simps) simp
qed

lemma fmt_hex_ffff: "fmt_hex 0xffff = ''ffff''"
  by (simp add: fmt_hex_def fmt_radix.simps digit_char_def char_of_def bit_numeral_rec bit_0)

lemma read_groups_mapped:
  assumes "addr_end final"
  shows "read_groups_loop 7 0 (replicate 8 0) (pat pre (''ffff:'' @ fmt_v4_tail g h @ final)) =
     ((3, True), (replicate 8 0)[0 := 0xffff, 1 := g, 2 := h], pat (pre @ ''ffff:'' @ fmt_v4_tail g h) final)"
proof -
  let ?v4 = "Ipv4Addr (seg_hi g) (seg_lo g) (seg_hi h) (seg_lo h)"
  let ?rest = "CHR '':'' # fmt_v4_tail g h @ final"
  have ffff: "''ffff:'' @ fmt_v4_tail g h @ final = fmt_hex 0xffff @ ?rest"
    by (simp add: fmt_hex_ffff)
  have "read_sep_then 0 read_ipv4_addr (pat pre (fmt_hex 0xffff @ ?rest)) = (None, pat pre (fmt_hex 0xffff @ ?rest))"
    "read_sep_then 0 read_group (pat pre (fmt_hex 0xffff @ ?rest)) = (Some 0xffff, pat (pre @ fmt_hex 0xffff) ?rest)"
    using read_sep_then_group [of ?rest 0 pre "0xffff"] by simp_all
  moreover have "read_sep_then (Suc 0) read_ipv4_addr (pat (pre @ fmt_hex 0xffff) ?rest) =
          (Some ?v4, pat (pre @ fmt_hex 0xffff @ CHR '':'' # fmt_v4_tail g h) final)"
    using read_ipv4_printed [OF addr_end_facts(3) [OF assms], of "pre @ fmt_hex 0xffff @ '':''" ?v4]
    by (intro read_sep_then_hit) (simp add: fmt_v4_tail_eq)
  ultimately have "read_groups_loop 7 0 (replicate 8 0) (pat pre (fmt_hex 0xffff @ ?rest)) =
     ((3, True), (replicate 8 0)[0 := 0xffff, 1 := g, 2 := h],
      pat (pre @ fmt_hex 0xffff @ CHR '':'' # fmt_v4_tail g h) final)"
    by (subst read_groups_loop.simps, simp, subst read_groups_loop.simps, simp add: numeral_2_eq_2)
  then show ?thesis by (simp add: fmt_hex_ffff)
qed

section \<open>The longest run of zeros\<close>

lemma find_zero_slice_loop_zeros:
  assumes "i = length xs" "la + ll \<le> i" "\<forall>j. la \<le> j \<and> j < la + ll \<longrightarrow> xs ! j = 0"
    "0 < cl \<longrightarrow> ca + cl = i \<and> (\<forall>j. ca \<le> j \<and> j < i \<longrightarrow> xs ! j = 0)"
    "find_zero_slice_loop ss i ll la cl ca = (at, n)"
  shows "at + n \<le> length (xs @ ss) \<and> (\<forall>j. at \<le> j \<and> j < at + n \<longrightarrow> (xs @ ss) ! j = 0)"
  using assms
proof (induction ss arbitrary: i ll la cl ca xs)
  case Nil
  then show ?case by auto
next
  case (Cons s ss)
  have nth: "(xs @ [s]) ! j = (if j < length xs then xs ! j else s)" if "j \<le> length xs" for j
    using that by (auto simp: nth_append)
  have "at + n \<le> length ((xs @ [s]) @ ss)
      \<and> (\<forall>j. at \<le> j \<and> j < at + n \<longrightarrow> ((xs @ [s]) @ ss) ! j = 0)"
  proof (cases "s = 0")
    case True
    define ca' where "ca' = (if cl = 0 then i else ca)"
    have cur: "ca' + (cl + 1) = i + 1" "\<forall>j. ca' \<le> j \<and> j < i + 1 \<longrightarrow> (xs @ [s]) ! j = 0"
      using Cons.prems(1,4) True nth by (auto simp: ca'_def less_Suc_eq)
    have old: "\<forall>j. la \<le> j \<and> j < la + ll \<longrightarrow> (xs @ [s]) ! j = 0"
      using Cons.prems(1,2,3) nth by auto
    show ?thesis
    proof (cases "cl + 1 > ll")
      case t: True
      then have "find_zero_slice_loop ss (i + 1) (cl + 1) ca' (cl + 1) ca' = (at, n)"
        using Cons.prems(5) True by (simp add: ca'_def Let_def)
      then show ?thesis using cur Cons.prems(1)
        by (intro Cons.IH [of "i + 1" "xs @ [s]" ca' "cl + 1" "cl + 1" ca']) auto
    next
      case f: False
      then have "find_zero_slice_loop ss (i + 1) ll la (cl + 1) ca' = (at, n)"
        using Cons.prems(5) True by (simp add: ca'_def Let_def)
      then show ?thesis using cur old Cons.prems(1,2)
        by (intro Cons.IH [of "i + 1" "xs @ [s]" la ll "cl + 1" ca']) auto
    qed
  next
    case False
    then have "find_zero_slice_loop ss (i + 1) ll la 0 0 = (at, n)"
      using Cons.prems(5) by simp
    moreover have "\<forall>j. la \<le> j \<and> j < la + ll \<longrightarrow> (xs @ [s]) ! j = 0"
      using Cons.prems(1,2,3) nth by auto
    ultimately show ?thesis using Cons.prems(1,2)
      by (intro Cons.IH [of "i + 1" "xs @ [s]" la ll 0 0]) auto
  qed
  then show ?case by simp
qed

lemma find_zero_slice_split:
  assumes "find_zero_slice s = (at, n)"
  shows "at + n \<le> length s" "s = take at s @ replicate n 0 @ drop (at + n) s"
proof -
  from find_zero_slice_loop_zeros [of 0 "[]" 0 0 0 0 s at n] assms
  have *: "at + n \<le> length s" "\<forall>j. at \<le> j \<and> j < at + n \<longrightarrow> s ! j = 0"
    by (auto simp: find_zero_slice_def)
  then show "at + n \<le> length s" by simp
  have "take n (drop at s) = replicate n 0"
    using * by (intro nth_equalityI) auto
  moreover have "s = take at s @ take n (drop at s) @ drop n (drop at s)"
    by (simp only: append_take_drop_id)
  ultimately show "s = take at s @ replicate n 0 @ drop (at + n) s"
    by (simp add: add.commute)
qed

section \<open>Addresses\<close>

lemma list8_nths: "length xs = 8 \<Longrightarrow> xs = [xs ! 0, xs ! 1, xs ! 2, xs ! 3, xs ! 4, xs ! 5, xs ! 6, xs ! 7]"
  by (auto simp: numeral_eq_Suc length_Suc_conv)

definition addr_of_segs :: "u16 list \<Rightarrow> Ipv6Addr" where
  "addr_of_segs s = Ipv6Addr_new (s ! 0) (s ! 1) (s ! 2) (s ! 3) (s ! 4) (s ! 5) (s ! 6) (s ! 7)"

lemma addr_of_segs_segments: "wf_v6 a \<Longrightarrow> addr_of_segs (Ipv6Addr_segments a) = a"
  by (erule wf_v6_cases) (simp add: addr_of_segs_def)

lemma head_tail_split:
  assumes "length s = 8" "s = hd' @ replicate n 0 @ tl'"
  shows "ipv6_addr_from_head_tail hd' tl' = Some (addr_of_segs s)"
proof -
  have "n = 8 - length hd' - length tl'" "length hd' + length tl' \<le> 8"
    using assms by auto
  then show ?thesis
    using assms(2) by (simp add: ipv6_addr_from_head_tail_def addr_of_segs_def Let_def)
qed

text \<open>Eight groups, and a compressed run.\<close>

lemma read_ipv6_full:
  assumes "length s = 8" "addr_end final"
  shows "read_ipv6_addr_impl (pat pre (fmt_joined CHR '':'' (map fmt_hex s) @ final)) =
     (Some (addr_of_segs s), pat (pre @ fmt_joined CHR '':'' (map fmt_hex s)) final)"
  using read_groups_printed [of 0 s 8 final "replicate 8 0" pre] assms addr_end_facts(1) [OF assms(2)]
  by (simp add: read_ipv6_addr_impl_def addr_of_segs_def fmt_joined_fields)

lemma read_ipv6_head:
  assumes "length hs \<le> 6"
  shows "read_ipv6_addr_impl (pat pre (fmt_subslice hs @ ''::'' @ rest)) =
     (let ((tail_size, _), tail, p4) =
         read_groups_loop (7 - length hs) 0 (replicate 8 0) (pat (pre @ fmt_subslice hs @ ''::'') rest)
      in (ipv6_addr_from_head_tail hs (take tail_size tail), p4))"
proof -
  have "read_groups_loop 8 0 (replicate 8 0) (pat pre (fmt_subslice hs @ ''::'' @ rest)) =
     ((length hs, False), hs @ drop (length hs) (replicate 8 0), pat (pre @ fmt_subslice hs) (''::'' @ rest))"
    using read_groups_printed [of 0 hs 8 "''::'' @ rest" "replicate 8 0" pre] assms
      stops_at_double_colon [of "length hs" rest]
    by (simp add: fmt_subslice_fields)
  then show ?thesis using assms
    by (simp add: read_ipv6_addr_impl_def Let_def)
qed

lemma read_ipv6_compressed:
  assumes "length s = 8" "s = hs @ replicate n 0 @ ts" "1 < n" "addr_end final"
  shows "read_ipv6_addr_impl (pat pre (fmt_subslice hs @ ''::'' @ fmt_subslice ts @ final)) =
     (Some (addr_of_segs s), pat (pre @ fmt_subslice hs @ ''::'' @ fmt_subslice ts) final)"
proof -
  have len: "length hs + n + length ts = 8" using assms(1,2) by simp
  have "length ts < 7 - length hs" using len assms(3) by arith
  then have "read_groups_loop (7 - length hs) 0 (replicate 8 0)
          (pat (pre @ fmt_subslice hs @ ''::'') (fmt_subslice ts @ final)) =
        ((length ts, False), ts @ drop (length ts) (replicate 8 0),
         pat (pre @ fmt_subslice hs @ ''::'' @ fmt_subslice ts) final)"
    using read_groups_printed [of 0 ts "7 - length hs" final "replicate 8 0" "pre @ fmt_subslice hs @ ''::''"]
      len assms(3) addr_end_facts(1,2) [OF assms(4)]
    by (simp add: fmt_subslice_fields)
  then show ?thesis
    using read_ipv6_head [of hs pre "fmt_subslice ts @ final"] len assms(3) head_tail_split [OF assms(1,2)]
    by simp
qed

lemma read_ipv6_compat:
  assumes "addr_end final"
  shows "read_ipv6_addr_impl (pat pre (''::'' @ fmt_v4_tail g h @ final)) =
      (Some (addr_of_segs [0, 0, 0, 0, 0, 0, g, h]), pat (pre @ ''::'' @ fmt_v4_tail g h) final)"
proof -
  have "take 2 ((replicate 8 0)[0 := g, 1 := h]) = [g, h]" by (simp add: numeral_eq_Suc)
  moreover have "ipv6_addr_from_head_tail [] [g, h] = Some (addr_of_segs [0, 0, 0, 0, 0, 0, g, h])"
    by (rule head_tail_split [where n = 6]) (simp_all add: numeral_eq_Suc)
  ultimately show ?thesis
    using read_ipv6_head [of "[]" pre "fmt_v4_tail g h @ final"] read_groups_v4 [OF assms, of "pre @ ''::''" g h]
    by simp
qed

lemma read_ipv6_mapped:
  assumes "addr_end final"
  shows "read_ipv6_addr_impl (pat pre (''::ffff:'' @ fmt_v4_tail g h @ final)) =
      (Some (addr_of_segs [0, 0, 0, 0, 0, 0xffff, g, h]), pat (pre @ ''::ffff:'' @ fmt_v4_tail g h) final)"
proof -
  have "take 3 ((replicate 8 0)[0 := 0xffff, 1 := g, 2 := h]) = [0xffff, g, h]"
    by (simp add: numeral_eq_Suc)
  moreover have "ipv6_addr_from_head_tail [] [0xffff, g, h] = Some (addr_of_segs [0, 0, 0, 0, 0, 0xffff, g, h])"
    by (rule head_tail_split [where n = 5]) (simp_all add: numeral_eq_Suc)
  ultimately show ?thesis
    using read_ipv6_head [of "[]" pre "''ffff:'' @ fmt_v4_tail g h @ final"]
      read_groups_mapped [OF assms, of "pre @ ''::''" g h]
    by simp
qed

lemma fmt_hex_1: "fmt_hex 1 = ''1''"
  by (simp add: fmt_hex_def fmt_radix.simps digit_char_def char_of_def bit_numeral_rec bit_0)

lemma Ipv6Addr_fmt_compat:
  assumes "Ipv6Addr_segments a = [0, 0, 0, 0, 0, 0, g, h]" "g \<noteq> 0 \<or> (h \<noteq> 0 \<and> h \<noteq> 1)"
  shows "Ipv6Addr_fmt a = ''::'' @ fmt_v4_tail g h"
  using assms by (auto simp: Ipv6Addr_fmt_def)

lemma Ipv6Addr_fmt_mapped:
  assumes "Ipv6Addr_segments a = [0, 0, 0, 0, 0, 0xffff, g, h]"
  shows "Ipv6Addr_fmt a = ''::ffff:'' @ fmt_v4_tail g h"
  using assms by (simp add: Ipv6Addr_fmt_def)

lemma Ipv6Addr_fmt_general:
  assumes "take 6 (Ipv6Addr_segments a) \<noteq> [0, 0, 0, 0, 0, 0]"
    "take 6 (Ipv6Addr_segments a) \<noteq> [0, 0, 0, 0, 0, 0xffff]"
    "find_zero_slice (Ipv6Addr_segments a) = (at, n)"
  shows "Ipv6Addr_fmt a =
     (if n > 1 then fmt_subslice (take at (Ipv6Addr_segments a)) @ ''::''
                    @ fmt_subslice (drop (at + n) (Ipv6Addr_segments a))
      else fmt_joined CHR '':'' (map fmt_hex (Ipv6Addr_segments a)))"
proof -
  have "Ipv6Addr_segments a \<noteq> [0, 0, 0, 0, 0, 0, 0, 0]" "Ipv6Addr_segments a \<noteq> [0, 0, 0, 0, 0, 0, 0, 1]"
    using assms(1) by auto
  with assms show ?thesis by (simp add: Ipv6Addr_fmt_def Let_def)
qed

lemma read_ipv6_impl_printed:
  assumes "addr_end final"
  shows "read_ipv6_addr_impl (pat pre (Ipv6Addr_fmt a @ final)) =
          (Some (addr_of_segs (Ipv6Addr_segments a)), pat (pre @ Ipv6Addr_fmt a) final)"
proof -
  let ?s = "Ipv6Addr_segments a"
  have len: "length ?s = 8" by simp
  define g h where "g = ?s ! 6" and "h = ?s ! 7"
  have tk: "?s = take 6 ?s @ [g, h]"
    unfolding g_def h_def by (subst list8_nths [OF len], subst (3) list8_nths [OF len]) simp
  obtain at n where slice: "find_zero_slice ?s = (at, n)" by (cases "find_zero_slice ?s")
  consider (zero) "?s = [0, 0, 0, 0, 0, 0, 0, 0]" | (one) "?s = [0, 0, 0, 0, 0, 0, 0, 1]"
    | (compat) "?s = [0, 0, 0, 0, 0, 0, g, h]" "g \<noteq> 0 \<or> (h \<noteq> 0 \<and> h \<noteq> 1)"
    | (mapped) "?s = [0, 0, 0, 0, 0, 0xffff, g, h]"
    | (general) "take 6 ?s \<noteq> [0, 0, 0, 0, 0, 0]" "take 6 ?s \<noteq> [0, 0, 0, 0, 0, 0xffff]"
  proof (cases "take 6 ?s = [0, 0, 0, 0, 0, 0]")
    case True
    with tk have "?s = [0, 0, 0, 0, 0, 0, g, h]" by simp
    then show thesis using that(1-3) by (cases "g = 0 \<and> (h = 0 \<or> h = 1)") auto
  next
    case False
    show thesis
    proof (cases "take 6 ?s = [0, 0, 0, 0, 0, 0xffff]")
      case True
      with tk have "?s = [0, 0, 0, 0, 0, 0xffff, g, h]" by simp
      then show thesis by (rule that(4))
    next
      case f: False
      show thesis using False f by (rule that(5))
    qed
  qed
  then show ?thesis
  proof cases
    case zero
    then show ?thesis
      using read_ipv6_compressed [of ?s "[]" 8 "[]" final pre] assms
      by (simp add: Ipv6Addr_fmt_def numeral_eq_Suc)
  next
    case one
    then show ?thesis
      using read_ipv6_compressed [of ?s "[]" 7 "[1]" final pre] assms
      by (simp add: Ipv6Addr_fmt_def numeral_eq_Suc fmt_hex_1)
  next
    case compat
    then show ?thesis using read_ipv6_compat [OF assms, of pre g h]
      by (simp add: Ipv6Addr_fmt_compat)
  next
    case mapped
    then show ?thesis using read_ipv6_mapped [OF assms, of pre g h]
      by (simp add: Ipv6Addr_fmt_mapped)
  next
    case general
    show ?thesis
    proof (cases "1 < n")
      case True
      then show ?thesis
        using read_ipv6_compressed [OF len find_zero_slice_split(2) [OF slice] True assms, of pre]
        by (simp add: Ipv6Addr_fmt_general [OF general slice])
    next
      case False
      then show ?thesis using read_ipv6_full [OF len assms, of pre]
        by (simp add: Ipv6Addr_fmt_general [OF general slice])
    qed
  qed
qed

lemma read_ipv6_printed:
  assumes "wf_v6 a" "addr_end final"
  shows "read_ipv6_addr (pat pre (Ipv6Addr_fmt a @ final)) = (Some a, pat (pre @ Ipv6Addr_fmt a) final)"
  using read_ipv6_impl_printed [OF assms(2)] assms(1)
  by (simp add: read_ipv6_addr_def addr_of_segs_segments read_atomically_Some)

end
