(* ===== verification/Net_Props.thy ===== *)
theory Net_Props
  imports Net_Roundtrip6
begin

text \<open>
  The properties of the no-std-net address code: parsing after printing, the
  conversions between the address families, and the safety of the parser
  state.
\<close>

section \<open>Printing and parsing\<close>

text \<open>C11. Parsing a printed GID returns the same GID, except when one of its
  eight segments is \<open>0xffff\<close>: the bound passed to \<open>read_number\<close> in
  \<open>read_guid_addr_impl\<close> excludes that value, so such a GID (for example every
  IPv4-mapped one) is printed but never parsed back.\<close>

theorem guid_roundtrip:
  assumes "wf_guid g"
  shows "Guid_from_str (Guid_fmt g) =
           (if 0xffff \<in> set (Guid_segments g) then Err AddrParseError else Ok g)"
proof -
  from assms obtain a b c d e f h i where g: "g = Guid_new a b c d e f h i" by (rule wf_guid_cases)
  obtain q where "read_guid_addr (pat [] (Guid_fmt g)) =
      (if 0xffff \<in> set (Guid_segments g) then (None, q) else (Some g, pat (Guid_fmt g) []))"
    using read_guid_printed [of "[]" "[]" a b c d e f h i] g by (auto cong: if_cong)
  then show ?thesis
    unfolding Guid_from_str_def
    by (auto intro: from_str_with_Some from_str_with_None split: if_splits)
qed

theorem guid_roundtrip_witness:
  "Guid_from_str (Guid_fmt (Guid_new 0xfe80 0 0 0 0xec0d 0x9a03 0x2b 0x7c4e)) =
     Ok (Guid_new 0xfe80 0 0 0 0xec0d 0x9a03 0x2b 0x7c4e)
   \<and> Guid_from_str (Guid_fmt (Guid_new 0 0 0 0 0 0xffff 0xc0a8 1)) = Err AddrParseError"
  using guid_roundtrip [of "Guid_new 0xfe80 0 0 0 0xec0d 0x9a03 0x2b 0x7c4e"]
    guid_roundtrip [of "Guid_new 0 0 0 0 0 0xffff 0xc0a8 1"]
  by simp

lemma fmt_joined_Cons: "xs \<noteq> [] \<Longrightarrow> fmt_joined c (x # xs) = x @ c # fmt_joined c xs"
  by (cases xs) simp_all

lemma fmt_subslice_take:
  assumes "0 < n" "s \<noteq> []"
  shows "\<exists>r. fmt_subslice (take n s) @ CHR '':'' # rest = fmt_hex (hd s) @ CHR '':'' # r"
  using assms by (cases s; cases n; cases "take (n - 1) (tl s)") auto

lemma Ipv6Addr_fmt_start:
  "(\<exists>r. Ipv6Addr_fmt a = CHR '':'' # r) \<or> (\<exists>v r. Ipv6Addr_fmt a = fmt_hex v @ CHR '':'' # r)"
proof -
  let ?s = "Ipv6Addr_segments a"
  have len: "length ?s = 8" by simp
  then obtain x xs where s: "?s = x # xs" "xs \<noteq> []" by (cases ?s; cases "tl ?s") auto
  obtain at n where slice: "find_zero_slice ?s = (at, n)" by (cases "find_zero_slice ?s")
  show ?thesis
  proof (cases "take 6 ?s = [0, 0, 0, 0, 0, 0] \<or> take 6 ?s = [0, 0, 0, 0, 0, 0xffff]")
    case True
    then show ?thesis by (auto simp: Ipv6Addr_fmt_def Let_def)
  next
    case False
    then have fmt: "Ipv6Addr_fmt a =
     (if n > 1 then fmt_subslice (take at ?s) @ ''::'' @ fmt_subslice (drop (at + n) ?s)
      else fmt_joined CHR '':'' (map fmt_hex ?s))"
      using slice by (intro Ipv6Addr_fmt_general) auto
    have "\<exists>r. fmt_joined CHR '':'' (map fmt_hex ?s) = fmt_hex x @ CHR '':'' # r"
      using s by (auto simp: fmt_joined_Cons)
    moreover have "at = 0 \<or> (\<exists>r. fmt_subslice (take at ?s) @ ''::'' @ fmt_subslice (drop (at + n) ?s)
                       = fmt_hex x @ CHR '':'' # r)"
      using fmt_subslice_take [of at ?s "CHR '':'' # fmt_subslice (drop (at + n) ?s)"] s by auto
    ultimately show ?thesis using fmt by auto
  qed
qed

lemma ipv6_text_not_ipv4: "read_ipv4_addr (pat [] (Ipv6Addr_fmt a)) = (None, pat [] (Ipv6Addr_fmt a))"
  using Ipv6Addr_fmt_start [of a]
proof
  assume "\<exists>r. Ipv6Addr_fmt a = CHR '':'' # r"
  then show ?thesis using read_none_at_non_digit(1) [of "Ipv6Addr_fmt a" "[]"] by auto
next
  assume "\<exists>v r. Ipv6Addr_fmt a = fmt_hex v @ CHR '':'' # r"
  then show ?thesis using read_ipv4_on_group [OF group_end_colon(1), of "[]"] by auto
qed

lemma read_till_eof_hit:
  "rd (pat [] s) = (Some x, pat s' []) \<Longrightarrow> fst (read_till_eof rd (Parser_new s)) = Some x"
  by (simp add: read_till_eof_def read_atomically_def Parser_new_pat Option.is_none_def)

lemma read_till_eof_miss:
  "rd (pat [] s) = (None, q) \<Longrightarrow> fst (read_till_eof rd (Parser_new s)) = None"
  by (simp add: read_till_eof_def read_atomically_def Parser_new_pat)

definition wf_ip :: "IpAddr \<Rightarrow> bool" where
  "wf_ip a = (case a of IpV4 _ \<Rightarrow> True | IpV6 x \<Rightarrow> wf_v6 x)"

text \<open>C12. Every IP address is parsed back from its printed form: IPv4 in dotted
  notation, IPv6 in full, with a compressed run of zeros, and with an embedded
  IPv4 address.\<close>

theorem ip_roundtrip:
  assumes "wf_ip a"
  shows "IpAddr_from_str (IpAddr_fmt a) = Ok a"
proof (cases a)
  case (IpV4 x)
  then show ?thesis
    using read_ipv4_printed [of "[]" "[]" x]
    by (simp add: IpAddr_from_str_def IpAddr_fmt_def read_till_eof_hit)
next
  case (IpV6 x)
  with assms have "wf_v6 x" by (simp add: wf_ip_def)
  then have "read_ipv6_addr (pat [] (Ipv6Addr_fmt x)) = (Some x, pat (Ipv6Addr_fmt x) [])"
    using read_ipv6_printed [of x "[]" "[]"] by (simp add: addr_end_def)
  with IpV6 show ?thesis
    using ipv6_text_not_ipv4 [of x]
    by (simp add: IpAddr_from_str_def IpAddr_fmt_def read_till_eof_hit read_till_eof_miss)
qed

theorem ip_roundtrip_witness:
  "IpAddr_from_str (IpAddr_fmt (IpV6 (Ipv6Addr_new 0x2001 0xdb8 0 0 1 0 0 1))) =
     Ok (IpV6 (Ipv6Addr_new 0x2001 0xdb8 0 0 1 0 0 1))"
  by (rule ip_roundtrip) (simp add: wf_ip_def)

definition wf_socket :: "SocketAddr \<Rightarrow> bool" where
  "wf_socket s = (case s of SaV4 _ \<Rightarrow> True | SaV6 x \<Rightarrow> wf_v6 (sa6_addr x))"

definition drop_scope :: "SocketAddr \<Rightarrow> SocketAddr" where
  "drop_scope s = (case s of SaV4 x \<Rightarrow> SaV4 x
                           | SaV6 x \<Rightarrow> SaV6 (x\<lparr> sa6_flow_info := 0, sa6_scope_id := 0 \<rparr>))"

text \<open>C26. A socket address is parsed back from its printed form; the flow
  information and the scope of an IPv6 socket address are not printed and come
  back as zero.\<close>

theorem socket_roundtrip:
  assumes "wf_socket s"
  shows "SocketAddr_from_str (SocketAddr_fmt s) = Ok (drop_scope s)"
proof (cases s)
  case (SaV4 x)
  have "read_socket_addr_v4 (pat [] (SocketAddrV4_fmt x)) = (Some x, pat (SocketAddrV4_fmt x) [])"
    using read_ipv4_printed [of "CHR '':'' # fmt_dec (sa4_port x)" "[]" "sa4_addr x"]
      read_port_fmt [of "[]" "Ipv4Addr_fmt (sa4_addr x) @ '':''" "sa4_port x"]
    by (simp add: read_socket_addr_v4_def SocketAddrV4_fmt_def reader_map_def read_seq_3_def
        read_atomically_def Option.is_none_def SocketAddrV4_new_def)
  with SaV4 show ?thesis
    by (simp add: SocketAddr_from_str_def SocketAddr_fmt_def drop_scope_def read_till_eof_hit)
next
  case (SaV6 x)
  with assms have wf: "wf_v6 (sa6_addr x)" by (simp add: wf_socket_def)
  let ?rest = "CHR '']'' # CHR '':'' # fmt_dec (sa6_port x)"
  have v6: "read_ipv6_addr (pat ''['' (Ipv6Addr_fmt (sa6_addr x) @ ?rest)) =
          (Some (sa6_addr x), pat (''['' @ Ipv6Addr_fmt (sa6_addr x)) ?rest)"
    using read_ipv6_printed [OF wf, of ?rest "''[''"] by (simp add: addr_end_def)
  have miss: "read_ipv4_addr (pat [] (SocketAddrV6_fmt x)) = (None, pat [] (SocketAddrV6_fmt x))"
    by (rule read_none_at_non_digit(1)) (simp_all add: SocketAddrV6_fmt_def parse_digit_def of_char_def)
  have "read_socket_addr_v6 (pat [] (SocketAddrV6_fmt x)) =
          (Some (x\<lparr> sa6_flow_info := 0, sa6_scope_id := 0 \<rparr>), pat (SocketAddrV6_fmt x) [])"
    using v6 read_port_fmt [of "[]" "CHR ''['' # Ipv6Addr_fmt (sa6_addr x) @ '']:''" "sa6_port x"]
    by (simp add: read_socket_addr_v6_def SocketAddrV6_fmt_def reader_map_def read_seq_3_def
        read_atomically_def Option.is_none_def SocketAddrV6_new_def)
  moreover have "read_socket_addr_v4 (pat [] (SocketAddrV6_fmt x)) = (None, pat [] (SocketAddrV6_fmt x))"
    using miss by (simp add: read_socket_addr_v4_def reader_map_def read_seq_3_def read_atomically_def)
  ultimately show ?thesis using SaV6
    by (simp add: SocketAddr_from_str_def SocketAddr_fmt_def drop_scope_def read_till_eof_hit
        read_till_eof_miss)
qed

theorem socket_roundtrip_witness:
  "SocketAddr_from_str (SocketAddr_fmt (SaV6 (SocketAddrV6_new (Ipv6Addr_new 0 0 0 0 0 0 0 1) 8080 3 4))) =
     Ok (SaV6 (SocketAddrV6_new (Ipv6Addr_new 0 0 0 0 0 0 0 1) 8080 0 0))"
  using socket_roundtrip [of "SaV6 (SocketAddrV6_new (Ipv6Addr_new 0 0 0 0 0 0 0 1) 8080 3 4)"]
  by (simp add: wf_socket_def drop_scope_def SocketAddrV6_new_def)

section \<open>Safety of the parser state\<close>

text \<open>C27. The address readers are safe and atomic: from a position inside the
  input they end at a position inside the same input, a failing reader leaves
  the parser exactly as it was, and \<open>from_str\<close> of a GID succeeds only when the
  reader consumed the whole string.\<close>

theorem readers_safe_atomic:
  assumes "wf_parser p"
  shows "wf_parser (snd (read_guid_addr p)) \<and> wf_parser (snd (read_ipv4_addr p))
      \<and> wf_parser (snd (read_ipv6_addr p))
      \<and> (fst (read_guid_addr p) = None \<longrightarrow> snd (read_guid_addr p) = p)
      \<and> (fst (read_ipv4_addr p) = None \<longrightarrow> snd (read_ipv4_addr p) = p)
      \<and> (fst (read_ipv6_addr p) = None \<longrightarrow> snd (read_ipv6_addr p) = p)
      \<and> (Guid_from_str s = Ok g \<longrightarrow>
           (\<exists>q. read_guid_addr (Parser_new s) = (Some g, q) \<and> pr_pos q = length s))"
  using assms guid.keeps [of p "fst (read_guid_addr p)" "snd (read_guid_addr p)"]
    v4.keeps [of p "fst (read_ipv4_addr p)" "snd (read_ipv4_addr p)"]
    v6.keeps [of p "fst (read_ipv6_addr p)" "snd (read_ipv6_addr p)"]
    guid.fails_in_place [of p] v4.fails_in_place [of p] v6.fails_in_place [of p]
    guid.from_str_consumes [of s g]
  by (auto simp: Guid_from_str_def)

theorem readers_safe_atomic_witness:
  "wf_parser (Parser_new ''1:2'') \<and> wf_parser (snd (read_guid_addr (Parser_new ''1:2'')))"
  using readers_safe_atomic [of "Parser_new ''1:2''"] by (simp add: wf_parser_def Parser_new_def)

section \<open>Conversions between the address families\<close>

lemma Ipv6Addr_new_inject:
  "Ipv6Addr_new b c d e f g h i = Ipv6Addr_new b' c' d' e' f' g' h' i' \<longleftrightarrow>
     [b, c, d, e, f, g, h, i] = [b', c', d', e', f', g', h', i']"
proof
  assume "Ipv6Addr_new b c d e f g h i = Ipv6Addr_new b' c' d' e' f' g' h' i'"
  then have "Ipv6Addr_segments (Ipv6Addr_new b c d e f g h i) =
             Ipv6Addr_segments (Ipv6Addr_new b' c' d' e' f' g' h' i')" by (rule arg_cong)
  then show "[b, c, d, e, f, g, h, i] = [b', c', d', e', f', g', h', i']"
    by (simp only: Ipv6Addr_segments_new)
qed simp

text \<open>C38. \<open>to_ipv4\<close> is defined exactly on the IPv4-mapped and the IPv4-compatible
  addresses, and there inverts \<open>to_ipv6_mapped\<close> and \<open>to_ipv6_compatible\<close>.\<close>

theorem to_ipv4_iff:
  assumes "wf_v6 x"
  shows "Ipv6Addr_to_ipv4 x = Some a \<longleftrightarrow>
           x = Ipv4Addr_to_ipv6_mapped a \<or> x = Ipv4Addr_to_ipv6_compatible a"
proof -
  from assms obtain b c d e f g h i where x: "x = Ipv6Addr_new b c d e f g h i" by (rule wf_v6_cases)
  have inj: "Ipv6Addr_new b c d e f g h i = Ipv6Addr_new b' c' d' e' f' g' h' i' \<longleftrightarrow>
      [b, c, d, e, f, g, h, i] = [b', c', d', e', f', g', h', i']" for b' c' d' e' f' g' h' i'
    by (rule Ipv6Addr_new_inject)
  have bytes: "Ipv4Addr (seg_hi h) (seg_lo h) (seg_hi i) (seg_lo i) = a \<longleftrightarrow>
      h = seg_join (v4_0 a) (v4_1 a) \<and> i = seg_join (v4_2 a) (v4_3 a)"
    by (cases a) auto
  show ?thesis
    unfolding x Ipv4Addr_to_ipv6_mapped_def Ipv4Addr_to_ipv6_compatible_def inj
    using bytes by (auto simp: Ipv6Addr_to_ipv4_def Ipv4Addr_new_def Let_def split: if_splits)
qed

theorem to_ipv4_iff_witness:
  "Ipv6Addr_to_ipv4 (Ipv6Addr_new 0 0 0 0 0 0xffff 0xc0a8 0x0102) = Some (Ipv4Addr 192 168 1 2)"
proof -
  have "Ipv6Addr_new 0 0 0 0 0 0xffff 0xc0a8 0x0102 = Ipv4Addr_to_ipv6_mapped (Ipv4Addr 192 168 1 2)"
    by (simp add: Ipv4Addr_to_ipv6_mapped_def seg_join_def push_bit_eq_mult)
  then show ?thesis
    using to_ipv4_iff [OF wf_v6_new, of 0 0 0 0 0 "0xffff" "0xc0a8" "0x0102" "Ipv4Addr 192 168 1 2"]
    by (simp only: simp_thms)
qed

end
