(* ===== verification/Verbs.thy ===== *)
theory Verbs
  imports Net_Addr
begin

text \<open>
  The vocabulary of the verbs interface as KRdmaKit uses it: errors, the
  enumerations of the bindings, the attribute structures the code fills in,
  work requests, and the driver itself.  The enumerations keep the names of
  the C constants; flag words built with \<open>|\<close> are sets of flags, because the
  code only ever combines named bits.

  The verbs library or kernel driver is not part of the repository.  It is the
  parameter \<open>'d verbs\<close>: one function per entry point the code calls, over an
  abstract driver state \<open>'d\<close>.  The predicates at the end state what the
  documentation of these entry points promises; the properties that need one
  name it as a hypothesis, and \<open>Ref_Driver\<close> shows that they can hold.
\<close>

section \<open>Errors\<close>

type_synonym Error = i32

definition EINVAL :: Error where "EINVAL = -22"
definition ENOMEM :: Error where "ENOMEM = -12"
definition EFAULT :: Error where "EFAULT = -14"
definition ESPIPE :: Error where "ESPIPE = -29"
definition EAGAIN :: Error where "EAGAIN = -11"

datatype ControlpathError =
    ContextError string Error
  | CreationError string Error
  | CpInvalidArg string
  | QueryError string Error

datatype DatapathError =
    PostSendError Error
  | PostRecvError Error
  | PollCQError Error
  | TimeoutError
  | QPTypeError

datatype CMError =
    CMTimeout
  | CMCreation i32
  | CMCallbackError u32
  | CMSendError string Error
  | CMServerError string Error
  | CMInvalidArg string string
  | CMUnknown

section \<open>Enumerations\<close>

datatype ib_qp_state =
    IB_QPS_RESET | IB_QPS_INIT | IB_QPS_RTR | IB_QPS_RTS | IB_QPS_SQD | IB_QPS_SQE
  | IB_QPS_ERR | IB_QPS_UNKNOWN

datatype ib_mtu = IB_MTU_256 | IB_MTU_512 | IB_MTU_1024 | IB_MTU_2048 | IB_MTU_4096

datatype ib_qp_type = IB_QPT_RC | IB_QPT_UC | IB_QPT_UD | IB_EXP_QPT_DC_INI

datatype ib_access_flags =
    IB_ACCESS_LOCAL_WRITE | IB_ACCESS_REMOTE_WRITE | IB_ACCESS_REMOTE_READ
  | IB_ACCESS_REMOTE_ATOMIC | IB_ACCESS_MW_BIND | IB_ACCESS_ZERO_BASED | IB_ACCESS_ON_DEMAND

datatype ib_qp_attr_mask =
    IB_QP_STATE | IB_QP_CUR_STATE | IB_QP_EN_SQD_ASYNC_NOTIFY | IB_QP_ACCESS_FLAGS
  | IB_QP_PKEY_INDEX | IB_QP_PORT | IB_QP_QKEY | IB_QP_AV | IB_QP_PATH_MTU | IB_QP_TIMEOUT
  | IB_QP_RETRY_CNT | IB_QP_RNR_RETRY | IB_QP_RQ_PSN | IB_QP_MAX_QP_RD_ATOMIC | IB_QP_ALT_PATH
  | IB_QP_MIN_RNR_TIMER | IB_QP_SQ_PSN | IB_QP_MAX_DEST_RD_ATOMIC | IB_QP_PATH_MIG_STATE
  | IB_QP_CAP | IB_QP_DEST_QPN | IB_QP_DC_KEY

datatype ib_send_flags =
    IB_SEND_FENCE | IB_SEND_SIGNALED | IB_SEND_SOLICITED | IB_SEND_INLINE

datatype ib_wr_opcode =
    IB_WR_RDMA_WRITE | IB_WR_RDMA_WRITE_WITH_IMM | IB_WR_SEND | IB_WR_SEND_WITH_IMM
  | IB_WR_RDMA_READ | IB_WR_ATOMIC_CMP_AND_SWP | IB_WR_ATOMIC_FETCH_AND_ADD

datatype ibv_mw_type = IBV_MW_TYPE_1 | IBV_MW_TYPE_2

datatype QPType = RC | UD | WC | DC

datatype QueuePairStatus = Reset | Init | ReadyToSend | ReadyToRecv | QpError

section \<open>Attributes\<close>

text \<open>Pointers are addresses, null is 0.  \<open>NonNull::new\<close> checks for null only.
  \<open>ptr_is_err\<close> is the null test in user space and \<open>IS_ERR\<close>, the last page of the
  address space, in the kernel.\<close>

type_synonym ptr = u64
type_synonym ib_gid = "u8 list"

datatype space = Kernel | User

definition NonNull_new :: "ptr \<Rightarrow> ptr option" where
  "NonNull_new p = (if p = 0 then None else Some p)"

definition ptr_is_err :: "space \<Rightarrow> ptr \<Rightarrow> bool" where
  "ptr_is_err sp p = (case sp of User \<Rightarrow> p = 0 | Kernel \<Rightarrow> - 4095 \<le> p)"

definition MAP_FAILED :: ptr where "MAP_FAILED = - 1"

record ib_qp_cap =
  cap_max_send_wr :: u32
  cap_max_recv_wr :: u32
  cap_max_recv_sge :: u32
  cap_max_send_sge :: u32
  cap_max_inline_data :: u32

text \<open>\<open>ia_sig_req_wr\<close> is \<open>sq_sig_type = IB_SIGNAL_REQ_WR\<close> in the kernel and
  \<open>sq_sig_all = 0\<close> in user space: a request completes visibly only when asked.\<close>

record ib_qp_init_attr =
  ia_cap :: ib_qp_cap
  ia_sig_req_wr :: bool
  ia_qp_type :: ib_qp_type
  ia_send_cq :: ptr
  ia_recv_cq :: ptr
  ia_srq :: "ptr option"

record ib_global_route =
  grh_dgid :: ib_gid
  grh_hop_limit :: u8
  grh_flow_label :: u32
  grh_sgid_index :: u8

record ib_ah_attr =
  ah_port_num :: u8
  ah_dlid :: u32
  ah_is_global :: u8
  ah_sl :: u8
  ah_flags :: u8
  ah_src_path_bits :: u8
  ah_grh :: ib_global_route

definition grh_default :: ib_global_route where
  "grh_default = \<lparr> grh_dgid = replicate 16 0, grh_hop_limit = 0, grh_flow_label = 0, grh_sgid_index = 0 \<rparr>"

definition ah_default :: ib_ah_attr where
  "ah_default = \<lparr> ah_port_num = 0, ah_dlid = 0, ah_is_global = 0, ah_sl = 0, ah_flags = 0,
                  ah_src_path_bits = 0, ah_grh = grh_default \<rparr>"

record ib_qp_attr =
  qa_qp_state :: ib_qp_state
  qa_pkey_index :: u16
  qa_port_num :: u8
  qa_qkey :: u32
  qa_access_flags :: "ib_access_flags set"
  qa_path_mtu :: "ib_mtu option"
  qa_dest_qp_num :: u32
  qa_rq_psn :: u32
  qa_sq_psn :: u32
  qa_max_rd_atomic :: u8
  qa_max_dest_rd_atomic :: u8
  qa_min_rnr_timer :: u8
  qa_timeout :: u8
  qa_retry_cnt :: u8
  qa_rnr_retry :: u8
  qa_ah_attr :: ib_ah_attr

text \<open>\<open>Default::default()\<close> zeroes the structure; the zero state is \<open>IB_QPS_RESET\<close>
  and a zero MTU is no MTU.\<close>

definition qp_attr_default :: ib_qp_attr where
  "qp_attr_default =
     \<lparr> qa_qp_state = IB_QPS_RESET, qa_pkey_index = 0, qa_port_num = 0, qa_qkey = 0,
       qa_access_flags = {}, qa_path_mtu = None, qa_dest_qp_num = 0, qa_rq_psn = 0, qa_sq_psn = 0,
       qa_max_rd_atomic = 0, qa_max_dest_rd_atomic = 0, qa_min_rnr_timer = 0, qa_timeout = 0,
       qa_retry_cnt = 0, qa_rnr_retry = 0, qa_ah_attr = ah_default \<rparr>"

record ib_dct_init_attr =
  dct_cq :: ptr
  dct_srq :: ptr
  dct_dc_key :: u64
  dct_port :: u8
  dct_access :: "ib_access_flags set"
  dct_min_rnr_timer :: u8
  dct_inline_size :: u32
  dct_hop_limit :: u8
  dct_mtu :: ib_mtu

datatype ib_port_state =
  IB_PORT_NOP | IB_PORT_DOWN | IB_PORT_INIT | IB_PORT_ARMED | IB_PORT_ACTIVE | IB_PORT_ACTIVE_DEFER

record ib_port_attr =
  pa_state :: ib_port_state
  pa_lid :: u16

section \<open>Work requests\<close>

record ib_sge =
  sge_addr :: u64
  sge_length :: u32
  sge_lkey :: u32

datatype wr_target =
    WrNone
  | WrRdma u64 u32
  | WrAtomic u64 u32 u64 u64
  | WrUd ptr u32 u32
  | WrDc ptr u32 u64 u64 u32

text \<open>A send work request: \<open>WrRdma remote_addr rkey\<close>,
  \<open>WrAtomic remote_addr rkey compare_add swap\<close>, \<open>WrUd ah remote_qpn remote_qkey\<close>,
  \<open>WrDc ah dct_number dct_access_key remote_addr rkey\<close>.\<close>

record ib_send_wr =
  sw_wr_id :: u64
  sw_sg_list :: "ib_sge list"
  sw_opcode :: ib_wr_opcode
  sw_send_flags :: "ib_send_flags set"
  sw_imm_data :: u32
  sw_target :: wr_target

record ib_recv_wr =
  rw_wr_id :: u64
  rw_sg_list :: "ib_sge list"

record ib_wc =
  wc_wr_id :: u64
  wc_status :: u32
  wc_byte_len :: u32
  wc_imm_data :: u32
  wc_qp_num :: u32

section \<open>The driver\<close>

text \<open>The entry points in four groups: protection domains, memory and address
  handles; queues; queue pair state and keys; ports and memory mappings.\<close>

record 'd object_verbs =
  vb_open_device :: "'d \<Rightarrow> ptr \<times> 'd"
  vb_alloc_pd :: "'d \<Rightarrow> ptr \<times> 'd"
  vb_dealloc_pd :: "ptr \<Rightarrow> 'd \<Rightarrow> 'd"
  vb_get_dma_mr :: "ptr \<Rightarrow> ib_access_flags set \<Rightarrow> 'd \<Rightarrow> ptr \<times> 'd"
  vb_reg_mr :: "ptr \<Rightarrow> u64 \<Rightarrow> u64 \<Rightarrow> ib_access_flags set \<Rightarrow> 'd \<Rightarrow> ptr \<times> 'd"
  vb_dereg_mr :: "ptr \<Rightarrow> 'd \<Rightarrow> 'd"
  vb_alloc_mw :: "ptr \<Rightarrow> ibv_mw_type \<Rightarrow> 'd \<Rightarrow> ptr \<times> 'd"
  vb_dealloc_mw :: "ptr \<Rightarrow> 'd \<Rightarrow> i32 \<times> 'd"
  vb_create_ah :: "ptr \<Rightarrow> ib_ah_attr \<Rightarrow> 'd \<Rightarrow> ptr \<times> 'd"
  vb_destroy_ah :: "ptr \<Rightarrow> 'd \<Rightarrow> 'd"

record 'd queue_verbs = "'d object_verbs" +
  vb_create_cq :: "u32 \<Rightarrow> 'd \<Rightarrow> ptr \<times> 'd"
  vb_free_cq :: "ptr \<Rightarrow> 'd \<Rightarrow> 'd"
  vb_create_srq :: "u32 \<Rightarrow> u32 \<Rightarrow> 'd \<Rightarrow> ptr \<times> 'd"
  vb_destroy_srq :: "ptr \<Rightarrow> 'd \<Rightarrow> 'd"
  vb_create_qp :: "ib_qp_init_attr \<Rightarrow> 'd \<Rightarrow> ptr \<times> 'd"
  vb_destroy_qp :: "ptr \<Rightarrow> 'd \<Rightarrow> 'd"
  vb_create_dct :: "ib_dct_init_attr \<Rightarrow> 'd \<Rightarrow> ptr \<times> 'd"
  vb_destroy_dct :: "ptr \<Rightarrow> 'd \<Rightarrow> 'd"

record 'd state_verbs = "'d queue_verbs" +
  vb_modify_qp :: "ptr \<Rightarrow> ib_qp_attr \<Rightarrow> ib_qp_attr_mask set \<Rightarrow> 'd \<Rightarrow> i32 \<times> 'd"
  vb_query_qp :: "ptr \<Rightarrow> 'd \<Rightarrow> i32 \<times> ib_qp_state"
  vb_qp_num :: "ptr \<Rightarrow> 'd \<Rightarrow> u32"
  vb_dct_num :: "ptr \<Rightarrow> 'd \<Rightarrow> u32"
  vb_mr_lkey :: "ptr \<Rightarrow> 'd \<Rightarrow> u32"
  vb_mr_rkey :: "ptr \<Rightarrow> 'd \<Rightarrow> u32"
  vb_mw_rkey :: "ptr \<Rightarrow> 'd \<Rightarrow> u32"
  vb_mw_type :: "ptr \<Rightarrow> 'd \<Rightarrow> ibv_mw_type"
  vb_virt_to_phys :: "u64 \<Rightarrow> 'd \<Rightarrow> u64"
  vb_poll_cq :: "ptr \<Rightarrow> i32 \<Rightarrow> 'd \<Rightarrow> i32 \<times> ib_wc list \<times> 'd"

record 'd verbs = "'d state_verbs" +
  vb_query_port :: "u8 \<Rightarrow> 'd \<Rightarrow> i32 \<times> ib_port_attr"
  vb_query_gid :: "u8 \<Rightarrow> usize \<Rightarrow> 'd \<Rightarrow> i32 \<times> ib_gid"
  vb_mmap :: "u64 \<Rightarrow> 'd \<Rightarrow> ptr \<times> 'd"
  vb_munmap :: "u64 \<Rightarrow> u64 \<Rightarrow> 'd \<Rightarrow> 'd"
  vb_alloc :: "u64 \<Rightarrow> 'd \<Rightarrow> u64 \<times> 'd"
  vb_dealloc :: "u64 \<Rightarrow> 'd \<Rightarrow> 'd"

subsection \<open>Lifetimes of driver resources\<close>

datatype resource =
    RCtx ptr | RPd ptr | RMr ptr | RAh ptr | RCq ptr | RSrq ptr | RQp ptr | RDct ptr
  | RMap u64 | RMem u64

text \<open>\<open>allocates\<close>: a call whose result is not the failure value adds exactly one
  fresh resource, a failed one adds none.  \<open>frees\<close>: the call removes exactly the
  resource it names.  \<open>verbs_lifetimes\<close> is the contract of the user-space
  library, where a failed allocation is the null pointer.\<close>

definition allocates ::
  "('d \<Rightarrow> resource set) \<Rightarrow> (ptr \<Rightarrow> bool) \<Rightarrow> (ptr \<Rightarrow> resource) \<Rightarrow> ('d \<Rightarrow> ptr \<times> 'd) \<Rightarrow> bool"
where
  "allocates live bad mk f \<longleftrightarrow>
     (\<forall>d. case f d of (p, d') \<Rightarrow>
        if bad p then live d' = live d else mk p \<notin> live d \<and> live d' = insert (mk p) (live d))"

definition frees :: "('d \<Rightarrow> resource set) \<Rightarrow> (ptr \<Rightarrow> resource) \<Rightarrow> (ptr \<Rightarrow> 'd \<Rightarrow> 'd) \<Rightarrow> bool" where
  "frees live mk f \<longleftrightarrow> (\<forall>p d. live (f p d) = live d - {mk p})"

abbreviation is_null :: "ptr \<Rightarrow> bool" where
  "is_null p \<equiv> p = 0"

definition verbs_lifetimes :: "'d verbs \<Rightarrow> ('d \<Rightarrow> resource set) \<Rightarrow> bool" where
  "verbs_lifetimes v live \<longleftrightarrow>
     allocates live is_null RCtx (vb_open_device v)
   \<and> allocates live is_null RPd (vb_alloc_pd v) \<and> frees live RPd (vb_dealloc_pd v)
   \<and> (\<forall>pd fl. allocates live is_null RMr (vb_get_dma_mr v pd fl))
   \<and> (\<forall>pd a n fl. allocates live is_null RMr (vb_reg_mr v pd a n fl)) \<and> frees live RMr (vb_dereg_mr v)
   \<and> (\<forall>pd a. allocates live is_null RAh (vb_create_ah v pd a)) \<and> frees live RAh (vb_destroy_ah v)
   \<and> (\<forall>n. allocates live is_null RCq (vb_create_cq v n)) \<and> frees live RCq (vb_free_cq v)
   \<and> (\<forall>n s. allocates live is_null RSrq (vb_create_srq v n s)) \<and> frees live RSrq (vb_destroy_srq v)
   \<and> (\<forall>a. allocates live is_null RQp (vb_create_qp v a)) \<and> frees live RQp (vb_destroy_qp v)
   \<and> (\<forall>a. allocates live is_null RDct (vb_create_dct v a)) \<and> frees live RDct (vb_destroy_dct v)
   \<and> (\<forall>n. allocates live (\<lambda>p. p = MAP_FAILED) RMap (vb_mmap v n))
   \<and> (\<forall>n. frees live RMap (\<lambda>p. vb_munmap v p n))
   \<and> (\<forall>n. allocates live is_null RMem (vb_alloc v n)) \<and> frees live RMem (vb_dealloc v)
   \<and> (\<forall>p a m d. live (snd (vb_modify_qp v p a m d)) = live d)"

lemma allocatesD:
  assumes "allocates live bad mk f"
  shows "f d = (p, d') \<Longrightarrow> \<not> bad p \<Longrightarrow> mk p \<notin> live d \<and> live d' = insert (mk p) (live d)"
    and "f d = (p, d') \<Longrightarrow> bad p \<Longrightarrow> live d' = live d"
  using assms by (auto simp: allocates_def dest!: spec [of _ d])

lemma freesD: "frees live mk f \<Longrightarrow> live (f p d) = live d - {mk p}"
  by (simp add: frees_def)

lemma verbs_lifetimesD:
  assumes "verbs_lifetimes v live"
  shows "allocates live is_null RCtx (vb_open_device v)" "allocates live is_null RPd (vb_alloc_pd v)"
    "frees live RPd (vb_dealloc_pd v)" "allocates live is_null RMr (vb_get_dma_mr v pd fl)"
    "allocates live is_null RMr (vb_reg_mr v pd a n fl)" "frees live RMr (vb_dereg_mr v)"
    "allocates live is_null RAh (vb_create_ah v pd ah)" "frees live RAh (vb_destroy_ah v)"
    "allocates live is_null RCq (vb_create_cq v k)" "frees live RCq (vb_free_cq v)"
    "allocates live is_null RSrq (vb_create_srq v k s)" "frees live RSrq (vb_destroy_srq v)"
    "allocates live is_null RQp (vb_create_qp v ia)" "frees live RQp (vb_destroy_qp v)"
    "allocates live is_null RDct (vb_create_dct v da)" "frees live RDct (vb_destroy_dct v)"
    "allocates live (\<lambda>p. p = MAP_FAILED) RMap (vb_mmap v n)" "frees live RMap (\<lambda>p. vb_munmap v p n)"
    "allocates live is_null RMem (vb_alloc v n)"
    "frees live RMem (vb_dealloc v)" "live (snd (vb_modify_qp v p qa m d)) = live d"
  using assms unfolding verbs_lifetimes_def by simp_all

subsection \<open>Queue pair states\<close>

text \<open>
  \<open>qp_state_law\<close>: a successful \<open>ib_modify_qp\<close> puts the queue pair into the state
  named by the attribute (when \<open>IB_QP_STATE\<close> is in the mask) and leaves the other
  queue pairs alone, a failing one changes no state, and \<open>ib_query_qp\<close> reports
  the state when it succeeds.  \<open>ib_required\<close> is the table of mandatory
  attributes of the InfiniBand specification for the transitions used here;
  \<open>qp_accepts_law\<close> says that a transition with its mandatory attributes succeeds.
\<close>

definition qp_state_law :: "'d verbs \<Rightarrow> ('d \<Rightarrow> ptr \<Rightarrow> ib_qp_state) \<Rightarrow> bool" where
  "qp_state_law v st \<longleftrightarrow>
     (\<forall>p a m d. IB_QP_STATE \<in> m \<longrightarrow>
        st (snd (vb_modify_qp v p a m d)) =
          (if fst (vb_modify_qp v p a m d) = 0 then (st d)(p := qa_qp_state a) else st d))
   \<and> (\<forall>p a m d. vb_qp_num v p (snd (vb_modify_qp v p a m d)) = vb_qp_num v p d)
   \<and> (\<forall>p d. fst (vb_query_qp v p d) = 0 \<longrightarrow> snd (vb_query_qp v p d) = st d p)"

definition ib_required :: "QPType \<Rightarrow> ib_qp_state \<Rightarrow> ib_qp_state \<Rightarrow> ib_qp_attr_mask set option" where
  "ib_required ty s s' = map_of
     [((UD, IB_QPS_RESET, IB_QPS_INIT), {IB_QP_PKEY_INDEX, IB_QP_PORT, IB_QP_QKEY}),
      ((UD, IB_QPS_INIT, IB_QPS_RTR), {}),
      ((UD, IB_QPS_RTR, IB_QPS_RTS), {IB_QP_SQ_PSN}),
      ((RC, IB_QPS_RESET, IB_QPS_INIT), {IB_QP_PKEY_INDEX, IB_QP_PORT, IB_QP_ACCESS_FLAGS}),
      ((RC, IB_QPS_INIT, IB_QPS_RTR), {IB_QP_AV, IB_QP_PATH_MTU, IB_QP_DEST_QPN, IB_QP_RQ_PSN, IB_QP_MAX_DEST_RD_ATOMIC, IB_QP_MIN_RNR_TIMER}),
      ((RC, IB_QPS_RTR, IB_QPS_RTS), {IB_QP_TIMEOUT, IB_QP_RETRY_CNT, IB_QP_RNR_RETRY, IB_QP_SQ_PSN, IB_QP_MAX_QP_RD_ATOMIC}),
      ((DC, IB_QPS_RESET, IB_QPS_INIT), {IB_QP_PKEY_INDEX, IB_QP_PORT, IB_QP_DC_KEY}),
      ((DC, IB_QPS_INIT, IB_QPS_RTR), {IB_QP_AV, IB_QP_PATH_MTU}),
      ((DC, IB_QPS_RTR, IB_QPS_RTS), {IB_QP_TIMEOUT, IB_QP_RETRY_CNT, IB_QP_RNR_RETRY, IB_QP_MAX_QP_RD_ATOMIC})] (ty, s, s')"

definition qp_accepts_law :: "'d verbs \<Rightarrow> ('d \<Rightarrow> ptr \<Rightarrow> ib_qp_state) \<Rightarrow> QPType \<Rightarrow> ptr \<Rightarrow> bool" where
  "qp_accepts_law v st ty p \<longleftrightarrow>
     (\<forall>a m d req. ib_required ty (st d p) (qa_qp_state a) = Some req \<longrightarrow>
        m = insert IB_QP_STATE req \<longrightarrow> fst (vb_modify_qp v p a m d) = 0)
   \<and> (\<forall>d. fst (vb_query_qp v p d) = 0)"

end
