(* ===== verification/Resources.thy ===== *)
theory Resources
  imports Verbs
begin

unbundle bit_operations_syntax

text \<open>
  The objects of KRdmaKit that own one driver resource each: \<open>Context\<close> and
  \<open>AddressHandler\<close> (context.rs), \<open>CompletionQueue\<close> and \<open>SharedReceiveQueue\<close>
  (completion_queue.rs), \<open>MemoryRegion\<close> (memory_region.rs), \<open>MemoryWindow\<close>
  (memory_window.rs), \<open>Device\<close> (device.rs) and \<open>UDriver\<close> (udriver.rs).

  The crate is compiled for the kernel or for user space; \<open>space\<close> selects the
  \<open>cfg\<close> branch.  A \<open>Drop\<close> implementation is a function \<open>X_drop\<close>.  The context is
  held through an \<open>Arc\<close> by every object made from it, so that dropping such an
  object releases the object's own resource only.
\<close>

section \<open>Context and address handles\<close>

record Context =
  cx_kmr :: ptr
  cx_ctx :: ptr
  cx_pd :: ptr

text \<open>\<open>cx_kmr\<close> exists in the kernel build, \<open>cx_ctx\<close> in the user build; the field of
  the other build is 0.\<close>

definition Context_new_from_flags ::
  "space \<Rightarrow> 'd verbs \<Rightarrow> ib_access_flags set \<Rightarrow> 'd \<Rightarrow> (Context, ControlpathError) result \<times> 'd"
where
  "Context_new_from_flags sp v mr_flags d =
     (case sp of
        Kernel \<Rightarrow>
          (let (p, d) = vb_alloc_pd v d in
           case NonNull_new p of
             None \<Rightarrow> (Err (ContextError ''pd'' EAGAIN), d)
           | Some pd \<Rightarrow>
               (let (m, d) = vb_get_dma_mr v pd mr_flags d in
                case NonNull_new m of
                  None \<Rightarrow> (Err (ContextError ''mr'' EAGAIN), d)
                | Some kmr \<Rightarrow> (Ok \<lparr> cx_kmr = kmr, cx_ctx = 0, cx_pd = pd \<rparr>, d)))
      | User \<Rightarrow>
          (let (c, d) = vb_open_device v d in
           case NonNull_new c of
             None \<Rightarrow> (Err (ContextError ''ibv_context'' EAGAIN), d)
           | Some ctx \<Rightarrow>
               (let (p, d) = vb_alloc_pd v d in
                case NonNull_new p of
                  None \<Rightarrow> (Err (ContextError ''pd'' EAGAIN), d)
                | Some pd \<Rightarrow> (Ok \<lparr> cx_kmr = 0, cx_ctx = ctx, cx_pd = pd \<rparr>, d))))"

definition Context_new :: "space \<Rightarrow> 'd verbs \<Rightarrow> 'd \<Rightarrow> (Context, ControlpathError) result \<times> 'd" where
  "Context_new sp v d =
     (case sp of
        Kernel \<Rightarrow> Context_new_from_flags sp v
                    {IB_ACCESS_LOCAL_WRITE, IB_ACCESS_REMOTE_READ, IB_ACCESS_REMOTE_WRITE,
                     IB_ACCESS_REMOTE_ATOMIC} d
      | User \<Rightarrow> Context_new_from_flags sp v {} d)"

definition Context_lkey :: "'d verbs \<Rightarrow> Context \<Rightarrow> 'd \<Rightarrow> u32" where
  "Context_lkey v c d = vb_mr_lkey v (cx_kmr c) d"

definition Context_rkey :: "'d verbs \<Rightarrow> Context \<Rightarrow> 'd \<Rightarrow> u32" where
  "Context_rkey v c d = vb_mr_rkey v (cx_kmr c) d"

definition Context_drop :: "space \<Rightarrow> 'd verbs \<Rightarrow> Context \<Rightarrow> 'd \<Rightarrow> 'd" where
  "Context_drop sp v c d =
     vb_dealloc_pd v (cx_pd c) (case sp of Kernel \<Rightarrow> vb_dereg_mr v (cx_kmr c) d | User \<Rightarrow> d)"

record AddressHandler =
  ahd_inner :: ptr

text \<open>In user space \<open>dlid\<close> is a 16-bit field and \<open>sgid_index\<close> an 8-bit one, so
  both are truncated by \<open>as _\<close>.\<close>

definition ah_attr_of :: "space \<Rightarrow> u8 \<Rightarrow> usize \<Rightarrow> u32 \<Rightarrow> ib_gid \<Rightarrow> ib_ah_attr" where
  "ah_attr_of sp port_num gid_idx lid gid =
     (case sp of
        Kernel \<Rightarrow> ah_default \<lparr> ah_dlid := lid, ah_sl := 0, ah_port_num := port_num,
                               ah_grh := grh_default \<lparr> grh_dgid := gid \<rparr> \<rparr>
      | User \<Rightarrow> ah_default \<lparr> ah_port_num := port_num, ah_is_global := 1,
                             ah_dlid := ucast (ucast lid :: u16), ah_sl := 0, ah_src_path_bits := 0,
                             ah_grh := grh_default \<lparr> grh_dgid := gid, grh_flow_label := 0,
                                        grh_hop_limit := 255, grh_sgid_index := word_of_nat gid_idx \<rparr> \<rparr>)"

definition create_address_handler ::
  "space \<Rightarrow> 'd verbs \<Rightarrow> Context \<Rightarrow> u8 \<Rightarrow> usize \<Rightarrow> u32 \<Rightarrow> ib_gid \<Rightarrow> 'd
     \<Rightarrow> (AddressHandler, ControlpathError) result \<times> 'd"
where
  "create_address_handler sp v c port_num gid_idx lid gid d =
     (let (p, d) = vb_create_ah v (cx_pd c) (ah_attr_of sp port_num gid_idx lid gid) d in
      if ptr_is_err sp p then (Err (CreationError ''AddressHandler'' EAGAIN), d)
      else (Ok \<lparr> ahd_inner = p \<rparr>, d))"

definition AddressHandler_drop :: "'d verbs \<Rightarrow> AddressHandler \<Rightarrow> 'd \<Rightarrow> 'd" where
  "AddressHandler_drop v a d = vb_destroy_ah v (ahd_inner a) d"

section \<open>Devices\<close>

definition get_port_attr :: "'d verbs \<Rightarrow> u8 \<Rightarrow> 'd \<Rightarrow> (ib_port_attr, Error) result" where
  "get_port_attr v port_id d =
     (case vb_query_port v port_id d of (err, pa) \<Rightarrow> if err \<noteq> 0 then Err err else Ok pa)"

definition port_status :: "'d verbs \<Rightarrow> u8 \<Rightarrow> 'd \<Rightarrow> (ib_port_state, Error) result" where
  "port_status v port_id d = result_map pa_state (get_port_attr v port_id d)"

definition query_gid :: "'d verbs \<Rightarrow> u8 \<Rightarrow> usize \<Rightarrow> 'd \<Rightarrow> (ib_gid, Error) result" where
  "query_gid v port_id gid_idx d =
     (case vb_query_gid v port_id gid_idx d of (err, gid) \<Rightarrow> if err \<noteq> 0 then Err err else Ok gid)"

text \<open>\<open>first_valid_port\<close> walks the half-open range of ports given as a list.\<close>

fun first_valid_port :: "'d verbs \<Rightarrow> u8 list \<Rightarrow> 'd \<Rightarrow> u8 option" where
  "first_valid_port v [] d = None"
| "first_valid_port v (i # is) d =
     (case port_status v i d of
        Ok status \<Rightarrow>
          (if status \<noteq> IB_PORT_ACTIVE then first_valid_port v is d
           else (case query_gid v i 0 d of
                   Ok gid \<Rightarrow> Some i
                 | Err _ \<Rightarrow> first_valid_port v is d))
      | Err _ \<Rightarrow> first_valid_port v is d)"

definition Device_new :: "ptr \<Rightarrow> ptr option" where
  "Device_new dev = NonNull_new dev"

text \<open>\<open>UDriver::create\<close>: the device list of the driver is null or an array of
  device pointers; one null entry makes the whole call fail, after which the
  driver object made so far is dropped and frees the list.\<close>

record UDriver =
  rnics :: "ptr list"
  raw_devices :: "ptr list"

fun UDriver_wrap :: "ptr list \<Rightarrow> ptr list option" where
  "UDriver_wrap [] = Some []"
| "UDriver_wrap (p # ps) =
     (case Device_new p of
        None \<Rightarrow> None
      | Some dev \<Rightarrow> map_option (\<lambda>r. dev # r) (UDriver_wrap ps))"

definition UDriver_create :: "ptr list option \<Rightarrow> UDriver option" where
  "UDriver_create device_list =
     (case device_list of
        None \<Rightarrow> None
      | Some devices \<Rightarrow>
          (case UDriver_wrap devices of
             None \<Rightarrow> None
           | Some r \<Rightarrow> Some \<lparr> rnics = r, raw_devices = devices \<rparr>))"

definition get_dev :: "UDriver \<Rightarrow> nat \<Rightarrow> ptr option" where
  "get_dev u index = (if index < length (rnics u) then Some (rnics u ! index) else None)"

section \<open>Completion queues and shared receive queues\<close>

record CompletionQueue =
  cq_ptr :: ptr

definition CompletionQueue_create ::
  "'d verbs \<Rightarrow> Context \<Rightarrow> u32 \<Rightarrow> 'd \<Rightarrow> (CompletionQueue, ControlpathError) result \<times> 'd"
where
  "CompletionQueue_create v c max_cq_entries d =
     (let (p, d) = vb_create_cq v max_cq_entries d in
      if p = 0 then (Err (CreationError ''CQ'' EINVAL), d) else (Ok \<lparr> cq_ptr = p \<rparr>, d))"

definition CompletionQueue_drop :: "'d verbs \<Rightarrow> CompletionQueue \<Rightarrow> 'd \<Rightarrow> 'd" where
  "CompletionQueue_drop v q d = vb_free_cq v (cq_ptr q) d"

text \<open>
  \<open>poll\<close> hands the caller's buffer of completions to the driver, which fills
  its front, and returns the slice of the first \<open>n\<close> entries.  The result is
  None where slicing panics, that is when the driver claims more entries than
  the buffer holds.  The buffer length is passed as an \<open>i32\<close>.
\<close>

definition fill :: "'a list \<Rightarrow> 'a list \<Rightarrow> 'a list" where
  "fill new buf = take (length buf) (new @ drop (length new) buf)"

definition CompletionQueue_poll ::
  "'d verbs \<Rightarrow> CompletionQueue \<Rightarrow> ib_wc list \<Rightarrow> 'd
     \<Rightarrow> ((ib_wc list, DatapathError) result \<times> ib_wc list \<times> 'd) option"
where
  "CompletionQueue_poll v q completions d =
     (let (n, wcs, d) = vb_poll_cq v (cq_ptr q) (sint (word_of_nat (length completions) :: u32)) d;
          buf = fill wcs completions
      in if n < 0 then Some (Err (PollCQError EINVAL), buf, d)
         else if nat n \<le> length buf then Some (Ok (take (nat n) buf), buf, d)
         else None)"

record SharedReceiveQueue =
  srq_ptr :: ptr

definition SharedReceiveQueue_create ::
  "'d verbs \<Rightarrow> Context \<Rightarrow> u32 \<Rightarrow> u32 \<Rightarrow> 'd \<Rightarrow> (SharedReceiveQueue, ControlpathError) result \<times> 'd"
where
  "SharedReceiveQueue_create v c max_wr max_sge d =
     (let (p, d) = vb_create_srq v max_wr max_sge d in
      if p = 0 then (Err (CreationError ''SRQ'' EINVAL), d) else (Ok \<lparr> srq_ptr = p \<rparr>, d))"

definition SharedReceiveQueue_drop :: "'d verbs \<Rightarrow> SharedReceiveQueue \<Rightarrow> 'd \<Rightarrow> 'd" where
  "SharedReceiveQueue_drop v s d = vb_destroy_srq v (srq_ptr s) d"

section \<open>Memory regions and windows\<close>

definition MAX_CAPACITY :: u64 where "MAX_CAPACITY = 4 * 1024 * 1024"

text \<open>\<open>mr_handle\<close> and \<open>is_huge_page\<close> exist in the user build only.\<close>

record MemoryRegion =
  mr_ctx :: Context
  mr_data :: u64
  mr_capacity :: u64
  is_raw_ptr :: bool
  is_huge_page :: bool
  mr_handle :: ptr

definition mr_full_access :: "ib_access_flags set" where
  "mr_full_access = {IB_ACCESS_LOCAL_WRITE, IB_ACCESS_REMOTE_READ, IB_ACCESS_REMOTE_WRITE,
                     IB_ACCESS_REMOTE_ATOMIC, IB_ACCESS_MW_BIND}"

text \<open>The boxed slice is a local variable, so an early return frees it.  A failing
  heap allocation aborts, which is the result None.\<close>

definition MemoryRegion_new ::
  "space \<Rightarrow> 'd verbs \<Rightarrow> Context \<Rightarrow> u64 \<Rightarrow> 'd
     \<Rightarrow> ((MemoryRegion, ControlpathError) result \<times> 'd) option"
where
  "MemoryRegion_new sp v context capacity d =
     (if sp = Kernel \<and> MAX_CAPACITY < capacity then Some (Err (CpInvalidArg ''MR size''), d)
      else let (data, d) = vb_alloc v capacity d in
        if data = 0 then None
        else case sp of
          Kernel \<Rightarrow> Some (Ok \<lparr> mr_ctx = context, mr_data = data, mr_capacity = capacity,
                               is_raw_ptr = False, is_huge_page = False, mr_handle = 0 \<rparr>, d)
        | User \<Rightarrow>
            (let (p, d) = vb_reg_mr v (cx_pd context) data capacity mr_full_access d in
             case NonNull_new p of
               None \<Rightarrow> Some (Err (CreationError ''Failed to create MR'' EFAULT), vb_dealloc v data d)
             | Some mr \<Rightarrow> Some (Ok \<lparr> mr_ctx = context, mr_data = data, mr_capacity = capacity,
                                    is_raw_ptr = False, is_huge_page = False, mr_handle = mr \<rparr>, d)))"

definition align_to_hugepage_sz :: "u64 \<Rightarrow> u64 \<Rightarrow> u64" where
  "align_to_hugepage_sz x a = (x + a - 1) div a * a"

definition MemoryRegion_new_huge_page ::
  "'d verbs \<Rightarrow> Context \<Rightarrow> u64 \<Rightarrow> 'd \<Rightarrow> (MemoryRegion, ControlpathError) result \<times> 'd"
where
  "MemoryRegion_new_huge_page v context capacity d =
     (let capacity = align_to_hugepage_sz capacity (push_bit 20 2);
          (data, d) = vb_mmap v capacity d
      in if data = MAP_FAILED then (Err (CreationError ''Failed to create huge-page MR'' EFAULT), d)
         else let (p, d) = vb_reg_mr v (cx_pd context) data capacity mr_full_access d in
           case NonNull_new p of
             None \<Rightarrow> (Err (CreationError ''Failed to create MR'' EFAULT), d)
           | Some mr \<Rightarrow> (Ok \<lparr> mr_ctx = context, mr_data = data, mr_capacity = capacity,
                             is_raw_ptr = False, is_huge_page = True, mr_handle = mr \<rparr>, d))"

definition MemoryRegion_new_from_raw_user ::
  "'d verbs \<Rightarrow> Context \<Rightarrow> u64 \<Rightarrow> u64 \<Rightarrow> ib_access_flags set \<Rightarrow> 'd
     \<Rightarrow> (MemoryRegion, ControlpathError) result \<times> 'd"
where
  "MemoryRegion_new_from_raw_user v context p capacity mr_flags d =
     (let (m, d) = vb_reg_mr v (cx_pd context) p capacity mr_flags d in
      case NonNull_new m of
        None \<Rightarrow> (Err (CreationError ''Failed to create MR'' EFAULT), d)
      | Some mr \<Rightarrow> (Ok \<lparr> mr_ctx = context, mr_data = p, mr_capacity = capacity,
                        is_raw_ptr = True, is_huge_page = False, mr_handle = mr \<rparr>, d))"

definition MemoryRegion_new_from_raw_kernel ::
  "Context \<Rightarrow> u64 \<Rightarrow> u64 \<Rightarrow> (MemoryRegion, ControlpathError) result"
where
  "MemoryRegion_new_from_raw_kernel context p capacity =
     Ok \<lparr> mr_ctx = context, mr_data = p, mr_capacity = capacity, is_raw_ptr = True,
          is_huge_page = False, mr_handle = 0 \<rparr>"

definition get_rdma_addr :: "space \<Rightarrow> 'd verbs \<Rightarrow> MemoryRegion \<Rightarrow> 'd \<Rightarrow> u64" where
  "get_rdma_addr sp v mr d =
     (case sp of Kernel \<Rightarrow> vb_virt_to_phys v (mr_data mr) d | User \<Rightarrow> mr_data mr)"

definition mr_rkey :: "space \<Rightarrow> 'd verbs \<Rightarrow> MemoryRegion \<Rightarrow> 'd \<Rightarrow> u32" where
  "mr_rkey sp v mr d =
     (case sp of Kernel \<Rightarrow> Context_rkey v (mr_ctx mr) d | User \<Rightarrow> vb_mr_rkey v (mr_handle mr) d)"

definition mr_lkey :: "space \<Rightarrow> 'd verbs \<Rightarrow> MemoryRegion \<Rightarrow> 'd \<Rightarrow> u32" where
  "mr_lkey sp v mr d =
     (case sp of Kernel \<Rightarrow> Context_lkey v (mr_ctx mr) d | User \<Rightarrow> vb_mr_lkey v (mr_handle mr) d)"

definition MemoryRegion_drop :: "space \<Rightarrow> 'd verbs \<Rightarrow> MemoryRegion \<Rightarrow> 'd \<Rightarrow> 'd" where
  "MemoryRegion_drop sp v mr d =
     (let d = (case sp of User \<Rightarrow> vb_dereg_mr v (mr_handle mr) d | Kernel \<Rightarrow> d) in
      if is_raw_ptr mr then d
      else if sp = User \<and> is_huge_page mr then vb_munmap v (mr_data mr) (mr_capacity mr) d
      else vb_dealloc v (mr_data mr) d)"

record MemoryWindow =
  inner_mw :: ptr

datatype MWType = Type1 | Type2

definition MemoryWindow_new ::
  "'d verbs \<Rightarrow> Context \<Rightarrow> MWType \<Rightarrow> 'd \<Rightarrow> (MemoryWindow, ControlpathError) result \<times> 'd"
where
  "MemoryWindow_new v context mw_type d =
     (let ty = (case mw_type of Type1 \<Rightarrow> IBV_MW_TYPE_1 | Type2 \<Rightarrow> IBV_MW_TYPE_2);
          (p, d) = vb_alloc_mw v (cx_pd context) ty d
      in case NonNull_new p of
           None \<Rightarrow> (Err (CreationError ''Failed to create MR'' EFAULT), d)
         | Some mw \<Rightarrow> (Ok \<lparr> inner_mw = mw \<rparr>, d))"

definition mw_get_rkey :: "'d verbs \<Rightarrow> MemoryWindow \<Rightarrow> 'd \<Rightarrow> u32" where
  "mw_get_rkey v w d = vb_mw_rkey v (inner_mw w) d"

definition is_type_1 :: "'d verbs \<Rightarrow> MemoryWindow \<Rightarrow> 'd \<Rightarrow> bool" where
  "is_type_1 v w d \<longleftrightarrow> vb_mw_type v (inner_mw w) d = IBV_MW_TYPE_1"

definition is_type_2 :: "'d verbs \<Rightarrow> MemoryWindow \<Rightarrow> 'd \<Rightarrow> bool" where
  "is_type_2 v w d \<longleftrightarrow> vb_mw_type v (inner_mw w) d = IBV_MW_TYPE_2"

text \<open>A failing \<open>ibv_dealloc_mw\<close> is only printed.\<close>

definition MemoryWindow_drop :: "'d verbs \<Rightarrow> MemoryWindow \<Rightarrow> 'd \<Rightarrow> 'd" where
  "MemoryWindow_drop v w d = snd (vb_dealloc_mw v (inner_mw w) d)"

end
