(* ===== verification/Qp_Builder.thy ===== *)
theory Qp_Builder
  imports Resources
begin

text \<open>
  Queue pairs up to the point where they can be used: \<open>QueuePairBuilder\<close> and
  \<open>PreparedQueuePair\<close> (queue_pairs/builder.rs), \<open>QueuePair\<close> with its status query
  (queue_pairs/mod.rs), dynamically connected targets
  (queue_pairs/dynamic_connected_transport.rs) and the RC bring-up of both
  builds (operations_user.rs, operations_kernel.rs).

  A method that takes \<open>self\<close> by value owns the object: when it returns an error
  the queue pair is dropped, and with it the queue pair, both completion
  queues and the shared receive queue of the driver.  These drops are part of
  the definitions.
\<close>

section \<open>The builder\<close>

record QueuePairBuilder =
  qb_ctx :: Context
  qb_max_send_wr :: u32
  qb_max_recv_wr :: u32
  qb_max_cq_entries :: u32
  qb_max_send_sge :: u32
  qb_max_recv_sge :: u32
  qb_max_inline_data :: u32
  qb_access :: "ib_access_flags set"
  qb_path_mtu :: ib_mtu
  qb_timeout :: u8
  qb_retry_count :: u8
  qb_rnr_retry :: u8
  qb_min_rnr_timer :: u8
  qb_max_rd_atomic :: u8
  qb_pkey_index :: u16
  qb_port_num :: u8
  qb_qkey :: u32

definition MAX_RD_ATOMIC :: nat where "MAX_RD_ATOMIC = 16"

definition QueuePairBuilder_new :: "Context \<Rightarrow> QueuePairBuilder" where
  "QueuePairBuilder_new ctx =
     \<lparr> qb_ctx = ctx, qb_max_send_wr = 128, qb_max_recv_wr = 2048, qb_max_cq_entries = 128,
       qb_max_send_sge = 1, qb_max_recv_sge = 1, qb_max_inline_data = 64,
       qb_access = {IB_ACCESS_LOCAL_WRITE}, qb_path_mtu = IB_MTU_4096, qb_timeout = 20,
       qb_retry_count = 7, qb_rnr_retry = 7, qb_min_rnr_timer = 20,
       qb_max_rd_atomic = word_of_nat MAX_RD_ATOMIC, qb_pkey_index = 0, qb_port_num = 1,
       qb_qkey = 73 \<rparr>"

definition set_max_send_wr :: "u32 \<Rightarrow> QueuePairBuilder \<Rightarrow> QueuePairBuilder" where
  "set_max_send_wr x b = b \<lparr> qb_max_send_wr := x \<rparr>"
definition set_max_recv_wr :: "u32 \<Rightarrow> QueuePairBuilder \<Rightarrow> QueuePairBuilder" where
  "set_max_recv_wr x b = b \<lparr> qb_max_recv_wr := x \<rparr>"
definition set_max_cq_entries :: "u32 \<Rightarrow> QueuePairBuilder \<Rightarrow> QueuePairBuilder" where
  "set_max_cq_entries x b = b \<lparr> qb_max_cq_entries := x \<rparr>"
definition set_max_send_sge :: "u32 \<Rightarrow> QueuePairBuilder \<Rightarrow> QueuePairBuilder" where
  "set_max_send_sge x b = b \<lparr> qb_max_send_sge := x \<rparr>"
definition set_max_recv_sge :: "u32 \<Rightarrow> QueuePairBuilder \<Rightarrow> QueuePairBuilder" where
  "set_max_recv_sge x b = b \<lparr> qb_max_recv_sge := x \<rparr>"
definition set_max_inline_data :: "u32 \<Rightarrow> QueuePairBuilder \<Rightarrow> QueuePairBuilder" where
  "set_max_inline_data x b = b \<lparr> qb_max_inline_data := x \<rparr>"

definition set_access :: "ib_access_flags set \<Rightarrow> QueuePairBuilder \<Rightarrow> QueuePairBuilder" where
  "set_access x b = b \<lparr> qb_access := x \<rparr>"
definition allow_remote_rw :: "QueuePairBuilder \<Rightarrow> QueuePairBuilder" where
  "allow_remote_rw b = b \<lparr> qb_access := qb_access b \<union> {IB_ACCESS_REMOTE_WRITE, IB_ACCESS_REMOTE_READ} \<rparr>"
definition allow_remote_atomic :: "QueuePairBuilder \<Rightarrow> QueuePairBuilder" where
  "allow_remote_atomic b = b \<lparr> qb_access := qb_access b \<union> {IB_ACCESS_REMOTE_ATOMIC} \<rparr>"
definition set_timeout :: "u8 \<Rightarrow> QueuePairBuilder \<Rightarrow> QueuePairBuilder" where
  "set_timeout x b = b \<lparr> qb_timeout := x \<rparr>"
definition set_retry_count :: "u8 \<Rightarrow> QueuePairBuilder \<Rightarrow> QueuePairBuilder" where
  "set_retry_count x b = b \<lparr> qb_retry_count := x \<rparr>"
definition set_rnr_retry :: "u8 \<Rightarrow> QueuePairBuilder \<Rightarrow> QueuePairBuilder" where
  "set_rnr_retry x b = b \<lparr> qb_rnr_retry := x \<rparr>"
definition set_path_mtu :: "ib_mtu \<Rightarrow> QueuePairBuilder \<Rightarrow> QueuePairBuilder" where
  "set_path_mtu x b = b \<lparr> qb_path_mtu := x \<rparr>"
definition set_min_rnr_timer :: "u8 \<Rightarrow> QueuePairBuilder \<Rightarrow> QueuePairBuilder" where
  "set_min_rnr_timer x b = b \<lparr> qb_min_rnr_timer := x \<rparr>"
definition set_pkey_index :: "u16 \<Rightarrow> QueuePairBuilder \<Rightarrow> QueuePairBuilder" where
  "set_pkey_index x b = b \<lparr> qb_pkey_index := x \<rparr>"
definition set_port_num :: "u8 \<Rightarrow> QueuePairBuilder \<Rightarrow> QueuePairBuilder" where
  "set_port_num x b = b \<lparr> qb_port_num := x \<rparr>"
definition set_qkey :: "u32 \<Rightarrow> QueuePairBuilder \<Rightarrow> QueuePairBuilder" where
  "set_qkey x b = b \<lparr> qb_qkey := x \<rparr>"
definition set_max_rd_atomic :: "u8 \<Rightarrow> QueuePairBuilder \<Rightarrow> QueuePairBuilder" where
  "set_max_rd_atomic x b = b \<lparr> qb_max_rd_atomic := x \<rparr>"

section \<open>Queue pairs\<close>

record QueuePair =
  qp_ctx :: Context
  inner_qp :: ptr
  qp_send_cq :: CompletionQueue
  qp_recv_cq :: CompletionQueue
  qp_srq :: "SharedReceiveQueue option"
  qp_mode :: QPType
  qp_port_num :: u8
  qp_qkey :: u32
  qp_access :: "ib_access_flags set"
  qp_timeout :: u8
  qp_retry_count :: u8
  qp_rnr_retry :: u8
  qp_max_rd_atomic :: u8
  qp_min_rnr_timer :: u8
  qp_pkey_index :: u16
  qp_path_mtu :: ib_mtu

fun status_of :: "ib_qp_state \<Rightarrow> QueuePairStatus" where
  "status_of IB_QPS_RESET = Reset"
| "status_of IB_QPS_INIT = Init"
| "status_of IB_QPS_RTS = ReadyToSend"
| "status_of IB_QPS_RTR = ReadyToRecv"
| "status_of _ = QpError"

definition qp_status :: "'d verbs \<Rightarrow> QueuePair \<Rightarrow> 'd \<Rightarrow> (QueuePairStatus, ControlpathError) result" where
  "qp_status v qp d =
     (case vb_query_qp v (inner_qp qp) d of
        (ret, s) \<Rightarrow> if ret \<noteq> 0 then Err (QueryError ''QP status'' ret) else Ok (status_of s))"

definition qp_num :: "'d verbs \<Rightarrow> QueuePair \<Rightarrow> 'd \<Rightarrow> u32" where
  "qp_num v qp d = vb_qp_num v (inner_qp qp) d"

definition qp_lid :: "'d verbs \<Rightarrow> QueuePair \<Rightarrow> 'd \<Rightarrow> (u32, Error) result" where
  "qp_lid v qp d = result_map (\<lambda>pa. ucast (pa_lid pa)) (get_port_attr v (qp_port_num qp) d)"

definition qp_gid :: "'d verbs \<Rightarrow> QueuePair \<Rightarrow> 'd \<Rightarrow> (ib_gid, Error) result" where
  "qp_gid v qp d = query_gid v (qp_port_num qp) 0 d"

text \<open>What dropping a queue pair releases in the driver: \<open>drop\<close> destroys the queue
  pair, then its fields are dropped in the order of their declaration.  The
  receive completion queue is behind an \<open>Arc\<close> that only the queue pair holds.\<close>

definition drop_srq :: "'d verbs \<Rightarrow> SharedReceiveQueue option \<Rightarrow> 'd \<Rightarrow> 'd" where
  "drop_srq v s d = (case s of None \<Rightarrow> d | Some q \<Rightarrow> SharedReceiveQueue_drop v q d)"

definition QueuePair_drop :: "'d verbs \<Rightarrow> QueuePair \<Rightarrow> 'd \<Rightarrow> 'd" where
  "QueuePair_drop v qp d =
     (let d = vb_destroy_qp v (inner_qp qp) d;
          d = CompletionQueue_drop v (qp_send_cq qp) d;
          d = CompletionQueue_drop v (qp_recv_cq qp) d
      in drop_srq v (qp_srq qp) d)"

record PreparedQueuePair =
  pq_inner :: QueuePair
  pq_retry_count :: u8
  pq_rnr_retry :: u8
  pq_pkey_index :: u16
  pq_port_num :: u8
  pq_qkey :: u32

definition inner_qp_num :: "'d verbs \<Rightarrow> PreparedQueuePair \<Rightarrow> 'd \<Rightarrow> u32" where
  "inner_qp_num v pq d = qp_num v (pq_inner pq) d"

section \<open>Building\<close>

text \<open>\<open>build_inner\<close> owns both completion queues and the shared receive queue; on a
  null queue pair they are dropped as parameters, last one first.\<close>

definition build_inner ::
  "'d verbs \<Rightarrow> QueuePairBuilder \<Rightarrow> ptr \<Rightarrow> CompletionQueue \<Rightarrow> CompletionQueue \<Rightarrow> QPType
     \<Rightarrow> SharedReceiveQueue option \<Rightarrow> 'd \<Rightarrow> (PreparedQueuePair, ControlpathError) result \<times> 'd"
where
  "build_inner v b qp_ptr send recv qp_type srq d =
     (case NonNull_new qp_ptr of
        None \<Rightarrow>
          (Err (CreationError ''QP'' EAGAIN),
           CompletionQueue_drop v send (CompletionQueue_drop v recv (drop_srq v srq d)))
      | Some p \<Rightarrow>
          (Ok \<lparr> pq_inner =
                  \<lparr> qp_ctx = qb_ctx b, inner_qp = p, qp_send_cq = send, qp_recv_cq = recv, qp_srq = srq,
                    qp_mode = qp_type, qp_port_num = qb_port_num b, qp_qkey = qb_qkey b,
                    qp_access = qb_access b, qp_timeout = qb_timeout b,
                    qp_retry_count = qb_retry_count b, qp_rnr_retry = qb_rnr_retry b,
                    qp_max_rd_atomic = qb_max_rd_atomic b, qp_min_rnr_timer = qb_min_rnr_timer b,
                    qp_pkey_index = qb_pkey_index b, qp_path_mtu = qb_path_mtu b \<rparr>,
                pq_retry_count = qb_retry_count b, pq_rnr_retry = qb_rnr_retry b,
                pq_pkey_index = qb_pkey_index b, pq_port_num = qb_port_num b,
                pq_qkey = qb_qkey b \<rparr>, d))"

text \<open>The two completion queues every kind of queue pair starts with.  When the
  second cannot be created the first is dropped.\<close>

definition create_cqs ::
  "'d verbs \<Rightarrow> QueuePairBuilder \<Rightarrow> 'd
     \<Rightarrow> (CompletionQueue \<times> CompletionQueue, ControlpathError) result \<times> 'd"
where
  "create_cqs v b d =
     (case CompletionQueue_create v (qb_ctx b) (qb_max_cq_entries b) d of
        (Err e, d) \<Rightarrow> (Err e, d)
      | (Ok send, d) \<Rightarrow>
          (case CompletionQueue_create v (qb_ctx b) (qb_max_cq_entries b) d of
             (Err e, d) \<Rightarrow> (Err e, CompletionQueue_drop v send d)
           | (Ok recv, d) \<Rightarrow> (Ok (send, recv), d)))"

definition qp_init_attr ::
  "QueuePairBuilder \<Rightarrow> u32 \<Rightarrow> ib_qp_type \<Rightarrow> CompletionQueue \<Rightarrow> CompletionQueue
     \<Rightarrow> SharedReceiveQueue option \<Rightarrow> ib_qp_init_attr"
where
  "qp_init_attr b max_recv_wr ty send recv srq =
     \<lparr> ia_cap = \<lparr> cap_max_send_wr = qb_max_send_wr b, cap_max_recv_wr = max_recv_wr,
                  cap_max_recv_sge = qb_max_recv_sge b, cap_max_send_sge = qb_max_send_sge b,
                  cap_max_inline_data = qb_max_inline_data b \<rparr>,
       ia_sig_req_wr = True, ia_qp_type = ty, ia_send_cq = cq_ptr send, ia_recv_cq = cq_ptr recv,
       ia_srq = map_option srq_ptr srq \<rparr>"

definition build_ud ::
  "'d verbs \<Rightarrow> QueuePairBuilder \<Rightarrow> 'd \<Rightarrow> (PreparedQueuePair, ControlpathError) result \<times> 'd"
where
  "build_ud v b d =
     (case create_cqs v b d of
        (Err e, d) \<Rightarrow> (Err e, d)
      | (Ok (send, recv), d) \<Rightarrow>
          (let (qp, d) = vb_create_qp v (qp_init_attr b (qb_max_recv_wr b) IB_QPT_UD send recv None) d
           in build_inner v b qp send recv UD None d))"

definition build_rc ::
  "'d verbs \<Rightarrow> QueuePairBuilder \<Rightarrow> 'd \<Rightarrow> (PreparedQueuePair, ControlpathError) result \<times> 'd"
where
  "build_rc v b d =
     (case create_cqs v b d of
        (Err e, d) \<Rightarrow> (Err e, d)
      | (Ok (send, recv), d) \<Rightarrow>
          (let (qp, d) = vb_create_qp v (qp_init_attr b (qb_max_recv_wr b) IB_QPT_RC send recv None) d
           in build_inner v b qp send recv RC None d))"

definition build_dc ::
  "'d verbs \<Rightarrow> QueuePairBuilder \<Rightarrow> 'd \<Rightarrow> (PreparedQueuePair, ControlpathError) result \<times> 'd"
where
  "build_dc v b d =
     (case create_cqs v b d of
        (Err e, d) \<Rightarrow> (Err e, d)
      | (Ok (send, recv), d) \<Rightarrow>
          (case SharedReceiveQueue_create v (qb_ctx b) (qb_max_recv_wr b) (qb_max_recv_sge b) d of
             (Err e, d) \<Rightarrow> (Err e, CompletionQueue_drop v send (CompletionQueue_drop v recv d))
           | (Ok srq, d) \<Rightarrow>
               (let (qp, d) = vb_create_qp v (qp_init_attr b 0 IB_EXP_QPT_DC_INI send recv (Some srq)) d
                in build_inner v b qp send recv DC (Some srq) d)))"

section \<open>Dynamically connected targets\<close>

record DynamicConnectedTarget =
  dt_inner_target :: ptr
  dt_send_cq :: CompletionQueue
  dt_recv_cq :: CompletionQueue
  dt_srq :: SharedReceiveQueue
  dt_key :: u64
  dt_port_num :: u8

definition build_dynamic_connected_target ::
  "'d verbs \<Rightarrow> QueuePairBuilder \<Rightarrow> u64 \<Rightarrow> 'd
     \<Rightarrow> (DynamicConnectedTarget, ControlpathError) result \<times> 'd"
where
  "build_dynamic_connected_target v b dc_key d =
     (case create_cqs v b d of
        (Err e, d) \<Rightarrow> (Err e, d)
      | (Ok (send, recv), d) \<Rightarrow>
          (case SharedReceiveQueue_create v (qb_ctx b) (qb_max_recv_wr b) (qb_max_recv_sge b) d of
             (Err e, d) \<Rightarrow> (Err e, CompletionQueue_drop v send (CompletionQueue_drop v recv d))
           | (Ok srq, d) \<Rightarrow>
               (let (dct, d) = vb_create_dct v
                      \<lparr> dct_cq = cq_ptr send, dct_srq = srq_ptr srq, dct_dc_key = dc_key,
                        dct_port = qb_port_num b, dct_access = qb_access b,
                        dct_min_rnr_timer = qb_min_rnr_timer b, dct_inline_size = qb_max_inline_data b,
                        dct_hop_limit = 1, dct_mtu = qb_path_mtu b \<rparr> d
                in if dct = 0
                   then (Err (CreationError ''DCT'' EAGAIN),
                         CompletionQueue_drop v send (CompletionQueue_drop v recv
                           (SharedReceiveQueue_drop v srq d)))
                   else (Ok \<lparr> dt_inner_target = dct, dt_send_cq = send, dt_recv_cq = recv,
                              dt_srq = srq, dt_key = dc_key, dt_port_num = qb_port_num b \<rparr>, d))))"

definition DynamicConnectedTarget_drop :: "'d verbs \<Rightarrow> DynamicConnectedTarget \<Rightarrow> 'd \<Rightarrow> 'd" where
  "DynamicConnectedTarget_drop v t d =
     (let d = vb_destroy_dct v (dt_inner_target t) d;
          d = CompletionQueue_drop v (dt_send_cq t) d;
          d = CompletionQueue_drop v (dt_recv_cq t) d
      in SharedReceiveQueue_drop v (dt_srq t) d)"

section \<open>Bringing queue pairs up\<close>

text \<open>One call of \<open>ib_modify_qp\<close> with its error message, and the sequencing of
  such calls: an error ends the sequence.\<close>

definition modify ::
  "'d verbs \<Rightarrow> QueuePair \<Rightarrow> string \<Rightarrow> ib_qp_attr \<Rightarrow> ib_qp_attr_mask set \<Rightarrow> 'd
     \<Rightarrow> (unit, ControlpathError) result \<times> 'd"
where
  "modify v qp msg attr msk d =
     (let (ret, d) = vb_modify_qp v (inner_qp qp) attr msk d in
      if ret \<noteq> 0 then (Err (CreationError msg ret), d) else (Ok (), d))"

definition and_then :: "('a, 'e) result \<times> 'd \<Rightarrow> ('a \<Rightarrow> 'd \<Rightarrow> ('b, 'e) result \<times> 'd) \<Rightarrow> ('b, 'e) result \<times> 'd" where
  "and_then r k = (case r of (Ok x, d) \<Rightarrow> k x d | (Err e, d) \<Rightarrow> (Err e, d))"

lemma and_then_simps [simp]:
  "and_then (Ok x, d) k = k x d"
  "and_then (Err e, d) k = (Err e, d)"
  by (simp_all add: and_then_def)

text \<open>The consuming methods: the queue pair is returned on success and dropped on
  error.\<close>

definition consume ::
  "'d verbs \<Rightarrow> QueuePair \<Rightarrow> (unit, ControlpathError) result \<times> 'd
     \<Rightarrow> (QueuePair, ControlpathError) result \<times> 'd"
where
  "consume v qp r = (case r of (Ok _, d) \<Rightarrow> (Ok qp, d) | (Err e, d) \<Rightarrow> (Err e, QueuePair_drop v qp d))"

subsection \<open>UD\<close>

definition bring_up_ud_steps ::
  "'d verbs \<Rightarrow> PreparedQueuePair \<Rightarrow> 'd \<Rightarrow> (unit, ControlpathError) result \<times> 'd"
where
  "bring_up_ud_steps v pq d =
     (let qp = pq_inner pq in
      and_then (modify v qp ''bring UD INIT error''
                  (qp_attr_default \<lparr> qa_qp_state := IB_QPS_INIT, qa_pkey_index := pq_pkey_index pq,
                                     qa_port_num := pq_port_num pq, qa_qkey := pq_qkey pq \<rparr>)
                  {IB_QP_STATE, IB_QP_PKEY_INDEX, IB_QP_PORT, IB_QP_QKEY} d) (\<lambda>_ d.
      and_then (modify v qp ''bring UD RTR error''
                  (qp_attr_default \<lparr> qa_qp_state := IB_QPS_RTR \<rparr>) {IB_QP_STATE} d) (\<lambda>_ d.
      modify v qp ''bring UD RTS error''
        (qp_attr_default \<lparr> qa_qp_state := IB_QPS_RTS, qa_sq_psn := qp_num v qp d \<rparr>)
        {IB_QP_STATE, IB_QP_SQ_PSN} d)))"

definition bring_up_ud ::
  "'d verbs \<Rightarrow> PreparedQueuePair \<Rightarrow> 'd \<Rightarrow> (QueuePair, ControlpathError) result \<times> 'd"
where
  "bring_up_ud v pq d =
     consume v (pq_inner pq)
       (if qp_mode (pq_inner pq) \<noteq> UD then (Err (CreationError ''bring up type check error!'' 0), d)
        else case qp_status v (pq_inner pq) d of
               Err e \<Rightarrow> (Err e, d)
             | Ok st \<Rightarrow> if st = Reset then bring_up_ud_steps v pq d else (Ok (), d))"

subsection \<open>RC\<close>

definition rc_init_attr :: "QueuePair \<Rightarrow> ib_qp_attr" where
  "rc_init_attr qp =
     qp_attr_default \<lparr> qa_qp_state := IB_QPS_INIT, qa_pkey_index := qp_pkey_index qp,
                       qa_port_num := qp_port_num qp, qa_access_flags := qp_access qp \<rparr>"

definition rc_rtr_attr :: "QueuePair \<Rightarrow> ib_ah_attr \<Rightarrow> u32 \<Rightarrow> u32 \<Rightarrow> ib_qp_attr" where
  "rc_rtr_attr qp ah remote_qpn rq_psn =
     qp_attr_default \<lparr> qa_qp_state := IB_QPS_RTR, qa_path_mtu := Some (qp_path_mtu qp),
                       qa_dest_qp_num := remote_qpn, qa_rq_psn := rq_psn,
                       qa_max_dest_rd_atomic := qp_max_rd_atomic qp,
                       qa_min_rnr_timer := qp_min_rnr_timer qp, qa_ah_attr := ah \<rparr>"

definition rc_rts_attr :: "'d verbs \<Rightarrow> QueuePair \<Rightarrow> 'd \<Rightarrow> ib_qp_attr" where
  "rc_rts_attr v qp d =
     qp_attr_default \<lparr> qa_qp_state := IB_QPS_RTS, qa_timeout := qp_timeout qp,
                       qa_retry_cnt := qp_retry_count qp, qa_rnr_retry := qp_rnr_retry qp,
                       qa_sq_psn := qp_num v qp d, qa_max_rd_atomic := qp_max_rd_atomic qp \<rparr>"

definition rc_init_mask :: "ib_qp_attr_mask set" where
  "rc_init_mask = {IB_QP_STATE, IB_QP_PKEY_INDEX, IB_QP_PORT, IB_QP_ACCESS_FLAGS}"

definition rc_rtr_mask :: "ib_qp_attr_mask set" where
  "rc_rtr_mask = {IB_QP_STATE, IB_QP_AV, IB_QP_PATH_MTU, IB_QP_DEST_QPN, IB_QP_RQ_PSN,
                  IB_QP_MAX_DEST_RD_ATOMIC, IB_QP_MIN_RNR_TIMER}"

definition rc_rts_mask :: "ib_qp_attr_mask set" where
  "rc_rts_mask = {IB_QP_STATE, IB_QP_TIMEOUT, IB_QP_RETRY_CNT, IB_QP_RNR_RETRY, IB_QP_SQ_PSN,
                  IB_QP_MAX_QP_RD_ATOMIC}"

text \<open>The user build; its RTS attributes also carry \<open>max_dest_rd_atomic\<close>.\<close>

definition bring_up_rc_inner_user ::
  "'d verbs \<Rightarrow> QueuePair \<Rightarrow> u32 \<Rightarrow> ib_gid \<Rightarrow> u32 \<Rightarrow> u32 \<Rightarrow> 'd
     \<Rightarrow> (unit, ControlpathError) result \<times> 'd"
where
  "bring_up_rc_inner_user v qp lid gid remote_qpn rq_psn d =
     (if qp_mode qp \<noteq> RC then (Err (CreationError ''bring up type check log::error!'' 0), d)
      else case qp_status v qp d of
        Err e \<Rightarrow> (Err e, d)
      | Ok st \<Rightarrow>
          (if st = Reset then
             and_then (modify v qp ''bringRC INIT error'' (rc_init_attr qp) rc_init_mask d) (\<lambda>_ d.
             and_then (modify v qp ''bring RC RTR error''
                         (rc_rtr_attr qp
                            (ah_default \<lparr> ah_port_num := qp_port_num qp,
                                          ah_dlid := ucast (ucast lid :: u16), ah_is_global := 1,
                                          ah_grh := grh_default \<lparr> grh_dgid := gid, grh_hop_limit := 255,
                                                       grh_flow_label := 0, grh_sgid_index := 0 \<rparr> \<rparr>)
                            remote_qpn rq_psn) rc_rtr_mask d) (\<lambda>_ d.
             modify v qp ''bring RC RTS error''
               (rc_rts_attr v qp d \<lparr> qa_max_dest_rd_atomic := qp_max_rd_atomic qp \<rparr>) rc_rts_mask d))
           else (Ok (), d)))"

definition bring_up_rc_inner_kernel ::
  "'d verbs \<Rightarrow> QueuePair \<Rightarrow> u32 \<Rightarrow> ib_gid \<Rightarrow> u32 \<Rightarrow> u32 \<Rightarrow> 'd
     \<Rightarrow> (unit, ControlpathError) result \<times> 'd"
where
  "bring_up_rc_inner_kernel v qp lid gid remote_qpn rq_psn d =
     (if qp_mode qp \<noteq> RC then (Err (CreationError ''bring up type check log::error!'' 0), d)
      else case qp_status v qp d of
        Err e \<Rightarrow> (Err e, d)
      | Ok st \<Rightarrow>
          (if st = Reset then
             and_then (modify v qp ''bringRC INIT error'' (rc_init_attr qp) rc_init_mask d) (\<lambda>_ d.
             and_then (modify v qp ''bring RC RTR error''
                         (rc_rtr_attr qp
                            (ah_default \<lparr> ah_sl := 0, ah_port_num := qp_port_num qp, ah_dlid := lid,
                                          ah_grh := grh_default \<lparr> grh_sgid_index := 0, grh_flow_label := 0,
                                                       grh_hop_limit := 255, grh_dgid := gid \<rparr> \<rparr>)
                            remote_qpn rq_psn) rc_rtr_mask d) (\<lambda>_ d.
             modify v qp ''bring RC RTS error'' (rc_rts_attr v qp d) rc_rts_mask d))
           else (Ok (), d)))"

definition bring_up_rc_inner ::
  "space \<Rightarrow> 'd verbs \<Rightarrow> QueuePair \<Rightarrow> u32 \<Rightarrow> ib_gid \<Rightarrow> u32 \<Rightarrow> u32 \<Rightarrow> 'd
     \<Rightarrow> (unit, ControlpathError) result \<times> 'd"
where
  "bring_up_rc_inner sp =
     (case sp of Kernel \<Rightarrow> bring_up_rc_inner_kernel | User \<Rightarrow> bring_up_rc_inner_user)"

definition bring_up_rc ::
  "space \<Rightarrow> 'd verbs \<Rightarrow> PreparedQueuePair \<Rightarrow> u32 \<Rightarrow> ib_gid \<Rightarrow> u32 \<Rightarrow> u32 \<Rightarrow> 'd
     \<Rightarrow> (QueuePair, ControlpathError) result \<times> 'd"
where
  "bring_up_rc sp v pq lid gid remote_qpn rq_psn d =
     consume v (pq_inner pq) (bring_up_rc_inner sp v (pq_inner pq) lid gid remote_qpn rq_psn d)"

subsection \<open>DC\<close>

text \<open>The status is read again before each transition.\<close>

definition when_status ::
  "'d verbs \<Rightarrow> QueuePair \<Rightarrow> QueuePairStatus \<Rightarrow> ('d \<Rightarrow> (unit, ControlpathError) result \<times> 'd) \<Rightarrow> 'd
     \<Rightarrow> (unit, ControlpathError) result \<times> 'd"
where
  "when_status v qp st act d =
     (case qp_status v qp d of Err e \<Rightarrow> (Err e, d) | Ok s \<Rightarrow> if s = st then act d else (Ok (), d))"

definition bring_up_dc ::
  "'d verbs \<Rightarrow> PreparedQueuePair \<Rightarrow> 'd \<Rightarrow> (QueuePair, ControlpathError) result \<times> 'd"
where
  "bring_up_dc v pq d =
     (let qp = pq_inner pq in
      consume v qp
        (if qp_mode qp \<noteq> DC then (Err (CreationError ''bring up type check error!'' 0), d)
         else
           and_then (when_status v qp Reset
             (modify v qp ''bring DC INIT error''
                (qp_attr_default \<lparr> qa_qp_state := IB_QPS_INIT, qa_pkey_index := pq_pkey_index pq,
                                   qa_port_num := pq_port_num pq \<rparr>)
                {IB_QP_STATE, IB_QP_PKEY_INDEX, IB_QP_PORT, IB_QP_DC_KEY}) d) (\<lambda>_ d.
           and_then (when_status v qp Init
             (modify v qp ''bring DC RTR error''
                (qp_attr_default \<lparr> qa_qp_state := IB_QPS_RTR, qa_path_mtu := Some (qp_path_mtu qp),
                   qa_ah_attr := ah_default \<lparr> ah_port_num := pq_port_num pq, ah_sl := 0, ah_flags := 0 \<rparr> \<rparr>)
                {IB_QP_STATE, IB_QP_PATH_MTU, IB_QP_AV}) d) (\<lambda>_ d.
           when_status v qp ReadyToRecv
             (modify v qp ''bring DC RTS error''
                (qp_attr_default \<lparr> qa_qp_state := IB_QPS_RTS, qa_timeout := qp_timeout qp,
                   qa_retry_cnt := pq_retry_count pq, qa_rnr_retry := pq_rnr_retry pq,
                   qa_max_rd_atomic := qp_max_rd_atomic qp \<rparr>)
                {IB_QP_STATE, IB_QP_TIMEOUT, IB_QP_RETRY_CNT, IB_QP_RNR_RETRY,
                 IB_QP_MAX_QP_RD_ATOMIC}) d))))"

end
