(* ===== verification/Ref_Driver.thy ===== *)
theory Ref_Driver
  imports Resources
begin

text \<open>
  A concrete driver that keeps the contracts of \<open>Verbs\<close>.  It hands out
  increasing addresses, tracks the live resources, the state of every queue
  pair, the memory of a user process and objects in kernel memory, checks the
  mandatory attributes of a transition, and fails an allocation once a budget is
  used up.  It serves the witnesses: it shows that
  the contracts are consistent and evaluates the model on concrete inputs.
\<close>

record ref_state =
  rs_next :: u64
  rs_budget :: nat
  rs_live :: "resource set"
  rs_qp :: "ptr \<Rightarrow> ib_qp_state"
  rs_user :: "u64 \<Rightarrow> u8 option"
  rs_kmem :: "u64 \<Rightarrow> u64 list"

definition ref_alloc :: "(ptr \<Rightarrow> resource) \<Rightarrow> ptr \<Rightarrow> ref_state \<Rightarrow> ptr \<times> ref_state" where
  "ref_alloc mk bad d =
     (if rs_budget d = 0 \<or> rs_next d = 0 \<or> rs_next d = bad \<or> mk (rs_next d) \<in> rs_live d then (bad, d)
      else (rs_next d, d \<lparr> rs_next := rs_next d + 1, rs_budget := rs_budget d - 1,
                           rs_live := insert (mk (rs_next d)) (rs_live d),
                           rs_qp := (rs_qp d)(rs_next d := IB_QPS_RESET) \<rparr>))"

definition ref_free :: "(ptr \<Rightarrow> resource) \<Rightarrow> ptr \<Rightarrow> ref_state \<Rightarrow> ref_state" where
  "ref_free mk p d = d \<lparr> rs_live := rs_live d - {mk p} \<rparr>"

definition ref_modify ::
  "ptr \<Rightarrow> ib_qp_attr \<Rightarrow> ib_qp_attr_mask set \<Rightarrow> ref_state \<Rightarrow> i32 \<times> ref_state"
where
  "ref_modify p a m d =
     (if \<exists>ty \<in> {RC, UD, DC}. map_option (insert IB_QP_STATE) (ib_required ty (rs_qp d p) (qa_qp_state a)) = Some m
      then (0, d \<lparr> rs_qp := (rs_qp d)(p := qa_qp_state a) \<rparr>) else (EINVAL, d))"

definition ref_verbs :: "ref_state verbs" where
  "ref_verbs =
     \<lparr> vb_open_device = ref_alloc RCtx 0,
       vb_alloc_pd = ref_alloc RPd 0, vb_dealloc_pd = ref_free RPd,
       vb_get_dma_mr = (\<lambda>_ _. ref_alloc RMr 0), vb_reg_mr = (\<lambda>_ _ _ _. ref_alloc RMr 0),
       vb_dereg_mr = ref_free RMr,
       vb_alloc_mw = (\<lambda>_ _ d. (rs_next d, d)), vb_dealloc_mw = (\<lambda>_ d. (0, d)),
       vb_create_ah = (\<lambda>_ _. ref_alloc RAh 0), vb_destroy_ah = ref_free RAh,
       vb_create_cq = (\<lambda>_. ref_alloc RCq 0), vb_free_cq = ref_free RCq,
       vb_create_srq = (\<lambda>_ _. ref_alloc RSrq 0), vb_destroy_srq = ref_free RSrq,
       vb_create_qp = (\<lambda>_. ref_alloc RQp 0), vb_destroy_qp = ref_free RQp,
       vb_create_dct = (\<lambda>_. ref_alloc RDct 0), vb_destroy_dct = ref_free RDct,
       vb_modify_qp = ref_modify,
       vb_query_qp = (\<lambda>p d. (0, rs_qp d p)),
       vb_qp_num = (\<lambda>p _. ucast p), vb_dct_num = (\<lambda>p _. ucast p),
       vb_mr_lkey = (\<lambda>p _. ucast p), vb_mr_rkey = (\<lambda>p _. ucast p + 1),
       vb_mw_rkey = (\<lambda>p _. ucast p), vb_mw_type = (\<lambda>_ _. IBV_MW_TYPE_1),
       vb_virt_to_phys = (\<lambda>a _. a),
       vb_poll_cq = (\<lambda>_ _ d. (0, [], d)),
       vb_query_port = (\<lambda>i _. (0, \<lparr> pa_state = (if i = 1 then IB_PORT_ACTIVE else IB_PORT_DOWN), pa_lid = 7 \<rparr>)),
       vb_query_gid = (\<lambda>_ _ _. (0, replicate 16 9)),
       vb_mmap = (\<lambda>_. ref_alloc RMap MAP_FAILED), vb_munmap = (\<lambda>p _. ref_free RMap p),
       vb_alloc = (\<lambda>_. ref_alloc RMem 0), vb_dealloc = ref_free RMem \<rparr>"

definition ref_init :: "nat \<Rightarrow> ref_state" where
  "ref_init budget =
     \<lparr> rs_next = 16, rs_budget = budget, rs_live = {}, rs_qp = (\<lambda>_. IB_QPS_RESET), rs_user = (\<lambda>_. Some 0), rs_kmem = (\<lambda>_. []) \<rparr>"

definition demo_ctx :: Context where
  "demo_ctx = \<lparr> cx_kmr = 0, cx_ctx = 3, cx_pd = 4 \<rparr>"

lemma allocates_ref: "allocates rs_live (\<lambda>p. p = bad) mk (ref_alloc mk bad)"
  by (auto simp: allocates_def ref_alloc_def)

lemma frees_ref: "frees rs_live mk (ref_free mk)"
  by (simp add: frees_def ref_free_def)

lemma ref_modify_live: "rs_live (snd (ref_modify p a m d)) = rs_live d"
  by (simp add: ref_modify_def)

lemma ref_verbs_lifetimes: "verbs_lifetimes ref_verbs rs_live"
  by (simp add: verbs_lifetimes_def ref_verbs_def allocates_ref frees_ref ref_modify_live)

lemma EINVAL_nonzero [simp]: "EINVAL \<noteq> 0" by (simp add: EINVAL_def)

lemma ref_qp_state_law: "qp_state_law ref_verbs rs_qp"
  by (auto simp: qp_state_law_def ref_verbs_def ref_modify_def)

lemma ib_required_types: "ib_required ty s s' = Some req \<Longrightarrow> ty \<in> {RC, UD, DC}"
  by (auto simp: ib_required_def split: if_splits)

lemma ref_qp_accepts_law: "qp_accepts_law ref_verbs rs_qp ty p"
proof -
  have "fst (ref_modify p a m d) = 0"
    if req: "ib_required ty (rs_qp d p) (qa_qp_state a) = Some req" and m: "m = insert IB_QP_STATE req"
    for a m d req
  proof -
    have "\<exists>ty \<in> {RC, UD, DC}. map_option (insert IB_QP_STATE) (ib_required ty (rs_qp d p) (qa_qp_state a)) = Some m"
      using ib_required_types [OF req] req m by (intro bexI [of _ ty]) simp_all
    then show ?thesis by (simp add: ref_modify_def)
  qed
  then show ?thesis by (simp add: qp_accepts_law_def ref_verbs_def)
qed

end
