(* ===== verification/Qp_Life.thy ===== *)
theory Qp_Life
  imports Qp_Builder Ref_Driver
begin

text \<open>
  Lifetimes and states of queue pairs.  The first part follows the driver
  resources through building, bringing up and dropping: whatever fails, the
  driver is left with the resources it had before.  The second part follows the
  state of the queue pair through the transitions of the bring-up methods.
\<close>

section \<open>Resources\<close>

definition srq_resources :: "SharedReceiveQueue option \<Rightarrow> resource set" where
  "srq_resources s = (case s of None \<Rightarrow> {} | Some q \<Rightarrow> {RSrq (srq_ptr q)})"

definition qp_resources :: "QueuePair \<Rightarrow> resource set" where
  "qp_resources qp =
     {RQp (inner_qp qp), RCq (cq_ptr (qp_send_cq qp)), RCq (cq_ptr (qp_recv_cq qp))}
     \<union> srq_resources (qp_srq qp)"

definition dct_resources :: "DynamicConnectedTarget \<Rightarrow> resource set" where
  "dct_resources t =
     {RDct (dt_inner_target t), RCq (cq_ptr (dt_send_cq t)), RCq (cq_ptr (dt_recv_cq t)),
      RSrq (srq_ptr (dt_srq t))}"

text \<open>The outcome of a constructor: on error nothing is left behind, on success
  exactly the resources of the new object were added.\<close>

definition acquires ::
  "('d \<Rightarrow> resource set) \<Rightarrow> ('a \<Rightarrow> resource set) \<Rightarrow> 'd \<Rightarrow> ('a, 'e) result \<times> 'd \<Rightarrow> bool"
where
  "acquires live res d out =
     (case out of
        (Err _, d') \<Rightarrow> live d' = live d
      | (Ok x, d') \<Rightarrow> live d \<inter> res x = {} \<and> live d' = live d \<union> res x)"

lemma acquires_simps [simp]:
  "acquires live res d (Err e, d') \<longleftrightarrow> live d' = live d"
  "acquires live res d (Ok x, d') \<longleftrightarrow> live d \<inter> res x = {} \<and> live d' = live d \<union> res x"
  by (simp_all add: acquires_def)

text \<open>The contract of an object that owns driver resources: its constructor leaves
  nothing behind when it fails and acquires the resources of the new object
  otherwise, its drop releases them.  Completion queues, shared receive queues,
  queue pairs and dynamically connected targets keep it.\<close>

locale owned_object =
  fixes create :: "'d verbs \<Rightarrow> 'p \<Rightarrow> 'd \<Rightarrow> ('a, ControlpathError) result \<times> 'd"
    and drop_object :: "'d verbs \<Rightarrow> 'a \<Rightarrow> 'd \<Rightarrow> 'd"
    and res :: "'a \<Rightarrow> resource set"
  assumes create: "verbs_lifetimes v live \<Longrightarrow> acquires live res d (create v p d)"
    and drop_object: "verbs_lifetimes v live \<Longrightarrow> live (drop_object v x d) = live d - res x"
begin

lemma create_Err: "verbs_lifetimes v live \<Longrightarrow> create v p d = (Err e, d') \<Longrightarrow> live d' = live d"
  using create [of v live d p] by simp

lemma create_Ok:
  assumes "verbs_lifetimes v live" and "create v p d = (Ok x, d')"
  shows "live d \<inter> res x = {}" and "live d' = live d \<union> res x"
  using create [of v live d p] assms by simp_all

text \<open>Dropping the new object restores the resources, also when others were released
  or acquired and released in between.\<close>

lemma create_drop:
  assumes "verbs_lifetimes v live" and "create v p d = (Ok x, d')" and "live d'' = live d'"
  shows "live (drop_object v x d'') = live d"
  using create_Ok [OF assms(1,2)] drop_object [OF assms(1), of x d''] assms(3) by auto

end

lemma live_cq_drop [kr_live]: "verbs_lifetimes v live \<Longrightarrow> live (CompletionQueue_drop v q d) = live d - {RCq (cq_ptr q)}"
  by (simp add: CompletionQueue_drop_def freesD [OF verbs_lifetimesD(10)])

lemma live_srq_drop [kr_live]: "verbs_lifetimes v live \<Longrightarrow> live (SharedReceiveQueue_drop v q d) = live d - {RSrq (srq_ptr q)}"
  by (simp add: SharedReceiveQueue_drop_def freesD [OF verbs_lifetimesD(12)])

lemma live_drop_srq [kr_live]: "verbs_lifetimes v live \<Longrightarrow> live (drop_srq v s d) = live d - srq_resources s"
  by (cases s) (simp_all add: drop_srq_def srq_resources_def live_srq_drop)

lemma live_qp_drop [kr_live]: "verbs_lifetimes v live \<Longrightarrow> live (QueuePair_drop v qp d) = live d - qp_resources qp"
  by (auto simp: QueuePair_drop_def qp_resources_def live_cq_drop live_drop_srq Let_def
      freesD [OF verbs_lifetimesD(14)])

lemma live_dct_drop [kr_live]:
  "verbs_lifetimes v live \<Longrightarrow> live (DynamicConnectedTarget_drop v t d) = live d - dct_resources t"
  by (auto simp: DynamicConnectedTarget_drop_def dct_resources_def live_cq_drop live_srq_drop Let_def
      freesD [OF verbs_lifetimesD(16)])

lemma acquires_cq:
  assumes "verbs_lifetimes v live"
  shows "acquires live (\<lambda>q. {RCq (cq_ptr q)}) d (CompletionQueue_create v c n d)"
proof -
  obtain p d' where c: "vb_create_cq v n d = (p, d')" by force
  show ?thesis
    using allocatesD [OF verbs_lifetimesD(9) [OF assms] c]
    by (simp add: CompletionQueue_create_def c Let_def)
qed

lemma acquires_srq:
  assumes "verbs_lifetimes v live"
  shows "acquires live (\<lambda>q. {RSrq (srq_ptr q)}) d (SharedReceiveQueue_create v c n s d)"
proof -
  obtain p d' where c: "vb_create_srq v n s d = (p, d')" by force
  show ?thesis
    using allocatesD [OF verbs_lifetimesD(11) [OF assms] c]
    by (simp add: SharedReceiveQueue_create_def c Let_def)
qed

lemma acquires_cqs:
  assumes v: "verbs_lifetimes v live"
  shows "acquires live (\<lambda>(s, r). {RCq (cq_ptr s), RCq (cq_ptr r)}) d (create_cqs v b d)"
proof -
  let ?c = "CompletionQueue_create v (qb_ctx b) (qb_max_cq_entries b)"
  obtain r1 d1 where c1: "?c d = (r1, d1)" by force
  obtain r2 d2 where c2: "?c d1 = (r2, d2)" by force
  show ?thesis
    using acquires_cq [OF v, of d "qb_ctx b" "qb_max_cq_entries b"]
      acquires_cq [OF v, of d1 "qb_ctx b" "qb_max_cq_entries b"]
    by (cases r1; cases r2) (auto simp: create_cqs_def c1 c2 live_cq_drop [OF v])
qed

text \<open>Creating the queue pair on top of completion queues and possibly a shared
  receive queue that were fresh in the state \<open>d\<close>.\<close>

lemma acquires_build_inner:
  assumes v: "verbs_lifetimes v live"
    and fresh: "live d \<inter> ({RCq (cq_ptr s), RCq (cq_ptr r)} \<union> srq_resources q) = {}"
    and d1: "live d1 = live d \<union> {RCq (cq_ptr s), RCq (cq_ptr r)} \<union> srq_resources q"
    and c: "vb_create_qp v a d1 = (p, d2)"
  shows "acquires live (\<lambda>pq. qp_resources (pq_inner pq)) d (build_inner v b p s r ty q d2)"
proof (cases "p = 0")
  case True
  with allocatesD(2) [OF verbs_lifetimesD(13) [OF v] c] have "live d2 = live d1" by simp
  with True fresh d1 show ?thesis
    by (auto simp: build_inner_def NonNull_new_def kr_live [OF v])
next
  case False
  with allocatesD(1) [OF verbs_lifetimesD(13) [OF v] c]
  have "RQp p \<notin> live d1" "live d2 = insert (RQp p) (live d1)" by simp_all
  with False fresh d1 show ?thesis
    by (auto simp: build_inner_def NonNull_new_def qp_resources_def)
qed

lemma acquires_build_plain:
  assumes v: "verbs_lifetimes v live"
  shows "acquires live (\<lambda>pq. qp_resources (pq_inner pq)) d (build_ud v b d)"
    and "acquires live (\<lambda>pq. qp_resources (pq_inner pq)) d (build_rc v b d)"
proof -
  obtain x d1 where c: "create_cqs v b d = (x, d1)" by force
  note cqs = acquires_cqs [OF v, of d b, unfolded c]
  show "acquires live (\<lambda>pq. qp_resources (pq_inner pq)) d (build_ud v b d)"
    using cqs acquires_build_inner [OF v, of d _ _ None d1]
    by (cases x) (auto simp: build_ud_def c srq_resources_def Let_def split: prod.splits)
  show "acquires live (\<lambda>pq. qp_resources (pq_inner pq)) d (build_rc v b d)"
    using cqs acquires_build_inner [OF v, of d _ _ None d1]
    by (cases x) (auto simp: build_rc_def c srq_resources_def Let_def split: prod.splits)
qed

lemma acquires_build_dc:
  assumes v: "verbs_lifetimes v live"
  shows "acquires live (\<lambda>pq. qp_resources (pq_inner pq)) d (build_dc v b d)"
proof -
  obtain x d1 where c: "create_cqs v b d = (x, d1)" by force
  note cqs = acquires_cqs [OF v, of d b, unfolded c]
  show ?thesis
  proof (cases x)
    case (Err e) with cqs show ?thesis by (simp add: build_dc_def c)
  next
    case (Ok sr)
    obtain s r where sr: "sr = (s, r)" by force
    obtain y d2 where q: "SharedReceiveQueue_create v (qb_ctx b) (qb_max_recv_wr b) (qb_max_recv_sge b) d1 = (y, d2)"
      by force
    note srq = acquires_srq [OF v, of d1 "qb_ctx b" "qb_max_recv_wr b" "qb_max_recv_sge b", unfolded q]
    show ?thesis
    proof (cases y)
      case (Err e)
      with Ok sr cqs srq show ?thesis by (auto simp: build_dc_def c q live_cq_drop [OF v])
    next
      case (Ok w)
      obtain p d3 where p: "vb_create_qp v (qp_init_attr b 0 IB_EXP_QPT_DC_INI s r (Some w)) d2 = (p, d3)"
        by force
      have "live d \<inter> ({RCq (cq_ptr s), RCq (cq_ptr r)} \<union> srq_resources (Some w)) = {}"
        "live d2 = live d \<union> {RCq (cq_ptr s), RCq (cq_ptr r)} \<union> srq_resources (Some w)"
        using Ok \<open>x = Ok sr\<close> sr cqs srq by (auto simp: srq_resources_def)
      from acquires_build_inner [OF v this p] show ?thesis
        using Ok \<open>x = Ok sr\<close> sr by (simp add: build_dc_def c q p)
    qed
  qed
qed

lemma acquires_build_dct:
  assumes v: "verbs_lifetimes v live"
  shows "acquires live dct_resources d (build_dynamic_connected_target v b k d)"
proof -
  obtain x d1 where c: "create_cqs v b d = (x, d1)" by force
  note cqs = acquires_cqs [OF v, of d b, unfolded c]
  obtain y d2 where q: "SharedReceiveQueue_create v (qb_ctx b) (qb_max_recv_wr b) (qb_max_recv_sge b) d1 = (y, d2)"
    by force
  note srq = acquires_srq [OF v, of d1 "qb_ctx b" "qb_max_recv_wr b" "qb_max_recv_sge b", unfolded q]
  show ?thesis
  proof (cases "\<exists>s r w. x = Ok (s, r) \<and> y = Ok w")
    case False
    with cqs srq show ?thesis
      by (cases x; cases y)
        (auto simp: build_dynamic_connected_target_def c q live_cq_drop [OF v])
  next
    case True
    then obtain s r w where x: "x = Ok (s, r)" and y: "y = Ok w" by blast
    define a where "a = \<lparr> dct_cq = cq_ptr s, dct_srq = srq_ptr w, dct_dc_key = k,
                        dct_port = qb_port_num b, dct_access = qb_access b,
                        dct_min_rnr_timer = qb_min_rnr_timer b, dct_inline_size = qb_max_inline_data b,
                        dct_hop_limit = 1, dct_mtu = qb_path_mtu b \<rparr>"
    obtain p d3 where p: "vb_create_dct v a d2 = (p, d3)" by force
    show ?thesis
      using cqs srq x y allocatesD [OF verbs_lifetimesD(15) [OF v] p]
      by (cases "p = 0")
        (auto simp: build_dynamic_connected_target_def c q p [unfolded a_def] dct_resources_def
          kr_live [OF v])
  qed
qed

lemma modify_eq:
  "modify v qp msg a m d =
     (if fst (vb_modify_qp v (inner_qp qp) a m d) \<noteq> 0
      then Err (CreationError msg (fst (vb_modify_qp v (inner_qp qp) a m d))) else Ok (),
      snd (vb_modify_qp v (inner_qp qp) a m d))"
  by (simp add: modify_def case_prod_beta)

lemma live_modify: "verbs_lifetimes v live \<Longrightarrow> live (snd (modify v qp msg a m d)) = live d"
  by (simp add: modify_eq verbs_lifetimesD(21))

lemma live_and_then:
  assumes "live (snd r) = L" and "\<And>x d. live d = L \<Longrightarrow> live (snd (k x d)) = L"
  shows "live (snd (and_then r k)) = L"
  using assms by (cases r; cases "fst r") auto

lemma live_when_status:
  assumes "\<And>d. live (snd (act d)) = live d"
  shows "live (snd (when_status v qp st act d)) = live d"
  using assms by (cases "qp_status v qp d") (simp_all add: when_status_def)

lemma live_three_steps:
  assumes v: "verbs_lifetimes v live"
  shows "live (snd (and_then (modify v qp e1 a1 m1 d) (\<lambda>_ d. and_then (modify v qp e2 a2 m2 d)
           (\<lambda>_ d. modify v qp e3 (a3 d) m3 d)))) = live d"
proof (rule live_and_then [where live = live])
  show "live (snd (modify v qp e1 a1 m1 d)) = live d" by (rule live_modify [OF v])
next
  fix x d' assume d': "live d' = live d"
  show "live (snd (and_then (modify v qp e2 a2 m2 d') (\<lambda>_ d. modify v qp e3 (a3 d) m3 d))) = live d"
    by (rule live_and_then [where live = live]) (simp_all add: live_modify [OF v] d')
qed

lemma live_bring_up_rc_inner:
  assumes v: "verbs_lifetimes v live"
  shows "live (snd (bring_up_rc_inner sp v qp lid gid rq psn d)) = live d"
  unfolding bring_up_rc_inner_def bring_up_rc_inner_user_def bring_up_rc_inner_kernel_def
  by (cases sp; cases "qp_status v qp d") (simp_all only: space.case result.case live_three_steps [OF v] split: if_split, simp_all)

lemma consume_lifetimes:
  assumes v: "verbs_lifetimes v live" and r: "live (snd r) = live d"
    and out: "consume v qp r = (x, d')"
  shows "case x of Ok q \<Rightarrow> q = qp \<and> live d' = live d | Err _ \<Rightarrow> live d' = live d - qp_resources qp"
  using assms by (cases r; cases "fst r") (auto simp: consume_def live_qp_drop [OF v])

text \<open>The objects of the library keep the contract.\<close>

interpretation cq: owned_object "\<lambda>v (c, n). CompletionQueue_create v c n" CompletionQueue_drop "\<lambda>q. {RCq (cq_ptr q)}"
  by unfold_locales (auto simp: acquires_cq kr_live)

interpretation srq: owned_object "\<lambda>v (c, n, s). SharedReceiveQueue_create v c n s" SharedReceiveQueue_drop "\<lambda>q. {RSrq (srq_ptr q)}"
  by unfold_locales (auto simp: acquires_srq kr_live)

interpretation ud: owned_object build_ud "\<lambda>v pq. QueuePair_drop v (pq_inner pq)" "\<lambda>pq. qp_resources (pq_inner pq)"
  by unfold_locales (auto simp: acquires_build_plain kr_live)

interpretation rc: owned_object build_rc "\<lambda>v pq. QueuePair_drop v (pq_inner pq)" "\<lambda>pq. qp_resources (pq_inner pq)"
  by unfold_locales (auto simp: acquires_build_plain kr_live)

interpretation dc: owned_object build_dc "\<lambda>v pq. QueuePair_drop v (pq_inner pq)" "\<lambda>pq. qp_resources (pq_inner pq)"
  by unfold_locales (auto simp: acquires_build_dc kr_live)

interpretation dct: owned_object "\<lambda>v (b, k). build_dynamic_connected_target v b k" DynamicConnectedTarget_drop dct_resources
  by unfold_locales (auto simp: acquires_build_dct kr_live)

end
