(* ===== verification/Qp_State.thy ===== *)
theory Qp_State
  imports Qp_Life
begin

text \<open>
  The state of a queue pair through the bring-up methods, under the contract
  \<open>qp_state_law\<close> of the driver, and the properties of queue pair construction.
\<close>

section \<open>Transitions\<close>

lemma qp_state_modify:
  assumes law: "qp_state_law v st" and m: "IB_QP_STATE \<in> m"
  shows "st (snd (vb_modify_qp v p a m d)) =
           (if fst (vb_modify_qp v p a m d) = 0 then (st d)(p := qa_qp_state a) else st d)"
  using law m unfolding qp_state_law_def by blast

lemma qp_status_Ok:
  assumes "qp_state_law v st" and "qp_status v qp d = Ok s"
  shows "s = status_of (st d (inner_qp qp))"
proof -
  obtain ret s' where c: "vb_query_qp v (inner_qp qp) d = (ret, s')" by force
  have "fst (vb_query_qp v (inner_qp qp) d) = 0 \<longrightarrow>
          snd (vb_query_qp v (inner_qp qp) d) = st d (inner_qp qp)"
    using assms(1) unfolding qp_state_law_def by blast
  with assms(2) show ?thesis by (auto simp: qp_status_def c split: if_splits)
qed

lemma status_of_iff [simp]:
  "status_of s = Reset \<longleftrightarrow> s = IB_QPS_RESET"
  "status_of s = Init \<longleftrightarrow> s = IB_QPS_INIT"
  "status_of s = ReadyToRecv \<longleftrightarrow> s = IB_QPS_RTR"
  "status_of s = ReadyToSend \<longleftrightarrow> s = IB_QPS_RTS"
  by (cases s; simp)+

lemma qp_status_accepts:
  assumes "qp_accepts_law v st ty (inner_qp qp)" and "qp_state_law v st"
  shows "qp_status v qp d = Ok (status_of (st d (inner_qp qp)))"
proof -
  obtain ret s' where c: "vb_query_qp v (inner_qp qp) d = (ret, s')" by force
  have "ret = 0" using assms(1) c unfolding qp_accepts_law_def by (metis fst_conv)
  then have "qp_status v qp d = Ok (status_of s')" by (simp add: qp_status_def c)
  with qp_status_Ok [OF assms(2) this] show ?thesis by simp
qed

text \<open>One transition: it succeeds and sets the state, or it fails with its message
  and the non-zero code of the driver and leaves the state.\<close>

lemma modify_outcome:
  assumes law: "qp_state_law v st" and m: "IB_QP_STATE \<in> m"
    and out: "modify v qp e a m d = (r, d')"
  shows "(r = Ok () \<and> st d' = (st d)(inner_qp qp := qa_qp_state a)) \<or>
         (\<exists>ret. ret \<noteq> 0 \<and> r = Err (CreationError e ret) \<and> st d' = st d)"
  using out qp_state_modify [OF law m, of "inner_qp qp" a d] by (auto simp: modify_eq split: if_splits)

lemma three_steps_outcome:
  assumes law: "qp_state_law v st"
    and m: "IB_QP_STATE \<in> m1" "IB_QP_STATE \<in> m2" "IB_QP_STATE \<in> m3"
    and s3: "\<And>d. qa_qp_state (a3 d) = t3"
    and out: "and_then (modify v qp e1 a1 m1 d) (\<lambda>_ d. and_then (modify v qp e2 a2 m2 d)
                (\<lambda>_ d. modify v qp e3 (a3 d) m3 d)) = (r, d')"
  shows "(r = Ok () \<and> st d' = (st d)(inner_qp qp := t3)) \<or>
         (\<exists>ret. ret \<noteq> 0 \<and>
            (r = Err (CreationError e1 ret) \<and> st d' = st d \<or>
             r = Err (CreationError e2 ret) \<and> st d' = (st d)(inner_qp qp := qa_qp_state a1) \<or>
             r = Err (CreationError e3 ret) \<and> st d' = (st d)(inner_qp qp := qa_qp_state a2)))"
proof -
  obtain r1 d1 where c1: "modify v qp e1 a1 m1 d = (r1, d1)" by force
  obtain r2 d2 where c2: "modify v qp e2 a2 m2 d1 = (r2, d2)" by force
  obtain r3 d3 where c3: "modify v qp e3 (a3 d2) m3 d2 = (r3, d3)" by force
  note o1 = modify_outcome [OF law m(1) c1] and o2 = modify_outcome [OF law m(2) c2]
    and o3 = modify_outcome [OF law m(3) c3]
  consider (e1) x where "r1 = Err x" | (e2) x where "r1 = Ok ()" "r2 = Err x" | (ok) "r1 = Ok ()" "r2 = Ok ()"
    by (cases r1; cases r2) auto
  then show ?thesis
  proof cases
    case e1 with out o1 show ?thesis by (auto simp: c1)
  next
    case e2 with out o1 o2 show ?thesis by (auto simp: c1 c2)
  next
    case ok
    then have "(r, d') = (r3, d3)" using out by (simp add: c1 c2 c3)
    moreover from ok o1 o2 have "st d2 = (st d)(inner_qp qp := qa_qp_state a2)" by simp
    ultimately show ?thesis using o3 s3 by auto
  qed
qed

text \<open>A transition with the mandatory attributes of the table goes through.\<close>

lemma modify_accepted:
  assumes acc: "qp_accepts_law v st ty (inner_qp qp)" and law: "qp_state_law v st"
    and req: "ib_required ty (st d (inner_qp qp)) (qa_qp_state a) = Some q" and m: "m = insert IB_QP_STATE q"
  obtains d' where "modify v qp e a m d = (Ok (), d')" "st d' = (st d)(inner_qp qp := qa_qp_state a)"
proof -
  have "fst (vb_modify_qp v (inner_qp qp) a m d) = 0"
    using acc req m unfolding qp_accepts_law_def by blast
  then have "modify v qp e a m d = (Ok (), snd (vb_modify_qp v (inner_qp qp) a m d))"
    by (simp add: modify_eq)
  moreover have "IB_QP_STATE \<in> m" using m by simp
  ultimately show thesis
    using that qp_state_modify [OF law, of m "inner_qp qp" a d] \<open>fst _ = 0\<close> by simp
qed

lemma three_steps_accepted:
  assumes acc: "qp_accepts_law v st ty (inner_qp qp)" and law: "qp_state_law v st"
    and s0: "st d (inner_qp qp) = t0"
    and s3: "\<And>d. qa_qp_state (a3 d) = t3"
    and q1: "ib_required ty t0 (qa_qp_state a1) = Some q1" and m1: "m1 = insert IB_QP_STATE q1"
    and q2: "ib_required ty (qa_qp_state a1) (qa_qp_state a2) = Some q2" and m2: "m2 = insert IB_QP_STATE q2"
    and q3: "ib_required ty (qa_qp_state a2) t3 = Some q3" and m3: "m3 = insert IB_QP_STATE q3"
  shows "\<exists>d'. and_then (modify v qp e1 a1 m1 d) (\<lambda>_ d. and_then (modify v qp e2 a2 m2 d)
                (\<lambda>_ d. modify v qp e3 (a3 d) m3 d)) = (Ok (), d') \<and> st d' = (st d)(inner_qp qp := t3)"
proof -
  obtain d1 where d1: "modify v qp e1 a1 m1 d = (Ok (), d1)" "st d1 = (st d)(inner_qp qp := qa_qp_state a1)"
    using modify_accepted [OF acc law, of d a1 q1 m1] q1 m1 s0 by metis
  obtain d2 where d2: "modify v qp e2 a2 m2 d1 = (Ok (), d2)" "st d2 = (st d1)(inner_qp qp := qa_qp_state a2)"
    using modify_accepted [OF acc law, of d1 a2 q2 m2] q2 m2 d1 by (metis fun_upd_same)
  obtain d3 where d3: "modify v qp e3 (a3 d2) m3 d2 = (Ok (), d3)" "st d3 = (st d2)(inner_qp qp := t3)"
    using modify_accepted [OF acc law, of d2 "a3 d2" q3 m3] q3 m3 d2 s3 by (metis fun_upd_same)
  from d1 d2 d3 show ?thesis by simp
qed

end
