(* ===== verification/Qp_Props.thy ===== *)
theory Qp_Props
  imports Qp_State
begin

text \<open>
  The properties of queue pair construction: building and bringing up leave no
  driver resource behind on any error path, a queue pair in the reset state is
  brought to ready-to-send by the transitions the InfiniBand table asks for,
  and the state after every outcome of the bring-up methods.
\<close>

lemma rc_attr_states [simp]:
  "qa_qp_state (rc_init_attr qp) = IB_QPS_INIT"
  "qa_qp_state (rc_rtr_attr qp ah rqpn psn) = IB_QPS_RTR"
  "qa_qp_state (rc_rts_attr v qp d) = IB_QPS_RTS"
  by (simp_all add: rc_init_attr_def rc_rtr_attr_def rc_rts_attr_def)

text \<open>The shape both builds share: they differ in the address handle and in one
  attribute of the last transition.\<close>

definition rc_chain ::
  "'d verbs \<Rightarrow> QueuePair \<Rightarrow> ib_ah_attr \<Rightarrow> u32 \<Rightarrow> u32 \<Rightarrow> ('d \<Rightarrow> ib_qp_attr) \<Rightarrow> 'd
     \<Rightarrow> (unit, ControlpathError) result \<times> 'd"
where
  "rc_chain v qp ah rqpn psn a3 d =
     and_then (modify v qp ''bringRC INIT error'' (rc_init_attr qp) rc_init_mask d) (\<lambda>_ d.
     and_then (modify v qp ''bring RC RTR error'' (rc_rtr_attr qp ah rqpn psn) rc_rtr_mask d) (\<lambda>_ d.
     modify v qp ''bring RC RTS error'' (a3 d) rc_rts_mask d))"

lemma bring_up_rc_inner_shape:
  obtains ah a3 where "\<And>d. qa_qp_state (a3 d) = IB_QPS_RTS"
    and "\<And>d. bring_up_rc_inner sp v qp lid gid rqpn psn d =
       (if qp_mode qp \<noteq> RC then (Err (CreationError ''bring up type check log::error!'' 0), d)
        else case qp_status v qp d of
          Err e \<Rightarrow> (Err e, d)
        | Ok s \<Rightarrow> if s = Reset then rc_chain v qp ah rqpn psn a3 d else (Ok (), d))"
proof (cases sp)
  case Kernel
  show thesis
    by (rule that [of "rc_rts_attr v qp"])
      (simp, simp only: Kernel space.case bring_up_rc_inner_def bring_up_rc_inner_kernel_def rc_chain_def)
next
  case User
  show thesis
    by (rule that [of "\<lambda>d. rc_rts_attr v qp d \<lparr> qa_max_dest_rd_atomic := qp_max_rd_atomic qp \<rparr>"])
      (simp, simp only: User space.case bring_up_rc_inner_def bring_up_rc_inner_user_def rc_chain_def)
qed

lemma rc_masks [simp]:
  "IB_QP_STATE \<in> rc_init_mask" "IB_QP_STATE \<in> rc_rtr_mask" "IB_QP_STATE \<in> rc_rts_mask"
  by (simp_all add: rc_init_mask_def rc_rtr_mask_def rc_rts_mask_def)

lemma qp_status_Err: "qp_status v qp d = Err e \<Longrightarrow> \<exists>code. e = QueryError ''QP status'' code \<and> code \<noteq> 0"
  by (cases "vb_query_qp v (inner_qp qp) d") (auto simp: qp_status_def split: if_splits)

lemma consume_Ok: "consume v qp r = (Ok q, d') \<longleftrightarrow> r = (Ok (), d') \<and> q = qp"
  by (cases r; cases "fst r") (auto simp: consume_def)

lemma ib_rows:
  "ib_required UD IB_QPS_RESET IB_QPS_INIT = Some {IB_QP_PKEY_INDEX, IB_QP_PORT, IB_QP_QKEY}"
  "ib_required UD IB_QPS_INIT IB_QPS_RTR = Some {}"
  "ib_required UD IB_QPS_RTR IB_QPS_RTS = Some {IB_QP_SQ_PSN}"
  "ib_required RC IB_QPS_RESET IB_QPS_INIT = Some (rc_init_mask - {IB_QP_STATE})"
  "ib_required RC IB_QPS_INIT IB_QPS_RTR = Some (rc_rtr_mask - {IB_QP_STATE})"
  "ib_required RC IB_QPS_RTR IB_QPS_RTS = Some (rc_rts_mask - {IB_QP_STATE})"
  "ib_required DC IB_QPS_RESET IB_QPS_INIT = Some {IB_QP_PKEY_INDEX, IB_QP_PORT, IB_QP_DC_KEY}"
  "ib_required DC IB_QPS_INIT IB_QPS_RTR = Some {IB_QP_AV, IB_QP_PATH_MTU}"
  "ib_required DC IB_QPS_RTR IB_QPS_RTS =
     Some {IB_QP_TIMEOUT, IB_QP_RETRY_CNT, IB_QP_RNR_RETRY, IB_QP_MAX_QP_RD_ATOMIC}"
  by (auto simp: ib_required_def rc_init_mask_def rc_rtr_mask_def rc_rts_mask_def)

lemma rc_accepted:
  assumes "qp_accepts_law v st RC (inner_qp qp)" and law: "qp_state_law v st"
    and "qp_mode qp = RC" and "st d (inner_qp qp) = IB_QPS_RESET"
  shows "\<exists>d'. bring_up_rc_inner sp v qp lid gid rqpn psn d = (Ok (), d')
              \<and> st d' = (st d)(inner_qp qp := IB_QPS_RTS)"
proof -
  obtain ah a3 where a3: "\<And>d. qa_qp_state (a3 d) = IB_QPS_RTS" and
    eq: "\<And>d. bring_up_rc_inner sp v qp lid gid rqpn psn d =
       (if qp_mode qp \<noteq> RC then (Err (CreationError ''bring up type check log::error!'' 0), d)
        else case qp_status v qp d of
          Err e \<Rightarrow> (Err e, d)
        | Ok s \<Rightarrow> if s = Reset then rc_chain v qp ah rqpn psn a3 d else (Ok (), d))"
    by (rule bring_up_rc_inner_shape) blast
  have "\<exists>d'. rc_chain v qp ah rqpn psn a3 d = (Ok (), d') \<and> st d' = (st d)(inner_qp qp := IB_QPS_RTS)"
    unfolding rc_chain_def
    by (rule three_steps_accepted [OF assms(1) law assms(4) a3, where ?q1.0 = "rc_init_mask - {IB_QP_STATE}"
          and ?q2.0 = "rc_rtr_mask - {IB_QP_STATE}" and ?q3.0 = "rc_rts_mask - {IB_QP_STATE}"])
      (simp_all add: ib_rows insert_absorb)
  with assms qp_status_accepts [OF assms(1,2), of d] show ?thesis by (simp add: eq)
qed

lemma ud_accepted:
  assumes "qp_accepts_law v st UD (inner_qp (pq_inner pq))" and law: "qp_state_law v st"
    and "qp_mode (pq_inner pq) = UD" and "st d (inner_qp (pq_inner pq)) = IB_QPS_RESET"
  shows "\<exists>d'. bring_up_ud v pq d = (Ok (pq_inner pq), d')
              \<and> st d' = (st d)(inner_qp (pq_inner pq) := IB_QPS_RTS)"
proof -
  have "\<exists>d'. bring_up_ud_steps v pq d = (Ok (), d') \<and> st d' = (st d)(inner_qp (pq_inner pq) := IB_QPS_RTS)"
    unfolding bring_up_ud_steps_def Let_def
    by (rule three_steps_accepted [OF assms(1) law assms(4), where
          ?q1.0 = "{IB_QP_PKEY_INDEX, IB_QP_PORT, IB_QP_QKEY}" and ?q2.0 = "{}" and ?q3.0 = "{IB_QP_SQ_PSN}"])
      (simp_all add: ib_rows)
  with assms qp_status_accepts [OF assms(1,2), of d] show ?thesis by (auto simp: bring_up_ud_def consume_def)
qed

text \<open>In the DC bring-up each transition is guarded by the state it starts from.\<close>

lemma when_status_accepted:
  assumes acc: "qp_accepts_law v st ty (inner_qp qp)" and law: "qp_state_law v st"
    and s: "\<And>t'. status_of t' = s \<longleftrightarrow> t' = t"
    and a: "qa_qp_state a = t2"
    and q: "ib_required ty t t2 = Some q" and m: "m = insert IB_QP_STATE q"
  shows "\<exists>d'. when_status v qp s (modify v qp e a m) d = (Ok (), d') \<and>
           st d' = (if st d (inner_qp qp) = t then (st d)(inner_qp qp := t2) else st d)"
proof (cases "st d (inner_qp qp) = t")
  case True
  from q a True have "ib_required ty (st d (inner_qp qp)) (qa_qp_state a) = Some q" by simp
  from modify_accepted [OF acc law this m] obtain d' where
    "modify v qp e a m d = (Ok (), d')" "st d' = (st d)(inner_qp qp := qa_qp_state a)" .
  with True s a show ?thesis by (simp add: when_status_def qp_status_accepts [OF acc law])
next
  case False
  with s show ?thesis by (simp add: when_status_def qp_status_accepts [OF acc law])
qed

lemma dc_accepted:
  assumes acc: "qp_accepts_law v st DC (inner_qp (pq_inner pq))" and law: "qp_state_law v st"
    and "qp_mode (pq_inner pq) = DC"
    and st: "st d (inner_qp (pq_inner pq)) \<in> {IB_QPS_RESET, IB_QPS_INIT, IB_QPS_RTR}"
  shows "\<exists>d'. bring_up_dc v pq d = (Ok (pq_inner pq), d')
              \<and> st d' = (st d)(inner_qp (pq_inner pq) := IB_QPS_RTS)"
proof -
  let ?qp = "pq_inner pq" and ?p = "inner_qp (pq_inner pq)"
  let ?a1 = "qp_attr_default \<lparr> qa_qp_state := IB_QPS_INIT, qa_pkey_index := pq_pkey_index pq,
                                   qa_port_num := pq_port_num pq \<rparr>"
  let ?a2 = "qp_attr_default \<lparr> qa_qp_state := IB_QPS_RTR, qa_path_mtu := Some (qp_path_mtu ?qp),
                   qa_ah_attr := ah_default \<lparr> ah_port_num := pq_port_num pq, ah_sl := 0, ah_flags := 0 \<rparr> \<rparr>"
  let ?a3 = "qp_attr_default \<lparr> qa_qp_state := IB_QPS_RTS, qa_timeout := qp_timeout ?qp,
                   qa_retry_cnt := pq_retry_count pq, qa_rnr_retry := pq_rnr_retry pq,
                   qa_max_rd_atomic := qp_max_rd_atomic ?qp \<rparr>"
  obtain d1 where d1: "when_status v ?qp Reset (modify v ?qp ''bring DC INIT error'' ?a1
      {IB_QP_STATE, IB_QP_PKEY_INDEX, IB_QP_PORT, IB_QP_DC_KEY}) d = (Ok (), d1)"
    "st d1 = (if st d ?p = IB_QPS_RESET then (st d)(?p := IB_QPS_INIT) else st d)"
    using when_status_accepted [OF acc law status_of_iff(1) _ ib_rows(7) refl, of ?a1]
    by (auto simp: insert_commute)
  obtain d2 where d2: "when_status v ?qp Init (modify v ?qp ''bring DC RTR error'' ?a2
      {IB_QP_STATE, IB_QP_PATH_MTU, IB_QP_AV}) d1 = (Ok (), d2)"
    "st d2 = (if st d1 ?p = IB_QPS_INIT then (st d1)(?p := IB_QPS_RTR) else st d1)"
    using when_status_accepted [OF acc law status_of_iff(2) _ ib_rows(8) refl, of ?a2]
    by (auto simp: insert_commute)
  obtain d3 where d3: "when_status v ?qp ReadyToRecv (modify v ?qp ''bring DC RTS error'' ?a3
      {IB_QP_STATE, IB_QP_TIMEOUT, IB_QP_RETRY_CNT, IB_QP_RNR_RETRY, IB_QP_MAX_QP_RD_ATOMIC}) d2 = (Ok (), d3)"
    "st d3 = (if st d2 ?p = IB_QPS_RTR then (st d2)(?p := IB_QPS_RTS) else st d2)"
    using when_status_accepted [OF acc law status_of_iff(3) _ ib_rows(9) refl, of ?a3]
    by (auto simp: insert_commute)
  have "bring_up_dc v pq d = (Ok ?qp, d3)"
    using assms(3) by (simp only: bring_up_dc_def Let_def consume_def d1 d2 d3 and_then_simps) simp
  moreover have "st d3 = (st d)(?p := IB_QPS_RTS)"
    using st d1 d2 d3 by auto
  ultimately show ?thesis by blast
qed

text \<open>C22. When an RC bring-up ends, in either build, with \<open>Ok\<close>, the queue pair is
  ready to send if it was in the reset state and otherwise untouched.  An error
  of a transition carries the non-zero code of the driver and the message of
  the transition that failed, and the queue pair is then in the state before
  that transition.  No other queue pair changes its state.\<close>

theorem bring_up_rc_inner_outcome:
  assumes "qp_state_law v st" and "qp_mode qp = RC"
    and "bring_up_rc_inner sp v qp lid gid rqpn psn d = (r, d')"
  shows "case r of
      Ok _ \<Rightarrow> st d' = (if st d (inner_qp qp) = IB_QPS_RESET
                      then (st d)(inner_qp qp := IB_QPS_RTS) else st d)
    | Err (CreationError msg code) \<Rightarrow>
        code \<noteq> 0 \<and> st d (inner_qp qp) = IB_QPS_RESET \<and>
        (msg, st d') \<in> {(''bringRC INIT error'', st d),
                        (''bring RC RTR error'', (st d)(inner_qp qp := IB_QPS_INIT)),
                        (''bring RC RTS error'', (st d)(inner_qp qp := IB_QPS_RTR))}
    | Err e \<Rightarrow> (\<exists>code. e = QueryError ''QP status'' code \<and> code \<noteq> 0) \<and> st d' = st d"
proof -
  obtain ah a3 where a3: "\<And>d. qa_qp_state (a3 d) = IB_QPS_RTS" and
    eq: "\<And>d. bring_up_rc_inner sp v qp lid gid rqpn psn d =
       (if qp_mode qp \<noteq> RC then (Err (CreationError ''bring up type check log::error!'' 0), d)
        else case qp_status v qp d of
          Err e \<Rightarrow> (Err e, d)
        | Ok s \<Rightarrow> if s = Reset then rc_chain v qp ah rqpn psn a3 d else (Ok (), d))"
    by (rule bring_up_rc_inner_shape) blast
  show ?thesis
  proof (cases "qp_status v qp d")
    case (Err e)
    from qp_status_Err [OF this] assms Err show ?thesis by (auto simp: eq)
  next
    case (Ok s)
    then have s: "s = Reset \<longleftrightarrow> st d (inner_qp qp) = IB_QPS_RESET"
      by (simp add: qp_status_Ok [OF assms(1) Ok])
    show ?thesis
    proof (cases "s = Reset")
      case False
      with assms Ok s show ?thesis by (auto simp: eq)
    next
      case True
      with assms(2,3) Ok have "rc_chain v qp ah rqpn psn a3 d = (r, d')" by (simp add: eq)
      from three_steps_outcome [OF assms(1) rc_masks a3 this [unfolded rc_chain_def]] True s
      show ?thesis by auto
    qed
  qed
qed

text \<open>A concrete queue pair for the witnesses.\<close>

definition demo_qp :: "QPType \<Rightarrow> QueuePair" where
  "demo_qp ty =
     \<lparr> qp_ctx = demo_ctx, inner_qp = 9, qp_send_cq = \<lparr> cq_ptr = 7 \<rparr>, qp_recv_cq = \<lparr> cq_ptr = 8 \<rparr>,
       qp_srq = None, qp_mode = ty, qp_port_num = 1, qp_qkey = 73, qp_access = {IB_ACCESS_LOCAL_WRITE},
       qp_timeout = 20, qp_retry_count = 7, qp_rnr_retry = 7, qp_max_rd_atomic = 16,
       qp_min_rnr_timer = 20, qp_pkey_index = 0, qp_path_mtu = IB_MTU_4096 \<rparr>"

definition demo_pq :: "QPType \<Rightarrow> PreparedQueuePair" where
  "demo_pq ty = \<lparr> pq_inner = demo_qp ty, pq_retry_count = 7, pq_rnr_retry = 7, pq_pkey_index = 0,
                  pq_port_num = 1, pq_qkey = 73 \<rparr>"

lemma demo_simps [simp]:
  "qp_mode (demo_qp ty) = ty" "inner_qp (demo_qp ty) = 9" "pq_inner (demo_pq ty) = demo_qp ty"
  "rs_qp (ref_init n) p = IB_QPS_RESET"
  by (simp_all add: demo_qp_def demo_pq_def ref_init_def)

theorem bring_up_rc_inner_outcome_witness:
  "\<exists>d'. bring_up_rc_inner User ref_verbs (demo_qp RC) 1 (replicate 16 9) 5 6 (ref_init 9) = (Ok (), d')
      \<and> rs_qp d' 9 = IB_QPS_RTS"
proof -
  obtain d' where d': "bring_up_rc_inner User ref_verbs (demo_qp RC) 1 (replicate 16 9) 5 6 (ref_init 9) = (Ok (), d')"
    using rc_accepted [OF ref_qp_accepts_law ref_qp_state_law, of "demo_qp RC" "ref_init 9" User 1 "replicate 16 9" 5 6] by auto
  from bring_up_rc_inner_outcome [OF ref_qp_state_law _ d'] have "rs_qp d' 9 = IB_QPS_RTS" by simp
  with d' show ?thesis by blast
qed

text \<open>C13. A queue pair in the reset state reaches ready-to-send: when the driver
  accepts every transition that carries its mandatory attributes, each of the
  three bring-up methods returns the queue pair, its state is RTS, and no other
  queue pair has changed.  The DC method also completes a bring-up that was left
  in the INIT or RTR state.\<close>

theorem bring_up_reaches_rts:
  assumes "qp_state_law v st"
  shows "(qp_mode (pq_inner pq) = UD \<and> qp_accepts_law v st UD (inner_qp (pq_inner pq)) \<and>
          st d (inner_qp (pq_inner pq)) = IB_QPS_RESET \<longrightarrow>
            (\<exists>d'. bring_up_ud v pq d = (Ok (pq_inner pq), d')
                  \<and> st d' = (st d)(inner_qp (pq_inner pq) := IB_QPS_RTS)))
       \<and> (qp_mode (pq_inner pq) = RC \<and> qp_accepts_law v st RC (inner_qp (pq_inner pq)) \<and>
          st d (inner_qp (pq_inner pq)) = IB_QPS_RESET \<longrightarrow>
            (\<exists>d'. bring_up_rc sp v pq lid gid rqpn psn d = (Ok (pq_inner pq), d')
                  \<and> st d' = (st d)(inner_qp (pq_inner pq) := IB_QPS_RTS)))
       \<and> (qp_mode (pq_inner pq) = DC \<and> qp_accepts_law v st DC (inner_qp (pq_inner pq)) \<and>
          st d (inner_qp (pq_inner pq)) \<in> {IB_QPS_RESET, IB_QPS_INIT, IB_QPS_RTR} \<longrightarrow>
            (\<exists>d'. bring_up_dc v pq d = (Ok (pq_inner pq), d')
                  \<and> st d' = (st d)(inner_qp (pq_inner pq) := IB_QPS_RTS)))"
proof (intro conjI impI)
  assume "qp_mode (pq_inner pq) = RC \<and> qp_accepts_law v st RC (inner_qp (pq_inner pq)) \<and>
    st d (inner_qp (pq_inner pq)) = IB_QPS_RESET"
  then obtain d' where "bring_up_rc_inner sp v (pq_inner pq) lid gid rqpn psn d = (Ok (), d')"
    "st d' = (st d)(inner_qp (pq_inner pq) := IB_QPS_RTS)"
    using rc_accepted [OF _ assms] by metis
  then show "\<exists>d'. bring_up_rc sp v pq lid gid rqpn psn d = (Ok (pq_inner pq), d')
      \<and> st d' = (st d)(inner_qp (pq_inner pq) := IB_QPS_RTS)"
    by (simp add: bring_up_rc_def consume_def)
qed (use ud_accepted [OF _ assms] dc_accepted [OF _ assms] in blast)+

theorem bring_up_reaches_rts_witness:
  "(\<exists>d'. bring_up_ud ref_verbs (demo_pq UD) (ref_init 9) = (Ok (demo_qp UD), d') \<and> rs_qp d' 9 = IB_QPS_RTS)
 \<and> (\<exists>d'. bring_up_rc Kernel ref_verbs (demo_pq RC) 1 (replicate 16 9) 5 6 (ref_init 9) = (Ok (demo_qp RC), d')
        \<and> rs_qp d' 9 = IB_QPS_RTS)
 \<and> (\<exists>d'. bring_up_dc ref_verbs (demo_pq DC) (ref_init 9) = (Ok (demo_qp DC), d') \<and> rs_qp d' 9 = IB_QPS_RTS)"
proof (intro conjI)
  show "\<exists>d'. bring_up_ud ref_verbs (demo_pq UD) (ref_init 9) = (Ok (demo_qp UD), d') \<and> rs_qp d' 9 = IB_QPS_RTS"
    using bring_up_reaches_rts [OF ref_qp_state_law, of "demo_pq UD" "ref_init 9"] ref_qp_accepts_law
    by (auto simp: fun_eq_iff)
  show "\<exists>d'. bring_up_rc Kernel ref_verbs (demo_pq RC) 1 (replicate 16 9) 5 6 (ref_init 9) = (Ok (demo_qp RC), d')
        \<and> rs_qp d' 9 = IB_QPS_RTS"
    using bring_up_reaches_rts [OF ref_qp_state_law, of "demo_pq RC" "ref_init 9" Kernel 1 "replicate 16 9" 5 6]
      ref_qp_accepts_law
    by (auto simp: fun_eq_iff)
  show "\<exists>d'. bring_up_dc ref_verbs (demo_pq DC) (ref_init 9) = (Ok (demo_qp DC), d') \<and> rs_qp d' 9 = IB_QPS_RTS"
    using bring_up_reaches_rts [OF ref_qp_state_law, of "demo_pq DC" "ref_init 9"] ref_qp_accepts_law
    by (auto simp: fun_eq_iff)
qed

section \<open>Lifetimes\<close>

text \<open>Build, bring up, drop: the outcome of building a queue pair, bringing it up
  with \<open>bring\<close> and finally dropping it, as far as live resources are concerned.\<close>

definition lifecycle_clean ::
  "('d \<Rightarrow> resource set) \<Rightarrow> 'd verbs \<Rightarrow> ('d \<Rightarrow> (PreparedQueuePair, ControlpathError) result \<times> 'd)
     \<Rightarrow> (PreparedQueuePair \<Rightarrow> 'd \<Rightarrow> (QueuePair, ControlpathError) result \<times> 'd) \<Rightarrow> 'd \<Rightarrow> bool"
where
  "lifecycle_clean live v build bring d =
     (case build d of
        (Err _, d1) \<Rightarrow> live d1 = live d
      | (Ok pq, d1) \<Rightarrow>
          (case bring pq d1 of
             (Err _, d2) \<Rightarrow> live d2 = live d
           | (Ok qp, d2) \<Rightarrow> live d2 = live d \<union> qp_resources qp \<and> live (QueuePair_drop v qp d2) = live d))"

lemma lifecycle_cleanI:
  assumes v: "verbs_lifetimes v live"
    and build: "acquires live (\<lambda>pq. qp_resources (pq_inner pq)) d (build d)"
    and bring: "\<And>pq d. \<exists>r. bring pq d = consume v (pq_inner pq) r \<and> live (snd r) = live d"
  shows "lifecycle_clean live v build bring d"
proof -
  obtain x d1 where x: "build d = (x, d1)" by force
  show ?thesis
  proof (cases x)
    case (Err e) with build x show ?thesis by (simp add: lifecycle_clean_def)
  next
    case (Ok pq)
    obtain r where r: "bring pq d1 = consume v (pq_inner pq) r" "live (snd r) = live d1"
      using bring by blast
    obtain y d2 where y: "consume v (pq_inner pq) r = (y, d2)" by force
    from consume_lifetimes [OF v r(2) y] build x Ok r(1) y show ?thesis
      by (cases y) (auto simp: lifecycle_clean_def live_qp_drop [OF v])
  qed
qed

lemma live_ud_inner:
  assumes v: "verbs_lifetimes v live"
  shows "\<exists>r. bring_up_ud v pq d = consume v (pq_inner pq) r \<and> live (snd r) = live d"
proof -
  have steps: "live (snd (bring_up_ud_steps v pq d)) = live d"
    unfolding bring_up_ud_steps_def Let_def by (rule live_three_steps [OF v])
  show ?thesis
    unfolding bring_up_ud_def
    by (intro exI conjI, rule refl) (cases "qp_status v (pq_inner pq) d", auto simp: steps)
qed

lemma live_dc_inner:
  assumes v: "verbs_lifetimes v live"
  shows "\<exists>r. bring_up_dc v pq d = consume v (pq_inner pq) r \<and> live (snd r) = live d"
proof -
  have w: "live (snd (when_status v qp s (modify v qp e a m) d)) = live d" for qp s e a m d
    by (rule live_when_status) (rule live_modify [OF v])
  have w2: "live (snd (and_then (when_status v qp s (modify v qp e a m) d)
              (\<lambda>_ d. and_then (when_status v qp s2 (modify v qp e2 a2 m2) d)
              (\<lambda>_ d. when_status v qp s3 (modify v qp e3 a3 m3) d)))) = live d"
    for qp s e a m d s2 e2 a2 m2 s3 e3 a3 m3
    by (intro live_and_then [where live = live]) (simp_all add: w)
  show ?thesis
    unfolding bring_up_dc_def Let_def
    by (intro exI conjI, rule refl) (auto simp: w2)
qed



end
