(* ===== verification/Resource_Props.thy ===== *)
theory Resource_Props
  imports Resources Ref_Driver
begin

text \<open>
  Properties of the objects of \<open>Resources\<close>: what contexts and memory regions
  leave behind on their error paths and when dropped, the rounding to huge
  pages, polling, and the queries of devices and ports.
\<close>

section \<open>Huge page rounding\<close>

lemma unat_align:
  assumes "0 < a" and "unat x + unat a \<le> 2 ^ 64"
  shows "unat (align_to_hugepage_sz x a) = (unat x + unat a - 1) div unat a * unat a"
proof -
  have a: "0 < unat a" using assms(1) by (simp add: word_less_nat_alt)
  have u1: "unat (x + a - 1) = unat x + unat a - 1"
  proof -
    have e: "x + a - 1 = x + (a - 1)" by simp
    have "unat (a - 1) = unat a - 1"
      using assms(1) by (simp add: unat_minus_one word_gt_0)
    moreover have "unat x + (unat a - 1) < 2 ^ 64" using assms(2) a by linarith
    ultimately show ?thesis using a unfolding e by (simp add: unat_word_ariths)
  qed
  let ?n = "unat x + unat a - 1"
  have "?n div unat a * unat a \<le> ?n" by simp
  also have "?n < 2 ^ 64" using assms(2) a by linarith
  finally have "?n div unat a * unat a < 2 ^ 64" .
  moreover have "unat ((x + a - 1) div a) = ?n div unat a" by (simp add: unat_div u1)
  ultimately show ?thesis
    unfolding align_to_hugepage_sz_def using unat_mult_lem [of "(x + a - 1) div a" a] by simp
qed

lemma round_up_bounds:
  fixes x a :: nat assumes "0 < a"
  shows "x \<le> (x + a - 1) div a * a" and "(x + a - 1) div a * a < x + a"
proof -
  have d: "(x + a - 1) div a * a + (x + a - 1) mod a = x + a - 1" by simp
  have m: "(x + a - 1) mod a < a" using assms by simp
  show "x \<le> (x + a - 1) div a * a" using d m assms by linarith
  show "(x + a - 1) div a * a < x + a" using d assms by linarith
qed

text \<open>C39. Rounding a capacity up to 2 MB pages: the result is the least multiple of
  the page size that is not below the request, as long as the addition does not
  overflow, that is up to \<open>2^64 - 2^21\<close> bytes.  Above that bound the addition
  wraps around and the result is 0, so that \<open>new_huge_page\<close> would ask for an
  empty mapping.\<close>

theorem align_to_hugepage_sz_bounds:
  "(unat x \<le> 2 ^ 64 - 2 ^ 21 \<longrightarrow>
      unat x \<le> unat (align_to_hugepage_sz x (push_bit 20 2)) \<and>
      unat (align_to_hugepage_sz x (push_bit 20 2)) < unat x + 2 ^ 21 \<and>
      2 ^ 21 dvd unat (align_to_hugepage_sz x (push_bit 20 2)))
   \<and> (2 ^ 64 - 2 ^ 21 < unat x \<longrightarrow> align_to_hugepage_sz x (push_bit 20 2) = 0)"
proof (intro conjI impI)
  let ?a = "push_bit 20 2 :: u64"
  have a: "unat ?a = 2 ^ 21" "0 < ?a" by (simp_all add: push_bit_eq_mult)
  {
    assume x: "unat x \<le> 2 ^ 64 - 2 ^ 21"
    then have "unat x + unat ?a \<le> 2 ^ 64" by (simp add: a)
    note eq = unat_align [OF a(2) this, unfolded a(1)]
    show "unat x \<le> unat (align_to_hugepage_sz x ?a)" "unat (align_to_hugepage_sz x ?a) < unat x + 2 ^ 21"
      unfolding eq using round_up_bounds [of "2 ^ 21" "unat x"] by simp_all
    show "2 ^ 21 dvd unat (align_to_hugepage_sz x ?a)" unfolding eq by (rule dvd_triv_right)
  }
  assume x: "2 ^ 64 - 2 ^ 21 < unat x"
  have ux: "unat x < 2 ^ 64" using unat_less_size [of x] by simp
  have "unat (x + ?a - 1) = unat x + 2 ^ 21 - 1 - 2 ^ 64"
  proof -
    have e: "x + ?a - 1 = x + (?a - 1)" by simp
    have "unat (?a - 1) = 2 ^ 21 - 1" by (simp add: push_bit_eq_mult)
    then have "unat (x + ?a - 1) = (unat x + (2 ^ 21 - 1)) mod 2 ^ 64"
      unfolding e by (simp add: unat_word_ariths)
    also have "\<dots> = unat x + (2 ^ 21 - 1) - 2 ^ 64" using x ux by (simp add: mod_if)
    finally show ?thesis by simp
  qed
  then have "unat (x + ?a - 1) < unat ?a" using ux a by simp
  then have "(x + ?a - 1) div ?a = 0" by (simp only: word_unat_eq_iff unat_div div_less unat_0)
  then show "align_to_hugepage_sz x ?a = 0" by (simp add: align_to_hugepage_sz_def)
qed

theorem align_to_hugepage_sz_bounds_witness:
  "unat (align_to_hugepage_sz 5000000 (push_bit 20 2)) = 6291456
 \<and> align_to_hugepage_sz (- 1) (push_bit 20 2) = 0"
proof
  have "2 ^ 64 - 2 ^ 21 < unat (- 1 :: u64)" by (simp add: unsigned_minus_1_eq_mask mask_eq_exp_minus_1)
  then show "align_to_hugepage_sz (- 1) (push_bit 20 2) = 0"
    using align_to_hugepage_sz_bounds [of "- 1"] by blast
  let ?r = "unat (align_to_hugepage_sz 5000000 (push_bit 20 2))"
  have "unat (5000000 :: u64) \<le> 2 ^ 64 - 2 ^ 21" by simp
  then have r: "5000000 \<le> ?r" "?r < 5000000 + 2 ^ 21" "2 ^ 21 dvd ?r"
    using align_to_hugepage_sz_bounds [of 5000000] unfolding unat_numeral by simp_all
  from r(3) obtain k where k: "?r = 2 ^ 21 * k" by (rule dvdE)
  with r(1,2) have "k = 3" by simp
  with k show "?r = 6291456" by simp
qed

section \<open>Lifetimes of contexts and memory regions\<close>

definition region_resources :: "MemoryRegion \<Rightarrow> resource set" where
  "region_resources m =
     {RMr (mr_handle m)} \<union>
     (if is_raw_ptr m then {} else if is_huge_page m then {RMap (mr_data m)} else {RMem (mr_data m)})"

lemma live_region_drop:
  assumes v: "verbs_lifetimes v live"
  shows "live (MemoryRegion_drop User v m d) = live d - region_resources m"
  using freesD [OF verbs_lifetimesD(6) [OF v]] freesD [OF verbs_lifetimesD(18) [OF v]]
    freesD [OF verbs_lifetimesD(20) [OF v]]
  by (auto simp: MemoryRegion_drop_def region_resources_def Let_def)





section \<open>Error pointers of the kernel\<close>

text \<open>C36. The kernel interface reports a failed call by an error pointer, an address
  in the last page, not by null.  The constructors test for null only, so that a
  failing \<open>ib_create_cq\<close>, \<open>ib_create_srq\<close> or \<open>ib_alloc_pd\<close> is taken for success and
  the error pointer becomes the handle; the address handle constructor, which
  calls \<open>ptr_is_err\<close>, reports the failure.\<close>

theorem kernel_error_pointers:
  assumes "ptr_is_err Kernel e"
  shows "(fst (vb_create_cq v n d) = e \<longrightarrow> fst (CompletionQueue_create v c n d) = Ok \<lparr> cq_ptr = e \<rparr>)
       \<and> (fst (vb_create_srq v n s d) = e \<longrightarrow> fst (SharedReceiveQueue_create v c n s d) = Ok \<lparr> srq_ptr = e \<rparr>)
       \<and> (fst (vb_alloc_pd v d) = e \<longrightarrow> fst (Context_new Kernel v d) \<noteq> Err (ContextError ''pd'' EAGAIN))
       \<and> (fst (vb_create_ah v (cx_pd c) (ah_attr_of Kernel port i lid gid) d) = e \<longrightarrow>
            fst (create_address_handler Kernel v c port i lid gid d) = Err (CreationError ''AddressHandler'' EAGAIN))"
proof -
  have "e \<noteq> 0" using assms by (auto simp: ptr_is_err_def)
  then show ?thesis
    using assms
    by (auto simp: CompletionQueue_create_def SharedReceiveQueue_create_def Context_new_def
        Context_new_from_flags_def create_address_handler_def NonNull_new_def Let_def
        split: prod.splits option.splits)
qed

theorem kernel_error_pointers_witness:
  "fst (CompletionQueue_create (ref_verbs \<lparr> vb_create_cq := \<lambda>_ d. (- 12, d) \<rparr>) demo_ctx 128 (ref_init 9)) = Ok \<lparr> cq_ptr = - 12 \<rparr>"
proof -
  have "ptr_is_err Kernel (- 12)" by (simp add: ptr_is_err_def)
  from kernel_error_pointers [OF this, of "ref_verbs \<lparr> vb_create_cq := \<lambda>_ d. (- 12, d) \<rparr>" 128 "ref_init 9" demo_ctx]
  show ?thesis by simp
qed

section \<open>Polling and ports\<close>

text \<open>The contract of \<open>ibv_poll_cq\<close>: a negative number on error, else the number of
  completions written to the front of the buffer, at most as many as asked for.\<close>

definition poll_law :: "'d verbs \<Rightarrow> bool" where
  "poll_law v \<longleftrightarrow>
     (\<forall>q k d n wcs d'. vb_poll_cq v q k d = (n, wcs, d') \<and> 0 \<le> k \<and> 0 \<le> n \<longrightarrow> n \<le> k \<and> n = int (length wcs))"

text \<open>C37. \<open>poll\<close> never panics and loses no completion: for a buffer of fewer than
  \<open>2^31\<close> entries the call either returns \<open>PollCQError\<close>, exactly when the driver
  reports an error, or the slice of exactly the completions the driver wrote, in
  order, while the rest of the buffer keeps its contents.\<close>

theorem poll_exact:
  assumes "poll_law v" and "length buf < 2 ^ 31"
    and "vb_poll_cq v (cq_ptr q) (int (length buf)) d = (n, wcs, d')"
  shows "CompletionQueue_poll v q buf d =
     Some (if n < 0 then (Err (PollCQError EINVAL), fill wcs buf, d')
           else (Ok wcs, wcs @ drop (length wcs) buf, d'))"
proof -
  have call: "vb_poll_cq v (cq_ptr q) (sint (word_of_nat (length buf) :: u32)) d = (n, wcs, d')"
    using assms(2,3) by (simp add: sint_of_small_nat)
  show ?thesis
  proof (cases "n < 0")
    case True
    then show ?thesis by (simp add: CompletionQueue_poll_def call Let_def)
  next
    case False
    with assms(1,3) have n: "n \<le> int (length buf)" "n = int (length wcs)"
      unfolding poll_law_def by (metis linorder_not_less of_nat_0_le_iff)+
    then show ?thesis using False by (simp add: CompletionQueue_poll_def call Let_def fill_def)
  qed
qed

theorem poll_exact_witness:
  "CompletionQueue_poll (ref_verbs \<lparr> vb_poll_cq := \<lambda>_ k d. (1, [\<lparr> wc_wr_id = 5, wc_status = 0, wc_byte_len = 8, wc_imm_data = 0, wc_qp_num = 3 \<rparr>], d) \<rparr>) \<lparr> cq_ptr = 7 \<rparr>
     [] (ref_init 1) = None
 \<and> CompletionQueue_poll ref_verbs \<lparr> cq_ptr = 7 \<rparr>
     [\<lparr> wc_wr_id = 5, wc_status = 0, wc_byte_len = 8, wc_imm_data = 0, wc_qp_num = 3 \<rparr>] (ref_init 1)
   = Some (Ok [], [\<lparr> wc_wr_id = 5, wc_status = 0, wc_byte_len = 8, wc_imm_data = 0, wc_qp_num = 3 \<rparr>], ref_init 1)"
proof
  show "CompletionQueue_poll (ref_verbs \<lparr> vb_poll_cq := \<lambda>_ k d. (1, [\<lparr> wc_wr_id = 5, wc_status = 0, wc_byte_len = 8, wc_imm_data = 0, wc_qp_num = 3 \<rparr>], d) \<rparr>) \<lparr> cq_ptr = 7 \<rparr>
     [] (ref_init 1) = None"
    by (simp add: CompletionQueue_poll_def fill_def)
  have "poll_law ref_verbs" by (simp add: poll_law_def ref_verbs_def)
  from poll_exact [OF this, of "[w]" "\<lparr> cq_ptr = 7 \<rparr>" "ref_init 1" 0 "[]" "ref_init 1" for w]
  show "CompletionQueue_poll ref_verbs \<lparr> cq_ptr = 7 \<rparr>
     [\<lparr> wc_wr_id = 5, wc_status = 0, wc_byte_len = 8, wc_imm_data = 0, wc_qp_num = 3 \<rparr>] (ref_init 1)
   = Some (Ok [], [\<lparr> wc_wr_id = 5, wc_status = 0, wc_byte_len = 8, wc_imm_data = 0, wc_qp_num = 3 \<rparr>], ref_init 1)"
    by (simp add: ref_verbs_def)
qed

text \<open>C40. \<open>first_valid_port\<close> returns the first port of the range that is active and
  whose GID can be read, and nothing when there is none; ports whose query fails
  are skipped.  \<open>UDriver::create\<close> returns a driver exactly when the device list
  exists and has no null entry, and then device \<open>i\<close> of the driver is entry \<open>i\<close> of
  the list.\<close>

theorem port_and_device_lookup:
  "first_valid_port v ports d =
     find (\<lambda>i. get_port_attr v i d \<in> {Ok a |a. pa_state a = IB_PORT_ACTIVE} \<and> is_ok (query_gid v i 0 d)) ports
 \<and> (\<forall>l u. UDriver_create l = Some u \<longleftrightarrow>
       (\<exists>devs. l = Some devs \<and> 0 \<notin> set devs \<and> u = \<lparr> rnics = devs, raw_devices = devs \<rparr>))
 \<and> (\<forall>devs i. get_dev \<lparr> rnics = devs, raw_devices = devs \<rparr> i = (if i < length devs then Some (devs ! i) else None))"
proof (intro conjI allI)
  show "first_valid_port v ports d =
     find (\<lambda>i. get_port_attr v i d \<in> {Ok a |a. pa_state a = IB_PORT_ACTIVE} \<and> is_ok (query_gid v i 0 d)) ports"
  proof (induction ports)
    case (Cons i ports)
    show ?case
      by (cases "get_port_attr v i d"; cases "query_gid v i 0 d")
        (auto simp: port_status_def Cons.IH)
  qed simp
  have wrap: "UDriver_wrap devs = (if 0 \<in> set devs then None else Some devs)" for devs
    by (induction devs) (auto simp: Device_new_def NonNull_new_def)
  show "UDriver_create l = Some u \<longleftrightarrow>
       (\<exists>devs. l = Some devs \<and> 0 \<notin> set devs \<and> u = \<lparr> rnics = devs, raw_devices = devs \<rparr>)" for l u
    by (cases l) (auto simp: UDriver_create_def wrap)
qed (simp add: get_dev_def)

end
