(* ===== verification/Qp_Ops.thy ===== *)
theory Qp_Ops
  imports Qp_Builder
begin

text \<open>
  The data path of a queue pair: the post operations of the user build
  (queue_pairs/operations_user.rs) and of the kernel build
  (queue_pairs/operations_kernel.rs), receive posting and polling
  (queue_pairs/mod.rs) and datagram endpoints (queue_pairs/endpoint.rs).

  A work request handed to the driver is a value: the driver follows the \<open>next\<close>
  pointers and reads the scatter list during the call.  The single requests
  below form a chain of one.  Address arithmetic wraps around at 64 bits and
  \<open>as u32\<close> truncates, as in a release build.
\<close>

section \<open>The data path of the driver\<close>

record ibv_mw_bind =
  mb_wr_id :: u64
  mb_send_flags :: "ib_send_flags set"
  mb_mr :: ptr
  mb_addr :: u64
  mb_length :: u64
  mb_access :: "ib_access_flags set"

record 'd datapath =
  dp_post_send :: "ptr \<Rightarrow> ib_send_wr list \<Rightarrow> 'd \<Rightarrow> i32 \<times> 'd"
  dp_post_recv :: "ptr \<Rightarrow> ib_recv_wr list \<Rightarrow> 'd \<Rightarrow> i32 \<times> 'd"
  dp_bind_mw :: "ptr \<Rightarrow> ptr \<Rightarrow> ibv_mw_bind \<Rightarrow> 'd \<Rightarrow> i32 \<times> 'd"

definition post_send_wr ::
  "'d datapath \<Rightarrow> QueuePair \<Rightarrow> ib_send_wr list \<Rightarrow> 'd \<Rightarrow> (unit, DatapathError) result \<times> 'd"
where
  "post_send_wr n qp wrs d =
     (let (err, d) = dp_post_send n (inner_qp qp) wrs d in
      if err \<noteq> 0 then (Err (PostSendError err), d) else (Ok (), d))"

definition post_recv_wr ::
  "'d datapath \<Rightarrow> QueuePair \<Rightarrow> ib_recv_wr list \<Rightarrow> 'd \<Rightarrow> (unit, DatapathError) result \<times> 'd"
where
  "post_recv_wr n qp wrs d =
     (let (err, d) = dp_post_recv n (inner_qp qp) wrs d in
      if err \<noteq> 0 then (Err (PostRecvError err), d) else (Ok (), d))"

text \<open>A range of bytes is a pair of its bounds; \<open>size\<close> of an empty or reversed range
  is 0.\<close>

type_synonym range = "u64 \<times> u64"

definition range_size :: "range \<Rightarrow> u64" where
  "range_size r = (if fst r < snd r then snd r - fst r else 0)"

definition send_wr_default :: ib_send_wr where
  "send_wr_default = \<lparr> sw_wr_id = 0, sw_sg_list = [], sw_opcode = IB_WR_RDMA_WRITE, sw_send_flags = {},
                       sw_imm_data = 0, sw_target = WrNone \<rparr>"

definition signal_flags :: "bool \<Rightarrow> ib_send_flags set" where
  "signal_flags signaled = (if signaled then {IB_SEND_SIGNALED} else {})"

text \<open>The scatter entry for a range of a memory region.  The range is not compared
  with the capacity of the region.\<close>

definition region_sge :: "space \<Rightarrow> 'd verbs \<Rightarrow> MemoryRegion \<Rightarrow> range \<Rightarrow> 'd \<Rightarrow> ib_sge" where
  "region_sge sp v mr r d =
     \<lparr> sge_addr = get_rdma_addr sp v mr d + fst r, sge_length = ucast (range_size r),
       sge_lkey = mr_lkey sp v mr d \<rparr>"

section \<open>Endpoints\<close>

record DatagramEndpoint =
  ep_address_handler :: AddressHandler
  ep_qpn :: u32
  ep_qkey :: u32
  ep_lid :: u32
  ep_gid :: ib_gid
  ep_dct_num :: u32
  ep_dc_key :: u64

text \<open>\<open>dct_num\<close> and \<open>dc_key\<close> exist with the feature \<open>dct\<close>.\<close>

definition DatagramEndpoint_new ::
  "space \<Rightarrow> 'd verbs \<Rightarrow> Context \<Rightarrow> u8 \<Rightarrow> u32 \<Rightarrow> ib_gid \<Rightarrow> u32 \<Rightarrow> u32 \<Rightarrow> u32 \<Rightarrow> u64 \<Rightarrow> 'd
     \<Rightarrow> (DatagramEndpoint, ControlpathError) result \<times> 'd"
where
  "DatagramEndpoint_new sp v ctx local_port_num lid gid qpn qkey dct_num dc_key d =
     (case create_address_handler sp v ctx local_port_num 0 lid gid d of
        (Err e, d) \<Rightarrow> (Err e, d)
      | (Ok ah, d) \<Rightarrow>
          (Ok \<lparr> ep_address_handler = ah, ep_qpn = qpn, ep_qkey = qkey, ep_lid = lid, ep_gid = gid,
               ep_dct_num = dct_num, ep_dc_key = dc_key \<rparr>, d))"

section \<open>Receiving\<close>

definition post_recv ::
  "space \<Rightarrow> 'd verbs \<Rightarrow> 'd datapath \<Rightarrow> QueuePair \<Rightarrow> MemoryRegion \<Rightarrow> range \<Rightarrow> u64 \<Rightarrow> 'd
     \<Rightarrow> (unit, DatapathError) result \<times> 'd"
where
  "post_recv sp v n qp mr r wr_id d =
     post_recv_wr n qp [\<lparr> rw_wr_id = wr_id, rw_sg_list = [region_sge sp v mr r d] \<rparr>] d"

definition poll_send_cq ::
  "'d verbs \<Rightarrow> QueuePair \<Rightarrow> ib_wc list \<Rightarrow> 'd
     \<Rightarrow> ((ib_wc list, DatapathError) result \<times> ib_wc list \<times> 'd) option"
where
  "poll_send_cq v qp completions d = CompletionQueue_poll v (qp_send_cq qp) completions d"

definition poll_recv_cq ::
  "'d verbs \<Rightarrow> QueuePair \<Rightarrow> ib_wc list \<Rightarrow> 'd
     \<Rightarrow> ((ib_wc list, DatapathError) result \<times> ib_wc list \<times> 'd) option"
where
  "poll_recv_cq v qp completions d = CompletionQueue_poll v (qp_recv_cq qp) completions d"

section \<open>Datagrams, user build\<close>

definition ud_target :: "DatagramEndpoint \<Rightarrow> wr_target" where
  "ud_target ep = WrUd (ahd_inner (ep_address_handler ep)) (ep_qpn ep) (ep_qkey ep)"

definition post_datagram_w_flags ::
  "'d verbs \<Rightarrow> 'd datapath \<Rightarrow> QueuePair \<Rightarrow> DatagramEndpoint \<Rightarrow> MemoryRegion \<Rightarrow> range \<Rightarrow> u64
     \<Rightarrow> u32 option \<Rightarrow> ib_send_flags set \<Rightarrow> 'd \<Rightarrow> (unit, DatapathError) result \<times> 'd"
where
  "post_datagram_w_flags v n qp endpoint mr r wr_id imm_data flags d =
     (if qp_mode qp \<noteq> UD then (Err QPTypeError, d)
      else
        let wr = send_wr_default \<lparr> sw_target := ud_target endpoint, sw_wr_id := wr_id,
                   sw_sg_list := [region_sge User v mr r d], sw_send_flags := flags \<rparr>;
            wr = (case imm_data of
                    Some x \<Rightarrow> wr \<lparr> sw_imm_data := x, sw_opcode := IB_WR_SEND_WITH_IMM \<rparr>
                  | None \<Rightarrow> wr \<lparr> sw_opcode := IB_WR_SEND \<rparr>)
        in post_send_wr n qp [wr] d)"

definition post_datagram ::
  "'d verbs \<Rightarrow> 'd datapath \<Rightarrow> QueuePair \<Rightarrow> DatagramEndpoint \<Rightarrow> MemoryRegion \<Rightarrow> range \<Rightarrow> u64
     \<Rightarrow> bool \<Rightarrow> 'd \<Rightarrow> (unit, DatapathError) result \<times> 'd"
where
  "post_datagram v n qp endpoint mr r wr_id signaled d =
     post_datagram_w_flags v n qp endpoint mr r wr_id None (signal_flags signaled) d"

definition post_datagram_w_imm ::
  "'d verbs \<Rightarrow> 'd datapath \<Rightarrow> QueuePair \<Rightarrow> DatagramEndpoint \<Rightarrow> MemoryRegion \<Rightarrow> range \<Rightarrow> u64
     \<Rightarrow> u32 \<Rightarrow> bool \<Rightarrow> 'd \<Rightarrow> (unit, DatapathError) result \<times> 'd"
where
  "post_datagram_w_imm v n qp endpoint mr r wr_id imm_data signaled d =
     post_datagram_w_flags v n qp endpoint mr r wr_id (Some imm_data) (signal_flags signaled) d"

text \<open>
  The batch.  The requests live in an array of 32 default entries whose \<open>next\<close>
  pointers are set first.  The scatter entry of a request is a local variable
  of the loop body, which is gone when the chain is posted: what the driver
  reads through that pointer is the parameter \<open>stale\<close>, a function of the
  position.  With no parameters the first, default entry is posted.
\<close>

definition WR_LIST_MAX :: nat where "WR_LIST_MAX = 32"

type_synonym batch_param = "DatagramEndpoint \<times> MemoryRegion \<times> range \<times> u64 \<times> bool \<times> u32 option"

definition batch_wr :: "(nat \<Rightarrow> ib_sge) \<Rightarrow> nat \<Rightarrow> batch_param \<Rightarrow> ib_send_wr" where
  "batch_wr stale i p =
     (case p of (endpoint, mr, r, wr_id, signal, imm) \<Rightarrow>
        let wr = send_wr_default \<lparr> sw_target := ud_target endpoint, sw_wr_id := wr_id,
                   sw_sg_list := [stale i], sw_send_flags := signal_flags signal \<rparr>
        in (case imm of
              Some x \<Rightarrow> wr \<lparr> sw_imm_data := x, sw_opcode := IB_WR_SEND_WITH_IMM \<rparr>
            | None \<Rightarrow> wr \<lparr> sw_opcode := IB_WR_SEND \<rparr>))"

definition batch_next :: "nat \<Rightarrow> nat \<Rightarrow> nat option" where
  "batch_next num_wr i = (if i < num_wr then if i = num_wr - 1 then None else Some (i + 1) else None)"

fun batch_fill :: "(nat \<Rightarrow> ib_sge) \<Rightarrow> nat \<Rightarrow> batch_param list \<Rightarrow> ib_send_wr list \<Rightarrow> ib_send_wr list" where
  "batch_fill stale i [] wrs = wrs"
| "batch_fill stale i (p # ps) wrs = batch_fill stale (i + 1) ps (wrs[i := batch_wr stale i p])"

text \<open>The chain the driver sees from entry \<open>i\<close>; the fuel bounds the walk by the
  length of the array.\<close>

fun batch_chain :: "nat \<Rightarrow> (nat \<Rightarrow> nat option) \<Rightarrow> ib_send_wr list \<Rightarrow> nat \<Rightarrow> ib_send_wr list" where
  "batch_chain 0 nxt wrs i = []"
| "batch_chain (Suc f) nxt wrs i =
     wrs ! i # (case nxt i of None \<Rightarrow> [] | Some j \<Rightarrow> batch_chain f nxt wrs j)"

definition post_datagram_batch ::
  "'d datapath \<Rightarrow> (nat \<Rightarrow> ib_sge) \<Rightarrow> QueuePair \<Rightarrow> batch_param list \<Rightarrow> 'd
     \<Rightarrow> (unit, DatapathError) result \<times> 'd"
where
  "post_datagram_batch n stale qp param d =
     (if qp_mode qp \<noteq> UD then (Err QPTypeError, d)
      else if WR_LIST_MAX < length param then (Err (PostSendError (- 1)), d)
      else
        let wr_list = batch_fill stale 0 param (replicate WR_LIST_MAX send_wr_default)
        in post_send_wr n qp (batch_chain WR_LIST_MAX (batch_next (length param)) wr_list 0) d)"

section \<open>Reliable connections, user build\<close>

definition post_send_inner ::
  "'d datapath \<Rightarrow> QueuePair \<Rightarrow> ib_wr_opcode \<Rightarrow> u64 \<Rightarrow> u64 \<Rightarrow> u32 \<Rightarrow> u32 \<Rightarrow> u32 \<Rightarrow> u32
     \<Rightarrow> ib_send_flags set \<Rightarrow> u64 \<Rightarrow> 'd \<Rightarrow> (unit, DatapathError) result \<times> 'd"
where
  "post_send_inner n qp op laddr raddr lkey rkey sz imm_data send_flag wr_id d =
     post_send_wr n qp
       [\<lparr> sw_wr_id = wr_id, sw_sg_list = [\<lparr> sge_addr = laddr, sge_length = sz, sge_lkey = lkey \<rparr>],
          sw_opcode = op, sw_send_flags = send_flag, sw_imm_data = imm_data,
          sw_target = WrRdma raddr rkey \<rparr>] d"

definition post_send_atomic_inner ::
  "'d datapath \<Rightarrow> QueuePair \<Rightarrow> ib_wr_opcode \<Rightarrow> u64 \<Rightarrow> u64 \<Rightarrow> u32 \<Rightarrow> u32
     \<Rightarrow> ib_send_flags set \<Rightarrow> u64 \<Rightarrow> u64 \<Rightarrow> u64 \<Rightarrow> 'd \<Rightarrow> (unit, DatapathError) result \<times> 'd"
where
  "post_send_atomic_inner n qp op laddr raddr lkey rkey send_flag wr_id compare_add swap d =
     post_send_wr n qp
       [\<lparr> sw_wr_id = wr_id, sw_sg_list = [\<lparr> sge_addr = laddr, sge_length = 8, sge_lkey = lkey \<rparr>],
          sw_opcode = op, sw_send_flags = send_flag, sw_imm_data = 0,
          sw_target = WrAtomic raddr rkey compare_add swap \<rparr>] d"

definition post_send_read ::
  "'d verbs \<Rightarrow> 'd datapath \<Rightarrow> QueuePair \<Rightarrow> MemoryRegion \<Rightarrow> range \<Rightarrow> bool \<Rightarrow> u64 \<Rightarrow> u32 \<Rightarrow> u64 \<Rightarrow> 'd
     \<Rightarrow> (unit, DatapathError) result \<times> 'd"
where
  "post_send_read v n qp mr r signaled raddr rkey wr_id d =
     (if qp_mode qp \<noteq> RC then (Err QPTypeError, d)
      else post_send_inner n qp IB_WR_RDMA_READ (get_rdma_addr User v mr d + fst r) raddr
             (mr_lkey User v mr d) rkey (ucast (range_size r)) 0 (signal_flags signaled) wr_id d)"

definition post_send_write ::
  "'d verbs \<Rightarrow> 'd datapath \<Rightarrow> QueuePair \<Rightarrow> MemoryRegion \<Rightarrow> range \<Rightarrow> bool \<Rightarrow> u64 \<Rightarrow> u32 \<Rightarrow> u64 \<Rightarrow> 'd
     \<Rightarrow> (unit, DatapathError) result \<times> 'd"
where
  "post_send_write v n qp mr r signaled raddr rkey wr_id d =
     (if qp_mode qp \<noteq> RC then (Err QPTypeError, d)
      else post_send_inner n qp IB_WR_RDMA_WRITE (get_rdma_addr User v mr d + fst r) raddr
             (mr_lkey User v mr d) rkey (ucast (range_size r)) 0 (signal_flags signaled) wr_id d)"

definition post_send_cas ::
  "'d verbs \<Rightarrow> 'd datapath \<Rightarrow> QueuePair \<Rightarrow> MemoryRegion \<Rightarrow> u64 \<Rightarrow> bool \<Rightarrow> u64 \<Rightarrow> u32 \<Rightarrow> u64
     \<Rightarrow> u64 \<Rightarrow> u64 \<Rightarrow> 'd \<Rightarrow> (unit, DatapathError) result \<times> 'd"
where
  "post_send_cas v n qp mr offset signaled raddr rkey wr_id old_val new_val d =
     (if qp_mode qp \<noteq> RC then (Err QPTypeError, d)
      else post_send_atomic_inner n qp IB_WR_ATOMIC_CMP_AND_SWP (get_rdma_addr User v mr d + offset) raddr
             (mr_lkey User v mr d) rkey (signal_flags signaled) wr_id old_val new_val d)"

definition post_send_faa ::
  "'d verbs \<Rightarrow> 'd datapath \<Rightarrow> QueuePair \<Rightarrow> MemoryRegion \<Rightarrow> u64 \<Rightarrow> bool \<Rightarrow> u64 \<Rightarrow> u32 \<Rightarrow> u64
     \<Rightarrow> u64 \<Rightarrow> 'd \<Rightarrow> (unit, DatapathError) result \<times> 'd"
where
  "post_send_faa v n qp mr offset signaled raddr rkey wr_id val d =
     (if qp_mode qp \<noteq> RC then (Err QPTypeError, d)
      else post_send_atomic_inner n qp IB_WR_ATOMIC_FETCH_AND_ADD (get_rdma_addr User v mr d + offset) raddr
             (mr_lkey User v mr d) rkey (signal_flags signaled) wr_id val 0 d)"

definition bind_mw ::
  "'d verbs \<Rightarrow> 'd datapath \<Rightarrow> QueuePair \<Rightarrow> MemoryRegion \<Rightarrow> MemoryWindow \<Rightarrow> range \<Rightarrow> u64 \<Rightarrow> bool \<Rightarrow> 'd
     \<Rightarrow> (unit, DatapathError) result \<times> 'd"
where
  "bind_mw v n qp mr mw r wr_id signal d =
     (if \<not> is_type_1 v mw d then (Err (PostSendError EINVAL), d)
      else
        let (err, d) = dp_bind_mw n (inner_qp qp) (inner_mw mw)
              \<lparr> mb_wr_id = wr_id, mb_send_flags = signal_flags signal, mb_mr = mr_handle mr,
                mb_addr = get_rdma_addr User v mr d + fst r, mb_length = range_size r,
                mb_access = {IB_ACCESS_LOCAL_WRITE, IB_ACCESS_REMOTE_READ, IB_ACCESS_REMOTE_WRITE,
                             IB_ACCESS_REMOTE_ATOMIC} \<rparr> d
        in if err \<noteq> 0 then (Err (PostSendError err), d) else (Ok (), d))"

section \<open>Kernel build\<close>

definition kpost_datagram ::
  "'d verbs \<Rightarrow> 'd datapath \<Rightarrow> QueuePair \<Rightarrow> DatagramEndpoint \<Rightarrow> MemoryRegion \<Rightarrow> range \<Rightarrow> u64
     \<Rightarrow> bool \<Rightarrow> 'd \<Rightarrow> (unit, DatapathError) result \<times> 'd"
where
  "kpost_datagram v n qp endpoint mr r wr_id signaled d =
     (if qp_mode qp \<noteq> UD then (Err QPTypeError, d)
      else post_send_wr n qp
             [send_wr_default \<lparr> sw_target := ud_target endpoint, sw_opcode := IB_WR_SEND,
                sw_send_flags := signal_flags signaled, sw_sg_list := [region_sge Kernel v mr r d],
                sw_wr_id := wr_id \<rparr>] d)"

definition kpost_send_inner ::
  "'d datapath \<Rightarrow> QueuePair \<Rightarrow> ib_wr_opcode \<Rightarrow> u64 \<Rightarrow> u64 \<Rightarrow> u32 \<Rightarrow> u32 \<Rightarrow> u32 \<Rightarrow> u32
     \<Rightarrow> ib_send_flags set \<Rightarrow> u64 \<Rightarrow> 'd \<Rightarrow> (unit, DatapathError) result \<times> 'd"
where
  "kpost_send_inner n qp op laddr raddr lkey rkey sz imm_data send_flag wr_id d =
     post_send_wr n qp
       [send_wr_default \<lparr> sw_wr_id := wr_id, sw_opcode := op, sw_send_flags := send_flag,
          sw_imm_data := imm_data,
          sw_sg_list := [\<lparr> sge_addr = laddr, sge_length = sz, sge_lkey = lkey \<rparr>],
          sw_target := WrRdma raddr rkey \<rparr>] d"

definition kpost_send_op ::
  "ib_wr_opcode \<Rightarrow> 'd verbs \<Rightarrow> 'd datapath \<Rightarrow> QueuePair \<Rightarrow> MemoryRegion \<Rightarrow> range \<Rightarrow> bool \<Rightarrow> u64 \<Rightarrow> u32
     \<Rightarrow> u64 \<Rightarrow> 'd \<Rightarrow> (unit, DatapathError) result \<times> 'd"
where
  "kpost_send_op op v n qp mr r signaled raddr rkey wr_id d =
     (if qp_mode qp \<noteq> RC then (Err QPTypeError, d)
      else kpost_send_inner n qp op (get_rdma_addr Kernel v mr d + fst r) raddr
             (mr_lkey Kernel v mr d) rkey (ucast (range_size r)) 0 (signal_flags signaled) wr_id d)"

definition kpost_send_send ::
  "'d verbs \<Rightarrow> 'd datapath \<Rightarrow> QueuePair \<Rightarrow> MemoryRegion \<Rightarrow> range \<Rightarrow> bool \<Rightarrow> u64 \<Rightarrow> u32 \<Rightarrow> u64 \<Rightarrow> 'd
     \<Rightarrow> (unit, DatapathError) result \<times> 'd"
where
  "kpost_send_send = kpost_send_op IB_WR_SEND"

definition kpost_send_read ::
  "'d verbs \<Rightarrow> 'd datapath \<Rightarrow> QueuePair \<Rightarrow> MemoryRegion \<Rightarrow> range \<Rightarrow> bool \<Rightarrow> u64 \<Rightarrow> u32 \<Rightarrow> u64 \<Rightarrow> 'd
     \<Rightarrow> (unit, DatapathError) result \<times> 'd"
where
  "kpost_send_read = kpost_send_op IB_WR_RDMA_READ"

definition kpost_send_write ::
  "'d verbs \<Rightarrow> 'd datapath \<Rightarrow> QueuePair \<Rightarrow> MemoryRegion \<Rightarrow> range \<Rightarrow> bool \<Rightarrow> u64 \<Rightarrow> u32 \<Rightarrow> u64 \<Rightarrow> 'd
     \<Rightarrow> (unit, DatapathError) result \<times> 'd"
where
  "kpost_send_write = kpost_send_op IB_WR_RDMA_WRITE"

definition post_send_dc_inner ::
  "'d datapath \<Rightarrow> QueuePair \<Rightarrow> ib_wr_opcode \<Rightarrow> DatagramEndpoint \<Rightarrow> u64 \<Rightarrow> u64 \<Rightarrow> u32 \<Rightarrow> u32 \<Rightarrow> u32
     \<Rightarrow> u32 \<Rightarrow> ib_send_flags set \<Rightarrow> 'd \<Rightarrow> (unit, DatapathError) result \<times> 'd"
where
  "post_send_dc_inner n qp op endpoint laddr raddr lkey rkey sz imm_data send_flag d =
     post_send_wr n qp
       [send_wr_default \<lparr> sw_opcode := op, sw_send_flags := send_flag, sw_imm_data := imm_data,
          sw_sg_list := [\<lparr> sge_addr = laddr, sge_length = sz, sge_lkey = lkey \<rparr>],
          sw_target := WrDc (ahd_inner (ep_address_handler endpoint)) (ep_dct_num endpoint)
                         (ep_dc_key endpoint) raddr rkey \<rparr>] d"

definition post_send_dc_read ::
  "'d verbs \<Rightarrow> 'd datapath \<Rightarrow> QueuePair \<Rightarrow> DatagramEndpoint \<Rightarrow> MemoryRegion \<Rightarrow> range \<Rightarrow> bool \<Rightarrow> u64
     \<Rightarrow> u32 \<Rightarrow> 'd \<Rightarrow> (unit, DatapathError) result \<times> 'd"
where
  "post_send_dc_read v n qp endpoint mr r signaled raddr rkey d =
     (if qp_mode qp \<noteq> DC then (Err QPTypeError, d)
      else post_send_dc_inner n qp IB_WR_RDMA_READ endpoint (get_rdma_addr Kernel v mr d + fst r) raddr
             (mr_lkey Kernel v mr d) rkey (ucast (range_size r)) 0 (signal_flags signaled) d)"

definition post_send_dc_write ::
  "'d verbs \<Rightarrow> 'd datapath \<Rightarrow> QueuePair \<Rightarrow> DatagramEndpoint \<Rightarrow> MemoryRegion \<Rightarrow> range \<Rightarrow> bool \<Rightarrow> u64
     \<Rightarrow> u32 \<Rightarrow> 'd \<Rightarrow> (unit, DatapathError) result \<times> 'd"
where
  "post_send_dc_write v n qp endpoint mr r signaled raddr rkey d =
     (if qp_mode qp \<noteq> DC then (Err QPTypeError, d)
      else post_send_dc_inner n qp IB_WR_RDMA_WRITE endpoint (get_rdma_addr Kernel v mr d + fst r) raddr
             (mr_lkey Kernel v mr d) rkey (ucast (range_size r)) 0 (signal_flags signaled) d)"

end
