(* ===== verification/Wr_Rings.thy ===== *)
theory Wr_Rings
  imports KR_Prelude
begin

text \<open>
  Rings of work requests.  Both the send batches and the receive buffers keep
  their requests in an array whose \<open>next\<close> pointers form a ring; to post a part of
  the ring, the code cuts it behind the last request, hands the first one to the
  driver, and repairs the link.  The \<open>next\<close> pointers are a list of optional
  indices (None is the null pointer).  \<open>walk\<close> is what a driver does that follows
  the pointers: the fuel is the number of requests it is ready to follow, and
  running out of fuel, or a pointer outside the array, is None.

  The locale \<open>wr_batch\<close> is the contract of a bounded batch of requests, with the
  theorem that any sequence of operations on it behaves like one on a list.
\<close>

fun walk :: "nat \<Rightarrow> nat option list \<Rightarrow> nat \<Rightarrow> nat list option" where
  "walk 0 nx i = None"
| "walk (Suc f) nx i =
     (if i < length nx then
        (case nx ! i of None \<Rightarrow> Some [i] | Some j \<Rightarrow> map_option ((#) i) (walk f nx j))
      else None)"

definition is_ring :: "nat option list \<Rightarrow> bool" where
  "is_ring nx \<longleftrightarrow> (\<forall>i < length nx. nx ! i = Some ((i + 1) mod length nx))"

lemma is_ringD: "is_ring nx \<Longrightarrow> i < length nx \<Longrightarrow> nx ! i = Some ((i + 1) mod length nx)"
  by (simp add: is_ring_def)

lemma mod_shift_neq:
  fixes n :: nat assumes "0 < k" "k < n" "i < n" shows "(i + k) mod n \<noteq> i"
proof (cases "i + k < n")
  case False
  then have "(i + k) mod n = (i + k - n) mod n" by (simp add: le_mod_geq)
  also have "\<dots> = i + k - n" using assms by simp
  finally show ?thesis using assms False by simp
qed (use assms in simp)

lemma walk_cut:
  assumes "is_ring nx" and "i < length nx" and "k < length nx" and "k < fuel"
  shows "walk fuel (nx[(i + k) mod length nx := None]) i = Some (map (\<lambda>j. (i + j) mod length nx) [0..<k + 1])"
  using assms
proof (induction k arbitrary: i fuel)
  case 0
  then obtain f where "fuel = Suc f" by (cases fuel) auto
  with 0 show ?case by simp
next
  case (Suc k)
  let ?n = "length nx"
  let ?i = "(i + 1) mod ?n"
  obtain f where f: "fuel = Suc f" "k < f" using Suc.prems by (cases fuel) auto
  have neq: "(i + Suc k) mod ?n \<noteq> i" using Suc.prems by (intro mod_shift_neq) auto
  have step: "nx[(i + Suc k) mod ?n := None] ! i = Some ?i"
    using Suc.prems neq by (simp add: is_ringD)
  have cut: "(?i + k) mod ?n = (i + Suc k) mod ?n" by (simp add: mod_simps)
  have i': "?i < ?n" using Suc.prems by (intro mod_less_divisor) linarith
  have "walk f (nx[(i + Suc k) mod ?n := None]) ?i = Some (map (\<lambda>j. (?i + j) mod ?n) [0..<k + 1])"
    using Suc.IH [OF Suc.prems(1) i' _ f(2)] Suc.prems(3) unfolding cut by simp
  also have "map (\<lambda>j. (?i + j) mod ?n) [0..<k + 1] = map (\<lambda>j. (i + j) mod ?n) [1..<Suc k + 1]"
    by (rule nth_equalityI) (auto simp: mod_simps simp del: upt_Suc)
  finally have "walk fuel (nx[(i + Suc k) mod ?n := None]) i = Some (i # map (\<lambda>j. (i + j) mod ?n) [1..<Suc k + 1])"
    using Suc.prems(2) step by (simp add: f(1) del: upt_Suc)
  moreover have "[0..<Suc k + 1] = 0 # [1..<Suc k + 1]" by (simp add: upt_conv_Cons del: upt_Suc)
  ultimately show ?case using Suc.prems(2) by (simp del: upt_Suc)
qed

lemma ring_repair: "is_ring nx \<Longrightarrow> t < length nx \<Longrightarrow> nx[t := None, t := Some ((t + 1) mod length nx)] = nx"
  by (metis is_ringD list_update_id list_update_overwrite)

lemma walk_ring_None: "is_ring nx \<Longrightarrow> walk fuel nx i = None"
  by (induction fuel arbitrary: i) (auto simp: is_ringD)

section \<open>Bounded batches\<close>

datatype 'r batch_op = Push 'r | Flush

text \<open>Running a sequence of operations: the chains posted so far, or None when an
  operation panics.\<close>

fun run_batch ::
  "('r \<Rightarrow> 'h \<Rightarrow> (nat \<times> 'h) option) \<Rightarrow> ('h \<Rightarrow> ('w list \<times> 'h) option) \<Rightarrow> 'r batch_op list \<Rightarrow> 'h
     \<Rightarrow> ('w list list \<times> 'h) option"
where
  "run_batch push flush [] h = Some ([], h)"
| "run_batch push flush (Push r # ops) h =
     (case push r h of None \<Rightarrow> None | Some (n, h') \<Rightarrow> run_batch push flush ops h')"
| "run_batch push flush (Flush # ops) h =
     (case flush h of
        None \<Rightarrow> None
      | Some (ws, h') \<Rightarrow> map_option (\<lambda>(l, h). (ws # l, h)) (run_batch push flush ops h'))"

text \<open>The specification: a list of at most \<open>cap\<close> requests, a full list ignores a
  push, and flushing an empty list is an error.\<close>

fun spec_batch :: "('r \<Rightarrow> 'w) \<Rightarrow> nat \<Rightarrow> 'r batch_op list \<Rightarrow> 'w list \<Rightarrow> ('w list list \<times> 'w list) option" where
  "spec_batch wr cap [] b = Some ([], b)"
| "spec_batch wr cap (Push r # ops) b =
     spec_batch wr cap ops (if length b < cap then b @ [wr r] else b)"
| "spec_batch wr cap (Flush # ops) b =
     (if b = [] then None else map_option (\<lambda>(l, b'). (b # l, b')) (spec_batch wr cap ops []))"

locale wr_batch =
  fixes inv :: "'h \<Rightarrow> bool"
    and batch :: "'h \<Rightarrow> 'w list"
    and cap :: "'h \<Rightarrow> nat"
    and wr :: "'r \<Rightarrow> 'w"
    and push :: "'r \<Rightarrow> 'h \<Rightarrow> (nat \<times> 'h) option"
    and flush :: "'h \<Rightarrow> ('w list \<times> 'h) option"
  assumes push_ok: "inv h \<Longrightarrow> \<exists>h'. push r h = Some (length (batch h'), h') \<and> inv h' \<and> cap h' = cap h
            \<and> batch h' = (if length (batch h) < cap h then batch h @ [wr r] else batch h)"
    and flush_ok: "inv h \<Longrightarrow> batch h \<noteq> [] \<Longrightarrow>
            \<exists>h'. flush h = Some (batch h, h') \<and> inv h' \<and> cap h' = cap h \<and> batch h' = []"
    and flush_empty: "inv h \<Longrightarrow> batch h = [] \<Longrightarrow> flush h = None"
begin

lemma run_refines:
  assumes "inv h"
  shows "map_option (map_prod id batch) (run_batch push flush ops h) = spec_batch wr (cap h) ops (batch h)"
  using assms
proof (induction ops arbitrary: h)
  case (Cons a ops)
  show ?case
  proof (cases a)
    case (Push r)
    with push_ok [OF Cons.prems, of r] obtain h' where h': "push r h = Some (length (batch h'), h')" "inv h'"
      "cap h' = cap h" "batch h' = (if length (batch h) < cap h then batch h @ [wr r] else batch h)" by blast
    show ?thesis using Push Cons.IH [OF h'(2)] h' by simp
  next
    case Flush
    show ?thesis
    proof (cases "batch h = []")
      case True
      with Flush flush_empty [OF Cons.prems] show ?thesis by simp
    next
      case False
      with flush_ok [OF Cons.prems] obtain h' where h': "flush h = Some (batch h, h')" "inv h'"
        "cap h' = cap h" "batch h' = []" by blast
      show ?thesis
        using Flush False Cons.IH [OF h'(2)] h'
        by (cases "run_batch push flush ops h'"; cases "spec_batch wr (cap h) ops []") auto
    qed
  qed
qed simp

lemma run_inv: "inv h \<Longrightarrow> run_batch push flush ops h = Some (l, h') \<Longrightarrow> inv h' \<and> cap h' = cap h"
proof (induction ops arbitrary: h l)
  case (Cons a ops)
  show ?case
  proof (cases a)
    case (Push r)
    with push_ok [OF Cons.prems(1), of r] Cons.IH Cons.prems(2) show ?thesis by fastforce
  next
    case Flush
    show ?thesis
    proof (cases "batch h = []")
      case True
      with Flush flush_empty [OF Cons.prems(1)] Cons.prems(2) show ?thesis by simp
    next
      case False
      with flush_ok [OF Cons.prems(1)] Flush Cons.IH Cons.prems(2) show ?thesis by fastforce
    qed
  qed
qed simp

end

end
