(* ===== verification/Doorbell.thy ===== *)
theory Doorbell
  imports Qp_Ops Wr_Rings
begin

text \<open>
  Doorbell batching of the user build (queue_pairs/doorbell_helper.rs).  A
  \<open>DoorbellHelper\<close> holds an array of work requests and an array of scatter
  entries.  Pointers between them are indices: \<open>ws_next\<close> into the request array,
  \<open>ws_sg\<close> into the scatter array.  A panic (a failed \<open>assert!\<close> or an index out of
  bounds) is None.
\<close>

section \<open>DoorbellHelper\<close>

record wr_slot =
  ws_wr :: ib_send_wr
  ws_num_sge :: nat
  ws_next :: "nat option"
  ws_sg :: "nat option"

record DoorbellHelper =
  wr_list :: "wr_slot list"
  sg_list :: "ib_sge list"
  dh_capacity :: nat
  cur_idx :: int

definition zero_slot :: wr_slot where
  "zero_slot = \<lparr> ws_wr = send_wr_default, ws_num_sge = 0, ws_next = None, ws_sg = None \<rparr>"

definition zero_sge :: ib_sge where
  "zero_sge = \<lparr> sge_addr = 0, sge_length = 0, sge_lkey = 0 \<rparr>"

definition new_uninit :: "nat \<Rightarrow> DoorbellHelper" where
  "new_uninit capacity =
     \<lparr> wr_list = replicate capacity zero_slot, sg_list = replicate capacity zero_sge,
       dh_capacity = capacity, cur_idx = - 1 \<rparr>"

definition link_slot :: "nat \<Rightarrow> nat \<Rightarrow> wr_slot \<Rightarrow> wr_slot" where
  "link_slot capacity i w =
     w \<lparr> ws_num_sge := 1, ws_next := Some ((i + 1) mod capacity), ws_sg := Some i \<rparr>"

fun init_loop :: "nat list \<Rightarrow> DoorbellHelper \<Rightarrow> DoorbellHelper option" where
  "init_loop [] h = Some h"
| "init_loop (i # is) h =
     (if i < length (wr_list h) \<and> (i + 1) mod dh_capacity h < length (wr_list h) \<and> i < length (sg_list h)
      then init_loop is (h \<lparr> wr_list := (wr_list h)[i := link_slot (dh_capacity h) i (wr_list h ! i)] \<rparr>)
      else None)"

definition dh_init :: "DoorbellHelper \<Rightarrow> DoorbellHelper option" where
  "dh_init h = init_loop [0..<dh_capacity h] h"

definition create_and_init :: "nat \<Rightarrow> DoorbellHelper option" where
  "create_and_init capacity = dh_init (new_uninit capacity)"

definition sanity_check :: "DoorbellHelper \<Rightarrow> bool" where
  "sanity_check h = list_all (\<lambda>i. ws_sg (wr_list h ! i) = Some i) [0..<dh_capacity h]"

definition dh_size :: "DoorbellHelper \<Rightarrow> int" where
  "dh_size h = cur_idx h + 1"

definition dh_is_empty :: "DoorbellHelper \<Rightarrow> bool" where
  "dh_is_empty h \<longleftrightarrow> dh_size h \<le> 0"

definition dh_empty :: "DoorbellHelper \<Rightarrow> DoorbellHelper" where
  "dh_empty h = h \<lparr> cur_idx := - 1 \<rparr>"

definition dh_is_full :: "DoorbellHelper \<Rightarrow> bool" where
  "dh_is_full h \<longleftrightarrow> dh_size h \<ge> int (dh_capacity h)"

definition dh_next :: "DoorbellHelper \<Rightarrow> bool \<times> DoorbellHelper" where
  "dh_next h = (if dh_is_full h then (False, h) else (True, h \<lparr> cur_idx := cur_idx h + 1 \<rparr>))"

text \<open>\<open>cur_wr\<close> and \<open>cur_sge\<close> return a reference; the functions below write through it.\<close>

definition cur_pos :: "DoorbellHelper \<Rightarrow> nat" where
  "cur_pos h = (if dh_is_empty h then 0 else nat (cur_idx h))"

definition with_cur_wr :: "(wr_slot \<Rightarrow> wr_slot) \<Rightarrow> DoorbellHelper \<Rightarrow> DoorbellHelper option" where
  "with_cur_wr f h =
     (if cur_pos h < length (wr_list h)
      then Some (h \<lparr> wr_list := (wr_list h)[cur_pos h := f (wr_list h ! cur_pos h)] \<rparr>) else None)"

definition with_cur_sge :: "(ib_sge \<Rightarrow> ib_sge) \<Rightarrow> DoorbellHelper \<Rightarrow> DoorbellHelper option" where
  "with_cur_sge f h =
     (if cur_pos h < length (sg_list h)
      then Some (h \<lparr> sg_list := (sg_list h)[cur_pos h := f (sg_list h ! cur_pos h)] \<rparr>) else None)"

definition freeze :: "DoorbellHelper \<Rightarrow> DoorbellHelper option" where
  "freeze h = (if dh_is_empty h then None else with_cur_wr (\<lambda>w. w \<lparr> ws_next := None \<rparr>) h)"

definition freeze_done :: "DoorbellHelper \<Rightarrow> DoorbellHelper option" where
  "freeze_done h =
     (if dh_is_empty h \<or> dh_capacity h = 0 then None
      else
        let i = nat (cur_idx h);
            j = (if cur_idx h = int (dh_capacity h - 1) then 0 else nat (cur_idx h + 1))
        in if i < length (wr_list h) \<and> j < length (wr_list h)
           then Some (h \<lparr> wr_list := (wr_list h)[i := (wr_list h ! i) \<lparr> ws_next := Some j \<rparr>] \<rparr>) else None)"

definition dh_clear :: "DoorbellHelper \<Rightarrow> DoorbellHelper option" where
  "dh_clear h = map_option (\<lambda>h. h \<lparr> cur_idx := - 1 \<rparr>) (freeze_done h)"

text \<open>The request a driver reads from a slot, and the chain it follows from the
  first slot.\<close>

definition read_slot :: "DoorbellHelper \<Rightarrow> nat \<Rightarrow> ib_send_wr" where
  "read_slot h i =
     (let w = wr_list h ! i in
      (ws_wr w) \<lparr> sw_sg_list := (case ws_sg w of None \<Rightarrow> []
                                 | Some k \<Rightarrow> take (ws_num_sge w) (drop k (sg_list h))) \<rparr>)"

definition first_chain :: "DoorbellHelper \<Rightarrow> ib_send_wr list option" where
  "first_chain h =
     map_option (map (read_slot h)) (walk (dh_capacity h) (map ws_next (wr_list h)) 0)"

section \<open>RcDoorbellHelper\<close>

record RcDoorbellHelper =
  send_doorbell :: DoorbellHelper

definition RcDoorbellHelper_create :: "nat \<Rightarrow> RcDoorbellHelper option" where
  "RcDoorbellHelper_create capacity = map_option (\<lambda>h. \<lparr> send_doorbell = h \<rparr>) (create_and_init capacity)"

text \<open>The common part of the four post methods: take the next entry or report the
  size of a full batch, set the scatter entry, then the fields of the request.
  The result is the size of the batch.\<close>

definition rdh_post ::
  "ib_sge \<Rightarrow> (ib_send_wr \<Rightarrow> ib_send_wr) \<Rightarrow> RcDoorbellHelper
     \<Rightarrow> ((nat, DatapathError) result \<times> RcDoorbellHelper) option"
where
  "rdh_post sge f r =
     (let (ok, h) = dh_next (send_doorbell r) in
      if \<not> ok then Some (Ok (nat (cur_idx h + 1)), \<lparr> send_doorbell = h \<rparr>)
      else case with_cur_sge (\<lambda>_. sge) h of
        None \<Rightarrow> None
      | Some h \<Rightarrow>
          (case with_cur_wr (\<lambda>w. w \<lparr> ws_wr := f (ws_wr w) \<rparr>) h of
             None \<Rightarrow> None
           | Some h \<Rightarrow> Some (Ok (nat (cur_idx h + 1)), \<lparr> send_doorbell = h \<rparr>)))"

definition db_post_send_write ::
  "'d verbs \<Rightarrow> 'd \<Rightarrow> MemoryRegion \<Rightarrow> range \<Rightarrow> bool \<Rightarrow> u64 \<Rightarrow> u32 \<Rightarrow> u64 \<Rightarrow> RcDoorbellHelper
     \<Rightarrow> ((nat, DatapathError) result \<times> RcDoorbellHelper) option"
where
  "db_post_send_write v d mr r signaled raddr rkey wr_id =
     rdh_post (region_sge User v mr r d)
       (\<lambda>w. w \<lparr> sw_wr_id := wr_id, sw_opcode := IB_WR_RDMA_WRITE, sw_send_flags := signal_flags signaled,
                sw_target := WrRdma raddr rkey \<rparr>)"

definition db_post_send_read ::
  "'d verbs \<Rightarrow> 'd \<Rightarrow> MemoryRegion \<Rightarrow> range \<Rightarrow> bool \<Rightarrow> u64 \<Rightarrow> u32 \<Rightarrow> u64 \<Rightarrow> RcDoorbellHelper
     \<Rightarrow> ((nat, DatapathError) result \<times> RcDoorbellHelper) option"
where
  "db_post_send_read v d mr r signaled raddr rkey wr_id =
     rdh_post (region_sge User v mr r d)
       (\<lambda>w. w \<lparr> sw_wr_id := wr_id, sw_opcode := IB_WR_RDMA_READ, sw_send_flags := signal_flags signaled,
                sw_target := WrRdma raddr rkey \<rparr>)"

definition db_post_send_cas ::
  "'d verbs \<Rightarrow> 'd \<Rightarrow> MemoryRegion \<Rightarrow> u64 \<Rightarrow> bool \<Rightarrow> u64 \<Rightarrow> u32 \<Rightarrow> u64 \<Rightarrow> u64 \<Rightarrow> u64 \<Rightarrow> RcDoorbellHelper
     \<Rightarrow> ((nat, DatapathError) result \<times> RcDoorbellHelper) option"
where
  "db_post_send_cas v d mr offset signaled raddr rkey wr_id old_val new_val =
     rdh_post \<lparr> sge_addr = get_rdma_addr User v mr d + offset, sge_length = 8, sge_lkey = mr_lkey User v mr d \<rparr>
       (\<lambda>w. w \<lparr> sw_wr_id := wr_id, sw_opcode := IB_WR_ATOMIC_CMP_AND_SWP,
                sw_send_flags := signal_flags signaled, sw_target := WrAtomic raddr rkey old_val new_val \<rparr>)"

definition db_post_send_faa ::
  "'d verbs \<Rightarrow> 'd \<Rightarrow> MemoryRegion \<Rightarrow> u64 \<Rightarrow> bool \<Rightarrow> u64 \<Rightarrow> u32 \<Rightarrow> u64 \<Rightarrow> u64 \<Rightarrow> RcDoorbellHelper
     \<Rightarrow> ((nat, DatapathError) result \<times> RcDoorbellHelper) option"
where
  "db_post_send_faa v d mr offset signaled raddr rkey wr_id val =
     rdh_post \<lparr> sge_addr = get_rdma_addr User v mr d + offset, sge_length = 8, sge_lkey = mr_lkey User v mr d \<rparr>
       (\<lambda>w. w \<lparr> sw_wr_id := wr_id, sw_opcode := IB_WR_ATOMIC_FETCH_AND_ADD,
                sw_send_flags := signal_flags signaled, sw_target := WrAtomic raddr rkey val 0 \<rparr>)"

text \<open>\<open>flush_doorbell\<close>: the chain from the first request is posted between \<open>freeze\<close>
  and \<open>clear\<close>; whatever the driver answers, the batch is emptied.\<close>

definition flush_doorbell ::
  "'d datapath \<Rightarrow> QueuePair \<Rightarrow> RcDoorbellHelper \<Rightarrow> 'd
     \<Rightarrow> ((unit, DatapathError) result \<times> RcDoorbellHelper \<times> 'd) option"
where
  "flush_doorbell n qp r d =
     (case freeze (send_doorbell r) of
        None \<Rightarrow> None
      | Some h \<Rightarrow>
          (case first_chain h of
             None \<Rightarrow> None
           | Some wrs \<Rightarrow>
               (let (res, d) = post_send_wr n qp wrs d in
                case dh_clear h of
                  None \<Rightarrow> None
                | Some h \<Rightarrow> Some (res, \<lparr> send_doorbell = h \<rparr>, d))))"

section \<open>Invariant and abstraction\<close>

text \<open>The invariant of an initialised helper: arrays of the capacity, scatter
  pointers to the entry of the same index, no immediate data (no post method sets
  it), \<open>next\<close> pointers forming the ring, and the current index within \<open>-1 ..< capacity\<close>.  The abstraction is the list of
  requests of the slots in use.\<close>

definition dh_inv :: "DoorbellHelper \<Rightarrow> bool" where
  "dh_inv h \<longleftrightarrow>
     length (wr_list h) = dh_capacity h \<and> length (sg_list h) = dh_capacity h
   \<and> (\<forall>i < dh_capacity h. ws_num_sge (wr_list h ! i) = 1 \<and> ws_sg (wr_list h ! i) = Some i
         \<and> sw_imm_data (ws_wr (wr_list h ! i)) = 0)
   \<and> is_ring (map ws_next (wr_list h))
   \<and> - 1 \<le> cur_idx h \<and> cur_idx h < int (dh_capacity h)"

definition dh_batch :: "DoorbellHelper \<Rightarrow> ib_send_wr list" where
  "dh_batch h = map (read_slot h) [0..<nat (cur_idx h + 1)]"

lemma length_dh_batch [simp]: "length (dh_batch h) = nat (cur_idx h + 1)"
  by (simp add: dh_batch_def)

lemma dh_invD:
  assumes "dh_inv h"
  shows "length (wr_list h) = dh_capacity h" "length (sg_list h) = dh_capacity h"
    "i < dh_capacity h \<Longrightarrow> ws_num_sge (wr_list h ! i) = 1"
    "i < dh_capacity h \<Longrightarrow> ws_sg (wr_list h ! i) = Some i"
    "i < dh_capacity h \<Longrightarrow> sw_imm_data (ws_wr (wr_list h ! i)) = 0"
    "is_ring (map ws_next (wr_list h))" "- 1 \<le> cur_idx h" "cur_idx h < int (dh_capacity h)"
  using assms by (simp_all add: dh_inv_def)

lemma read_slot_inv:
  assumes "dh_inv h" "i < dh_capacity h"
  shows "read_slot h i = (ws_wr (wr_list h ! i)) \<lparr> sw_sg_list := [sg_list h ! i] \<rparr>"
  using assms by (simp add: read_slot_def dh_invD take_Suc hd_drop_conv_nth)

lemma init_loop_linked:
  assumes "length (wr_list h) = dh_capacity h" "length (sg_list h) = dh_capacity h" "k \<le> dh_capacity h"
  shows "init_loop [k..<dh_capacity h] h =
     Some (h \<lparr> wr_list := take k (wr_list h) @
        map (\<lambda>i. link_slot (dh_capacity h) i (wr_list h ! i)) [k..<dh_capacity h] \<rparr>)"
  using assms
proof (induction "dh_capacity h - k" arbitrary: k h)
  case 0
  then show ?case by simp
next
  case (Suc n)
  then have k: "k < dh_capacity h" by simp
  let ?h = "h \<lparr> wr_list := (wr_list h)[k := link_slot (dh_capacity h) k (wr_list h ! k)] \<rparr>"
  have "init_loop [k..<dh_capacity h] h = init_loop [Suc k..<dh_capacity ?h] ?h"
    using k Suc.prems by (simp add: upt_conv_Cons mod_less_divisor [OF order.strict_trans1 [OF le0 k]])
  also have "\<dots> = Some (?h \<lparr> wr_list := take (Suc k) (wr_list ?h) @
        map (\<lambda>i. link_slot (dh_capacity ?h) i (wr_list ?h ! i)) [Suc k..<dh_capacity ?h] \<rparr>)"
    using Suc.hyps(2) Suc.prems k by (intro Suc.hyps(1)) simp_all
  also have "\<dots> = Some (h \<lparr> wr_list := take k (wr_list h) @
        map (\<lambda>i. link_slot (dh_capacity h) i (wr_list h ! i)) [k..<dh_capacity h] \<rparr>)"
    using k Suc.prems by (simp add: take_Suc_conv_app_nth upt_conv_Cons)
  finally show ?case .
qed

lemma create_and_init_inv:
  assumes "0 < n"
  obtains h where "create_and_init n = Some h" "dh_inv h" "dh_capacity h = n" "dh_batch h = []"
proof -
  let ?h = "(new_uninit n) \<lparr> wr_list := map (\<lambda>i. link_slot n i zero_slot) [0..<n] \<rparr>"
  have "map (\<lambda>i. link_slot n i (replicate n zero_slot ! i)) [0..<n] = map (\<lambda>i. link_slot n i zero_slot) [0..<n]"
    by (rule map_cong) simp_all
  then have "create_and_init n = Some ?h"
    using init_loop_linked [of "new_uninit n" 0]
    by (simp add: create_and_init_def dh_init_def new_uninit_def)
  moreover have "dh_inv ?h" using assms by (simp add: dh_inv_def new_uninit_def link_slot_def is_ring_def zero_slot_def send_wr_default_def)
  moreover have "dh_batch ?h = []" "dh_capacity ?h = n" by (simp_all add: dh_batch_def new_uninit_def)
  ultimately show thesis using that by blast
qed

section \<open>The operations on the invariant\<close>

text \<open>A request: what its post method is called with.\<close>

datatype rc_request =
    WriteReq MemoryRegion range bool u64 u32 u64
  | ReadReq MemoryRegion range bool u64 u32 u64
  | CasReq MemoryRegion u64 bool u64 u32 u64 u64 u64
  | FaaReq MemoryRegion u64 bool u64 u32 u64 u64

fun db_post :: "'d verbs \<Rightarrow> 'd \<Rightarrow> rc_request \<Rightarrow> RcDoorbellHelper
     \<Rightarrow> ((nat, DatapathError) result \<times> RcDoorbellHelper) option" where
  "db_post v d (WriteReq mr r s raddr rkey wr_id) = db_post_send_write v d mr r s raddr rkey wr_id"
| "db_post v d (ReadReq mr r s raddr rkey wr_id) = db_post_send_read v d mr r s raddr rkey wr_id"
| "db_post v d (CasReq mr off s raddr rkey wr_id a b) = db_post_send_cas v d mr off s raddr rkey wr_id a b"
| "db_post v d (FaaReq mr off s raddr rkey wr_id a) = db_post_send_faa v d mr off s raddr rkey wr_id a"

text \<open>The work request that the unbatched method of \<open>Qp_Ops\<close> builds for the same
  arguments.\<close>

fun request_wr :: "'d verbs \<Rightarrow> 'd \<Rightarrow> rc_request \<Rightarrow> ib_send_wr" where
  "request_wr v d (WriteReq mr r s raddr rkey wr_id) =
     \<lparr> sw_wr_id = wr_id, sw_sg_list = [region_sge User v mr r d], sw_opcode = IB_WR_RDMA_WRITE,
       sw_send_flags = signal_flags s, sw_imm_data = 0, sw_target = WrRdma raddr rkey \<rparr>"
| "request_wr v d (ReadReq mr r s raddr rkey wr_id) =
     \<lparr> sw_wr_id = wr_id, sw_sg_list = [region_sge User v mr r d], sw_opcode = IB_WR_RDMA_READ,
       sw_send_flags = signal_flags s, sw_imm_data = 0, sw_target = WrRdma raddr rkey \<rparr>"
| "request_wr v d (CasReq mr off s raddr rkey wr_id a b) =
     \<lparr> sw_wr_id = wr_id,
       sw_sg_list = [\<lparr> sge_addr = get_rdma_addr User v mr d + off, sge_length = 8, sge_lkey = mr_lkey User v mr d \<rparr>],
       sw_opcode = IB_WR_ATOMIC_CMP_AND_SWP, sw_send_flags = signal_flags s, sw_imm_data = 0,
       sw_target = WrAtomic raddr rkey a b \<rparr>"
| "request_wr v d (FaaReq mr off s raddr rkey wr_id a) =
     \<lparr> sw_wr_id = wr_id,
       sw_sg_list = [\<lparr> sge_addr = get_rdma_addr User v mr d + off, sge_length = 8, sge_lkey = mr_lkey User v mr d \<rparr>],
       sw_opcode = IB_WR_ATOMIC_FETCH_AND_ADD, sw_send_flags = signal_flags s, sw_imm_data = 0,
       sw_target = WrAtomic raddr rkey a 0 \<rparr>"

abbreviation rdh_inv :: "RcDoorbellHelper \<Rightarrow> bool" where
  "rdh_inv r \<equiv> dh_inv (send_doorbell r)"

abbreviation rdh_batch :: "RcDoorbellHelper \<Rightarrow> ib_send_wr list" where
  "rdh_batch r \<equiv> dh_batch (send_doorbell r)"

abbreviation rdh_cap :: "RcDoorbellHelper \<Rightarrow> nat" where
  "rdh_cap r \<equiv> dh_capacity (send_doorbell r)"

text \<open>The slot update of a push keeps links and counts.\<close>

lemma rdh_post_full:
  assumes "rdh_inv r" and "length (rdh_batch r) = rdh_cap r"
  shows "rdh_post sge f r = Some (Ok (length (rdh_batch r)), r)"
  using assms by (auto simp: rdh_post_def dh_next_def dh_is_full_def dh_size_def dh_inv_def)

lemma rdh_post_room:
  assumes inv: "rdh_inv r" and room: "length (rdh_batch r) < rdh_cap r"
    and imm: "\<And>w. sw_imm_data w = 0 \<Longrightarrow> sw_imm_data (f w) = 0"
    and w: "\<And>w. sw_imm_data w = 0 \<Longrightarrow> (f w) \<lparr> sw_sg_list := [sge] \<rparr> = wr"
  obtains r' where "rdh_post sge f r = Some (Ok (length (rdh_batch r')), r')" "rdh_inv r'" "rdh_cap r' = rdh_cap r"
    "rdh_batch r' = rdh_batch r @ [wr]"
proof -
  let ?h = "send_doorbell r"
  define k where "k = nat (cur_idx ?h + 1)"
  note I = dh_invD [OF inv]
  have k: "k < dh_capacity ?h" "cur_idx ?h + 1 = int k" using room I by (simp_all add: k_def)
  let ?w = "(wr_list ?h ! k) \<lparr> ws_wr := f (ws_wr (wr_list ?h ! k)) \<rparr>"
  let ?h' = "?h \<lparr> cur_idx := int k, sg_list := (sg_list ?h)[k := sge], wr_list := (wr_list ?h)[k := ?w] \<rparr>"
  have post: "rdh_post sge f r = Some (Ok (k + 1), \<lparr> send_doorbell = ?h' \<rparr>)"
    using k I by (simp add: rdh_post_def dh_next_def dh_is_full_def dh_size_def with_cur_sge_def
        with_cur_wr_def cur_pos_def dh_is_empty_def Let_def nat_add_distrib)
  have links: "map ws_next ((wr_list ?h)[k := ?w]) = map ws_next (wr_list ?h)"
    using k(1) I(1) by (simp add: map_update list_update_same_conv)
  have inv': "dh_inv ?h'"
    using inv k I(1) imm I(5) [OF k(1)] unfolding dh_inv_def
    by (auto simp: links nth_list_update)
  have old: "read_slot ?h' i = read_slot ?h i" if "i < k" for i
    using that k read_slot_inv [OF inv, of i] read_slot_inv [OF inv', of i] by simp
  have new: "read_slot ?h' k = wr"
    using k read_slot_inv [OF inv', of k] I w [OF I(5) [OF k(1)]] by simp
  have "dh_batch ?h' = dh_batch ?h @ [wr]"
    using old new by (simp add: dh_batch_def k_def [symmetric] nat_add_distrib)
  moreover have "length (dh_batch ?h') = k + 1" by (simp add: nat_add_distrib)
  ultimately show thesis using that [of "\<lparr> send_doorbell = ?h' \<rparr>"] post inv' by simp
qed

lemma db_post_shape:
  obtains sge f where "db_post v d q = rdh_post sge f"
    and "\<And>w. sw_imm_data w = 0 \<Longrightarrow> sw_imm_data (f w) = 0"
    and "\<And>w. sw_imm_data w = 0 \<Longrightarrow> (f w) \<lparr> sw_sg_list := [sge] \<rparr> = request_wr v d q"
proof (cases q)
  case (WriteReq mr r s raddr rkey wr_id)
  show thesis
    by (rule that) (simp add: WriteReq, rule db_post_send_write_def, simp_all add: WriteReq)
next
  case (ReadReq mr r s raddr rkey wr_id)
  show thesis
    by (rule that) (simp add: ReadReq, rule db_post_send_read_def, simp_all add: ReadReq)
next
  case (CasReq mr off s raddr rkey wr_id a b)
  show thesis
    by (rule that) (simp add: CasReq, rule db_post_send_cas_def, simp_all add: CasReq)
next
  case (FaaReq mr off s raddr rkey wr_id a)
  show thesis
    by (rule that) (simp add: FaaReq, rule db_post_send_faa_def, simp_all add: FaaReq)
qed

lemma db_post_law:
  assumes "rdh_inv r"
  shows "\<exists>r'. db_post v d q r = Some (Ok (length (rdh_batch r')), r') \<and> rdh_inv r' \<and> rdh_cap r' = rdh_cap r
     \<and> rdh_batch r' = (if length (rdh_batch r) < rdh_cap r then rdh_batch r @ [request_wr v d q] else rdh_batch r)"
proof -
  obtain sge f where q: "db_post v d q = rdh_post sge f"
    and imm: "\<And>w. sw_imm_data w = 0 \<Longrightarrow> sw_imm_data (f w) = 0"
    and w: "\<And>w. sw_imm_data w = 0 \<Longrightarrow> (f w) \<lparr> sw_sg_list := [sge] \<rparr> = request_wr v d q"
    using db_post_shape [of v d q] by metis
  show ?thesis
  proof (cases "length (rdh_batch r) < rdh_cap r")
    case True
    obtain r' where "rdh_post sge f r = Some (Ok (length (rdh_batch r')), r')" "rdh_inv r'" "rdh_cap r' = rdh_cap r"
      "rdh_batch r' = rdh_batch r @ [request_wr v d q]"
      using rdh_post_room [OF assms True, where f = f and sge = sge and wr = "request_wr v d q"] imm w by blast
    then show ?thesis unfolding q by (intro exI [of _ r']) (simp only: True if_True simp_thms)
  next
    case False
    then have "length (rdh_batch r) = rdh_cap r" using dh_invD(7,8) [OF assms] by simp
    with rdh_post_full [OF assms this] assms show ?thesis by (simp add: q)
  qed
qed

text \<open>Flushing: between \<open>freeze\<close> and \<open>clear\<close> the chain from the first request is the
  batch, and afterwards the ring is whole again.\<close>

lemma flush_parts:
  assumes inv: "dh_inv h" and ne: "dh_batch h \<noteq> []"
  obtains h1 h2 where "freeze h = Some h1" "first_chain h1 = Some (dh_batch h)" "dh_clear h1 = Some h2"
    "dh_inv h2" "dh_batch h2 = []" "dh_capacity h2 = dh_capacity h"
proof -
  note I = dh_invD [OF inv]
  define k where "k = nat (cur_idx h)"
  have "0 < length (dh_batch h)" using ne by blast
  then have k: "cur_idx h = int k" "k < dh_capacity h" using I(7,8) by (simp_all add: k_def)
  let ?w = "wr_list h ! k"
  let ?h1 = "h \<lparr> wr_list := (wr_list h)[k := ?w \<lparr> ws_next := None \<rparr>] \<rparr>"
  have fr: "freeze h = Some ?h1"
    using k I(1) by (simp add: freeze_def with_cur_wr_def cur_pos_def dh_is_empty_def dh_size_def)
  have nx: "map ws_next (wr_list ?h1) = (map ws_next (wr_list h))[k := None]" "dh_capacity ?h1 = dh_capacity h"
    by (simp_all add: map_update)
  have "walk (dh_capacity h) ((map ws_next (wr_list h))[k := None]) 0 = Some (map (\<lambda>j. j mod dh_capacity h) [0..<k + 1])"
    using walk_cut [OF I(6), of 0 k "dh_capacity h"] k I(1) by simp
  also have "map (\<lambda>j. j mod dh_capacity h) [0..<k + 1] = [0..<k + 1]"
    using k by (intro map_idI mod_less) auto
  finally have chain: "first_chain ?h1 = Some (map (read_slot ?h1) [0..<k + 1])"
    unfolding first_chain_def nx by simp
  have "read_slot ?h1 i = read_slot h i" for i
    using k(2) I(1) by (cases "i = k") (simp_all add: read_slot_def Let_def cong: option.case_cong)
  then have chain': "first_chain ?h1 = Some (dh_batch h)"
    using chain k by (simp add: dh_batch_def nat_add_distrib)
  let ?j = "if k = dh_capacity h - 1 then 0 else k + 1"
  have j: "?j = (k + 1) mod dh_capacity h" using k(2) by (auto simp: mod_if)
  have bk: "(wr_list ?h1)[k := (wr_list ?h1 ! k) \<lparr> ws_next := Some ?j \<rparr>] = wr_list h"
  proof -
    have "ws_next ?w = Some ?j" using is_ringD [OF I(6), of k] k(2) I(1) j by simp
    then have "?w \<lparr> ws_next := Some ?j \<rparr> = ?w" by simp
    then show ?thesis using k(2) I(1) by simp
  qed
  have jlt: "?j < dh_capacity h" using k(2) by auto
  have "freeze_done ?h1 = Some h"
  proof (cases "k = dh_capacity h - 1")
    case True
    have e: "h \<lparr> wr_list := (wr_list h)[k := (wr_list h ! k) \<lparr> ws_next := Some 0 \<rparr>] \<rparr> = h"
      using bk True k(2) I(1) by simp
    have "dh_capacity h = Suc k" using True k(2) by simp
    with k(1) I(1) show ?thesis by (simp add: freeze_done_def dh_is_empty_def dh_size_def Let_def e)
  next
    case False
    have e: "h \<lparr> wr_list := (wr_list h)[k := (wr_list h ! k) \<lparr> ws_next := Some (Suc k) \<rparr>] \<rparr> = h"
      using bk False k(2) I(1) by simp
    show ?thesis
      using False k I(1) jlt by (simp add: freeze_done_def dh_is_empty_def dh_size_def Let_def e nat_add_distrib)
  qed
  then have cl: "dh_clear ?h1 = Some (h \<lparr> cur_idx := - 1 \<rparr>)" by (simp add: dh_clear_def)
  have "dh_inv (h \<lparr> cur_idx := - 1 \<rparr>)" using inv by (simp add: dh_inv_def)
  moreover have "dh_batch (h \<lparr> cur_idx := - 1 \<rparr>) = []" by (simp add: dh_batch_def)
  ultimately show thesis using that fr chain' cl by simp
qed

lemma flush_doorbell_posts_batch:
  assumes "rdh_inv r" and "rdh_batch r \<noteq> []"
  obtains r' where "flush_doorbell n qp r d =
      Some (fst (post_send_wr n qp (rdh_batch r) d), r', snd (post_send_wr n qp (rdh_batch r) d))"
    "rdh_inv r'" "rdh_batch r' = []" "rdh_cap r' = rdh_cap r"
proof -
  obtain h1 h2 where h: "freeze (send_doorbell r) = Some h1" "first_chain h1 = Some (rdh_batch r)"
    "dh_clear h1 = Some h2" "dh_inv h2" "dh_batch h2 = []" "dh_capacity h2 = rdh_cap r"
    using flush_parts [OF assms] by metis
  show thesis
    by (rule that [of "\<lparr> send_doorbell = h2 \<rparr>"]) (simp_all add: flush_doorbell_def h case_prod_beta)
qed

lemma flush_doorbell_empty: "rdh_inv r \<Longrightarrow> rdh_batch r = [] \<Longrightarrow> flush_doorbell n qp r d = None"
  by (simp add: flush_doorbell_def freeze_def dh_is_empty_def dh_size_def dh_batch_def)

section \<open>The batch contract\<close>

text \<open>A driver that records every chain it is given and accepts it.\<close>

definition log_nic :: "ib_send_wr list list datapath" where
  "log_nic = \<lparr> dp_post_send = (\<lambda>_ wrs l. (0, l @ [wrs])), dp_post_recv = (\<lambda>_ _ l. (0, l)),
               dp_bind_mw = (\<lambda>_ _ _ l. (0, l)) \<rparr>"

definition db_push :: "'d verbs \<Rightarrow> 'd \<Rightarrow> rc_request \<Rightarrow> RcDoorbellHelper \<Rightarrow> (nat \<times> RcDoorbellHelper) option" where
  "db_push v d q r =
     (case db_post v d q r of Some (Ok n, r') \<Rightarrow> Some (n, r') | _ \<Rightarrow> None)"

definition db_flush :: "QueuePair \<Rightarrow> RcDoorbellHelper \<Rightarrow> (ib_send_wr list \<times> RcDoorbellHelper) option" where
  "db_flush qp r =
     (case flush_doorbell log_nic qp r [] of Some (_, r', l) \<Rightarrow> Some (last l, r') | None \<Rightarrow> None)"

interpretation db: wr_batch rdh_inv rdh_batch rdh_cap "request_wr v d" "db_push v d" "db_flush qp"
  for v :: "'d verbs" and d :: 'd and qp :: QueuePair
proof
  fix h :: RcDoorbellHelper and q assume inv: "rdh_inv h"
  show "\<exists>h'. db_push v d q h = Some (length (rdh_batch h'), h') \<and> rdh_inv h' \<and> rdh_cap h' = rdh_cap h \<and>
      rdh_batch h' = (if length (rdh_batch h) < rdh_cap h then rdh_batch h @ [request_wr v d q] else rdh_batch h)"
    using db_post_law [OF inv, of v d q] by (auto simp: db_push_def)
next
  fix h :: RcDoorbellHelper assume "rdh_inv h" "rdh_batch h \<noteq> []"
  then obtain r' where "flush_doorbell log_nic qp h [] =
      Some (fst (post_send_wr log_nic qp (rdh_batch h) []), r', snd (post_send_wr log_nic qp (rdh_batch h) []))"
    "rdh_inv r'" "rdh_batch r' = []" "rdh_cap r' = rdh_cap h" by (rule flush_doorbell_posts_batch)
  then show "\<exists>h'. db_flush qp h = Some (rdh_batch h, h') \<and> rdh_inv h' \<and> rdh_cap h' = rdh_cap h \<and> rdh_batch h' = []"
    by (auto simp: db_flush_def post_send_wr_def log_nic_def)
qed (simp add: db_flush_def flush_doorbell_empty)

end
