(* ===== verification/Qp_Ops_Props.thy ===== *)
theory Qp_Ops_Props
  imports Qp_Ops Ref_Driver
begin

text \<open>
  Properties of the post operations: the type guards, the chain a datagram
  batch posts, and the memory a work request covers.
\<close>

section \<open>Batches\<close>

lemma length_batch_fill [simp]: "length (batch_fill stale i ps wrs) = length wrs"
  by (induction ps arbitrary: i wrs) simp_all

lemma batch_fill_before: "k < i \<Longrightarrow> batch_fill stale i ps wrs ! k = wrs ! k"
  by (induction ps arbitrary: i wrs) simp_all

lemma batch_fill_nth:
  "\<lbrakk>k < length ps; i + length ps \<le> length wrs\<rbrakk> \<Longrightarrow>
     batch_fill stale i ps wrs ! (i + k) = batch_wr stale (i + k) (ps ! k)"
proof (induction ps arbitrary: i k wrs)
  case (Cons p ps)
  show ?case
  proof (cases k)
    case 0
    with Cons.prems show ?thesis by (simp add: batch_fill_before)
  next
    case (Suc j)
    with Cons.prems Cons.IH [of j "i + 1" "wrs[i := batch_wr stale i p]"] show ?thesis by simp
  qed
qed simp

lemma batch_chain_walk:
  "\<lbrakk>i < num; num - i \<le> fuel; num \<le> length wrs\<rbrakk> \<Longrightarrow>
     batch_chain fuel (batch_next num) wrs i = map ((!) wrs) [i..<num]"
proof (induction fuel arbitrary: i)
  case (Suc f)
  show ?case
  proof (cases "i = num - 1")
    case True
    with Suc.prems show ?thesis by (simp add: batch_next_def upt_rec)
  next
    case False
    with Suc.prems have "batch_chain f (batch_next num) wrs (i + 1) = map ((!) wrs) [i + 1..<num]"
      by (intro Suc.IH) auto
    moreover have "batch_next num i = Some (i + 1)" using False Suc.prems by (simp add: batch_next_def)
    ultimately show ?thesis using Suc.prems by (simp add: upt_conv_Cons)
  qed
qed simp

text \<open>C32. A datagram batch of at most 32 entries reaches the driver as one chain
  with exactly one request per entry, in the order given; a longer batch and a
  queue pair of another type are refused without a call to the driver.  An empty
  batch, however, posts one request that nobody asked for: the default entry,
  an RDMA write without a target.\<close>

theorem post_datagram_batch_chain:
  "post_datagram_batch n stale qp param d =
     (if qp_mode qp \<noteq> UD then (Err QPTypeError, d)
      else if 32 < length param then (Err (PostSendError (- 1)), d)
      else post_send_wr n qp
             (if param = [] then [send_wr_default]
              else map (\<lambda>i. batch_wr stale i (param ! i)) [0..<length param]) d)"
proof -
  define wrs where "wrs = batch_fill stale 0 param (replicate 32 send_wr_default)"
  have chain: "batch_chain 32 (batch_next (length param)) wrs 0 =
      (if param = [] then [send_wr_default]
       else map (\<lambda>i. batch_wr stale i (param ! i)) [0..<length param])"
    if len: "length param \<le> 32"
  proof (cases "param = []")
    case True
    then show ?thesis by (simp add: wrs_def batch_next_def numeral_eq_Suc)
  next
    case False
    have "batch_chain 32 (batch_next (length param)) wrs 0 = map ((!) wrs) [0..<length param]"
      using False len by (intro batch_chain_walk) (auto simp: wrs_def)
    also have "\<dots> = map (\<lambda>i. batch_wr stale i (param ! i)) [0..<length param]"
    proof (intro map_cong refl)
      fix i assume "i \<in> set [0..<length param]"
      then show "wrs ! i = batch_wr stale i (param ! i)"
        using batch_fill_nth [of i param 0 "replicate 32 send_wr_default" stale] len
        by (simp add: wrs_def)
    qed
    finally show ?thesis using False by simp
  qed
  show ?thesis
    using chain by (auto simp: post_datagram_batch_def WR_LIST_MAX_def Let_def wrs_def)
qed

section \<open>Guards\<close>


definition demo_nic :: "ref_state datapath" where
  "demo_nic = \<lparr> dp_post_send = (\<lambda>_ wrs d. (if wrs = [] then EINVAL else 0, d)),
                dp_post_recv = (\<lambda>_ _ d. (0, d)), dp_bind_mw = (\<lambda>_ _ _ d. (0, d)) \<rparr>"

definition demo_mr :: MemoryRegion where
  "demo_mr = \<lparr> mr_ctx = demo_ctx, mr_data = 4096, mr_capacity = 1024, is_raw_ptr = False,
               is_huge_page = False, mr_handle = 21 \<rparr>"

definition demo_ud :: QueuePair where
  "demo_ud = \<lparr> qp_ctx = demo_ctx, inner_qp = 9, qp_send_cq = \<lparr> cq_ptr = 7 \<rparr>, qp_recv_cq = \<lparr> cq_ptr = 8 \<rparr>,
       qp_srq = None, qp_mode = UD, qp_port_num = 1, qp_qkey = 73, qp_access = {IB_ACCESS_LOCAL_WRITE},
       qp_timeout = 20, qp_retry_count = 7, qp_rnr_retry = 7, qp_max_rd_atomic = 16,
       qp_min_rnr_timer = 20, qp_pkey_index = 0, qp_path_mtu = IB_MTU_4096 \<rparr>"


section \<open>The memory a request covers\<close>

text \<open>C34. A request stays inside its memory region when the caller's range does: for
  a range \<open>start..end\<close> with \<open>start \<le> end \<le> capacity\<close>, a capacity below 4 GB and a
  region that does not wrap around the address space, the scatter entry covers
  exactly the bytes \<open>base + start\<close> up to \<open>base + end\<close>.  The library does not check
  the range; a range longer than 4 GB is cut to its length modulo \<open>2^32\<close>.\<close>

theorem region_sge_covers_range:
  "(fst r \<le> snd r \<and> unat (snd r) \<le> unat (mr_capacity mr) \<and> unat (mr_capacity mr) < 2 ^ 32
      \<and> unat (get_rdma_addr sp v mr d) + unat (mr_capacity mr) \<le> 2 ^ 64 \<and> fst r < mr_capacity mr \<longrightarrow>
      unat (sge_addr (region_sge sp v mr r d)) = unat (get_rdma_addr sp v mr d) + unat (fst r)
    \<and> unat (sge_addr (region_sge sp v mr r d)) + unat (sge_length (region_sge sp v mr r d))
        = unat (get_rdma_addr sp v mr d) + unat (snd r))
 \<and> (fst r \<le> snd r \<longrightarrow>
      unat (sge_length (region_sge sp v mr r d)) = (unat (snd r) - unat (fst r)) mod 2 ^ 32)"
proof -
  have size: "unat (range_size r) = unat (snd r) - unat (fst r)" if "fst r \<le> snd r"
    using that by (auto simp: range_size_def unat_sub word_le_nat_alt word_less_nat_alt)
  have len: "unat (sge_length (region_sge sp v mr r d)) = (unat (snd r) - unat (fst r)) mod 2 ^ 32"
    if "fst r \<le> snd r"
    using size [OF that] by (simp add: region_sge_def unsigned_ucast_eq take_bit_eq_mod)
  have "unat (sge_addr (region_sge sp v mr r d)) = unat (get_rdma_addr sp v mr d) + unat (fst r)"
    "unat (sge_addr (region_sge sp v mr r d)) + unat (sge_length (region_sge sp v mr r d))
        = unat (get_rdma_addr sp v mr d) + unat (snd r)"
    if h: "fst r \<le> snd r" "unat (snd r) \<le> unat (mr_capacity mr)" "unat (mr_capacity mr) < 2 ^ 32"
      "unat (get_rdma_addr sp v mr d) + unat (mr_capacity mr) \<le> 2 ^ 64" "fst r < mr_capacity mr"
  proof -
    have "unat (get_rdma_addr sp v mr d) + unat (fst r) < 2 ^ 64"
      using h by (simp add: word_less_nat_alt)
    then show addr: "unat (sge_addr (region_sge sp v mr r d)) = unat (get_rdma_addr sp v mr d) + unat (fst r)"
      using unat_add_lem [of "get_rdma_addr sp v mr d" "fst r"] by (simp add: region_sge_def)
    have "unat (fst r) \<le> unat (snd r)" using h(1) by (simp add: word_le_nat_alt)
    then show "unat (sge_addr (region_sge sp v mr r d)) + unat (sge_length (region_sge sp v mr r d))
        = unat (get_rdma_addr sp v mr d) + unat (snd r)"
      using h unfolding addr len [OF h(1)] by simp
  qed
  with len show ?thesis by blast
qed

theorem region_sge_covers_range_witness:
  "sge_length (region_sge User ref_verbs demo_mr (16, 80) (ref_init 0)) = 64
 \<and> unat (sge_addr (region_sge User ref_verbs demo_mr (16, 80) (ref_init 0))) = 4096 + 16"
  using region_sge_covers_range [of "(16, 80)" demo_mr User ref_verbs "ref_init 0"]
  by (simp add: demo_mr_def get_rdma_addr_def word_unat_eq_iff)

end
