(* ===== verification/Doorbell_Props.thy ===== *)
theory Doorbell_Props
  imports Doorbell Qp_Ops_Props
begin

text \<open>
  Properties of doorbell batching: any sequence of posts and flushes on a helper
  behaves like a bounded list, and the requests of a batch are the ones the
  unbatched methods would have posted.
\<close>

text \<open>C4. Refinement of doorbell batching.  On a helper created with a positive
  capacity, any sequence of posts (write, read, compare-and-swap, fetch-and-add
  in any mix) and flushes has the outcome of the same sequence on a plain list
  of at most \<open>capacity\<close> requests: every flush hands the driver one chain with
  exactly the requests posted since the last one, in order; a post to a full
  batch changes nothing; flushing an empty batch panics, and nothing else does.
  What is left in the helper at the end is what is left in the list.\<close>

theorem doorbell_refines_list:
  assumes "RcDoorbellHelper_create capacity = Some r" and "0 < capacity"
  shows "map_option (map_prod id rdh_batch) (run_batch (db_push v d) (db_flush qp) ops r)
           = spec_batch (request_wr v d) capacity ops []"
proof -
  obtain h where h: "create_and_init capacity = Some h" "dh_inv h" "dh_capacity h = capacity" "dh_batch h = []"
    by (rule create_and_init_inv [OF assms(2)])
  with assms(1) have r: "r = \<lparr> send_doorbell = h \<rparr>" by (simp add: RcDoorbellHelper_create_def)
  then have "rdh_inv r" using h by simp
  from db.run_refines [OF this, of v d qp ops] show ?thesis using h r by simp
qed

theorem doorbell_refines_list_witness:
  "\<exists>r. RcDoorbellHelper_create 2 = Some r \<and>
     map_option (map_prod id rdh_batch) (run_batch (db_push ref_verbs (ref_init 0)) (db_flush demo_ud)
       [Push (ReadReq demo_mr (0, 8) True 64 5 1), Push (FaaReq demo_mr 8 False 72 5 2 3),
        Push (ReadReq demo_mr (0, 8) True 64 5 9), Flush, Push (WriteReq demo_mr (8, 16) True 80 5 4), Flush] r)
     = Some ([[request_wr ref_verbs (ref_init 0) (ReadReq demo_mr (0, 8) True 64 5 1),
               request_wr ref_verbs (ref_init 0) (FaaReq demo_mr 8 False 72 5 2 3)],
              [request_wr ref_verbs (ref_init 0) (WriteReq demo_mr (8, 16) True 80 5 4)]], [])"
proof -
  obtain h where "create_and_init 2 = Some h" by (rule create_and_init_inv [of 2]) simp_all
  then have c: "RcDoorbellHelper_create 2 = Some \<lparr> send_doorbell = h \<rparr>" by (simp add: RcDoorbellHelper_create_def)
  show ?thesis
    by (intro exI [of _ "\<lparr> send_doorbell = h \<rparr>"] conjI c, subst doorbell_refines_list [OF c])
      (simp_all del: request_wr.simps)
qed

text \<open>The unbatched method for a request.\<close>

fun post_unbatched :: "'d verbs \<Rightarrow> 'd datapath \<Rightarrow> QueuePair \<Rightarrow> rc_request \<Rightarrow> 'd
     \<Rightarrow> (unit, DatapathError) result \<times> 'd" where
  "post_unbatched v n qp (WriteReq mr r s raddr rkey wr_id) d = post_send_write v n qp mr r s raddr rkey wr_id d"
| "post_unbatched v n qp (ReadReq mr r s raddr rkey wr_id) d = post_send_read v n qp mr r s raddr rkey wr_id d"
| "post_unbatched v n qp (CasReq mr off s raddr rkey wr_id a b) d = post_send_cas v n qp mr off s raddr rkey wr_id a b d"
| "post_unbatched v n qp (FaaReq mr off s raddr rkey wr_id a) d = post_send_faa v n qp mr off s raddr rkey wr_id a d"

lemma post_unbatched_eq:
  "qp_mode qp = RC \<Longrightarrow> post_unbatched v n qp q d = post_send_wr n qp [request_wr v d q] d"
  by (cases q) (simp_all add: post_send_write_def post_send_read_def post_send_cas_def post_send_faa_def
      post_send_inner_def post_send_atomic_inner_def region_sge_def)

lemma spec_batch_pushes:
  "length b + length qs \<le> c \<Longrightarrow> spec_batch wr c (map Push qs) b = Some ([], b @ map wr qs)"
  by (induction qs arbitrary: b) simp_all

text \<open>C19. Batching changes when requests are posted, not which: the unbatched methods
  of the queue pair post a chain of one request, and posting the same requests
  through a helper that has room for them and flushing hands the driver, whatever
  it answers, exactly these requests in one chain.  The flush returns what that
  single post returns.\<close>

theorem doorbell_equals_unbatched:
  assumes "RcDoorbellHelper_create capacity = Some r" and "qs \<noteq> []" and "length qs \<le> capacity"
    and "qp_mode qp = RC"
  shows "(\<forall>q d'. post_unbatched v n qp q d' = post_send_wr n qp [request_wr v d' q] d')
    \<and> (\<exists>r1 r2. run_batch (db_push v d) (db_flush qp) (map Push qs) r = Some ([], r1)
      \<and> flush_doorbell n qp r1 d =
          Some (fst (post_send_wr n qp (map (request_wr v d) qs) d), r2,
                snd (post_send_wr n qp (map (request_wr v d) qs) d))
      \<and> rdh_batch r2 = [])"
proof (intro conjI allI)
  show "post_unbatched v n qp q d' = post_send_wr n qp [request_wr v d' q] d'" for q d'
    using assms(4) by (rule post_unbatched_eq)
  have "0 < capacity" using assms(2,3) by (cases qs) simp_all
  then obtain h where h: "create_and_init capacity = Some h" "dh_inv h" "dh_capacity h = capacity" "dh_batch h = []"
    by (rule create_and_init_inv)
  with assms(1) have r: "r = \<lparr> send_doorbell = h \<rparr>" by (simp add: RcDoorbellHelper_create_def)
  then have inv: "rdh_inv r" using h by simp
  have "map_option (map_prod id rdh_batch) (run_batch (db_push v d) (db_flush qp) (map Push qs) r)
      = Some ([], map (request_wr v d) qs)"
    using db.run_refines [OF inv, of v d qp "map Push qs"] spec_batch_pushes [of "[]" qs capacity] assms(3) h r by simp
  then obtain r1 where r1: "run_batch (db_push v d) (db_flush qp) (map Push qs) r = Some ([], r1)"
    "rdh_batch r1 = map (request_wr v d) qs" by auto
  then have "rdh_inv r1" "rdh_batch r1 \<noteq> []" using db.run_inv [OF inv r1(1)] assms(2) by simp_all
  then obtain r2 where "flush_doorbell n qp r1 d =
      Some (fst (post_send_wr n qp (rdh_batch r1) d), r2, snd (post_send_wr n qp (rdh_batch r1) d))" "rdh_batch r2 = []"
    using flush_doorbell_posts_batch [of r1 n qp d] by metis
  with r1 show "\<exists>r1 r2. run_batch (db_push v d) (db_flush qp) (map Push qs) r = Some ([], r1)
      \<and> flush_doorbell n qp r1 d =
          Some (fst (post_send_wr n qp (map (request_wr v d) qs) d), r2,
                snd (post_send_wr n qp (map (request_wr v d) qs) d))
      \<and> rdh_batch r2 = []" by auto
qed

theorem doorbell_equals_unbatched_witness:
  "\<exists>r r1 r2. RcDoorbellHelper_create 2 = Some r
     \<and> run_batch (db_push ref_verbs (ref_init 0)) (db_flush (demo_ud \<lparr> qp_mode := RC \<rparr>))
         (map Push [ReadReq demo_mr (0, 8) True 64 5 1]) r = Some ([], r1)
     \<and> flush_doorbell demo_nic (demo_ud \<lparr> qp_mode := RC \<rparr>) r1 (ref_init 0) =
         Some (fst (post_send_wr demo_nic (demo_ud \<lparr> qp_mode := RC \<rparr>)
                 [request_wr ref_verbs (ref_init 0) (ReadReq demo_mr (0, 8) True 64 5 1)] (ref_init 0)), r2,
               snd (post_send_wr demo_nic (demo_ud \<lparr> qp_mode := RC \<rparr>)
                 [request_wr ref_verbs (ref_init 0) (ReadReq demo_mr (0, 8) True 64 5 1)] (ref_init 0)))"
proof -
  obtain h where "create_and_init 2 = Some h" by (rule create_and_init_inv [of 2]) simp_all
  then have c: "RcDoorbellHelper_create 2 = Some \<lparr> send_doorbell = h \<rparr>" by (simp add: RcDoorbellHelper_create_def)
  show ?thesis
    using doorbell_equals_unbatched [OF c, of "[ReadReq demo_mr (0, 8) True 64 5 1]" "demo_ud \<lparr> qp_mode := RC \<rparr>"
        ref_verbs demo_nic "ref_init 0"] c
    by (auto simp del: request_wr.simps)
qed

end
