(* ===== verification/Recv_Helper.thy ===== *)
theory Recv_Helper
  imports Resources Wr_Rings
begin

text \<open>
  The receive buffers of the kernel library behind the system call layer
  (\<open>two-sided-dc/KRdmaKit/src/qp/recv_helper.rs\<close>): \<open>N\<close> receive requests linked in a
  ring, each with a buffer of its own, and \<open>N\<close> completions.  Pointers into the
  arrays are indices.  The kernel's verbs are the parameter \<open>'d kib\<close>.  The module
  is built with overflow checks (a debug build), so that an underflow of the
  \<open>usize\<close> arithmetic is a panic: None.  None is also a write outside the
  completion array.
\<close>

section \<open>The kernel's verbs\<close>

record kwc = ib_wc +
  wc_opcode :: u32

record 'd kib =
  kb_post_send :: "ptr \<Rightarrow> ib_send_wr list \<Rightarrow> 'd \<Rightarrow> i32 \<times> 'd"
  kb_post_recv :: "ptr \<Rightarrow> ib_recv_wr list \<Rightarrow> 'd \<Rightarrow> i32 \<times> 'd"
  kb_post_srq_recv :: "ptr \<Rightarrow> ib_recv_wr list \<Rightarrow> 'd \<Rightarrow> i32 \<times> 'd"
  kb_poll_cq :: "ptr \<Rightarrow> i32 \<Rightarrow> 'd \<Rightarrow> i32 \<times> kwc list \<times> 'd"

text \<open>\<open>ib_poll_cq\<close> returns the number of completions it wrote, at most the number asked
  for, or a negative error.\<close>

definition kpoll_law :: "'d kib \<Rightarrow> bool" where
  "kpoll_law b \<longleftrightarrow>
     (\<forall>q k d. 0 \<le> k \<longrightarrow>
        fst (kb_poll_cq b q k d) \<le> k
      \<and> length (fst (snd (kb_poll_cq b q k d))) = nat (fst (kb_poll_cq b q k d)))"

section \<open>State\<close>

record recv_slot =
  rs_wr_id :: u64
  rs_num_sge :: nat
  rs_sg :: "nat option"
  rs_next :: "nat option"

record RecvHelper =
  rh_wrs :: "recv_slot list"
  rh_sges :: "ib_sge list"
  rh_wcs :: "kwc list"
  rh_cur_idx :: usize
  rh_capacity :: usize
  rh_en_sz :: usize

definition zero_recv_slot :: recv_slot where
  "zero_recv_slot = \<lparr> rs_wr_id = 0, rs_num_sge = 0, rs_sg = None, rs_next = None \<rparr>"

definition recv_zero_sge :: ib_sge where
  "recv_zero_sge = \<lparr> sge_addr = 0, sge_length = 0, sge_lkey = 0 \<rparr>"

definition zero_wc :: kwc where
  "zero_wc = \<lparr> wc_wr_id = 0, wc_status = 0, wc_byte_len = 0, wc_imm_data = 0, wc_qp_num = 0, wc_opcode = 0 \<rparr>"

definition RecvHelper_default :: "nat \<Rightarrow> RecvHelper" where
  "RecvHelper_default N =
     \<lparr> rh_wrs = replicate N zero_recv_slot, rh_sges = replicate N recv_zero_sge, rh_wcs = replicate N zero_wc,
       rh_cur_idx = 0, rh_capacity = 0, rh_en_sz = 0 \<rparr>"

definition rh_is_created :: "RecvHelper \<Rightarrow> bool" where
  "rh_is_created h \<longleftrightarrow> 0 < rh_capacity h"

text \<open>\<open>idx % capacity\<close>; the remainder by zero panics, and so does an index outside the
  array.\<close>

definition get_recv_wr_ptr :: "nat \<Rightarrow> RecvHelper \<Rightarrow> nat option" where
  "get_recv_wr_ptr idx h =
     (if rh_capacity h = 0 then None
      else if idx mod rh_capacity h < length (rh_wrs h) then Some (idx mod rh_capacity h) else None)"

definition header_ptr :: "RecvHelper \<Rightarrow> nat option" where
  "header_ptr h = get_recv_wr_ptr (rh_cur_idx h) h"

definition get_wc :: "nat \<Rightarrow> RecvHelper \<Rightarrow> nat option" where
  "get_wc idx h = (if length (rh_wcs h) = 0 then None else Some (idx mod length (rh_wcs h)))"

definition get_cur_message :: "u64 \<Rightarrow> RecvHelper \<Rightarrow> u64" where
  "get_cur_message base h = base + word_of_nat (rh_cur_idx h * rh_en_sz h)"

section \<open>Creation\<close>

definition recv_entry :: "(u64 \<Rightarrow> u64) \<Rightarrow> nat \<Rightarrow> nat \<Rightarrow> u64 \<Rightarrow> recv_slot" where
  "recv_entry pa_to_va nxt i base =
     \<lparr> rs_wr_id = pa_to_va base, rs_num_sge = 1, rs_sg = Some i, rs_next = Some nxt \<rparr>"

text \<open>One step of the loop fills slot \<open>i\<close>; \<open>base += entry_size\<close> is checked.\<close>

fun create_loop :: "(u64 \<Rightarrow> u64) \<Rightarrow> nat \<Rightarrow> u32 \<Rightarrow> nat list \<Rightarrow> u64 \<Rightarrow> RecvHelper \<Rightarrow> RecvHelper option" where
  "create_loop pa_to_va entry_size lkey [] base h = Some h"
| "create_loop pa_to_va entry_size lkey (i # idx) base h =
     (case get_recv_wr_ptr (i + 1) h of
        None \<Rightarrow> None
      | Some nxt \<Rightarrow>
          if i < length (rh_wrs h) \<and> i < length (rh_sges h) \<and> unat base + entry_size < 2 ^ 64 then
            create_loop pa_to_va entry_size lkey idx (base + word_of_nat entry_size)
              (h \<lparr> rh_sges := (rh_sges h)[i := \<lparr> sge_addr = base, sge_length = word_of_nat entry_size, sge_lkey = lkey \<rparr>],
                   rh_wrs := (rh_wrs h)[i := recv_entry pa_to_va nxt i base] \<rparr>)
          else None)"

definition RecvHelper_create :: "(u64 \<Rightarrow> u64) \<Rightarrow> nat \<Rightarrow> nat \<Rightarrow> u32 \<Rightarrow> u64 \<Rightarrow> RecvHelper option" where
  "RecvHelper_create pa_to_va N entry_size lkey base_addr =
     create_loop pa_to_va entry_size lkey [0..<N] base_addr
       \<lparr> rh_wrs = replicate N zero_recv_slot, rh_sges = replicate N recv_zero_sge,
         rh_wcs = replicate N zero_wc, rh_cur_idx = 0, rh_capacity = N, rh_en_sz = entry_size \<rparr>"

section \<open>Posting\<close>

definition set_next :: "nat \<Rightarrow> nat option \<Rightarrow> RecvHelper \<Rightarrow> RecvHelper" where
  "set_next t nx h = h \<lparr> rh_wrs := (rh_wrs h)[t := (rh_wrs h ! t) \<lparr> rs_next := nx \<rparr>] \<rparr>"

definition freeze_at :: "nat \<Rightarrow> RecvHelper \<Rightarrow> RecvHelper option" where
  "freeze_at i h = map_option (\<lambda>t. set_next t None h) (get_recv_wr_ptr i h)"

definition freeze_done_at :: "nat \<Rightarrow> RecvHelper \<Rightarrow> RecvHelper option" where
  "freeze_done_at i h =
     (case (get_recv_wr_ptr i h, get_recv_wr_ptr (i + 1) h) of
        (Some t, Some nx) \<Rightarrow> Some (set_next t (Some nx) h)
      | _ \<Rightarrow> None)"

text \<open>What the driver reads: the requests from the header along the \<open>next\<close> pointers.
  A chain that never ends is None.\<close>

definition read_recv :: "RecvHelper \<Rightarrow> nat \<Rightarrow> ib_recv_wr" where
  "read_recv h i =
     \<lparr> rw_wr_id = rs_wr_id (rh_wrs h ! i),
       rw_sg_list = (case rs_sg (rh_wrs h ! i) of None \<Rightarrow> []
                     | Some j \<Rightarrow> take (rs_num_sge (rh_wrs h ! i)) (drop j (rh_sges h))) \<rparr>"

definition recv_chain :: "RecvHelper \<Rightarrow> nat \<Rightarrow> ib_recv_wr list option" where
  "recv_chain h i = map_option (map (read_recv h)) (walk (length (rh_wrs h)) (map rs_next (rh_wrs h)) i)"

definition post_recvs ::
  "'d kib \<Rightarrow> RecvHelper \<Rightarrow> ptr \<Rightarrow> ptr \<Rightarrow> usize \<Rightarrow> 'd \<Rightarrow> ((unit, Error) result \<times> RecvHelper \<times> 'd) option"
where
  "post_recvs b h qp srq buffer_sz d =
     (if rh_cur_idx h + buffer_sz = 0 \<or> 2 ^ 64 \<le> rh_cur_idx h + buffer_sz \<or> rh_capacity h = 0 then None
      else
        (let tail = (rh_cur_idx h + buffer_sz - 1) mod rh_capacity h in
         case freeze_at tail h of
           None \<Rightarrow> None
         | Some h1 \<Rightarrow>
             (case Option.bind (header_ptr h1) (recv_chain h1) of
                None \<Rightarrow> None
              | Some wrs \<Rightarrow>
                  (let (err, d) = (if srq = 0 then kb_post_recv b qp wrs d else kb_post_srq_recv b srq wrs d) in
                   case freeze_done_at tail h1 of
                     None \<Rightarrow> None
                   | Some h2 \<Rightarrow>
                       if err \<noteq> 0 then Some (Err err, h2, d)
                       else Some (Ok (), h2 \<lparr> rh_cur_idx := (tail + 1) mod rh_capacity h \<rparr>, d)))))"

section \<open>Polling\<close>

text \<open>The completions are written from slot \<open>offset % N\<close> on; \<open>recv_cnt as i32\<close> keeps the
  low 32 bits.  The result is the pointer to slot 0 and the number.\<close>

definition pop_recvs ::
  "'d kib \<Rightarrow> RecvHelper \<Rightarrow> ptr \<Rightarrow> usize \<Rightarrow> usize \<Rightarrow> 'd \<Rightarrow> ((usize, Error) result \<times> RecvHelper \<times> 'd) option"
where
  "pop_recvs b h recv_cq recv_cnt offset d =
     (if recv_cq = 0 then Some (Err 0, h, d)
      else case get_wc offset h of
        None \<Rightarrow> None
      | Some pos \<Rightarrow>
          (let (ret, wcs, d) = kb_poll_cq b recv_cq (sint (word_of_nat recv_cnt :: u32)) d in
           if length (rh_wcs h) < pos + length wcs then None
           else
             (let h = h \<lparr> rh_wcs := take pos (rh_wcs h) @ wcs @ drop (pos + length wcs) (rh_wcs h) \<rparr> in
              if ret < 0 then Some (Err ret, h, d) else Some (Ok (nat ret), h, d))))"

section \<open>Invariant\<close>

text \<open>Buffer \<open>i\<close> starts at \<open>base + i * entry_size\<close>; its request carries the virtual
  address of the buffer as the identifier.\<close>

definition recv_addr :: "nat \<Rightarrow> u64 \<Rightarrow> nat \<Rightarrow> u64" where
  "recv_addr entry_size base i = base + word_of_nat (i * entry_size)"

definition recv_sge :: "nat \<Rightarrow> u32 \<Rightarrow> u64 \<Rightarrow> nat \<Rightarrow> ib_sge" where
  "recv_sge entry_size lkey base i =
     \<lparr> sge_addr = recv_addr entry_size base i, sge_length = word_of_nat entry_size, sge_lkey = lkey \<rparr>"

definition recv_buffer_wr :: "(u64 \<Rightarrow> u64) \<Rightarrow> nat \<Rightarrow> u32 \<Rightarrow> u64 \<Rightarrow> nat \<Rightarrow> ib_recv_wr" where
  "recv_buffer_wr pa_to_va entry_size lkey base i =
     \<lparr> rw_wr_id = pa_to_va (recv_addr entry_size base i), rw_sg_list = [recv_sge entry_size lkey base i] \<rparr>"

definition ring_slots :: "(u64 \<Rightarrow> u64) \<Rightarrow> nat \<Rightarrow> nat \<Rightarrow> u64 \<Rightarrow> recv_slot list" where
  "ring_slots pa_to_va N entry_size base =
     map (\<lambda>i. recv_entry pa_to_va ((i + 1) mod N) i (recv_addr entry_size base i)) [0..<N]"

definition rh_inv :: "(u64 \<Rightarrow> u64) \<Rightarrow> nat \<Rightarrow> nat \<Rightarrow> u32 \<Rightarrow> u64 \<Rightarrow> RecvHelper \<Rightarrow> bool" where
  "rh_inv pa_to_va N entry_size lkey base h \<longleftrightarrow>
     rh_capacity h = N \<and> rh_cur_idx h < N \<and> length (rh_wcs h) = N
   \<and> rh_wrs h = ring_slots pa_to_va N entry_size base
   \<and> rh_sges h = map (recv_sge entry_size lkey base) [0..<N]"

lemma length_ring_slots [simp]: "length (ring_slots pv N e b) = N"
  by (simp add: ring_slots_def)

lemma ring_slots_nth [simp]:
  "i < N \<Longrightarrow> ring_slots pv N e b ! i = recv_entry pv ((i + 1) mod N) i (recv_addr e b i)"
  by (simp add: ring_slots_def)

lemma ring_slots_ring: "is_ring (map rs_next (ring_slots pv N e b))"
  by (simp add: is_ring_def recv_entry_def)

lemma recv_addr_Suc: "recv_addr e b (Suc k) = recv_addr e b k + word_of_nat e"
  by (simp add: recv_addr_def algebra_simps)

lemma unat_recv_addr: "unat b + i * e < 2 ^ 64 \<Longrightarrow> unat (recv_addr e b i) = unat b + i * e"
  using unat_add_word_of_nat [of b "i * e"] by (simp add: recv_addr_def del: of_nat_mult)

lemma create_loop_fills:
  assumes "length (rh_wrs h) = N" "length (rh_sges h) = N" "rh_capacity h = N" "k \<le> N"
    and "unat base + k * e < 2 ^ 64"
  shows "create_loop pv e lkey [k..<N] (recv_addr e base k) h =
     (if unat base + N * e < 2 ^ 64 then
        Some (h \<lparr> rh_wrs := take k (rh_wrs h) @ drop k (ring_slots pv N e base),
                  rh_sges := take k (rh_sges h) @ drop k (map (recv_sge e lkey base) [0..<N]) \<rparr>)
      else None)"
  using assms
proof (induction "N - k" arbitrary: k h)
  case 0
  then show ?case by simp
next
  case (Suc n)
  then have k: "k < N" by simp
  show ?case
  proof (cases "unat base + Suc k * e < 2 ^ 64")
    case False
    have "Suc k * e \<le> N * e" using k by (intro mult_le_mono1) simp
    with False have "\<not> unat base + N * e < 2 ^ 64" by linarith
    moreover have "unat (recv_addr e base k) + e = unat base + Suc k * e"
      using unat_recv_addr [OF Suc.prems(5)] by simp
    ultimately show ?thesis
      using k False Suc.prems by (simp add: upt_conv_Cons get_recv_wr_ptr_def)
  next
    case True
    let ?h = "h \<lparr> rh_sges := (rh_sges h)[k := recv_sge e lkey base k],
                  rh_wrs := (rh_wrs h)[k := recv_entry pv ((k + 1) mod N) k (recv_addr e base k)] \<rparr>"
    have "unat (recv_addr e base k) + e < 2 ^ 64" using unat_recv_addr [OF Suc.prems(5)] True by simp
    then have "create_loop pv e lkey [k..<N] (recv_addr e base k) h
        = create_loop pv e lkey [Suc k..<N] (recv_addr e base (Suc k)) ?h"
      using k Suc.prems by (simp add: upt_conv_Cons get_recv_wr_ptr_def recv_addr_Suc recv_sge_def)
    also have "\<dots> = (if unat base + N * e < 2 ^ 64 then
        Some (?h \<lparr> rh_wrs := take (Suc k) (rh_wrs ?h) @ drop (Suc k) (ring_slots pv N e base),
                  rh_sges := take (Suc k) (rh_sges ?h) @ drop (Suc k) (map (recv_sge e lkey base) [0..<N]) \<rparr>)
      else None)"
      using Suc.hyps(2) Suc.prems k True by (intro Suc.hyps(1)) simp_all
    also have "drop k (ring_slots pv N e base) = ring_slots pv N e base ! k # drop (Suc k) (ring_slots pv N e base)"
      using k by (intro Cons_nth_drop_Suc [symmetric]) simp
    moreover have "drop k (map (recv_sge e lkey base) [0..<N])
        = recv_sge e lkey base k # drop (Suc k) (map (recv_sge e lkey base) [0..<N])"
      using k Cons_nth_drop_Suc [of k "map (recv_sge e lkey base) [0..<N]"] by simp
    ultimately show ?thesis
      using k Suc.prems by (simp add: take_Suc_update)
  qed
qed

lemma RecvHelper_create_eq:
  "RecvHelper_create pv N e lkey base =
     (if unat base + N * e < 2 ^ 64 then
        Some \<lparr> rh_wrs = ring_slots pv N e base, rh_sges = map (recv_sge e lkey base) [0..<N],
               rh_wcs = replicate N zero_wc, rh_cur_idx = 0, rh_capacity = N, rh_en_sz = e \<rparr>
      else None)"
proof -
  let ?h = "\<lparr> rh_wrs = replicate N zero_recv_slot, rh_sges = replicate N recv_zero_sge,
         rh_wcs = replicate N zero_wc, rh_cur_idx = 0, rh_capacity = N, rh_en_sz = e \<rparr>"
  have "unat base + 0 * e < 2 ^ 64" using unat_less_size [of base] by simp
  from create_loop_fills [of ?h N 0 base e pv lkey, OF _ _ _ _ this] show ?thesis
    by (simp add: RecvHelper_create_def recv_addr_def)
qed

lemma RecvHelper_create_inv:
  "RecvHelper_create pv N e lkey base = Some h \<Longrightarrow> 0 < N \<Longrightarrow> rh_inv pv N e lkey base h"
  by (auto simp: RecvHelper_create_eq rh_inv_def split: if_splits)

lemma post_recvs_inv:
  fixes b :: "'d kib" and qp srq :: ptr and d :: 'd and sz :: nat and h :: RecvHelper
  assumes inv: "rh_inv pv N e lkey base h" and sz: "0 < sz" "N + sz \<le> 2 ^ 64"
  defines "wrs \<equiv> map (\<lambda>j. recv_buffer_wr pv e lkey base ((rh_cur_idx h + j) mod N)) [0..<(sz - 1) mod N + 1]"
  defines "ret \<equiv> (if srq = 0 then kb_post_recv b qp wrs d else kb_post_srq_recv b srq wrs d)"
  shows "post_recvs b h qp srq sz d =
     Some (if fst ret \<noteq> 0 then (Err (fst ret), h, snd ret)
           else (Ok (), h \<lparr> rh_cur_idx := (rh_cur_idx h + sz) mod N \<rparr>, snd ret))"
proof -
  have I: "rh_capacity h = N" "rh_cur_idx h < N" "rh_wrs h = ring_slots pv N e base"
    "rh_sges h = map (recv_sge e lkey base) [0..<N]" using inv by (simp_all add: rh_inv_def)
  let ?c = "rh_cur_idx h"
  define k where "k = (sz - 1) mod N"
  define t where "t = (?c + sz - 1) mod N"
  let ?nx = "map rs_next (rh_wrs h)"
  let ?h1 = "set_next t None h"
  have N: "0 < N" and k: "k < N" and t: "t < N" using I(2) by (auto simp: k_def t_def)
  have tk: "t = (?c + k) mod N"
  proof -
    have "?c + sz - 1 = ?c + (sz - 1)" using sz by simp
    then show ?thesis by (simp add: t_def k_def mod_simps)
  qed
  have range: "rh_cur_idx h + sz \<noteq> 0" "\<not> 2 ^ 64 \<le> rh_cur_idx h + sz" using sz I(2) by simp_all
  have fr: "freeze_at t h = Some ?h1" using I t by (simp add: freeze_at_def get_recv_wr_ptr_def)
  have nx: "map rs_next (rh_wrs ?h1) = ?nx[t := None]" by (simp add: set_next_def map_update)
  have ring: "is_ring ?nx" by (simp add: I(3) ring_slots_ring)
  have len: "length (rh_wrs ?h1) = N" "length ?nx = N" using I(3) by (simp_all add: set_next_def)
  have wk: "walk (length (rh_wrs ?h1)) (map rs_next (rh_wrs ?h1)) ?c = Some (map (\<lambda>j. (?c + j) mod N) [0..<k + 1])"
    using walk_cut [OF ring, of ?c k N] I(2) k unfolding nx len tk [symmetric] by simp
  have rd: "read_recv ?h1 i = recv_buffer_wr pv e lkey base i" if "i < N" for i
    using that I t by (cases "i = t") (simp_all add: read_recv_def set_next_def recv_buffer_wr_def recv_entry_def
        take_Suc hd_drop_conv_nth)
  have hd: "header_ptr ?h1 = Some ?c" using I by (simp add: header_ptr_def get_recv_wr_ptr_def set_next_def)
  have chain: "recv_chain ?h1 ?c = Some wrs"
  proof -
    have "wrs = map (\<lambda>j. recv_buffer_wr pv e lkey base ((?c + j) mod N)) [0..<k + 1]"
      unfolding wrs_def k_def ..
    then show ?thesis using N by (simp add: recv_chain_def wk rd del: upt_Suc)
  qed
  have repaired: "set_next t (Some ((t + 1) mod N)) ?h1 = h"
  proof -
    have "(ring_slots pv N e base)[t := recv_entry pv ((t + 1) mod N) t (recv_addr e base t)] = ring_slots pv N e base"
      using t by (metis list_update_id ring_slots_nth)
    then show ?thesis using I t by (simp add: set_next_def recv_entry_def)
  qed
  have "freeze_done_at t ?h1 = Some (set_next t (Some ((t + 1) mod N)) ?h1)"
    using I t N by (simp add: freeze_done_at_def get_recv_wr_ptr_def set_next_def)
  then have fd: "freeze_done_at t ?h1 = Some h" using repaired by simp
  have cur: "(t + 1) mod N = (?c + sz) mod N" using sz by (simp add: t_def mod_simps)
  have cap: "rh_capacity h \<noteq> 0" using I N by simp
  have tS: "(rh_cur_idx h + sz - Suc 0) mod N = t" by (simp add: t_def)
  show ?thesis
    using hd chain range cap fr fd cur I(1) tS
    by (simp add: post_recvs_def Let_def case_prod_beta ret_def)
qed

text \<open>The states a helper reaches: any successful sequence of posts and polls.\<close>

inductive rh_reach :: "'d kib \<Rightarrow> RecvHelper \<Rightarrow> RecvHelper \<Rightarrow> bool" for b h0 where
  start: "rh_reach b h0 h0"
| post: "rh_reach b h0 h \<Longrightarrow> 0 < sz \<Longrightarrow> rh_capacity h + sz \<le> 2 ^ 64 \<Longrightarrow>
     post_recvs b h qp srq sz d = Some (r, h', d') \<Longrightarrow> rh_reach b h0 h'"
| pop: "rh_reach b h0 h \<Longrightarrow> pop_recvs b h cq cnt off d = Some (r, h', d') \<Longrightarrow> rh_reach b h0 h'"

lemma pop_recvs_inv:
  assumes "rh_inv pv N e lkey base h" "pop_recvs b h cq cnt off d = Some (r, h', d')"
  shows "rh_inv pv N e lkey base h'"
  using assms by (auto simp: pop_recvs_def rh_inv_def Let_def get_wc_def split: if_splits prod.splits option.splits)

lemma rh_reach_inv:
  "rh_reach b h0 h \<Longrightarrow> rh_inv pv N e lkey base h0 \<Longrightarrow> rh_inv pv N e lkey base h"
proof (induction rule: rh_reach.induct)
  case (post h sz qp srq d r h' d')
  then have inv: "rh_inv pv N e lkey base h" and cap: "rh_capacity h = N" by (auto simp: rh_inv_def)
  have "0 < N" using inv by (auto simp: rh_inv_def)
  with post_recvs_inv [OF inv post.hyps(2), of b] post.hyps(3,4) inv cap show ?case
    by (auto simp: rh_inv_def split: if_splits)
qed (simp_all add: pop_recvs_inv)

end
