(* ===== verification/Recv_Props.thy ===== *)
theory Recv_Props
  imports Recv_Helper
begin

text \<open>
  Properties of the receive buffers: what a post hands to the driver in every
  reachable state, where the buffers lie, and when polling stays inside the
  completion array.
\<close>

text \<open>A driver that accepts everything and delivers no more completions than asked
  for, for the concrete instances.\<close>

definition demo_kib :: "nat kib" where
  "demo_kib = \<lparr> kb_post_send = (\<lambda>_ _ d. (0, d)), kb_post_recv = (\<lambda>_ wrs d. (0, d + length wrs)),
                kb_post_srq_recv = (\<lambda>_ wrs d. (0, d + length wrs)),
                kb_poll_cq = (\<lambda>_ k d. (int (min (nat k) d), replicate (min (nat k) d) zero_wc, d - min (nat k) d)) \<rparr>"

lemma demo_kib_law: "kpoll_law demo_kib"
  by (auto simp: kpoll_law_def demo_kib_def min_def)

text \<open>C18. The receive ring.  In every state a helper reaches, the links and the
  buffers are those of its creation, and a post of \<open>sz\<close> buffers hands the driver
  the requests of \<open>(sz - 1) mod N + 1\<close> consecutive slots from the current one on, so
  \<open>sz\<close> requests as long as \<open>sz\<close> is at most \<open>N\<close> and fewer otherwise.  If the driver
  refuses, the helper is as before; if not, the current slot has moved by \<open>sz\<close>.\<close>

theorem recv_ring_posts:
  fixes b :: "'d kib" and d :: 'd and qp srq :: ptr and sz :: nat and h :: RecvHelper
  assumes create: "RecvHelper_create pv N e lkey base = Some h0" and "0 < N"
    and reach: "rh_reach b h0 h" and sz: "0 < sz" "N + sz \<le> 2 ^ 64"
  shows "rh_wrs h = rh_wrs h0 \<and> rh_sges h = rh_sges h0 \<and> rh_cur_idx h < N
    \<and> post_recvs b h qp srq sz d =
       (let wrs = map (\<lambda>j. recv_buffer_wr pv e lkey base ((rh_cur_idx h + j) mod N)) [0..<(sz - 1) mod N + 1];
            (err, d') = (if srq = 0 then kb_post_recv b qp wrs d else kb_post_srq_recv b srq wrs d)
        in Some (if err \<noteq> 0 then (Err err, h, d')
                 else (Ok (), h \<lparr> rh_cur_idx := (rh_cur_idx h + sz) mod N \<rparr>, d')))"
proof -
  have inv0: "rh_inv pv N e lkey base h0" using create assms(2) by (rule RecvHelper_create_inv)
  then have inv: "rh_inv pv N e lkey base h" by (rule rh_reach_inv [OF reach])
  show ?thesis
    using inv inv0 unfolding post_recvs_inv [OF inv sz]
    by (simp add: rh_inv_def Let_def case_prod_beta del: upt_Suc)
qed

theorem recv_ring_posts_witness:
  "post_recvs demo_kib
      \<lparr> rh_wrs = ring_slots (\<lambda>x. x) 4 16 256, rh_sges = map (recv_sge 16 7 256) [0..<4],
        rh_wcs = replicate 4 zero_wc, rh_cur_idx = 0, rh_capacity = 4, rh_en_sz = 16 \<rparr> 9 0 6 (0::nat)
   = Some (Ok (), \<lparr> rh_wrs = ring_slots (\<lambda>x. x) 4 16 256, rh_sges = map (recv_sge 16 7 256) [0..<4],
        rh_wcs = replicate 4 zero_wc, rh_cur_idx = 2, rh_capacity = 4, rh_en_sz = 16 \<rparr>, 2)"
proof -
  let ?h = "\<lparr> rh_wrs = ring_slots (\<lambda>x. x) 4 16 256, rh_sges = map (recv_sge 16 7 256) [0..<4],
        rh_wcs = replicate 4 zero_wc, rh_cur_idx = 0, rh_capacity = 4, rh_en_sz = 16 \<rparr>"
  have "RecvHelper_create (\<lambda>x. x) 4 16 7 256 = Some ?h" by (simp add: RecvHelper_create_eq)
  from recv_ring_posts [OF this _ rh_reach.start, of 6 demo_kib 9 0 0] show ?thesis
    by (simp add: demo_kib_def Let_def)
qed

text \<open>C28. The buffers of a helper.  Creation succeeds exactly when the buffers fit
  below the top of the address space, and then buffer \<open>i\<close> (for entries below 4 GB)
  covers the bytes from \<open>base + i * entry_size\<close> up to the start of the next one:
  the buffers lie one after the other and do not overlap.\<close>

theorem recv_buffers_disjoint:
  "(RecvHelper_create pv N e lkey base \<noteq> None \<longleftrightarrow> unat base + N * e < 2 ^ 64)
 \<and> (\<forall>h i. RecvHelper_create pv N e lkey base = Some h \<and> i < N \<and> e < 2 ^ 32 \<longrightarrow>
       unat (sge_addr (rh_sges h ! i)) = unat base + i * e
     \<and> unat (sge_addr (rh_sges h ! i)) + unat (sge_length (rh_sges h ! i)) = unat base + (i + 1) * e
     \<and> sge_lkey (rh_sges h ! i) = lkey
     \<and> rs_wr_id (rh_wrs h ! i) = pv (sge_addr (rh_sges h ! i)))"
proof -
  have addr: "unat (recv_addr e base i) = unat base + i * e" if "unat base + N * e < 2 ^ 64" "i < N" for i
  proof (rule unat_recv_addr)
    have "i * e \<le> N * e" using that(2) by (intro mult_le_mono1) simp
    with that(1) show "unat base + i * e < 2 ^ 64" by linarith
  qed
  have len: "unat (word_of_nat e :: u32) = e" if "e < 2 ^ 32" using that by (intro unat_word_of_nat) simp
  show ?thesis
    using addr len by (auto simp: RecvHelper_create_eq recv_sge_def recv_entry_def split: if_splits)
qed

theorem recv_buffers_disjoint_witness:
  "sge_addr (rh_sges (the (RecvHelper_create (\<lambda>x. x) 3 64 7 4096)) ! 2) = 4096 + 128"
proof -
  let ?h = "the (RecvHelper_create (\<lambda>x. x) 3 64 7 4096)"
  have "RecvHelper_create (\<lambda>x. x) 3 64 7 4096 = Some ?h" by (simp add: RecvHelper_create_eq)
  with recv_buffers_disjoint [of "\<lambda>x. x" 3 64 7 4096]
  have "unat (sge_addr (rh_sges ?h ! 2)) = unat (4096 + 128 :: u64)" by simp
  then show ?thesis by (simp only: word_unat_eq_iff)
qed

text \<open>C29. Polling writes the completions from slot \<open>offset mod N\<close> on without a bound:
  for fewer than \<open>2^31\<close> requested completions, the write leaves the array exactly
  when the driver delivers more than the \<open>N - offset mod N\<close> slots that are left.
  It is safe when no more than these are requested; otherwise the slots before the
  offset keep their contents and the new completions follow in order.\<close>

theorem pop_recvs_bounds:
  assumes law: "kpoll_law b" and N: "0 < length (rh_wcs h)" and "recv_cq \<noteq> 0" and cnt: "recv_cnt < 2 ^ 31"
  shows "(pop_recvs b h recv_cq recv_cnt offset d = None \<longleftrightarrow>
            length (rh_wcs h) < offset mod length (rh_wcs h) + nat (fst (kb_poll_cq b recv_cq (int recv_cnt) d)))
    \<and> (offset mod length (rh_wcs h) + recv_cnt \<le> length (rh_wcs h) \<longrightarrow>
         (\<exists>r h' d'. pop_recvs b h recv_cq recv_cnt offset d = Some (r, h', d')
            \<and> take (offset mod length (rh_wcs h)) (rh_wcs h') = take (offset mod length (rh_wcs h)) (rh_wcs h)
            \<and> (\<forall>n. r = Ok n \<longrightarrow> n \<le> recv_cnt \<and>
                 take n (drop (offset mod length (rh_wcs h)) (rh_wcs h')) = fst (snd (kb_poll_cq b recv_cq (int recv_cnt) d)))))"
proof -
  let ?p = "kb_poll_cq b recv_cq (int recv_cnt) d" and ?N = "length (rh_wcs h)"
  let ?pos = "offset mod ?N"
  have pos: "?pos < ?N" using N by simp
  have le: "fst ?p \<le> int recv_cnt" and l: "length (fst (snd ?p)) = nat (fst ?p)"
    using law by (simp_all add: kpoll_law_def)
  have cast: "sint (word_of_nat recv_cnt :: u32) = int recv_cnt" using cnt by (rule sint_of_small_nat)
  have eq: "pop_recvs b h recv_cq recv_cnt offset d =
     (if ?N < ?pos + nat (fst ?p) then None
      else (let h' = h \<lparr> rh_wcs := take ?pos (rh_wcs h) @ fst (snd ?p) @ drop (?pos + nat (fst ?p)) (rh_wcs h) \<rparr> in
            Some (if fst ?p < 0 then Err (fst ?p) else Ok (nat (fst ?p)), h', snd (snd ?p))))"
    using N assms(3) by (simp add: pop_recvs_def get_wc_def cast Let_def case_prod_beta l)
  show ?thesis using pos le l unfolding eq by (auto simp: Let_def)
qed

theorem pop_recvs_bounds_witness:
  "pop_recvs demo_kib (RecvHelper_default 2) 9 2 1 (5::nat) = None"
proof -
  have "0 < length (rh_wcs (RecvHelper_default 2))" by (simp add: RecvHelper_default_def)
  from pop_recvs_bounds [OF demo_kib_law this, of 9 2 1 5] show ?thesis
    by (simp add: RecvHelper_default_def demo_kib_def)
qed

end
