(* ===== verification/Kit_Ops.thy ===== *)
theory Kit_Ops
  imports Recv_Helper Qp_Ops
begin

text \<open>
  The operations of the kernel library behind the system call layer on its three
  kinds of queue pairs (\<open>two-sided-dc/KRdmaKit/src/qp/{rc,ud,dc}_op.rs\<close>), with the
  structures they use: \<open>TempMR\<close>, \<open>EndPoint\<close>, and of \<open>RC\<close>, \<open>UD\<close> and \<open>DC\<close> the fields.  A
  completion returned by pointer is its value.  The waits of the RC and UD
  operations have no bound: they are partial functions whose None is an endless
  loop.
\<close>

section \<open>Structures\<close>

record TempMR =
  tm_addr :: u64
  tm_capacity :: u32
  tm_rkey :: u32

definition TempMR_new :: "u64 \<Rightarrow> u32 \<Rightarrow> u32 \<Rightarrow> TempMR" where
  "TempMR_new v c k = \<lparr> tm_addr = v, tm_capacity = c, tm_rkey = k \<rparr>"

record EndPoint =
  en_qpn :: u32
  en_qkey :: u32
  en_lid :: u16
  en_gid :: ib_gid
  en_dct_num :: u32
  en_mr :: TempMR
  en_ah :: ptr

record KRC =
  krc_qp :: ptr
  krc_cq :: ptr
  krc_recv_cq :: ptr
  krc_srq :: ptr
  krc_remote_mr :: "TempMR option"
  krc_cm :: ptr

record KUD =
  kud_qp :: ptr
  kud_cq :: ptr
  kud_recv_cq :: ptr
  kud_qkey :: u32
  kud_shared_recv_cq :: bool

record KDC =
  kdc_qp :: ptr
  kdc_cq :: ptr
  kdc_recv_cq :: ptr

section \<open>Posting\<close>

definition kit_post_send :: "'d kib \<Rightarrow> ptr \<Rightarrow> ib_sge \<Rightarrow> ib_send_wr \<Rightarrow> 'd \<Rightarrow> (unit, Error) result \<times> 'd" where
  "kit_post_send b qp sge wr d =
     (let (err, d) = kb_post_send b qp [wr \<lparr> sw_sg_list := [sge] \<rparr>] d in
      if err \<noteq> 0 then (Err err, d) else (Ok (), d))"

definition rc_post_send :: "'d kib \<Rightarrow> KRC \<Rightarrow> ib_sge \<Rightarrow> ib_send_wr \<Rightarrow> 'd \<Rightarrow> (unit, Error) result \<times> 'd" where
  "rc_post_send b rc = kit_post_send b (krc_qp rc)"

definition ud_post_send :: "'d kib \<Rightarrow> KUD \<Rightarrow> ib_sge \<Rightarrow> ib_send_wr \<Rightarrow> 'd \<Rightarrow> (unit, Error) result \<times> 'd" where
  "ud_post_send b ud = kit_post_send b (kud_qp ud)"

definition dc_post_send :: "'d kib \<Rightarrow> KDC \<Rightarrow> ib_sge \<Rightarrow> ib_send_wr \<Rightarrow> 'd \<Rightarrow> (unit, Error) result \<times> 'd" where
  "dc_post_send b dc = kit_post_send b (kdc_qp dc)"

definition rc_push_with_imm ::
  "'d kib \<Rightarrow> KRC \<Rightarrow> ib_wr_opcode \<Rightarrow> u64 \<Rightarrow> u32 \<Rightarrow> usize \<Rightarrow> u64 \<Rightarrow> u32 \<Rightarrow> u32 \<Rightarrow> ib_send_flags set \<Rightarrow> 'd
     \<Rightarrow> (unit, Error) result \<times> 'd"
where
  "rc_push_with_imm b rc op local_ptr lkey sz remote_addr rkey imm_data send_flag d =
     rc_post_send b rc \<lparr> sge_addr = local_ptr, sge_length = word_of_nat sz, sge_lkey = lkey \<rparr>
       (send_wr_default \<lparr> sw_opcode := op, sw_send_flags := send_flag, sw_imm_data := imm_data,
          sw_target := WrRdma remote_addr rkey \<rparr>) d"

definition rc_push ::
  "'d kib \<Rightarrow> KRC \<Rightarrow> ib_wr_opcode \<Rightarrow> u64 \<Rightarrow> u32 \<Rightarrow> usize \<Rightarrow> u64 \<Rightarrow> u32 \<Rightarrow> ib_send_flags set \<Rightarrow> 'd
     \<Rightarrow> (unit, Error) result \<times> 'd"
where
  "rc_push b rc op local_ptr lkey sz remote_addr rkey send_flag d =
     rc_push_with_imm b rc op local_ptr lkey sz remote_addr rkey 0 send_flag d"

definition ud_push ::
  "'d kib \<Rightarrow> KUD \<Rightarrow> ib_wr_opcode \<Rightarrow> u64 \<Rightarrow> u32 \<Rightarrow> EndPoint \<Rightarrow> usize \<Rightarrow> u32 \<Rightarrow> ib_send_flags set \<Rightarrow> 'd
     \<Rightarrow> (unit, Error) result \<times> 'd"
where
  "ud_push b ud op local_ptr lkey end_point sz imm_data send_flag d =
     ud_post_send b ud \<lparr> sge_addr = local_ptr, sge_length = word_of_nat sz, sge_lkey = lkey \<rparr>
       (send_wr_default \<lparr> sw_opcode := op, sw_send_flags := send_flag, sw_imm_data := imm_data,
          sw_target := WrUd (en_ah end_point) (en_qpn end_point) (en_qkey end_point) \<rparr>) d"

definition dc_push_with_imm ::
  "'d kib \<Rightarrow> KDC \<Rightarrow> ib_wr_opcode \<Rightarrow> u64 \<Rightarrow> u32 \<Rightarrow> usize \<Rightarrow> u64 \<Rightarrow> u32 \<Rightarrow> EndPoint \<Rightarrow> ib_send_flags set \<Rightarrow> u32 \<Rightarrow> 'd
     \<Rightarrow> (unit, Error) result \<times> 'd"
where
  "dc_push_with_imm b dc op local_ptr lkey sz remote_addr rkey end_point send_flag imm_data d =
     dc_post_send b dc \<lparr> sge_addr = local_ptr, sge_length = word_of_nat sz, sge_lkey = lkey \<rparr>
       (send_wr_default \<lparr> sw_opcode := op, sw_send_flags := send_flag, sw_imm_data := imm_data,
          sw_target := WrDc (en_ah end_point) (en_dct_num end_point) 73 remote_addr rkey \<rparr>) d"

definition dc_push ::
  "'d kib \<Rightarrow> KDC \<Rightarrow> ib_wr_opcode \<Rightarrow> u64 \<Rightarrow> u32 \<Rightarrow> usize \<Rightarrow> u64 \<Rightarrow> u32 \<Rightarrow> EndPoint \<Rightarrow> ib_send_flags set \<Rightarrow> 'd
     \<Rightarrow> (unit, Error) result \<times> 'd"
where
  "dc_push b dc op local_ptr lkey sz remote_addr rkey end_point send_flag d =
     dc_post_send b dc \<lparr> sge_addr = local_ptr, sge_length = word_of_nat sz, sge_lkey = lkey \<rparr>
       (send_wr_default \<lparr> sw_opcode := op, sw_send_flags := send_flag,
          sw_target := WrDc (en_ah end_point) (en_dct_num end_point) 73 remote_addr rkey \<rparr>) d"

definition ud_post_recv ::
  "'d kib \<Rightarrow> KUD \<Rightarrow> u64 \<Rightarrow> u32 \<Rightarrow> usize \<Rightarrow> 'd \<Rightarrow> (unit, Error) result \<times> 'd"
where
  "ud_post_recv b ud local_ptr lkey sz d =
     (let (err, d) = kb_post_recv b (kud_qp ud)
            [\<lparr> rw_wr_id = 0,
               rw_sg_list = [\<lparr> sge_addr = local_ptr, sge_length = word_of_nat sz, sge_lkey = lkey \<rparr>] \<rparr>] d in
      if err \<noteq> 0 then (Err err, d) else (Ok (), d))"

section \<open>Completions\<close>

text \<open>One poll for one completion; only the return value 1 is a completion.\<close>

definition poll_one :: "'d kib \<Rightarrow> ptr \<Rightarrow> 'd \<Rightarrow> kwc option \<times> 'd" where
  "poll_one b cq d =
     (let (ret, wcs, d) = kb_poll_cq b cq 1 d in
      (if ret = 1 then Some (case wcs of [] \<Rightarrow> zero_wc | wc # _ \<Rightarrow> wc) else None, d))"

definition rc_pop :: "'d kib \<Rightarrow> KRC \<Rightarrow> 'd \<Rightarrow> kwc option \<times> 'd" where
  "rc_pop b rc = poll_one b (krc_cq rc)"

definition ud_pop :: "'d kib \<Rightarrow> KUD \<Rightarrow> 'd \<Rightarrow> kwc option \<times> 'd" where
  "ud_pop b ud = poll_one b (kud_cq ud)"

definition dc_pop :: "'d kib \<Rightarrow> KDC \<Rightarrow> 'd \<Rightarrow> kwc option \<times> 'd" where
  "dc_pop b dc = poll_one b (kdc_cq dc)"

partial_function (option) wait_loop :: "'d kib \<Rightarrow> ptr \<Rightarrow> 'd \<Rightarrow> (kwc \<times> 'd) option" where
  "wait_loop b cq d =
     (case poll_one b cq d of
        (Some wc, d') \<Rightarrow> Some (wc, d')
      | (None, d') \<Rightarrow> wait_loop b cq d')"

definition rc_wait_til_comp :: "'d kib \<Rightarrow> KRC \<Rightarrow> 'd \<Rightarrow> (kwc \<times> 'd) option" where
  "rc_wait_til_comp b rc d = wait_loop b (krc_cq rc) d"

definition ud_wait_til_comp :: "'d kib \<Rightarrow> KUD \<Rightarrow> 'd \<Rightarrow> (kwc \<times> 'd) option" where
  "ud_wait_til_comp b ud d = wait_loop b (kud_cq ud) d"

text \<open>The wait of the DC operations gives up when \<open>cnt\<close> exceeds 10000.\<close>

function dc_wait_loop :: "'d kib \<Rightarrow> KDC \<Rightarrow> nat \<Rightarrow> 'd \<Rightarrow> kwc option \<times> 'd" where
  "dc_wait_loop b dc cnt d =
     (case dc_pop b dc d of
        (Some wc, d') \<Rightarrow> (Some wc, d')
      | (None, d') \<Rightarrow> if 10000 < cnt + 1 then (None, d') else dc_wait_loop b dc (cnt + 1) d')"
  by pat_completeness auto
termination
  by (relation "measure (\<lambda>(b, dc, cnt, d). 10000 - cnt)") auto

declare dc_wait_loop.simps [simp del]

definition dc_wait_til_comp :: "'d kib \<Rightarrow> KDC \<Rightarrow> 'd \<Rightarrow> kwc option \<times> 'd" where
  "dc_wait_til_comp b dc d = dc_wait_loop b dc 0 d"

text \<open>\<open>wait_one_cq\<close> returns the completion structure in every case, filled or not, and
  gives up when \<open>idx\<close> exceeds 1000.\<close>

function wait_one_loop :: "'d kib \<Rightarrow> KUD \<Rightarrow> nat \<Rightarrow> 'd \<Rightarrow> kwc \<times> 'd" where
  "wait_one_loop b ud idx d =
     (let (ret, wcs, d') = kb_poll_cq b (kud_cq ud) 1 d in
      if ret < 0 then (zero_wc, d')
      else if ret = 1 then (case wcs of [] \<Rightarrow> zero_wc | wc # _ \<Rightarrow> wc, d')
      else if 1000 < idx + 1 then (zero_wc, d')
      else wait_one_loop b ud (idx + 1) d')"
  by pat_completeness auto
termination
  by (relation "measure (\<lambda>(b, ud, idx, d). 1000 - idx)") auto

declare wait_one_loop.simps [simp del]

definition wait_one_cq :: "'d kib \<Rightarrow> KUD \<Rightarrow> 'd \<Rightarrow> kwc \<times> 'd" where
  "wait_one_cq b ud d = wait_one_loop b ud 0 d"

definition ud_send ::
  "'d kib \<Rightarrow> KUD \<Rightarrow> u64 \<Rightarrow> u32 \<Rightarrow> EndPoint \<Rightarrow> usize \<Rightarrow> 'd \<Rightarrow> (kwc, Error) result \<times> 'd"
where
  "ud_send b ud local_ptr lkey end_point sz d =
     (case ud_push b ud IB_WR_SEND local_ptr lkey end_point sz 0 {IB_SEND_SIGNALED} d of
        (Err e, d) \<Rightarrow> (Err e, d)
      | (Ok _, d) \<Rightarrow> (let (wc, d) = wait_one_cq b ud d in (Ok wc, d)))"

text \<open>\<open>read\<close>, \<open>write\<close> and \<open>send\<close> push one signalled request and wait for its completion.\<close>

definition rc_push_and_wait ::
  "'d kib \<Rightarrow> KRC \<Rightarrow> ib_wr_opcode \<Rightarrow> u64 \<Rightarrow> u32 \<Rightarrow> usize \<Rightarrow> u64 \<Rightarrow> u32 \<Rightarrow> 'd
     \<Rightarrow> ((kwc, Error) result \<times> 'd) option"
where
  "rc_push_and_wait b rc op local_ptr lkey sz remote_addr rkey d =
     (case rc_push b rc op local_ptr lkey sz remote_addr rkey {IB_SEND_SIGNALED} d of
        (Err e, d) \<Rightarrow> Some (Err e, d)
      | (Ok _, d) \<Rightarrow> map_option (\<lambda>(wc, d). (Ok wc, d)) (rc_wait_til_comp b rc d))"

definition rc_read ::
  "'d kib \<Rightarrow> KRC \<Rightarrow> u64 \<Rightarrow> u32 \<Rightarrow> usize \<Rightarrow> u64 \<Rightarrow> u32 \<Rightarrow> 'd \<Rightarrow> ((kwc, Error) result \<times> 'd) option"
where
  "rc_read b rc = rc_push_and_wait b rc IB_WR_RDMA_READ"

definition rc_write ::
  "'d kib \<Rightarrow> KRC \<Rightarrow> u64 \<Rightarrow> u32 \<Rightarrow> usize \<Rightarrow> u64 \<Rightarrow> u32 \<Rightarrow> 'd \<Rightarrow> ((kwc, Error) result \<times> 'd) option"
where
  "rc_write b rc = rc_push_and_wait b rc IB_WR_RDMA_WRITE"

definition rc_send ::
  "'d kib \<Rightarrow> KRC \<Rightarrow> u64 \<Rightarrow> u32 \<Rightarrow> usize \<Rightarrow> u64 \<Rightarrow> u32 \<Rightarrow> 'd \<Rightarrow> ((kwc, Error) result \<times> 'd) option"
where
  "rc_send b rc = rc_push_and_wait b rc IB_WR_SEND"

definition pop_recv_with_shared ::
  "'d kib \<Rightarrow> usize \<Rightarrow> usize \<Rightarrow> ptr \<Rightarrow> RecvHelper \<Rightarrow> 'd \<Rightarrow> (usize option \<times> RecvHelper \<times> 'd) option"
where
  "pop_recv_with_shared b recv_cnt offset recv_cq recv_buffer d =
     (if recv_cq = 0 then Some (None, recv_buffer, d)
      else case pop_recvs b recv_buffer recv_cq recv_cnt offset d of
        None \<Rightarrow> None
      | Some (Err _, h, d) \<Rightarrow> Some (None, h, d)
      | Some (Ok n, h, d) \<Rightarrow> Some (if 0 < n then Some n else None, h, d))"

section \<open>When a wait ends\<close>

text \<open>The driver state after \<open>n\<close> polls, and whether the poll after them delivers.\<close>

definition polled :: "'d kib \<Rightarrow> ptr \<Rightarrow> nat \<Rightarrow> 'd \<Rightarrow> 'd" where
  "polled b cq n d = ((\<lambda>d. snd (poll_one b cq d)) ^^ n) d"

definition delivers :: "'d kib \<Rightarrow> ptr \<Rightarrow> nat \<Rightarrow> 'd \<Rightarrow> bool" where
  "delivers b cq n d \<longleftrightarrow> fst (poll_one b cq (polled b cq n d)) \<noteq> None"

lemma polled_0 [simp]: "polled b cq 0 d = d"
  by (simp add: polled_def)

lemma polled_Suc: "polled b cq (Suc n) d = polled b cq n (snd (poll_one b cq d))"
  by (simp add: polled_def funpow_Suc_right del: funpow.simps)

lemma delivers_Suc: "delivers b cq (Suc n) d = delivers b cq n (snd (poll_one b cq d))"
  by (simp add: delivers_def polled_Suc)

lemma delivers_0: "delivers b cq 0 d \<longleftrightarrow> fst (poll_one b cq d) \<noteq> None"
  by (simp add: delivers_def)

lemma delivers_later:
  "\<forall>m < Suc n. \<not> delivers b cq m d \<Longrightarrow> \<forall>m < n. \<not> delivers b cq m (snd (poll_one b cq d))"
  by (metis Suc_less_eq delivers_Suc)

lemma wait_loop_step:
  "wait_loop b cq d =
     (case fst (poll_one b cq d) of
        Some wc \<Rightarrow> Some (wc, snd (poll_one b cq d))
      | None \<Rightarrow> wait_loop b cq (snd (poll_one b cq d)))"
  by (subst wait_loop.simps) (auto split: prod.splits option.splits)

lemma wait_loop_ends:
  "delivers b cq n d \<Longrightarrow> \<forall>m < n. \<not> delivers b cq m d \<Longrightarrow>
     wait_loop b cq d = Some (the (fst (poll_one b cq (polled b cq n d))), polled b cq (Suc n) d)"
proof (induction n arbitrary: d)
  case 0
  then show ?case by (subst wait_loop_step) (auto simp: delivers_0 polled_Suc)
next
  case (Suc n)
  have "\<not> delivers b cq 0 d" using Suc.prems(2) by blast
  then have "wait_loop b cq d = wait_loop b cq (snd (poll_one b cq d))"
    by (subst wait_loop_step) (simp add: delivers_0)
  with Suc.IH [of "snd (poll_one b cq d)"] Suc.prems(1) delivers_later [OF Suc.prems(2)] show ?case
    by (simp add: delivers_Suc polled_Suc)
qed

lemma wait_loop_delivers:
  assumes "wait_loop b cq d = Some r" shows "\<exists>n. delivers b cq n d"
proof (rule wait_loop.raw_induct [OF _ assms, where P = "\<lambda>b cq d r. \<exists>n. delivers b cq n d"])
  fix f :: "'d kib \<Rightarrow> ptr \<Rightarrow> 'd \<Rightarrow> (kwc \<times> 'd) option" and b cq d r
  assume IH: "\<And>b cq d r. f b cq d = Some r \<Longrightarrow> \<exists>n. delivers b cq n d"
    and s: "(case poll_one b cq d of (Some wc, d') \<Rightarrow> Some (wc, d') | (None, d') \<Rightarrow> f b cq d') = Some r"
  show "\<exists>n. delivers b cq n d"
  proof (cases "fst (poll_one b cq d)")
    case None
    with s have "f b cq (snd (poll_one b cq d)) = Some r" by (cases "poll_one b cq d") simp
    from IH [OF this] show ?thesis using delivers_Suc by metis
  next
    case (Some wc)
    then have "delivers b cq 0 d" by (simp add: delivers_0)
    then show ?thesis by blast
  qed
qed

text \<open>A bounded wait: the first delivery among the next \<open>k\<close> polls, if there is one.\<close>

lemma dc_wait_loop_step:
  "dc_wait_loop b dc cnt d =
     (case fst (poll_one b (kdc_cq dc) d) of
        Some wc \<Rightarrow> (Some wc, snd (poll_one b (kdc_cq dc) d))
      | None \<Rightarrow> if 10000 < cnt + 1 then (None, snd (poll_one b (kdc_cq dc) d))
                else dc_wait_loop b dc (cnt + 1) (snd (poll_one b (kdc_cq dc) d)))"
  by (subst dc_wait_loop.simps) (auto simp: dc_pop_def split: prod.splits option.splits)

lemma dc_wait_loop_delivers:
  "delivers b (kdc_cq dc) n d \<Longrightarrow> \<forall>m < n. \<not> delivers b (kdc_cq dc) m d \<Longrightarrow> cnt + n \<le> 10000 \<Longrightarrow>
     dc_wait_loop b dc cnt d =
       (fst (poll_one b (kdc_cq dc) (polled b (kdc_cq dc) n d)), polled b (kdc_cq dc) (Suc n) d)"
proof (induction n arbitrary: d cnt)
  case 0
  then show ?case by (subst dc_wait_loop_step) (auto simp: delivers_0 polled_Suc prod_eq_iff)
next
  case (Suc n)
  have "\<not> delivers b (kdc_cq dc) 0 d" using Suc.prems(2) by blast
  then have "dc_wait_loop b dc cnt d = dc_wait_loop b dc (cnt + 1) (snd (poll_one b (kdc_cq dc) d))"
    using Suc.prems(3) by (subst dc_wait_loop_step) (simp add: delivers_0)
  with Suc.IH [of "snd (poll_one b (kdc_cq dc) d)" "cnt + 1"] Suc.prems delivers_later [OF Suc.prems(2)] show ?case
    by (simp add: delivers_Suc polled_Suc)
qed

lemma dc_wait_loop_timeout:
  "\<forall>m \<le> n. \<not> delivers b (kdc_cq dc) m d \<Longrightarrow> cnt + n = 10000 \<Longrightarrow>
     dc_wait_loop b dc cnt d = (None, polled b (kdc_cq dc) (Suc n) d)"
proof (induction n arbitrary: d cnt)
  case 0
  then show ?case by (subst dc_wait_loop_step) (simp add: delivers_0 polled_Suc)
next
  case (Suc n)
  have "\<not> delivers b (kdc_cq dc) 0 d" using Suc.prems(1) by blast
  then have "dc_wait_loop b dc cnt d = dc_wait_loop b dc (cnt + 1) (snd (poll_one b (kdc_cq dc) d))"
    using Suc.prems(2) by (subst dc_wait_loop_step) (simp add: delivers_0)
  moreover have "\<forall>m \<le> n. \<not> delivers b (kdc_cq dc) m (snd (poll_one b (kdc_cq dc) d))"
    using Suc.prems(1) by (metis Suc_le_mono delivers_Suc)
  ultimately show ?case using Suc.IH [of "snd (poll_one b (kdc_cq dc) d)" "cnt + 1"] Suc.prems(2)
    by (simp add: polled_Suc)
qed

end
