(* ===== verification/Kit_Qp.thy ===== *)
theory Kit_Qp
  imports Kit_Ops
begin

text \<open>
  Devices, contexts and queue pairs of the kernel library behind the system call
  layer: \<open>two-sided-dc/KRdmaKit/src/device.rs\<close>, \<open>qp/{mod,ud,dc}.rs\<close> and the endpoints of
  \<open>cm/sidr.rs\<close>.  The driver is the parameter \<open>'d verbs\<close> of \<open>Verbs\<close>.  A result None of
  an operation that returns an option of a pair is a crash: an \<open>unwrap\<close> of None or
  a read through a null pointer.
\<close>

section \<open>Configuration\<close>

record KConfig =
  kc_max_rd_atomic :: usize
  kc_max_send_wr_sz :: usize
  kc_max_recv_wr_sz :: usize
  kc_max_cqe :: usize
  kc_max_recv_cqe :: usize
  kc_max_send_sge :: usize
  kc_max_recv_sge :: usize
  kc_qkey :: u32

text \<open>The default queue key is one random byte.\<close>

definition KConfig_default :: "u8 \<Rightarrow> KConfig" where
  "KConfig_default random_byte =
     \<lparr> kc_max_rd_atomic = 16, kc_max_send_wr_sz = 2048, kc_max_recv_wr_sz = 4096, kc_max_cqe = 2048,
       kc_max_recv_cqe = 4096, kc_max_send_sge = 16, kc_max_recv_sge = 1, kc_qkey = ucast random_byte \<rparr>"

definition kc_set_max_rd_atomic :: "usize \<Rightarrow> KConfig \<Rightarrow> KConfig" where
  "kc_set_max_rd_atomic new_v c = c \<lparr> kc_max_rd_atomic := new_v \<rparr>"

definition kc_set_max_send_wr_sz :: "usize \<Rightarrow> KConfig \<Rightarrow> KConfig" where
  "kc_set_max_send_wr_sz new_v c = c \<lparr> kc_max_send_wr_sz := min (kc_max_cqe c) new_v \<rparr>"

definition kc_set_max_recv_wr_sz :: "usize \<Rightarrow> KConfig \<Rightarrow> KConfig" where
  "kc_set_max_recv_wr_sz new_v c = c \<lparr> kc_max_recv_wr_sz := min (kc_max_recv_cqe c) new_v \<rparr>"

definition kc_set_max_send_sge :: "usize \<Rightarrow> KConfig \<Rightarrow> KConfig" where
  "kc_set_max_send_sge new_v c = c \<lparr> kc_max_send_sge := new_v \<rparr>"

definition kc_set_max_recv_sge :: "usize \<Rightarrow> KConfig \<Rightarrow> KConfig" where
  "kc_set_max_recv_sge new_v c = c \<lparr> kc_max_recv_sge := new_v \<rparr>"

definition kc_set_max_cqe :: "usize \<Rightarrow> KConfig \<Rightarrow> KConfig" where
  "kc_set_max_cqe new_v c = c \<lparr> kc_max_cqe := max (kc_max_send_wr_sz c) new_v \<rparr>"

definition kc_set_max_recv_cqe :: "usize \<Rightarrow> KConfig \<Rightarrow> KConfig" where
  "kc_set_max_recv_cqe new_v c = c \<lparr> kc_max_recv_cqe := max (kc_max_recv_wr_sz c) new_v \<rparr>"

text \<open>The queue capacities never exceed those of their completion queues.\<close>

definition kc_inv :: "KConfig \<Rightarrow> bool" where
  "kc_inv c \<longleftrightarrow> kc_max_send_wr_sz c \<le> kc_max_cqe c \<and> kc_max_recv_wr_sz c \<le> kc_max_recv_cqe c"

lemmas kc_setter_defs = kc_set_max_rd_atomic_def kc_set_max_send_wr_sz_def kc_set_max_recv_wr_sz_def
  kc_set_max_send_sge_def kc_set_max_recv_sge_def kc_set_max_cqe_def kc_set_max_recv_cqe_def

section \<open>Devices and contexts\<close>

record RNIC =
  rn_hca :: ptr
  rn_default_gid :: ib_gid
  rn_port :: u16
  rn_lid :: u16

text \<open>\<open>query_device\<close> only fills an attribute structure that no caller reads; its error
  code is the parameter \<open>dev_err\<close>.\<close>

definition RNIC_create :: "'d verbs \<Rightarrow> i32 \<Rightarrow> ptr \<Rightarrow> u16 \<Rightarrow> 'd \<Rightarrow> (RNIC, Error) result" where
  "RNIC_create v dev_err hca port d =
     (let (err, pa) = vb_query_port v (ucast port) d in
      if err \<noteq> 0 then Err err
      else if pa_state pa \<noteq> IB_PORT_ACTIVE then Err err
      else if dev_err \<noteq> 0 then Err dev_err
      else
        (let (err, gid) = vb_query_gid v (ucast port) 0 d in
         if err \<noteq> 0 then Err err
         else Ok \<lparr> rn_hca = hca, rn_default_gid = gid, rn_port = port, rn_lid = pa_lid pa \<rparr>))"

record RContext =
  rc_hca :: RNIC
  rc_kmr :: ptr
  rc_pd :: ptr

definition RContext_create :: "'d verbs \<Rightarrow> RNIC \<Rightarrow> 'd \<Rightarrow> RContext option \<times> 'd" where
  "RContext_create v hca d =
     (let (pd, d) = vb_alloc_pd v d in
      if pd = 0 then (None, d)
      else
        (let (kmr, d) = vb_get_dma_mr v pd
               {IB_ACCESS_LOCAL_WRITE, IB_ACCESS_REMOTE_READ, IB_ACCESS_REMOTE_WRITE, IB_ACCESS_REMOTE_ATOMIC} d in
         if kmr = 0 then (None, d) else (Some \<lparr> rc_hca = hca, rc_kmr = kmr, rc_pd = pd \<rparr>, d)))"

definition rc_get_gid :: "RContext \<Rightarrow> ib_gid" where "rc_get_gid c = rn_default_gid (rc_hca c)"
definition rc_get_lid :: "RContext \<Rightarrow> u16" where "rc_get_lid c = rn_lid (rc_hca c)"
definition rc_get_rkey :: "'d verbs \<Rightarrow> RContext \<Rightarrow> 'd \<Rightarrow> u32" where "rc_get_rkey v c d = vb_mr_rkey v (rc_kmr c) d"
definition rc_get_lkey :: "'d verbs \<Rightarrow> RContext \<Rightarrow> 'd \<Rightarrow> u32" where "rc_get_lkey v c d = vb_mr_lkey v (rc_kmr c) d"

definition RContext_reset :: "'d verbs \<Rightarrow> RContext \<Rightarrow> 'd \<Rightarrow> RContext \<times> 'd" where
  "RContext_reset v c d = (c \<lparr> rc_pd := 0 \<rparr>, vb_dealloc_pd v (rc_pd c) (vb_dereg_mr v (rc_kmr c) d))"

section \<open>Endpoints\<close>

definition create_ib_ah :: "'d verbs \<Rightarrow> ptr \<Rightarrow> u16 \<Rightarrow> ib_gid \<Rightarrow> 'd \<Rightarrow> ptr \<times> 'd" where
  "create_ib_ah v pd lid gid d =
     (let (res, d) = vb_create_ah v pd
            (ah_default \<lparr> ah_dlid := ucast lid, ah_sl := 0, ah_port_num := 1,
                          ah_grh := grh_default \<lparr> grh_dgid := gid \<rparr> \<rparr>) d in
      (if ptr_is_err Kernel res then 0 else res, d))"

definition EndPoint_default :: EndPoint where
  "EndPoint_default = \<lparr> en_qpn = 0, en_qkey = 0, en_lid = 0, en_gid = replicate 16 0, en_dct_num = 0,
                        en_mr = TempMR_new 0 0 0, en_ah = 0 \<rparr>"

definition EndPoint_new ::
  "'d verbs \<Rightarrow> ptr \<Rightarrow> u32 \<Rightarrow> u32 \<Rightarrow> u16 \<Rightarrow> ib_gid \<Rightarrow> u32 \<Rightarrow> TempMR \<Rightarrow> 'd \<Rightarrow> EndPoint \<times> 'd"
where
  "EndPoint_new v pd qpn qkey lid gid dct_num mr d =
     (let (ah, d) = create_ib_ah v pd lid gid d in
      (\<lparr> en_qpn = qpn, en_qkey = qkey, en_lid = lid, en_gid = gid, en_dct_num = dct_num, en_mr = mr, en_ah = ah \<rparr>, d))"

definition en_valid :: "EndPoint \<Rightarrow> bool" where "en_valid e \<longleftrightarrow> en_ah e \<noteq> 0"

text \<open>\<open>transfer\<close> moves the address handle out of the endpoint.\<close>

definition en_transfer :: "EndPoint \<Rightarrow> EndPoint \<times> EndPoint" where
  "en_transfer e = (e, e \<lparr> en_ah := 0 \<rparr>)"

definition EndPoint_drop :: "'d verbs \<Rightarrow> EndPoint \<Rightarrow> 'd \<Rightarrow> 'd" where
  "EndPoint_drop v e d = (if en_valid e then vb_destroy_ah v (en_ah e) d else d)"

definition en_bind_pd :: "'d verbs \<Rightarrow> ptr \<Rightarrow> EndPoint \<Rightarrow> 'd \<Rightarrow> EndPoint \<times> 'd" where
  "en_bind_pd v pd e d =
     (let d = (if en_valid e then vb_destroy_ah v (en_ah e) d else d);
          (ah, d) = create_ib_ah v pd (en_lid e) (en_gid e) d in
      (e \<lparr> en_ah := ah \<rparr>, d))"

section \<open>Creating queue pairs\<close>

definition create_ib_cq :: "'d verbs \<Rightarrow> usize \<Rightarrow> 'd \<Rightarrow> ptr \<times> 'd" where
  "create_ib_cq v cqe d = vb_create_cq v (word_of_nat cqe) d"

definition kit_init_attr :: "KConfig \<Rightarrow> ib_qp_type \<Rightarrow> ptr \<Rightarrow> ptr \<Rightarrow> ptr \<Rightarrow> ib_qp_init_attr" where
  "kit_init_attr config ty cq recv_cq srq =
     \<lparr> ia_cap = \<lparr> cap_max_send_wr = word_of_nat (kc_max_send_wr_sz config),
                  cap_max_recv_wr = word_of_nat (kc_max_recv_wr_sz config),
                  cap_max_recv_sge = word_of_nat (kc_max_recv_sge config),
                  cap_max_send_sge = word_of_nat (kc_max_send_sge config),
                  cap_max_inline_data = 64 \<rparr>,
       ia_sig_req_wr = True, ia_qp_type = ty, ia_send_cq = cq, ia_recv_cq = recv_cq,
       ia_srq = (if srq = 0 then None else Some srq) \<rparr>"

definition create_ib_qp ::
  "'d verbs \<Rightarrow> KConfig \<Rightarrow> ib_qp_type \<Rightarrow> ptr \<Rightarrow> ptr \<Rightarrow> ptr \<Rightarrow> 'd \<Rightarrow> ptr \<times> 'd"
where
  "create_ib_qp v config ty cq recv_cq srq d = vb_create_qp v (kit_init_attr config ty cq recv_cq srq) d"

definition get_qp_status :: "'d verbs \<Rightarrow> ptr \<Rightarrow> 'd \<Rightarrow> ib_qp_state option" where
  "get_qp_status v qp d = (let (ret, s) = vb_query_qp v qp d in if ret \<noteq> 0 then None else Some s)"

text \<open>\<open>ib_modify_qp\<close> with its error code as a result.\<close>

definition kit_modify ::
  "'d verbs \<Rightarrow> ptr \<Rightarrow> ib_qp_attr \<Rightarrow> ib_qp_attr_mask set \<Rightarrow> 'd \<Rightarrow> (unit, Error) result \<times> 'd"
where
  "kit_modify v qp attr msk d =
     (let (ret, d) = vb_modify_qp v qp attr msk d in if ret \<noteq> 0 then (Err ret, d) else (Ok (), d))"

subsection \<open>Datagram queue pairs\<close>

definition ud_init_attr :: "u32 \<Rightarrow> ib_qp_attr" where
  "ud_init_attr qkey = qp_attr_default \<lparr> qa_qp_state := IB_QPS_INIT, qa_pkey_index := 0, qa_port_num := 1, qa_qkey := qkey \<rparr>"

definition bring_ud_to_ready :: "'d verbs \<Rightarrow> KUD \<Rightarrow> 'd \<Rightarrow> ((unit, Error) result \<times> 'd) option" where
  "bring_ud_to_ready v ud d =
     (case get_qp_status v (kud_qp ud) d of
        None \<Rightarrow> None
      | Some s \<Rightarrow>
          if s \<noteq> IB_QPS_RESET then Some (Ok (), d)
          else
            (case kit_modify v (kud_qp ud) (ud_init_attr (kud_qkey ud))
                    {IB_QP_STATE, IB_QP_PKEY_INDEX, IB_QP_PORT, IB_QP_QKEY} d of
               (Err e, d) \<Rightarrow> Some (Err e, d)
             | (Ok _, d) \<Rightarrow>
                 (case kit_modify v (kud_qp ud) (qp_attr_default \<lparr> qa_qp_state := IB_QPS_RTR \<rparr>) {IB_QP_STATE} d of
                    (Err e, d) \<Rightarrow> Some (Err e, d)
                  | (Ok _, d) \<Rightarrow>
                      Some (kit_modify v (kud_qp ud)
                        (qp_attr_default \<lparr> qa_qp_state := IB_QPS_RTS, qa_sq_psn := vb_qp_num v (kud_qp ud) d \<rparr>)
                        {IB_QP_STATE, IB_QP_SQ_PSN} d))))"

text \<open>The drop reads the queue pair number first, through the pointer to the queue
  pair.\<close>

definition KUD_drop :: "'d verbs \<Rightarrow> KUD \<Rightarrow> 'd \<Rightarrow> 'd option" where
  "KUD_drop v ud d =
     (if kud_qp ud = 0 then None
      else Some
        (let d = vb_destroy_qp v (kud_qp ud) d;
             d = (if kud_cq ud \<noteq> 0 then vb_free_cq v (kud_cq ud) d else d) in
         if \<not> kud_shared_recv_cq ud \<and> kud_recv_cq ud \<noteq> 0 then vb_free_cq v (kud_recv_cq ud) d else d))"

text \<open>An early return drops the structure, whose pointers are still null.\<close>

definition KUD_new_from_config ::
  "'d verbs \<Rightarrow> KConfig \<Rightarrow> ptr \<Rightarrow> ptr \<Rightarrow> 'd \<Rightarrow> (KUD option \<times> 'd) option"
where
  "KUD_new_from_config v config recv_cq srq d =
     (let ud0 = \<lparr> kud_qp = 0, kud_cq = 0, kud_recv_cq = 0, kud_qkey = kc_qkey config,
                  kud_shared_recv_cq = (recv_cq \<noteq> 0) \<rparr>;
          early = (\<lambda>d. map_option (Pair None) (KUD_drop v ud0 d));
          (cq, d) = create_ib_cq v (kc_max_cqe config) d in
      if cq = 0 then early d
      else
        (let (rcq, d) = (if recv_cq = 0 then create_ib_cq v (kc_max_recv_cqe config) d else (recv_cq, d)) in
         if rcq = 0 then early d
         else
           (let (qp, d) = create_ib_qp v config IB_QPT_UD cq rcq srq d in
            if qp = 0 then early d
            else
              (let ud = ud0 \<lparr> kud_cq := cq, kud_recv_cq := rcq, kud_qp := qp \<rparr> in
               case bring_ud_to_ready v ud d of
                 None \<Rightarrow> None
               | Some (_, d) \<Rightarrow> Some (Some ud, d)))))"

definition KUD_new_with_srq :: "'d verbs \<Rightarrow> u8 \<Rightarrow> ptr \<Rightarrow> ptr \<Rightarrow> 'd \<Rightarrow> (KUD option \<times> 'd) option" where
  "KUD_new_with_srq v random_byte recv_cq srq d =
     KUD_new_from_config v
       (kc_set_max_recv_cqe 2048 (kc_set_max_recv_wr_sz 2048 (KConfig_default random_byte))) recv_cq srq d"

subsection \<open>DC queue pairs and targets\<close>

text \<open>\<open>create_dc_qp\<close> returns the queue pair, its completion queue and the receive
  completion queue.\<close>

definition dc_qp_attr :: "ptr \<Rightarrow> ptr \<Rightarrow> ptr \<Rightarrow> ib_qp_init_attr" where
  "dc_qp_attr cq recv_cq srq =
     \<lparr> ia_cap = \<lparr> cap_max_send_wr = 128, cap_max_recv_wr = 0, cap_max_recv_sge = 1, cap_max_send_sge = 1,
                  cap_max_inline_data = 64 \<rparr>,
       ia_sig_req_wr = True, ia_qp_type = IB_EXP_QPT_DC_INI, ia_send_cq = cq, ia_recv_cq = recv_cq,
       ia_srq = (if srq = 0 then None else Some srq) \<rparr>"

definition create_dc_qp :: "'d verbs \<Rightarrow> ptr \<Rightarrow> ptr \<Rightarrow> ptr \<Rightarrow> 'd \<Rightarrow> (ptr \<times> ptr \<times> ptr) \<times> 'd" where
  "create_dc_qp v pd srq recv_cq d =
     (if pd = 0 then ((0, 0, 0), d)
      else
        (let (cq, d) = create_ib_cq v 128 d in
         if cq = 0 then ((0, 0, 0), d)
         else
           (let rcq = (if recv_cq = 0 then cq else recv_cq);
                (qp, d) = vb_create_qp v (dc_qp_attr cq rcq srq) d in
            ((qp, cq, rcq), d))))"

definition bring_dc_to_init :: "'d verbs \<Rightarrow> ptr \<Rightarrow> 'd \<Rightarrow> bool \<times> 'd" where
  "bring_dc_to_init v qp d =
     (let (ret, d) = vb_modify_qp v qp
            (qp_attr_default \<lparr> qa_qp_state := IB_QPS_INIT, qa_pkey_index := 0, qa_port_num := 1 \<rparr>)
            {IB_QP_STATE, IB_QP_PKEY_INDEX, IB_QP_PORT, IB_QP_DC_KEY} d in (ret = 0, d))"

definition bring_dc_to_rtr :: "'d verbs \<Rightarrow> ptr \<Rightarrow> 'd \<Rightarrow> bool \<times> 'd" where
  "bring_dc_to_rtr v qp d =
     (let (ret, d) = vb_modify_qp v qp
            (qp_attr_default \<lparr> qa_qp_state := IB_QPS_RTR, qa_path_mtu := Some IB_MTU_4096,
               qa_ah_attr := ah_default \<lparr> ah_port_num := 1, ah_sl := 0, ah_flags := 0 \<rparr> \<rparr>)
            {IB_QP_STATE, IB_QP_PATH_MTU, IB_QP_AV} d in (ret = 0, d))"

definition bring_dc_to_rts :: "'d verbs \<Rightarrow> ptr \<Rightarrow> 'd \<Rightarrow> bool \<times> 'd" where
  "bring_dc_to_rts v qp d =
     (let (ret, d) = vb_modify_qp v qp
            (qp_attr_default \<lparr> qa_qp_state := IB_QPS_RTS, qa_timeout := 50, qa_retry_cnt := 5,
               qa_rnr_retry := 5, qa_max_rd_atomic := 16 \<rparr>)
            {IB_QP_STATE, IB_QP_TIMEOUT, IB_QP_RETRY_CNT, IB_QP_RNR_RETRY, IB_QP_MAX_QP_RD_ATOMIC} d in (ret = 0, d))"

definition bring_dc_to_reset :: "'d verbs \<Rightarrow> ptr \<Rightarrow> 'd \<Rightarrow> bool \<times> 'd" where
  "bring_dc_to_reset v qp d =
     (let (ret, d) = vb_modify_qp v qp (qp_attr_default \<lparr> qa_qp_state := IB_QPS_RESET \<rparr>) {IB_QP_STATE} d in (ret = 0, d))"

definition bring_dc_to_ready :: "'d verbs \<Rightarrow> ptr \<Rightarrow> 'd \<Rightarrow> bool \<times> 'd" where
  "bring_dc_to_ready v qp d =
     (let (ok, d) = bring_dc_to_init v qp d in
      if \<not> ok then (False, d)
      else
        (let (ok, d) = bring_dc_to_rtr v qp d in
         if \<not> ok then (False, d) else bring_dc_to_rts v qp d))"

text \<open>An early return drops a \<open>DC\<close> whose pointers are still null, which frees nothing.\<close>

definition KDC_new_with_srq :: "'d verbs \<Rightarrow> ptr \<Rightarrow> ptr \<Rightarrow> ptr \<Rightarrow> 'd \<Rightarrow> KDC option \<times> 'd" where
  "KDC_new_with_srq v pd srq recv_cq d =
     (let ((qp, cq, rcq), d) = create_dc_qp v pd srq recv_cq d in
      if qp = 0 \<or> cq = 0 \<or> rcq = 0 then (None, d)
      else
        (let (ok, d) = bring_dc_to_ready v qp d in
         if \<not> ok then (None, d) else (Some \<lparr> kdc_qp = qp, kdc_cq = cq, kdc_recv_cq = rcq \<rparr>, d)))"

definition KDC_drop :: "'d verbs \<Rightarrow> KDC \<Rightarrow> 'd \<Rightarrow> 'd" where
  "KDC_drop v dc d =
     (let d = (if kdc_qp dc \<noteq> 0 then vb_destroy_qp v (kdc_qp dc) d else d) in
      if kdc_cq dc \<noteq> 0 then vb_free_cq v (kdc_cq dc) d else d)"

record DCTServer =
  ds_dct :: ptr
  ds_cq :: ptr
  ds_srq :: ptr
  ds_recv_cq :: ptr

text \<open>The results of the four calls are printed when null and stored all the same.\<close>

definition DCTServer_new_from_config :: "'d verbs \<Rightarrow> KConfig \<Rightarrow> 'd \<Rightarrow> DCTServer option \<times> 'd" where
  "DCTServer_new_from_config v config d =
     (let (cq, d) = create_ib_cq v (kc_max_cqe config) d;
          (recv_cq, d) = create_ib_cq v (kc_max_cqe config) d;
          (srq, d) = vb_create_srq v (word_of_nat (kc_max_send_wr_sz config)) (word_of_nat (kc_max_send_sge config)) d;
          (dct, d) = vb_create_dct v
            \<lparr> dct_cq = cq, dct_srq = srq, dct_dc_key = 73, dct_port = 1,
              dct_access = {IB_ACCESS_LOCAL_WRITE, IB_ACCESS_REMOTE_READ, IB_ACCESS_REMOTE_WRITE, IB_ACCESS_REMOTE_ATOMIC},
              dct_min_rnr_timer = 2, dct_inline_size = 60, dct_hop_limit = 1, dct_mtu = IB_MTU_4096 \<rparr> d in
      (Some \<lparr> ds_dct = dct, ds_cq = cq, ds_srq = srq, ds_recv_cq = recv_cq \<rparr>, d))"

definition DCTServer_new :: "'d verbs \<Rightarrow> u8 \<Rightarrow> 'd \<Rightarrow> DCTServer option \<times> 'd" where
  "DCTServer_new v random_byte d =
     DCTServer_new_from_config v (kc_set_max_recv_wr_sz 4096 (KConfig_default random_byte)) d"

definition DCTServer_drop :: "'d verbs \<Rightarrow> DCTServer \<Rightarrow> 'd \<Rightarrow> 'd" where
  "DCTServer_drop v s d =
     (let d = (if ds_dct s \<noteq> 0 then vb_destroy_dct v (ds_dct s) d else d);
          d = (if ds_srq s \<noteq> 0 then vb_destroy_srq v (ds_srq s) d else d);
          d = (if ds_cq s \<noteq> 0 then vb_free_cq v (ds_cq s) d else d) in
      if ds_recv_cq s \<noteq> 0 then vb_free_cq v (ds_recv_cq s) d else d)"

end
