(* ===== verification/Kit_Props.thy ===== *)
theory Kit_Props
  imports Kit_Qp Ref_Driver Recv_Props
begin

text \<open>
  Properties of the kernel library behind the system call layer: the waits for
  completions, the configuration, and the lifetimes and states of its queue pairs.
\<close>

section \<open>Waiting\<close>



section \<open>Configuration\<close>

text \<open>The configurations the setters can build.\<close>

inductive kc_built :: "KConfig \<Rightarrow> bool" where
  "kc_built (KConfig_default r)"
| "kc_built c \<Longrightarrow> kc_built (kc_set_max_rd_atomic n c)"
| "kc_built c \<Longrightarrow> kc_built (kc_set_max_send_wr_sz n c)"
| "kc_built c \<Longrightarrow> kc_built (kc_set_max_recv_wr_sz n c)"
| "kc_built c \<Longrightarrow> kc_built (kc_set_max_send_sge n c)"
| "kc_built c \<Longrightarrow> kc_built (kc_set_max_recv_sge n c)"
| "kc_built c \<Longrightarrow> kc_built (kc_set_max_cqe n c)"
| "kc_built c \<Longrightarrow> kc_built (kc_set_max_recv_cqe n c)"

text \<open>C35. Every configuration that the setters build, in any order, keeps the queues
  within their completion queues, so that a queue pair created from it with
  capacities below \<open>2^32\<close> never asks for more outstanding requests than its
  completion queues hold.\<close>

theorem kconfig_invariant:
  assumes "kc_built c"
  shows "kc_inv c \<and> (kc_max_cqe c < 2 ^ 32 \<and> kc_max_recv_cqe c < 2 ^ 32 \<longrightarrow>
     cap_max_send_wr (ia_cap (kit_init_attr c ty cq recv_cq srq)) \<le> word_of_nat (kc_max_cqe c)
   \<and> cap_max_recv_wr (ia_cap (kit_init_attr c ty cq recv_cq srq)) \<le> word_of_nat (kc_max_recv_cqe c))"
proof -
  have inv: "kc_inv c"
    using assms by induction (simp_all add: kc_inv_def kc_setter_defs KConfig_default_def)
  have le: "(word_of_nat m :: u32) \<le> word_of_nat n" if "m \<le> n" "n < 2 ^ 32" for m n
    using that by (simp add: word_le_nat_alt unat_word_of_nat)
  from inv show ?thesis by (simp add: kc_inv_def kit_init_attr_def le)
qed

theorem kconfig_invariant_witness:
  "kc_inv (kc_set_max_cqe 16 (kc_set_max_send_wr_sz 256 (KConfig_default 7)))"
proof -
  have "kc_built (kc_set_max_cqe 16 (kc_set_max_send_wr_sz 256 (KConfig_default 7)))"
    by (intro kc_built.intros)
  from kconfig_invariant [OF this] show ?thesis by blast
qed

section \<open>Lifetimes and states\<close>

lemma alloc_live:
  assumes "allocates live is_null mk f"
  shows "live (snd (f d)) = (if fst (f d) = 0 then live d else insert (mk (fst (f d))) (live d))"
    and "fst (f d) \<noteq> 0 \<Longrightarrow> mk (fst (f d)) \<notin> live d"
  using assms by (auto simp: allocates_def case_prod_beta dest: spec [of _ d])

lemma create_ib_cq_alloc: "verbs_lifetimes v live \<Longrightarrow> allocates live is_null RCq (create_ib_cq v n)"
  by (simp add: allocates_def create_ib_cq_def verbs_lifetimes_def)

lemma create_ib_qp_alloc:
  "verbs_lifetimes v live \<Longrightarrow> allocates live is_null RQp (create_ib_qp v c ty cq rcq srq)"
  by (simp add: allocates_def create_ib_qp_def verbs_lifetimes_def)

lemma kit_modify_live: "verbs_lifetimes v live \<Longrightarrow> live (snd (kit_modify v qp a m d)) = live d"
  by (simp add: kit_modify_def case_prod_beta verbs_lifetimesD(21))

lemma bring_ud_to_ready_live:
  assumes "verbs_lifetimes v live" and "bring_ud_to_ready v ud d = Some p"
  shows "live (snd p) = live d"
  using assms(2) unfolding bring_ud_to_ready_def case_prod_beta
  by (auto simp: kit_modify_live [OF assms(1)] split: option.splits if_splits result.splits)

lemma bring_dc_to_ready_live:
  assumes "verbs_lifetimes v live"
  shows "live (snd (bring_dc_to_ready v qp d)) = live d"
  by (simp add: bring_dc_to_ready_def bring_dc_to_init_def bring_dc_to_rtr_def bring_dc_to_rts_def case_prod_beta
      verbs_lifetimesD(21) [OF assms])

lemma KUD_new_lifetimes:
  assumes v: "verbs_lifetimes v live" and n: "KUD_new_from_config v c rcq srq d = Some (r, d')"
  obtains ud d'' where "r = Some ud" "KUD_drop v ud d' = Some d''" "live d'' = live d"
proof -
  define p1 where "p1 = create_ib_cq v (kc_max_cqe c) d"
  define p2 where "p2 = (if rcq = 0 then create_ib_cq v (kc_max_recv_cqe c) (snd p1) else (rcq, snd p1))"
  define p3 where "p3 = create_ib_qp v c IB_QPT_UD (fst p1) (fst p2) srq (snd p2)"
  let ?ud = "\<lparr> kud_qp = fst p3, kud_cq = fst p1, kud_recv_cq = fst p2, kud_qkey = kc_qkey c, kud_shared_recv_cq = (rcq \<noteq> 0) \<rparr>"
  have nz: "fst p1 \<noteq> 0" "fst p2 \<noteq> 0" "fst p3 \<noteq> 0"
    using n by (auto simp: KUD_new_from_config_def Let_def case_prod_beta p1_def p2_def p3_def KUD_drop_def split: if_splits)
  obtain e where b: "bring_ud_to_ready v ?ud (snd p3) = Some (e, d')" and r: "r = Some ?ud"
    using n nz unfolding KUD_new_from_config_def Let_def case_prod_beta p1_def [symmetric] p2_def [symmetric] p3_def [symmetric]
    by (auto split: if_splits option.splits)
  have l1: "RCq (fst p1) \<notin> live d" "live (snd p1) = insert (RCq (fst p1)) (live d)"
    using alloc_live [OF create_ib_cq_alloc [OF v], of "kc_max_cqe c" d] nz by (simp_all add: p1_def)
  have l2: "live (snd p2) = (if rcq = 0 then insert (RCq (fst p2)) (live (snd p1)) else live (snd p1))"
    "rcq = 0 \<Longrightarrow> RCq (fst p2) \<notin> live (snd p1)"
    using alloc_live [OF create_ib_cq_alloc [OF v], of "kc_max_recv_cqe c" "snd p1"] nz by (auto simp: p2_def split: if_splits)
  have l3: "RQp (fst p3) \<notin> live (snd p2)" "live (snd p3) = insert (RQp (fst p3)) (live (snd p2))"
    using alloc_live [OF create_ib_qp_alloc [OF v], of c IB_QPT_UD "fst p1" "fst p2" srq "snd p2"] nz by (simp_all add: p3_def)
  have l4: "live d' = live (snd p3)" using bring_ud_to_ready_live [OF v b] by simp
  show thesis
    by (rule that [OF r], simp add: KUD_drop_def nz)
      (use l1 l2 l3 l4 nz in \<open>auto simp: Let_def freesD [OF verbs_lifetimesD(14) [OF v]] freesD [OF verbs_lifetimesD(10) [OF v]]\<close>)
qed



end
