(* ===== verification/Kit_Conn.thy ===== *)
theory Kit_Conn
  imports Kit_Qp
begin

text \<open>
  Connection management of the kernel library behind the system call layer:
  \<open>two-sided-dc/KRdmaKit/src/qp/{rc,conn}.rs\<close> and \<open>cm/{client,sidr}.rs\<close>.  The kernel's
  communication manager is the parameter \<open>'d kcm\<close>.  A blocking wait is a sequence of
  events: \<open>cm_events\<close> yields the events that the manager delivers to the callback
  before the wait times out, and the wait ends with the first one that signals the
  completion.
\<close>

section \<open>Messages\<close>

datatype reply_st = StOk | StErr | StNil | StExist | StNotExist

record Payload =
  py_qd :: u64
  py_mr :: TempMR
  py_status :: reply_st

definition Payload_new_from_null :: "u64 \<Rightarrow> Payload" where
  "Payload_new_from_null qd = \<lparr> py_qd = qd, py_mr = TempMR_new 0 0 0, py_status = StNil \<rparr>"

record SidrPayload =
  sp_qd :: u64
  sp_lid :: u16
  sp_gid :: ib_gid
  sp_dct_num :: u32
  sp_mr :: TempMR
  sp_status :: reply_st

record DCTargetMeta =
  dm_dct_num :: u32
  dm_lid :: u16
  dm_gid :: ib_gid
  dm_mr :: TempMR

definition SidrPayload_new :: "u64 \<Rightarrow> RContext \<Rightarrow> DCTargetMeta \<Rightarrow> reply_st \<Rightarrow> SidrPayload option" where
  "SidrPayload_new qd ctx dct status =
     Some \<lparr> sp_qd = qd, sp_lid = rc_get_lid ctx, sp_gid = rc_get_gid ctx, sp_dct_num = dm_dct_num dct,
            sp_mr = dm_mr dct, sp_status = status \<rparr>"

definition SidrPayload_new_from_null :: "u64 \<Rightarrow> SidrPayload" where
  "SidrPayload_new_from_null qd =
     \<lparr> sp_qd = qd, sp_lid = 0, sp_gid = replicate 16 0, sp_dct_num = 0, sp_mr = TempMR_new 0 0 0, sp_status = StNil \<rparr>"

text \<open>The parameters of the messages that the library fills, and the events of the
  manager with the data the callbacks read.  A path record is its bytes.\<close>

type_synonym sa_path_rec = "u8 list"

record cm_req_param =
  rq_primary_path :: sa_path_rec
  rq_service_id :: u64
  rq_responder_resources :: u8
  rq_initiator_depth :: u8
  rq_remote_cm_response_timeout :: u8
  rq_local_cm_response_timeout :: u8
  rq_max_cm_retries :: u8
  rq_rnr_retry_count :: u8
  rq_flow_control :: u8
  rq_qp_num :: u32
  rq_starting_psn :: u32

record cm_rep_param =
  rp_qp_num :: u32
  rp_starting_psn :: u32
  rp_initiator_depth :: u8
  rp_flow_control :: u8
  rp_responder_resources :: u8
  rp_rnr_retry_count :: u8

datatype cm_event =
    RepReceived Payload
  | RejReceived
  | TimewaitExit
  | DrepReceived
  | SidrRepReceived u32 u32 SidrPayload
  | SidrReqError
  | OtherEvent

record 'd kcm =
  cm_create_id :: "'d \<Rightarrow> ptr \<times> 'd"
  cm_destroy_id :: "ptr \<Rightarrow> 'd \<Rightarrow> 'd"
  cm_listen :: "ptr \<Rightarrow> u64 \<Rightarrow> 'd \<Rightarrow> i32 \<times> 'd"
  cm_init_qp_attr :: "ptr \<Rightarrow> ib_qp_attr \<Rightarrow> ib_qp_attr_mask set \<Rightarrow> 'd
     \<Rightarrow> i32 \<times> ib_qp_attr \<times> ib_qp_attr_mask set \<times> 'd"
  cm_send_req :: "ptr \<Rightarrow> cm_req_param \<Rightarrow> u64 \<Rightarrow> 'd \<Rightarrow> i32 \<times> 'd"
  cm_send_rep :: "ptr \<Rightarrow> cm_rep_param \<Rightarrow> Payload \<Rightarrow> 'd \<Rightarrow> i32 \<times> 'd"
  cm_send_rtu :: "ptr \<Rightarrow> 'd \<Rightarrow> i32 \<times> 'd"
  cm_send_sidr_req :: "ptr \<Rightarrow> sa_path_rec \<Rightarrow> u64 \<Rightarrow> u64 \<Rightarrow> 'd \<Rightarrow> i32 \<times> 'd"
  cm_send_sidr_rep :: "ptr \<Rightarrow> u32 \<Rightarrow> u32 \<Rightarrow> SidrPayload \<Rightarrow> 'd \<Rightarrow> i32 \<times> 'd"
  cm_events :: "ptr \<Rightarrow> 'd \<Rightarrow> cm_event list \<times> 'd"

definition code_result :: "i32 \<Rightarrow> (unit, Error) result" where
  "code_result err = (if err \<noteq> 0 then Err err else Ok ())"

section \<open>The manager's handle\<close>

text \<open>\<open>bd__builtin_bswap64\<close> and, on a little-endian machine, \<open>bd_cpu_to_be64\<close> reverse the bytes of
  the service number.\<close>

definition bswap64 :: "u64 \<Rightarrow> u64" where
  "bswap64 x = foldl (\<lambda>acc i. or (push_bit 8 acc) (and (drop_bit (8 * i) x) 255)) 0 [0..<8]"

definition ClientCM_new :: "'d kcm \<Rightarrow> 'd \<Rightarrow> ptr option \<times> 'd" where
  "ClientCM_new c d = (let (cm, d) = cm_create_id c d in (if cm = 0 then None else Some cm, d))"

definition ClientCM_listen :: "'d kcm \<Rightarrow> ptr \<Rightarrow> u64 \<Rightarrow> 'd \<Rightarrow> (unit, Error) result \<times> 'd" where
  "ClientCM_listen c cm sid d = (let (err, d) = cm_listen c cm (bswap64 sid) d in (code_result err, d))"

definition ClientCM_reset :: "'d kcm \<Rightarrow> ptr \<Rightarrow> 'd \<Rightarrow> ptr \<times> 'd" where
  "ClientCM_reset c cm d = (0, if cm \<noteq> 0 then cm_destroy_id c cm d else d)"

definition handoff_raw_cm :: "KRC \<Rightarrow> ptr \<times> KRC" where
  "handoff_raw_cm rc = (krc_cm rc, rc \<lparr> krc_cm := 0 \<rparr>)"

definition send_reply :: "'d kcm \<Rightarrow> ptr \<Rightarrow> cm_rep_param \<Rightarrow> Payload \<Rightarrow> 'd \<Rightarrow> (unit, Error) result \<times> 'd" where
  "send_reply c cm rep pri d = (let (err, d) = cm_send_rep c cm rep pri d in (code_result err, d))"

definition send_req :: "'d kcm \<Rightarrow> ptr \<Rightarrow> cm_req_param \<Rightarrow> u64 \<Rightarrow> 'd \<Rightarrow> (unit, Error) result \<times> 'd" where
  "send_req c cm req pri d = (let (err, d) = cm_send_req c cm req pri d in (code_result err, d))"

definition send_rtu :: "'d kcm \<Rightarrow> ptr \<Rightarrow> 'd \<Rightarrow> (unit, Error) result \<times> 'd" where
  "send_rtu c cm d = (let (err, d) = cm_send_rtu c cm d in (code_result err, d))"

definition send_sidr :: "'d kcm \<Rightarrow> ptr \<Rightarrow> sa_path_rec \<Rightarrow> u64 \<Rightarrow> u64 \<Rightarrow> 'd \<Rightarrow> (unit, Error) result \<times> 'd" where
  "send_sidr c cm path service_id pri d =
     (let (err, d) = cm_send_sidr_req c cm path service_id pri d in (code_result err, d))"

definition ud_conn_reply :: "'d kcm \<Rightarrow> ptr \<Rightarrow> u32 \<Rightarrow> u32 \<Rightarrow> SidrPayload \<Rightarrow> 'd \<Rightarrow> (unit, Error) result \<times> 'd" where
  "ud_conn_reply c cm qpn qkey reply d = (let (err, d) = cm_send_sidr_rep c cm qpn qkey reply d in (code_result err, d))"

section \<open>Reliable connections\<close>

text \<open>The drop reads the queue pair number first.\<close>

definition KRC_drop :: "'d verbs \<Rightarrow> 'd kcm \<Rightarrow> KRC \<Rightarrow> 'd \<Rightarrow> 'd option" where
  "KRC_drop v c rc d =
     (if krc_qp rc = 0 then None
      else Some
        (let d = vb_destroy_qp v (krc_qp rc) d;
             d = (if krc_cq rc \<noteq> 0 then vb_free_cq v (krc_cq rc) d else d) in
         snd (ClientCM_reset c (krc_cm rc) d)))"

definition KRC_default :: KRC where
  "KRC_default = \<lparr> krc_qp = 0, krc_cq = 0, krc_recv_cq = 0, krc_srq = 0, krc_remote_mr = None, krc_cm = 0 \<rparr>"

definition KRC_new_with_srq ::
  "'d verbs \<Rightarrow> 'd kcm \<Rightarrow> KConfig \<Rightarrow> ptr \<Rightarrow> ptr \<Rightarrow> ptr \<Rightarrow> 'd \<Rightarrow> (KRC option \<times> 'd) option"
where
  "KRC_new_with_srq v c config cm srq recv_cq d =
     (let early = (\<lambda>d. map_option (Pair None) (KRC_drop v c KRC_default d));
          (cq, d) = create_ib_cq v (kc_max_cqe config) d in
      if cq = 0 then early d
      else
        (let rcq = (if recv_cq = 0 then cq else recv_cq);
             (qp, d) = create_ib_qp v config IB_QPT_RC cq rcq srq d in
         if qp = 0 then early d
         else
           (let (own, d) = (if cm = 0 then ClientCM_new c d else (Some cm, d)) in
            case own of
              None \<Rightarrow> early d
            | Some own \<Rightarrow>
                Some (Some \<lparr> krc_qp = qp, krc_cq = cq, krc_recv_cq = rcq, krc_srq = srq,
                             krc_remote_mr = None, krc_cm = own \<rparr>, d))))"

text \<open>The transitions: attributes and mask come from the manager and are completed
  here.  An \<open>unwrap\<close> of the status of a failed query panics.\<close>

definition rc_bring ::
  "'d verbs \<Rightarrow> 'd kcm \<Rightarrow> KRC \<Rightarrow> ptr \<Rightarrow> ib_qp_state \<Rightarrow> (ib_qp_attr \<Rightarrow> ib_qp_attr) \<Rightarrow> ib_qp_attr_mask set
     \<Rightarrow> 'd \<Rightarrow> (unit, Error) result \<times> 'd"
where
  "rc_bring v c rc cm s complete extra d =
     (let (ret, attr, msk, d) = cm_init_qp_attr c cm (qp_attr_default \<lparr> qa_qp_state := s \<rparr>) {IB_QP_STATE} d in
      if ret \<noteq> 0 then (Err ret, d)
      else kit_modify v (krc_qp rc) (complete attr) (msk \<union> extra) d)"

definition bring_to_init :: "'d verbs \<Rightarrow> 'd kcm \<Rightarrow> KRC \<Rightarrow> ptr \<Rightarrow> 'd \<Rightarrow> ((unit, Error) result \<times> 'd) option" where
  "bring_to_init v c rc cm d =
     (case get_qp_status v (krc_qp rc) d of
        None \<Rightarrow> None
      | Some s \<Rightarrow>
          Some (if s = IB_QPS_RESET \<or> s = IB_QPS_ERR then
                  rc_bring v c rc cm IB_QPS_INIT
                    (\<lambda>a. a \<lparr> qa_access_flags := qa_access_flags a \<union>
                       {IB_ACCESS_LOCAL_WRITE, IB_ACCESS_REMOTE_ATOMIC, IB_ACCESS_REMOTE_READ, IB_ACCESS_REMOTE_WRITE} \<rparr>)
                    {IB_QP_ACCESS_FLAGS} d
                else (Ok (), d)))"

definition bring_to_rtr :: "'d verbs \<Rightarrow> 'd kcm \<Rightarrow> KRC \<Rightarrow> ptr \<Rightarrow> 'd \<Rightarrow> ((unit, Error) result \<times> 'd) option" where
  "bring_to_rtr v c rc cm d =
     (case bring_to_init v c rc cm d of
        None \<Rightarrow> None
      | Some (Err e, d) \<Rightarrow> Some (Err e, d)
      | Some (Ok _, d) \<Rightarrow>
          (case get_qp_status v (krc_qp rc) d of
             None \<Rightarrow> None
           | Some s \<Rightarrow>
               Some (if s = IB_QPS_INIT then
                       rc_bring v c rc cm IB_QPS_RTR
                         (\<lambda>a. a \<lparr> qa_rq_psn := vb_qp_num v (krc_qp rc) d, qa_max_dest_rd_atomic := 16 \<rparr>)
                         {IB_QP_RQ_PSN, IB_QP_MAX_DEST_RD_ATOMIC} d
                     else (Ok (), d))))"

definition bring_to_rts :: "'d verbs \<Rightarrow> 'd kcm \<Rightarrow> KRC \<Rightarrow> ptr \<Rightarrow> 'd \<Rightarrow> ((unit, Error) result \<times> 'd) option" where
  "bring_to_rts v c rc cm d =
     (case get_qp_status v (krc_qp rc) d of
        None \<Rightarrow> None
      | Some s \<Rightarrow>
          Some (if s = IB_QPS_RTR then rc_bring v c rc cm IB_QPS_RTS (\<lambda>a. a) {} d else (Ok (), d)))"

definition krc_bring_to_err :: "'d verbs \<Rightarrow> KRC \<Rightarrow> 'd \<Rightarrow> (unit, Error) result \<times> 'd" where
  "krc_bring_to_err v rc d = kit_modify v (krc_qp rc) (qp_attr_default \<lparr> qa_qp_state := IB_QPS_ERR \<rparr>) {IB_QP_STATE} d"

definition krc_bring_to_reset :: "'d verbs \<Rightarrow> KRC \<Rightarrow> 'd \<Rightarrow> (unit, Error) result \<times> 'd" where
  "krc_bring_to_reset v rc d = kit_modify v (krc_qp rc) (qp_attr_default \<lparr> qa_qp_state := IB_QPS_RESET \<rparr>) {IB_QP_STATE} d"

text \<open>What the server answers to a request with the given depths.\<close>

record cm_req_rcvd =
  rr_initiator_depth :: u8
  rr_flow_control :: u8
  rr_responder_resources :: u8
  rr_rnr_retry_count :: u8

definition connect_reply ::
  "'d verbs \<Rightarrow> 'd kcm \<Rightarrow> KRC \<Rightarrow> cm_req_rcvd \<Rightarrow> ptr \<Rightarrow> Payload \<Rightarrow> 'd \<Rightarrow> (unit, Error) result \<times> 'd"
where
  "connect_reply v c rc req cm reply d =
     send_reply c cm
       \<lparr> rp_qp_num = vb_qp_num v (krc_qp rc) d, rp_starting_psn = vb_qp_num v (krc_qp rc) d,
         rp_initiator_depth = rr_initiator_depth req, rp_flow_control = rr_flow_control req,
         rp_responder_resources = rr_responder_resources req, rp_rnr_retry_count = rr_rnr_retry_count req \<rparr> reply d"

text \<open>The client's callback.  Its result says whether the completion was signalled.  The
  outcome of the transitions is only printed, and the status of the reply is not
  read.\<close>

definition handle_reply :: "'d verbs \<Rightarrow> 'd kcm \<Rightarrow> KRC \<Rightarrow> Payload \<Rightarrow> 'd \<Rightarrow> (bool \<times> KRC \<times> 'd) option" where
  "handle_reply v c rc reply d =
     (case bring_to_rtr v c rc (krc_cm rc) d of
        None \<Rightarrow> None
      | Some (Err _, d) \<Rightarrow> Some (True, rc \<lparr> krc_remote_mr := Some (py_mr reply) \<rparr>, d)
      | Some (Ok _, d) \<Rightarrow>
          (case bring_to_rts v c rc (krc_cm rc) d of
             None \<Rightarrow> None
           | Some (_, d) \<Rightarrow> Some (True, rc \<lparr> krc_remote_mr := Some (py_mr reply) \<rparr>, d)))"

fun rc_cm_handler :: "'d verbs \<Rightarrow> 'd kcm \<Rightarrow> KRC \<Rightarrow> cm_event \<Rightarrow> 'd \<Rightarrow> (bool \<times> KRC \<times> 'd) option" where
  "rc_cm_handler v c rc (RepReceived reply) d = handle_reply v c rc reply d"
| "rc_cm_handler v c rc DrepReceived d = Some (True, rc, d)"
| "rc_cm_handler v c rc _ d = Some (False, rc, d)"

text \<open>\<open>wait\<close>: the events in order until the completion is signalled; without a signal it
  times out.\<close>

definition ETIMEDOUT :: Error where "ETIMEDOUT = - 110"

fun rc_wait_done :: "'d verbs \<Rightarrow> 'd kcm \<Rightarrow> cm_event list \<Rightarrow> KRC \<Rightarrow> 'd \<Rightarrow> ((unit, Error) result \<times> KRC \<times> 'd) option" where
  "rc_wait_done v c [] rc d = Some (Err ETIMEDOUT, rc, d)"
| "rc_wait_done v c (e # es) rc d =
     (case rc_cm_handler v c rc e d of
        None \<Rightarrow> None
      | Some (done, rc, d) \<Rightarrow> if done then Some (Ok (), rc, d) else rc_wait_done v c es rc d)"

definition connect_req :: "u32 \<Rightarrow> sa_path_rec \<Rightarrow> u64 \<Rightarrow> cm_req_param" where
  "connect_req qpn path service_id =
     \<lparr> rq_primary_path = path, rq_service_id = bswap64 service_id, rq_responder_resources = 16, rq_initiator_depth = 16,
       rq_remote_cm_response_timeout = 20, rq_local_cm_response_timeout = 20, rq_max_cm_retries = 15,
       rq_rnr_retry_count = 7, rq_flow_control = 1, rq_qp_num = qpn, rq_starting_psn = qpn \<rparr>"

definition rc_connect ::
  "'d verbs \<Rightarrow> 'd kcm \<Rightarrow> KRC \<Rightarrow> u64 \<Rightarrow> sa_path_rec \<Rightarrow> u64 \<Rightarrow> 'd \<Rightarrow> ((unit, Error) result \<times> KRC \<times> 'd) option"
where
  "rc_connect v c rc qd path service_id d =
     (case send_req c (krc_cm rc) (connect_req (vb_qp_num v (krc_qp rc) d) path service_id) qd d of
        (Err e, d) \<Rightarrow> Some (Err e, rc, d)
      | (Ok _, d) \<Rightarrow>
          (let (es, d) = cm_events c (krc_cm rc) d in
           case rc_wait_done v c es rc d of
             None \<Rightarrow> None
           | Some (Err e, rc, d) \<Rightarrow> Some (Err e, rc, d)
           | Some (Ok _, rc, d) \<Rightarrow> (let (r, d) = send_rtu c (krc_cm rc) d in Some (r, rc, d))))"

section \<open>Datagram endpoints over SIDR\<close>

record SidrCM =
  sc_context :: RContext
  sc_cm :: ptr
  sc_end_point :: EndPoint

definition SidrCM_new :: "'d kcm \<Rightarrow> RContext \<Rightarrow> ptr \<Rightarrow> 'd \<Rightarrow> SidrCM option \<times> 'd" where
  "SidrCM_new c ctx cm d =
     (if cm = 0 then
        (let (own, d) = ClientCM_new c d in
         (map_option (\<lambda>own. \<lparr> sc_context = ctx, sc_cm = own, sc_end_point = EndPoint_default \<rparr>) own, d))
      else (Some \<lparr> sc_context = ctx, sc_cm = cm, sc_end_point = EndPoint_default \<rparr>, d))"

text \<open>Assigning the endpoint drops the previous one.\<close>

definition handle_sidr_reply :: "'d verbs \<Rightarrow> SidrCM \<Rightarrow> u32 \<Rightarrow> u32 \<Rightarrow> SidrPayload \<Rightarrow> 'd \<Rightarrow> SidrCM \<times> 'd" where
  "handle_sidr_reply v s qpn qkey reply d =
     (case sp_status reply of
        StOk \<Rightarrow>
          (let (e, d) = EndPoint_new v (rc_pd (sc_context s)) qpn qkey (sp_lid reply) (sp_gid reply)
                          (sp_dct_num reply) (sp_mr reply) d in
           (s \<lparr> sc_end_point := e \<rparr>, EndPoint_drop v (sc_end_point s) d))
      | StNotExist \<Rightarrow> (s \<lparr> sc_end_point := EndPoint_default \<rparr>, EndPoint_drop v (sc_end_point s) d)
      | _ \<Rightarrow> (s, d))"

fun sidr_cm_handler :: "'d verbs \<Rightarrow> SidrCM \<Rightarrow> cm_event \<Rightarrow> 'd \<Rightarrow> bool \<times> SidrCM \<times> 'd" where
  "sidr_cm_handler v s (SidrRepReceived qpn qkey reply) d = (True, handle_sidr_reply v s qpn qkey reply d)"
| "sidr_cm_handler v s SidrReqError d = (True, s, d)"
| "sidr_cm_handler v s _ d = (False, s, d)"

fun sidr_wait_done :: "'d verbs \<Rightarrow> cm_event list \<Rightarrow> SidrCM \<Rightarrow> 'd \<Rightarrow> (unit, Error) result \<times> SidrCM \<times> 'd" where
  "sidr_wait_done v [] s d = (Err ETIMEDOUT, s, d)"
| "sidr_wait_done v (e # es) s d =
     (let (done, s, d) = sidr_cm_handler v s e d in
      if done then (Ok (), s, d) else sidr_wait_done v es s d)"

definition sidr_connect ::
  "'d verbs \<Rightarrow> 'd kcm \<Rightarrow> SidrCM \<Rightarrow> sa_path_rec \<Rightarrow> u64 \<Rightarrow> u64 \<Rightarrow> 'd \<Rightarrow> (EndPoint, Error) result \<times> SidrCM \<times> 'd"
where
  "sidr_connect v c s path service_id qd_hint d =
     (case send_sidr c (sc_cm s) path (bswap64 service_id) qd_hint d of
        (Err e, d) \<Rightarrow> (Err e, s, d)
      | (Ok _, d) \<Rightarrow>
          (let (es, d) = cm_events c (sc_cm s) d in
           case sidr_wait_done v es s d of
             (Err e, s, d) \<Rightarrow> (Err e, s, d)
           | (Ok _, s, d) \<Rightarrow>
               if \<not> en_valid (sc_end_point s) then (Err EINVAL, s, d)
               else (Ok (fst (en_transfer (sc_end_point s))), s \<lparr> sc_end_point := snd (en_transfer (sc_end_point s)) \<rparr>, d)))"

definition SidrCM_drop :: "'d verbs \<Rightarrow> 'd kcm \<Rightarrow> SidrCM \<Rightarrow> 'd \<Rightarrow> 'd" where
  "SidrCM_drop v c s d = EndPoint_drop v (sc_end_point s) (snd (ClientCM_reset c (sc_cm s) d))"

end
