(* ===== verification/Rctrl.thy ===== *)
theory Rctrl
  imports Kit_Conn "HOL-Library.AList"
begin

text \<open>
  The controller of a service (\<open>KRdmaKit/src/ctrl.rs\<close>): it listens for connection
  requests, registers the reliable connections that clients open, answers queries
  for its datagram queue pair, and owns the receive buffers.  The hash maps of the
  source are association lists with distinct keys; the order in which a map is
  dropped is the order of the list.  Every callback runs to its end before the next
  one.  None is a crash.
\<close>

section \<open>State\<close>

definition CTRL_N :: nat where "CTRL_N = 2"
definition MAX_KMALLOC_SZ :: nat where "MAX_KMALLOC_SZ = 1024 * 1024 * 4"
definition DEFAULT_RPC_HINT :: usize where "DEFAULT_RPC_HINT = 73"

text \<open>\<open>rl_contexts\<close> holds, for every connection handle whose context was replaced by an
  \<open>InQPContext\<close>, the key stored there; \<open>rl_test_mr\<close> is the physical address and the
  size of the test memory.\<close>

record RCtrl =
  rl_id :: u64
  rl_context :: RContext
  rl_registered_rcs :: "(usize \<times> KRC) list"
  rl_registered_uds :: "(usize \<times> KUD) list"
  rl_dct_server :: DCTServer
  rl_dc :: "KDC option"
  rl_test_mr :: "u64 \<times> usize"
  rl_recv_buffer :: "RecvHelper option"
  rl_cm :: ptr
  rl_free_in_qp_key :: u64
  rl_contexts :: "ptr \<rightharpoonup> u64"

text \<open>The environment of a controller: verbs, communication manager, data path,
  address translation and the random byte of the default configuration.\<close>

record 'd kenv =
  kn_verbs :: "'d verbs"
  kn_cm :: "'d kcm"
  kn_ib :: "'d kib"
  kn_pa_to_va :: "u64 \<Rightarrow> u64"
  kn_random :: u8

section \<open>Lookups\<close>

definition get_ud :: "usize \<Rightarrow> RCtrl \<Rightarrow> KUD option" where
  "get_ud qd r = map_of (rl_registered_uds r) qd"

definition get_trc :: "usize \<Rightarrow> RCtrl \<Rightarrow> KRC option" where
  "get_trc vid r = map_of (rl_registered_rcs r) vid"

definition get_recv_cq :: "RCtrl \<Rightarrow> ptr" where
  "get_recv_cq r = ds_recv_cq (rl_dct_server r)"

text \<open>The number of the target is read through the pointer to it.\<close>

definition get_dc_num :: "'d verbs \<Rightarrow> RCtrl \<Rightarrow> 'd \<Rightarrow> u32 option" where
  "get_dc_num v r d = (if ds_dct (rl_dct_server r) = 0 then None else Some (vb_dct_num v (ds_dct (rl_dct_server r)) d))"

definition get_self_test_mr :: "'d verbs \<Rightarrow> RCtrl \<Rightarrow> 'd \<Rightarrow> TempMR" where
  "get_self_test_mr v r d =
     TempMR_new (fst (rl_test_mr r)) (word_of_nat (snd (rl_test_mr r))) (rc_get_rkey v (rl_context r) d)"

definition get_self_dct_meta :: "'d verbs \<Rightarrow> RCtrl \<Rightarrow> 'd \<Rightarrow> DCTargetMeta option" where
  "get_self_dct_meta v r d =
     map_option (\<lambda>n. \<lparr> dm_dct_num = n, dm_lid = rc_get_lid (rl_context r), dm_gid = rc_get_gid (rl_context r),
                       dm_mr = get_self_test_mr v r d \<rparr>) (get_dc_num v r d)"

text \<open>\<open>get_endpoint\<close> unwraps the default datagram queue pair.\<close>

definition get_endpoint :: "'d verbs \<Rightarrow> RCtrl \<Rightarrow> 'd \<Rightarrow> EndPoint option" where
  "get_endpoint v r d =
     (case (get_ud DEFAULT_RPC_HINT r, get_dc_num v r d) of
        (Some ud, Some n) \<Rightarrow>
          Some \<lparr> en_qpn = vb_qp_num v (kud_qp ud) d, en_qkey = kud_qkey ud, en_lid = rc_get_lid (rl_context r),
                 en_gid = rc_get_gid (rl_context r), en_dct_num = n, en_mr = TempMR_new 0 0 0, en_ah = 0 \<rparr>
      | _ \<Rightarrow> None)"

text \<open>The outer option of \<open>get_self_endpoint\<close> is the crash, the inner one the result.\<close>

definition get_self_endpoint :: "'d verbs \<Rightarrow> usize \<Rightarrow> RCtrl \<Rightarrow> 'd \<Rightarrow> EndPoint option option" where
  "get_self_endpoint v ud_id r d =
     (case get_ud ud_id r of
        None \<Rightarrow> Some None
      | Some ud \<Rightarrow>
          map_option (\<lambda>n. Some \<lparr> en_qpn = vb_qp_num v (kud_qp ud) d, en_qkey = kud_qkey ud,
                 en_lid = rc_get_lid (rl_context r), en_gid = rc_get_gid (rl_context r), en_dct_num = n,
                 en_mr = get_self_test_mr v r d, en_ah = 0 \<rparr>) (get_dc_num v r d))"

section \<open>Registration\<close>

text \<open>Inserting drops a queue pair that was registered under the same key.\<close>

definition reg_ud :: "'d verbs \<Rightarrow> usize \<Rightarrow> KUD \<Rightarrow> RCtrl \<Rightarrow> 'd \<Rightarrow> (RCtrl \<times> 'd) option" where
  "reg_ud v qd ud r d =
     (let r' = r \<lparr> rl_registered_uds := AList.update qd ud (rl_registered_uds r) \<rparr> in
      case get_ud qd r of None \<Rightarrow> Some (r', d) | Some old \<Rightarrow> map_option (Pair r') (KUD_drop v old d))"

definition dereg_ud :: "'d verbs \<Rightarrow> usize \<Rightarrow> RCtrl \<Rightarrow> 'd \<Rightarrow> (RCtrl \<times> 'd) option" where
  "dereg_ud v qd r d =
     (let r' = r \<lparr> rl_registered_uds := AList.delete qd (rl_registered_uds r) \<rparr> in
      case get_ud qd r of None \<Rightarrow> Some (r', d) | Some old \<Rightarrow> map_option (Pair r') (KUD_drop v old d))"

text \<open>The removed connection gives up its handle before it is dropped.\<close>

definition dereg_rc :: "'d kenv \<Rightarrow> usize \<Rightarrow> RCtrl \<Rightarrow> 'd \<Rightarrow> (RCtrl \<times> 'd) option" where
  "dereg_rc e qd r d =
     (case get_trc qd r of
        None \<Rightarrow> Some (r, d)
      | Some rc \<Rightarrow>
          map_option (Pair (r \<lparr> rl_registered_rcs := AList.delete qd (rl_registered_rcs r) \<rparr>))
            (KRC_drop (kn_verbs e) (kn_cm e) (snd (handoff_raw_cm rc)) d))"

definition get_next_in_qp_key :: "u64 \<Rightarrow> RCtrl \<Rightarrow> u64 \<times> RCtrl" where
  "get_next_in_qp_key vid r =
     (if vid = 0 then (rl_free_in_qp_key r, r \<lparr> rl_free_in_qp_key := rl_free_in_qp_key r + 1 \<rparr>)
      else (vid, r))"

section \<open>Receive buffers\<close>

definition ctrl_post_recvs ::
  "'d kenv \<Rightarrow> ptr \<Rightarrow> usize \<Rightarrow> RCtrl \<Rightarrow> 'd \<Rightarrow> ((unit, Error) result \<times> RCtrl \<times> 'd) option"
where
  "ctrl_post_recvs e qp cnt r d =
     (case rl_recv_buffer r of
        None \<Rightarrow> None
      | Some h \<Rightarrow>
          map_option (\<lambda>(res, h, d). (res, r \<lparr> rl_recv_buffer := Some h \<rparr>, d)) (post_recvs (kn_ib e) h qp 0 cnt d))"

definition trc_post_recv ::
  "'d kenv \<Rightarrow> usize \<Rightarrow> usize \<Rightarrow> RCtrl \<Rightarrow> 'd \<Rightarrow> ((unit, Error) result \<times> RCtrl \<times> 'd) option"
where
  "trc_post_recv e vid push_cnt r d =
     (case get_trc vid r of None \<Rightarrow> None | Some rc \<Rightarrow> ctrl_post_recvs e (krc_qp rc) push_cnt r d)"

definition ctrl_ud_post_recv ::
  "'d kenv \<Rightarrow> usize \<Rightarrow> RCtrl \<Rightarrow> 'd \<Rightarrow> ((unit, Error) result \<times> RCtrl \<times> 'd) option"
where
  "ctrl_ud_post_recv e push_cnt r d =
     (case get_ud DEFAULT_RPC_HINT r of None \<Rightarrow> None | Some ud \<Rightarrow> ctrl_post_recvs e (kud_qp ud) push_cnt r d)"

section \<open>Connection requests\<close>

text \<open>The steps of \<open>rc_conn_callback\<close> after the transitions: registering the new
  connection, or finding that its key is taken.\<close>

definition conn_registered ::
  "'d kenv \<Rightarrow> ptr \<Rightarrow> cm_req_rcvd \<Rightarrow> u64 \<Rightarrow> KRC \<Rightarrow> Payload \<Rightarrow> RCtrl \<Rightarrow> 'd
     \<Rightarrow> ((unit, Error) result \<times> RCtrl \<times> 'd) option"
where
  "conn_registered e cm req key rc reply r d =
     (if get_trc (unat key) r = None then
        (let r = r \<lparr> rl_registered_rcs := AList.update (unat key) rc (rl_registered_rcs r) \<rparr>;
             (ret, d) = connect_reply (kn_verbs e) (kn_cm e) rc req cm (reply \<lparr> py_status := StOk \<rparr>) d;
             r = r \<lparr> rl_contexts := (rl_contexts r)(cm \<mapsto> key) \<rparr> in
         map_option (\<lambda>(_, r, d). (ret, r, d)) (ctrl_post_recvs e (krc_qp rc) 512 r d))
      else
        (let (ret, d) = connect_reply (kn_verbs e) (kn_cm e) rc req cm (reply \<lparr> py_status := StExist \<rparr>) d in
         map_option (\<lambda>d. (ret, r, d)) (KRC_drop (kn_verbs e) (kn_cm e) (snd (handoff_raw_cm rc)) d)))"

definition rc_conn_callback ::
  "'d kenv \<Rightarrow> ptr \<Rightarrow> cm_req_rcvd \<Rightarrow> u64 \<Rightarrow> RCtrl \<Rightarrow> 'd \<Rightarrow> ((unit, Error) result \<times> RCtrl \<times> 'd) option"
where
  "rc_conn_callback e cm req qd r d =
     (case KRC_new_with_srq (kn_verbs e) (kn_cm e) (kc_set_max_send_wr_sz 256 (KConfig_default (kn_random e)))
             cm 0 (get_recv_cq r) d of
        None \<Rightarrow> None
      | Some (None, d) \<Rightarrow> None
      | Some (Some rc, d) \<Rightarrow>
          (let (key, r) = get_next_in_qp_key qd r;
               reply = (Payload_new_from_null qd) \<lparr> py_mr := get_self_test_mr (kn_verbs e) r d \<rparr> in
           case bring_to_rtr (kn_verbs e) (kn_cm e) rc cm d of
             None \<Rightarrow> None
           | Some (Err _, d) \<Rightarrow>
               (let (ret, d) = connect_reply (kn_verbs e) (kn_cm e) rc req cm reply d in
                map_option (\<lambda>d. (ret, r, d)) (KRC_drop (kn_verbs e) (kn_cm e) rc d))
           | Some (Ok _, d) \<Rightarrow>
               (case bring_to_rts (kn_verbs e) (kn_cm e) rc cm d of
                  None \<Rightarrow> None
                | Some (_, d) \<Rightarrow> conn_registered e cm req key rc reply r d)))"

definition sidr_callback ::
  "'d kenv \<Rightarrow> ptr \<Rightarrow> u64 \<Rightarrow> RCtrl \<Rightarrow> 'd \<Rightarrow> ((unit, Error) result \<times> 'd) option"
where
  "sidr_callback e cm qd_hint r d =
     (let (qpn, qkey, status) =
            (case get_ud (unat qd_hint) r of
               Some ud \<Rightarrow> (vb_qp_num (kn_verbs e) (kud_qp ud) d, kud_qkey ud, StOk)
             | None \<Rightarrow> (0, 0, StNotExist)) in
      case get_self_dct_meta (kn_verbs e) r d of
        None \<Rightarrow> None
      | Some meta \<Rightarrow>
          (let reply = (case SidrPayload_new qd_hint (rl_context r) meta status of
                          Some p \<Rightarrow> p | None \<Rightarrow> SidrPayload_new_from_null qd_hint) in
           Some (ud_conn_reply (kn_cm e) cm qpn qkey reply d)))"

text \<open>The events of a listening handle.  A disconnect takes the context of its handle for
  an \<open>InQPContext\<close>; on a handle without one this is a read of the controller itself
  as another structure.\<close>

datatype srv_event =
    ReqReceived ptr cm_req_rcvd u64
  | SrvRejReceived
  | SrvTimewaitExit
  | RtuReceived
  | DreqReceived ptr
  | SrvSidrReqError
  | SidrReqReceived ptr u64
  | UnknownEvent

fun cm_handler :: "'d kenv \<Rightarrow> srv_event \<Rightarrow> RCtrl \<Rightarrow> 'd \<Rightarrow> (RCtrl \<times> 'd) option" where
  "cm_handler e (ReqReceived cm req qd) r d = map_option snd (rc_conn_callback e cm req qd r d)"
| "cm_handler e (DreqReceived cm) r d =
     (case rl_contexts r cm of
        None \<Rightarrow> None
      | Some key \<Rightarrow> dereg_rc e (unat key) (r \<lparr> rl_contexts := (rl_contexts r)(cm := None) \<rparr>) d)"
| "cm_handler e (SidrReqReceived cm qd) r d = map_option (\<lambda>(_, d). (r, d)) (sidr_callback e cm qd r d)"
| "cm_handler e _ r d = Some (r, d)"

section \<open>Creation and drop\<close>

fun drop_uds :: "'d verbs \<Rightarrow> (usize \<times> KUD) list \<Rightarrow> 'd \<Rightarrow> 'd option" where
  "drop_uds v [] d = Some d"
| "drop_uds v ((_, ud) # uds) d = Option.bind (KUD_drop v ud d) (drop_uds v uds)"

fun drop_rcs :: "'d verbs \<Rightarrow> 'd kcm \<Rightarrow> (usize \<times> KRC) list \<Rightarrow> 'd \<Rightarrow> 'd option" where
  "drop_rcs v c [] d = Some d"
| "drop_rcs v c ((_, rc) # rcs) d = Option.bind (KRC_drop v c rc d) (drop_rcs v c rcs)"

definition RCtrl_reset :: "'d kenv \<Rightarrow> RCtrl \<Rightarrow> 'd \<Rightarrow> (RCtrl \<times> 'd) option" where
  "RCtrl_reset e r d =
     (let (cm, d) = ClientCM_reset (kn_cm e) (rl_cm r) d in
      map_option (Pair (r \<lparr> rl_cm := cm, rl_registered_uds := [] \<rparr>)) (drop_uds (kn_verbs e) (rl_registered_uds r) d))"

text \<open>The drop resets the controller and then drops the fields in the order of their
  declaration.\<close>

definition RCtrl_drop :: "'d kenv \<Rightarrow> RCtrl \<Rightarrow> 'd \<Rightarrow> 'd option" where
  "RCtrl_drop e r d =
     (case RCtrl_reset e r d of
        None \<Rightarrow> None
      | Some (r, d) \<Rightarrow>
          (case drop_rcs (kn_verbs e) (kn_cm e) (rl_registered_rcs r) d of
             None \<Rightarrow> None
           | Some d \<Rightarrow>
               (let d = DCTServer_drop (kn_verbs e) (rl_dct_server r) d in
                Some (case rl_dc r of None \<Rightarrow> d | Some dc \<Rightarrow> KDC_drop (kn_verbs e) dc d))))"

text \<open>\<open>create\<close>, with the physical address \<open>pa\<close> of the new test memory.  The result of the
  first post is ignored; without a handle the new controller is dropped.\<close>

definition RCtrl_create ::
  "'d kenv \<Rightarrow> u64 \<Rightarrow> RContext \<Rightarrow> u64 \<Rightarrow> 'd \<Rightarrow> (RCtrl option \<times> 'd) option"
where
  "RCtrl_create e sid ctx pa d =
     (let v = kn_verbs e; (server, d) = DCTServer_new v (kn_random e) d in
      case server of
        None \<Rightarrow> None
      | Some server \<Rightarrow>
          (let r = \<lparr> rl_id = sid, rl_context = ctx, rl_registered_rcs = [], rl_registered_uds = [],
                     rl_dct_server = server, rl_dc = None, rl_test_mr = (pa, 4 * 1024 * 1024),
                     rl_recv_buffer = None, rl_cm = 0, rl_free_in_qp_key = 0, rl_contexts = Map.empty \<rparr> in
           case KUD_new_with_srq v (kn_random e) (get_recv_cq r) 0 d of
             None \<Rightarrow> None
           | Some (None, d) \<Rightarrow> None
           | Some (Some ud, d) \<Rightarrow>
               (case reg_ud v DEFAULT_RPC_HINT ud r d of
                  None \<Rightarrow> None
                | Some (r, d) \<Rightarrow>
                    (let (dc, d) = KDC_new_with_srq v (rc_pd ctx) 0 (get_recv_cq r) d;
                         r = r \<lparr> rl_dc := dc \<rparr> in
                     case RecvHelper_create (kn_pa_to_va e) CTRL_N (MAX_KMALLOC_SZ div CTRL_N) (rc_get_lkey v ctx d) pa of
                       None \<Rightarrow> None
                     | Some h \<Rightarrow>
                         (case post_recvs (kn_ib e) h (kud_qp ud) 0 CTRL_N d of
                            None \<Rightarrow> None
                          | Some (_, h, d) \<Rightarrow>
                              (let r = r \<lparr> rl_recv_buffer := Some h \<rparr>; (cm, d) = ClientCM_new (kn_cm e) d in
                               case cm of
                                 None \<Rightarrow> map_option (Pair None) (RCtrl_drop e r d)
                               | Some cm \<Rightarrow>
                                   (case ClientCM_listen (kn_cm e) cm sid d of
                                      (Err _, d) \<Rightarrow> None
                                    | (Ok _, d) \<Rightarrow> Some (Some (r \<lparr> rl_cm := cm \<rparr>), d))))))))"

end
