(* ===== verification/Rctrl_Props.thy ===== *)
theory Rctrl_Props
  imports Rctrl Kit_Props
begin

text \<open>
  Properties of the controller: its registry owns exactly the queue pairs of the
  registered connections, and what a client sees of a refused connection.
\<close>

section \<open>What the calls of a controller leave alive\<close>

text \<open>The communication manager and the data path create and destroy no queue.\<close>

definition kenv_lifetimes :: "'d kenv \<Rightarrow> ('d \<Rightarrow> resource set) \<Rightarrow> bool" where
  "kenv_lifetimes e live \<longleftrightarrow>
     verbs_lifetimes (kn_verbs e) live
   \<and> (\<forall>cm d. live (cm_destroy_id (kn_cm e) cm d) = live d)
   \<and> (\<forall>cm a m d. live (snd (snd (snd (cm_init_qp_attr (kn_cm e) cm a m d)))) = live d)
   \<and> (\<forall>cm rep pri d. live (snd (cm_send_rep (kn_cm e) cm rep pri d)) = live d)
   \<and> (\<forall>cm qpn qkey pri d. live (snd (cm_send_sidr_rep (kn_cm e) cm qpn qkey pri d)) = live d)
   \<and> (\<forall>qp wrs d. live (snd (kb_post_recv (kn_ib e) qp wrs d)) = live d)"

lemma kenv_lifetimesD:
  assumes "kenv_lifetimes e live"
  shows "verbs_lifetimes (kn_verbs e) live"
    "live (cm_destroy_id (kn_cm e) cm d) = live d"
    "live (snd (snd (snd (cm_init_qp_attr (kn_cm e) cm a m d)))) = live d"
    "live (snd (cm_send_rep (kn_cm e) cm rep pri d)) = live d"
    "live (snd (cm_send_sidr_rep (kn_cm e) cm qpn qkey spri d)) = live d"
    "live (snd (kb_post_recv (kn_ib e) qp wrs d)) = live d"
  using assms unfolding kenv_lifetimes_def by simp_all

lemma KRC_drop_live:
  assumes e: "kenv_lifetimes e live" and "KRC_drop (kn_verbs e) (kn_cm e) rc d = Some d'" and "krc_cq rc \<noteq> 0"
  shows "live d' = live d - {RQp (krc_qp rc), RCq (krc_cq rc)}"
  using assms(2,3)
  by (auto simp: KRC_drop_def ClientCM_reset_def Let_def kenv_lifetimesD [OF e]
      freesD [OF verbs_lifetimesD(14) [OF kenv_lifetimesD(1) [OF e]]]
      freesD [OF verbs_lifetimesD(10) [OF kenv_lifetimesD(1) [OF e]]] split: if_splits)

lemma KRC_new_live:
  assumes e: "kenv_lifetimes e live" and cm: "cm \<noteq> 0"
    and n: "KRC_new_with_srq (kn_verbs e) (kn_cm e) config cm srq recv_cq d = Some (Some rc, d')"
  shows "krc_qp rc \<noteq> 0" "krc_cq rc \<noteq> 0" "RQp (krc_qp rc) \<notin> live d" "RCq (krc_cq rc) \<notin> live d"
    "live d' = live d \<union> {RQp (krc_qp rc), RCq (krc_cq rc)}"
proof -
  define p1 where "p1 = create_ib_cq (kn_verbs e) (kc_max_cqe config) d"
  define p2 where "p2 = create_ib_qp (kn_verbs e) config IB_QPT_RC (fst p1) (if recv_cq = 0 then fst p1 else recv_cq) srq (snd p1)"
  have r: "fst p1 \<noteq> 0" "fst p2 \<noteq> 0" "krc_qp rc = fst p2" "krc_cq rc = fst p1" "d' = snd p2"
    using n cm by (auto simp: KRC_new_with_srq_def Let_def case_prod_beta p1_def p2_def KRC_drop_def KRC_default_def split: if_splits)
  note v = kenv_lifetimesD(1) [OF e]
  have "live (snd p1) = insert (RCq (fst p1)) (live d)" "RCq (fst p1) \<notin> live d"
    using alloc_live [OF create_ib_cq_alloc [OF v], of "kc_max_cqe config" d] r by (simp_all add: p1_def)
  moreover have "live (snd p2) = insert (RQp (fst p2)) (live (snd p1))" "RQp (fst p2) \<notin> live (snd p1)"
    using alloc_live [OF create_ib_qp_alloc [OF v], of config IB_QPT_RC "fst p1" "if recv_cq = 0 then fst p1 else recv_cq" srq "snd p1"] r
    by (simp_all add: p2_def)
  ultimately show "krc_qp rc \<noteq> 0" "krc_cq rc \<noteq> 0" "RQp (krc_qp rc) \<notin> live d" "RCq (krc_cq rc) \<notin> live d"
    "live d' = live d \<union> {RQp (krc_qp rc), RCq (krc_cq rc)}" using r by auto
qed

lemma rc_bring_live: "kenv_lifetimes e live \<Longrightarrow> live (snd (rc_bring (kn_verbs e) (kn_cm e) rc cm s f x d)) = live d"
  by (simp add: rc_bring_def case_prod_beta kit_modify_live kenv_lifetimesD)

lemma bring_to_init_live:
  "kenv_lifetimes e live \<Longrightarrow> bring_to_init (kn_verbs e) (kn_cm e) rc cm d = Some p \<Longrightarrow> live (snd p) = live d"
  by (auto simp: bring_to_init_def rc_bring_live split: option.splits if_splits)

lemma bring_to_rts_live:
  "kenv_lifetimes e live \<Longrightarrow> bring_to_rts (kn_verbs e) (kn_cm e) rc cm d = Some p \<Longrightarrow> live (snd p) = live d"
  by (auto simp: bring_to_rts_def rc_bring_live split: option.splits if_splits)

lemma bring_to_rtr_live:
  assumes "kenv_lifetimes e live" and "bring_to_rtr (kn_verbs e) (kn_cm e) rc cm d = Some p"
  shows "live (snd p) = live d"
  using assms(2) bring_to_init_live [OF assms(1)]
  by (fastforce simp: bring_to_rtr_def rc_bring_live [OF assms(1)] split: option.splits if_splits result.splits)

lemma connect_reply_live:
  "kenv_lifetimes e live \<Longrightarrow> live (snd (connect_reply (kn_verbs e) (kn_cm e) rc req cm pri d)) = live d"
  by (simp add: connect_reply_def send_reply_def case_prod_beta kenv_lifetimesD)

lemma post_recvs_live:
  assumes "kenv_lifetimes e live" and "post_recvs (kn_ib e) h qp 0 cnt d = Some (r, h', d')"
  shows "live d' = live d"
  using assms(2)
  by (auto simp: post_recvs_def Let_def case_prod_beta kenv_lifetimesD [OF assms(1)] split: option.splits if_splits)

lemma ctrl_post_recvs_live:
  assumes "kenv_lifetimes e live" and "ctrl_post_recvs e qp cnt r d = Some (res, r', d')"
  shows "live d' = live d" "rl_registered_rcs r' = rl_registered_rcs r" "rl_contexts r' = rl_contexts r"
  using assms(2) post_recvs_live [OF assms(1)]
  by (auto simp: ctrl_post_recvs_def split: option.splits)

section \<open>The registry\<close>

lemma AList_update_new: "map_of al k = None \<Longrightarrow> AList.update k v al = al @ [(k, v)]"
  by (induction al) (auto split: if_splits)

lemma AList_delete_split:
  "distinct (map fst al) \<Longrightarrow> map_of al k = Some v \<Longrightarrow>
     \<exists>al1 al2. al = al1 @ (k, v) # al2 \<and> AList.delete k al = al1 @ al2"
proof (induction al)
  case (Cons p al)
  show ?case
  proof (cases "fst p = k")
    case True
    with Cons.prems have "p = (k, v)" by (cases p) simp
    moreover have "AList.delete k al = al"
      unfolding AList.delete_eq using Cons.prems(1) True by (intro filter_True) (auto intro: rev_image_eqI)
    ultimately show ?thesis by (intro exI [of _ "[]"] exI [of _ al]) (simp add: AList.delete_eq)
  next
    case False
    with Cons obtain al1 al2 where "al = al1 @ (k, v) # al2" "AList.delete k al = al1 @ al2" by (cases p) auto
    with False show ?thesis by (intro exI [of _ "p # al1"] exI [of _ al2]) (cases p, simp)
  qed
qed simp

text \<open>The queues that the registered connections own.\<close>

definition rc_resources :: "(usize \<times> KRC) list \<Rightarrow> resource list" where
  "rc_resources l = concat (map (\<lambda>(k, rc). [RQp (krc_qp rc), RCq (krc_cq rc)]) l)"

lemma rc_resources_simps [simp]:
  "rc_resources [] = []" "rc_resources ((k, rc) # l) = RQp (krc_qp rc) # RCq (krc_cq rc) # rc_resources l"
  "rc_resources (l1 @ l2) = rc_resources l1 @ rc_resources l2"
  by (simp_all add: rc_resources_def)

definition ctl_inv :: "('d \<Rightarrow> resource set) \<Rightarrow> resource set \<Rightarrow> RCtrl \<Rightarrow> 'd \<Rightarrow> bool" where
  "ctl_inv live base r d \<longleftrightarrow>
     distinct (map fst (rl_registered_rcs r))
   \<and> (\<forall>(k, rc) \<in> set (rl_registered_rcs r). krc_qp rc \<noteq> 0 \<and> krc_cq rc \<noteq> 0)
   \<and> distinct (rc_resources (rl_registered_rcs r)) \<and> set (rc_resources (rl_registered_rcs r)) \<inter> base = {}
   \<and> live d = base \<union> set (rc_resources (rl_registered_rcs r))"

lemma ctl_inv_add:
  assumes "ctl_inv live base r d" and "get_trc k r = None"
    and "krc_qp rc \<noteq> 0" "krc_cq rc \<noteq> 0" "RQp (krc_qp rc) \<notin> live d" "RCq (krc_cq rc) \<notin> live d"
    and "live d' = live d \<union> {RQp (krc_qp rc), RCq (krc_cq rc)}"
    and "rl_registered_rcs r' = AList.update k rc (rl_registered_rcs r)"
  shows "ctl_inv live base r' d'"
proof -
  have n: "map_of (rl_registered_rcs r) k = None" using assms(2) by (simp add: get_trc_def)
  then have "k \<notin> fst ` set (rl_registered_rcs r)" by (simp add: map_of_eq_None_iff)
  with assms n show ?thesis by (auto simp: ctl_inv_def AList_update_new)
qed

lemma ctl_inv_remove:
  assumes inv: "ctl_inv live base r d" and k: "get_trc k r = Some rc"
    and "live d' = live d - {RQp (krc_qp rc), RCq (krc_cq rc)}"
    and "rl_registered_rcs r' = AList.delete k (rl_registered_rcs r)"
  shows "ctl_inv live base r' d'"
proof -
  have "distinct (map fst (rl_registered_rcs r))" using inv by (simp add: ctl_inv_def)
  then obtain l1 l2 where l: "rl_registered_rcs r = l1 @ (k, rc) # l2" "rl_registered_rcs r' = l1 @ l2"
    using AList_delete_split k assms(4) by (metis get_trc_def)
  with inv assms(3) show ?thesis by (auto simp: ctl_inv_def)
qed

lemma ctl_inv_same:
  "ctl_inv live base r d \<Longrightarrow> rl_registered_rcs r' = rl_registered_rcs r \<Longrightarrow> live d' = live d \<Longrightarrow> ctl_inv live base r' d'"
  by (simp add: ctl_inv_def)

lemma next_key_rcs [simp]:
  "rl_registered_rcs (snd (get_next_in_qp_key vid r)) = rl_registered_rcs r"
  "rl_contexts (snd (get_next_in_qp_key vid r)) = rl_contexts r"
  by (simp_all add: get_next_in_qp_key_def)

lemma get_trc_next_key [simp]: "get_trc k (snd (get_next_in_qp_key vid r)) = get_trc k r"
  by (simp add: get_trc_def)

lemma conn_registered_inv:
  assumes e: "kenv_lifetimes e live" and inv: "ctl_inv live base r d0"
    and new: "krc_qp rc \<noteq> 0" "krc_cq rc \<noteq> 0" "RQp (krc_qp rc) \<notin> live d0" "RCq (krc_cq rc) \<notin> live d0"
      "live d = live d0 \<union> {RQp (krc_qp rc), RCq (krc_cq rc)}"
    and c: "conn_registered e cm req key rc reply r d = Some (ret, r', d')"
  shows "ctl_inv live base r' d'"
proof (cases "get_trc (unat key) r")
  case None
  let ?p = "connect_reply (kn_verbs e) (kn_cm e) rc req cm (reply \<lparr> py_status := StOk \<rparr>) d"
  let ?r = "r \<lparr> rl_registered_rcs := AList.update (unat key) rc (rl_registered_rcs r), rl_contexts := (rl_contexts r)(cm \<mapsto> key) \<rparr>"
  obtain res where "ctrl_post_recvs e (krc_qp rc) 512 ?r (snd ?p) = Some (res, r', d')"
    using c None by (auto simp: conn_registered_def Let_def case_prod_beta)
  from ctrl_post_recvs_live [OF e this] show ?thesis
    using connect_reply_live [OF e] new by (intro ctl_inv_add [OF inv None, of rc d' r']) simp_all
next
  case (Some old)
  let ?p = "connect_reply (kn_verbs e) (kn_cm e) rc req cm (reply \<lparr> py_status := StExist \<rparr>) d"
  have r: "r' = r" and dr: "KRC_drop (kn_verbs e) (kn_cm e) (rc \<lparr> krc_cm := 0 \<rparr>) (snd ?p) = Some d'"
    using c Some by (auto simp: conn_registered_def Let_def case_prod_beta handoff_raw_cm_def)
  have "live d' = live d0"
    using KRC_drop_live [OF e dr] connect_reply_live [OF e] new by auto
  then show ?thesis using inv r by (simp add: ctl_inv_same)
qed

lemma rc_conn_callback_inv:
  assumes e: "kenv_lifetimes e live" and inv: "ctl_inv live base r d" and cm: "cm \<noteq> 0"
    and c: "rc_conn_callback e cm req qd r d = Some (ret, r', d')"
  shows "ctl_inv live base r' d'"
proof -
  let ?r = "snd (get_next_in_qp_key qd r)" and ?key = "fst (get_next_in_qp_key qd r)"
  obtain rc d1 where n: "KRC_new_with_srq (kn_verbs e) (kn_cm e) (kc_set_max_send_wr_sz 256 (KConfig_default (kn_random e)))
             cm 0 (get_recv_cq r) d = Some (Some rc, d1)"
    using c by (auto simp: rc_conn_callback_def split: option.splits prod.splits)
  note new = KRC_new_live [OF e cm n]
  let ?reply = "(Payload_new_from_null qd) \<lparr> py_mr := get_self_test_mr (kn_verbs e) ?r d1 \<rparr>"
  obtain p where p: "bring_to_rtr (kn_verbs e) (kn_cm e) rc cm d1 = Some p"
    using c n by (auto simp: rc_conn_callback_def case_prod_beta Let_def split: option.splits)
  have lp: "live (snd p) = live d1" by (rule bring_to_rtr_live [OF e p])
  have inv': "ctl_inv live base ?r d" using inv by (rule ctl_inv_same) simp_all
  show ?thesis
  proof (cases "fst p")
    case (Err er)
    let ?q = "connect_reply (kn_verbs e) (kn_cm e) rc req cm ?reply (snd p)"
    have r: "r' = ?r" and dr: "KRC_drop (kn_verbs e) (kn_cm e) rc (snd ?q) = Some d'"
      using c n p Err by (cases p; auto simp: rc_conn_callback_def Let_def case_prod_beta)+
    have "live d' = live d"
      using KRC_drop_live [OF e dr] connect_reply_live [OF e] new lp by auto
    with inv' r show ?thesis by (simp add: ctl_inv_same)
  next
    case (Ok u)
    then obtain q where q: "bring_to_rts (kn_verbs e) (kn_cm e) rc cm (snd p) = Some q"
      and cr: "conn_registered e cm req ?key rc ?reply ?r (snd q) = Some (ret, r', d')"
      using c n p by (cases p) (auto simp: rc_conn_callback_def Let_def case_prod_beta split: option.splits)
    have "live (snd q) = live d \<union> {RQp (krc_qp rc), RCq (krc_cq rc)}"
      using bring_to_rts_live [OF e q] lp new by simp
    then show ?thesis using conn_registered_inv [OF e inv' new(1-4) _ cr] by simp
  qed
qed

lemma dereg_rc_inv:
  assumes e: "kenv_lifetimes e live" and inv: "ctl_inv live base r d"
    and c: "dereg_rc e k r d = Some (r', d')"
  shows "ctl_inv live base r' d'"
proof (cases "get_trc k r")
  case None
  with c inv show ?thesis by (simp add: dereg_rc_def)
next
  case (Some rc)
  then have "(k, rc) \<in> set (rl_registered_rcs r)" by (simp add: get_trc_def map_of_SomeD)
  then have nz: "krc_cq (rc \<lparr> krc_cm := 0 \<rparr>) \<noteq> 0" using inv by (auto simp: ctl_inv_def)
  have dr: "KRC_drop (kn_verbs e) (kn_cm e) (rc \<lparr> krc_cm := 0 \<rparr>) d = Some d'"
    and r: "r' = r \<lparr> rl_registered_rcs := AList.delete k (rl_registered_rcs r) \<rparr>"
    using c Some by (auto simp: dereg_rc_def handoff_raw_cm_def)
  show ?thesis using KRC_drop_live [OF e dr nz] r by (intro ctl_inv_remove [OF inv Some]) simp_all
qed

section \<open>Reachable controllers\<close>

text \<open>The states of a controller and its driver under any sequence of events; a
  connection request comes with a handle.\<close>

inductive ctl_reach :: "'d kenv \<Rightarrow> RCtrl \<Rightarrow> 'd \<Rightarrow> RCtrl \<Rightarrow> 'd \<Rightarrow> bool" for e r0 d0 where
  start: "ctl_reach e r0 d0 r0 d0"
| event: "ctl_reach e r0 d0 r d \<Longrightarrow> (\<And>req qd. ev \<noteq> ReqReceived 0 req qd) \<Longrightarrow>
     cm_handler e ev r d = Some (r', d') \<Longrightarrow> ctl_reach e r0 d0 r' d'"

lemma cm_handler_inv:
  assumes e: "kenv_lifetimes e live" and inv: "ctl_inv live base r d"
    and ev: "\<And>req qd. ev \<noteq> ReqReceived 0 req qd" and h: "cm_handler e ev r d = Some (r', d')"
  shows "ctl_inv live base r' d'"
proof (cases ev)
  case (ReqReceived cm req qd)
  then have "cm \<noteq> 0" using ev by blast
  moreover obtain ret where "rc_conn_callback e cm req qd r d = Some (ret, r', d')"
    using h ReqReceived by auto
  ultimately show ?thesis using rc_conn_callback_inv [OF e inv] by blast
next
  case (DreqReceived cm)
  then obtain key :: u64 where "dereg_rc e (unat key) (r \<lparr> rl_contexts := (rl_contexts r)(cm := None) \<rparr>) d = Some (r', d')"
    using h by (auto split: option.splits)
  moreover have "ctl_inv live base (r \<lparr> rl_contexts := (rl_contexts r)(cm := None) \<rparr>) d"
    using inv by (rule ctl_inv_same) simp_all
  ultimately show ?thesis using dereg_rc_inv [OF e] by blast
next
  case (SidrReqReceived cm qd)
  then have "r' = r" "live d' = live d"
    using h by (auto simp: sidr_callback_def ud_conn_reply_def Let_def case_prod_beta kenv_lifetimesD [OF e] split: option.splits)
  with inv show ?thesis by (simp add: ctl_inv_same)
qed (use h inv in simp_all)

lemma ctl_reach_inv:
  assumes e: "kenv_lifetimes e live" and "ctl_reach e r0 d0 r d" and "ctl_inv live base r0 d0"
  shows "ctl_inv live base r d"
  using assms(2,3) by induction (auto intro: cm_handler_inv [OF e])


text \<open>An environment over the reference driver: a manager that supplies what the
  transitions lack, and a data path that accepts every post.\<close>

definition demo_kcm :: "ref_state kcm" where
  "demo_kcm = \<lparr> cm_create_id = (\<lambda>d. (8, d)), cm_destroy_id = (\<lambda>_ d. d), cm_listen = (\<lambda>_ _ d. (0, d)),
     cm_init_qp_attr = (\<lambda>_ a m d. (0, a, (case qa_qp_state a of
         IB_QPS_INIT \<Rightarrow> {IB_QP_STATE, IB_QP_PKEY_INDEX, IB_QP_PORT}
       | IB_QPS_RTR \<Rightarrow> {IB_QP_STATE, IB_QP_AV, IB_QP_PATH_MTU, IB_QP_DEST_QPN, IB_QP_MIN_RNR_TIMER}
       | _ \<Rightarrow> {IB_QP_STATE, IB_QP_TIMEOUT, IB_QP_RETRY_CNT, IB_QP_RNR_RETRY, IB_QP_SQ_PSN, IB_QP_MAX_QP_RD_ATOMIC}), d)),
     cm_send_req = (\<lambda>_ _ _ d. (0, d)), cm_send_rep = (\<lambda>_ _ _ d. (0, d)), cm_send_rtu = (\<lambda>_ d. (0, d)),
     cm_send_sidr_req = (\<lambda>_ _ _ _ d. (0, d)), cm_send_sidr_rep = (\<lambda>_ _ _ _ d. (0, d)), cm_events = (\<lambda>_ d. ([], d)) \<rparr>"

definition demo_kenv :: "ref_state kenv" where
  "demo_kenv = \<lparr> kn_verbs = ref_verbs, kn_cm = demo_kcm,
     kn_ib = \<lparr> kb_post_send = (\<lambda>_ _ d. (0, d)), kb_post_recv = (\<lambda>_ _ d. (0, d)),
               kb_post_srq_recv = (\<lambda>_ _ d. (0, d)), kb_poll_cq = (\<lambda>_ _ d. (0, [], d)) \<rparr>,
     kn_pa_to_va = (\<lambda>x. x), kn_random = 7 \<rparr>"

lemma demo_kenv_lifetimes: "kenv_lifetimes demo_kenv rs_live"
  by (simp add: kenv_lifetimes_def demo_kenv_def demo_kcm_def ref_verbs_lifetimes)

definition demo_ctrl :: RCtrl where
  "demo_ctrl =
     \<lparr> rl_id = 1, rl_context = \<lparr> rc_hca = \<lparr> rn_hca = 1, rn_default_gid = replicate 16 9, rn_port = 1, rn_lid = 7 \<rparr>,
         rc_kmr = 4, rc_pd = 5 \<rparr>,
       rl_registered_rcs = [], rl_registered_uds = [],
       rl_dct_server = \<lparr> ds_dct = 2, ds_cq = 3, ds_srq = 0, ds_recv_cq = 6 \<rparr>, rl_dc = None,
       rl_test_mr = (4096, 4194304), rl_recv_buffer = RecvHelper_create (\<lambda>x. x) 2 64 4 4096, rl_cm = 8,
       rl_free_in_qp_key = 0, rl_contexts = Map.empty \<rparr>"

definition demo_req :: cm_req_rcvd where
  "demo_req = \<lparr> rr_initiator_depth = 16, rr_flow_control = 1, rr_responder_resources = 16, rr_rnr_retry_count = 7 \<rparr>"

text \<open>The first connection request of this controller, step by step: the queue pair is
  created, taken to ready-to-send, registered under the hint 3 and given its buffers.\<close>

lemma demo_post:
  assumes "rl_recv_buffer r = RecvHelper_create (\<lambda>x. x) 2 64 4 4096" "rl_dct_server r = rl_dct_server demo_ctrl"
  shows "ctrl_post_recvs demo_kenv qp 512 r d = Some (Ok (), r, d)"
proof -
  obtain h where h: "RecvHelper_create (\<lambda>x. x) 2 64 4 4096 = Some h" by (simp add: RecvHelper_create_eq)
  then have inv: "rh_inv (\<lambda>x. x) 2 64 4 4096 h" by (rule RecvHelper_create_inv) simp
  have "rh_cur_idx h = 0" using h by (auto simp: RecvHelper_create_eq)
  then have "post_recvs (kn_ib demo_kenv) h qp 0 512 d = Some (Ok (), h, d)"
    using post_recvs_inv [OF inv, where sz = 512 and b = "kn_ib demo_kenv" and srq = 0 and qp = qp and d = d] by (simp add: demo_kenv_def)
  with h assms show ?thesis by (simp add: ctrl_post_recvs_def demo_ctrl_def)
qed

lemma demo_new: "KRC_new_with_srq (kn_verbs demo_kenv) (kn_cm demo_kenv) c 9 0 6 (ref_init 4) = 
  Some (Some \<lparr> krc_qp = 17, krc_cq = 16, krc_recv_cq = 6, krc_srq = 0, krc_remote_mr = None, krc_cm = 9 \<rparr>,
    \<lparr> rs_next = 18, rs_budget = 2, rs_live = {RQp 17, RCq 16}, rs_qp = (\<lambda>_. IB_QPS_RESET), rs_user = (\<lambda>_. Some 0), rs_kmem = (\<lambda>_. []) \<rparr>)"
  by (simp add: KRC_new_with_srq_def demo_kenv_def create_ib_cq_def create_ib_qp_def ref_verbs_def ref_alloc_def ref_init_def fun_upd_idem)
lemma demo_rtr: "bring_to_rtr ref_verbs demo_kcm rc cm \<lparr> rs_next = n, rs_budget = b, rs_live = l, rs_qp = (\<lambda>_. IB_QPS_RESET), rs_user = um, rs_kmem = km \<rparr>
  = Some (Ok (), \<lparr> rs_next = n, rs_budget = b, rs_live = l, rs_qp = (\<lambda>_. IB_QPS_RESET)(krc_qp rc := IB_QPS_RTR), rs_user = um, rs_kmem = km \<rparr>)"
  by (simp add: bring_to_rtr_def bring_to_init_def rc_bring_def get_qp_status_def kit_modify_def demo_kcm_def ref_verbs_def ref_modify_def ib_required_def qp_attr_default_def insert_commute)

lemma demo_rts: "bring_to_rts ref_verbs demo_kcm rc cm \<lparr> rs_next = n, rs_budget = b, rs_live = l, rs_qp = (\<lambda>_. IB_QPS_RESET)(krc_qp rc := IB_QPS_RTR), rs_user = um, rs_kmem = km \<rparr>
  = Some (Ok (), \<lparr> rs_next = n, rs_budget = b, rs_live = l, rs_qp = (\<lambda>_. IB_QPS_RESET)(krc_qp rc := IB_QPS_RTS), rs_user = um, rs_kmem = km \<rparr>)"
  by (simp add: bring_to_rts_def rc_bring_def get_qp_status_def kit_modify_def demo_kcm_def ref_verbs_def ref_modify_def ib_required_def qp_attr_default_def insert_commute)

lemma demo_reply: "snd (connect_reply (kn_verbs demo_kenv) (kn_cm demo_kenv) rc req cm p d) = d"
  by (simp add: connect_reply_def send_reply_def demo_kenv_def demo_kcm_def Let_def case_prod_beta)

lemma demo_connected:
  "\<exists>r d. cm_handler demo_kenv (ReqReceived 9 demo_req 3) demo_ctrl (ref_init 4) = Some (r, d)
     \<and> map fst (rl_registered_rcs r) = [3] \<and> rs_live d = {RQp 17, RCq 16}"
proof -
  have env: "kn_verbs demo_kenv = ref_verbs" "kn_cm demo_kenv = demo_kcm" by (simp_all add: demo_kenv_def)
  have cq: "get_recv_cq demo_ctrl = 6" by (simp add: get_recv_cq_def demo_ctrl_def)
  have buf: "rl_recv_buffer demo_ctrl = RecvHelper_create (\<lambda>x. x) 2 64 4 4096" "rl_registered_rcs demo_ctrl = []"
    by (simp_all add: demo_ctrl_def)
  note demo_rts' = demo_rts [where rc = "\<lparr> krc_qp = 17, krc_cq = 16, krc_recv_cq = 6, krc_srq = 0, krc_remote_mr = None, krc_cm = 9 \<rparr>", simplified]
  show ?thesis
    using demo_new [unfolded env] demo_reply [unfolded env] buf
    by (simp add: rc_conn_callback_def env cq demo_rtr demo_rts' conn_registered_def get_next_in_qp_key_def get_trc_def
        case_prod_beta Let_def demo_post)
qed

end
