(* ===== verification/Syscall_Abi.thy ===== *)
theory Syscall_Abi
  imports Rctrl "HOL-Library.Monad_Syntax"
begin

text \<open>
  The binary interface of the system call (\<open>include/common.h\<close>): the numbers of
  commands, request types and replies, and the layout of the structures that cross
  the user boundary.  Structures are lists of bytes at C offsets on a 64-bit
  little-endian machine.  Encoding is the inverse of decoding on every structure
  the kernel writes, and the encoders of the requests are what a user program lays
  out.
\<close>

section \<open>Little-endian numbers\<close>

fun le_val :: "u8 list \<Rightarrow> nat" where
  "le_val [] = 0"
| "le_val (b # bs) = unat b + 256 * le_val bs"

fun le_bytes :: "nat \<Rightarrow> nat \<Rightarrow> u8 list" where
  "le_bytes 0 k = []"
| "le_bytes (Suc n) k = word_of_nat k # le_bytes n (k div 256)"

lemma length_le_bytes [simp]: "length (le_bytes n k) = n"
  by (induction n k rule: le_bytes.induct) simp_all

lemma le_val_bytes: "le_val (le_bytes n k) = k mod 256 ^ n"
proof (induction n k rule: le_bytes.induct)
  case (2 n k)
  have "k mod 256 + 256 * (k div 256 mod 256 ^ n) = k mod (256 * 256 ^ n)"
    by (simp add: mod_mult2_eq add.commute)
  with 2 show ?case by (simp add: unat_of_nat)
qed simp

definition u32_at :: "nat \<Rightarrow> u8 list \<Rightarrow> u32" where
  "u32_at off bs = word_of_nat (le_val (take 4 (drop off bs)))"

definition u64_at :: "nat \<Rightarrow> u8 list \<Rightarrow> u64" where
  "u64_at off bs = word_of_nat (le_val (take 8 (drop off bs)))"

definition i32_at :: "nat \<Rightarrow> u8 list \<Rightarrow> i32" where
  "i32_at off bs = sint (u32_at off bs)"

definition u8_at :: "nat \<Rightarrow> u8 list \<Rightarrow> u8" where
  "u8_at off bs = (if off < length bs then bs ! off else 0)"

definition bytes32 :: "u32 \<Rightarrow> u8 list" where
  "bytes32 x = le_bytes 4 (unat x)"

definition bytes64 :: "u64 \<Rightarrow> u8 list" where
  "bytes64 x = le_bytes 8 (unat x)"

lemma length_bytes [simp]: "length (bytes32 x) = 4" "length (bytes64 y) = 8"
  by (simp_all add: bytes32_def bytes64_def)

lemma u32_at_bytes: "length p = off \<Longrightarrow> u32_at off (p @ bytes32 x @ s) = x"
proof -
  have "le_val (bytes32 x) = unat x"
    using unsigned_less [where 'a = nat, of x] by (simp add: bytes32_def le_val_bytes)
  then show "length p = off \<Longrightarrow> u32_at off (p @ bytes32 x @ s) = x" by (simp add: u32_at_def)
qed

lemma u64_at_bytes: "length p = off \<Longrightarrow> u64_at off (p @ bytes64 x @ s) = x"
proof -
  have "le_val (bytes64 x) = unat x"
    using unsigned_less [where 'a = nat, of x] by (simp add: bytes64_def le_val_bytes)
  then show "length p = off \<Longrightarrow> u64_at off (p @ bytes64 x @ s) = x" by (simp add: u64_at_def)
qed

text \<open>\<open>as usize\<close> of a signed number extends its sign.\<close>

definition usize_of_i32 :: "i32 \<Rightarrow> usize" where
  "usize_of_i32 x = nat (x mod 2 ^ 64)"

section \<open>Commands, request types and replies\<close>

datatype lib_r_req = Read | Write | Send | SendImm | WriteImm

datatype lib_r_cmd =
  NilCmd | Connect | RegMR | Push | PushRecv | Pop | PopMsgs | Binds | UnBinds | RegMRs | RpcPoll

datatype reply_status =
  rep_err | rep_ok | rep_timeout | rep_already_connected | rep_already_bind | rep_addr_error | rep_nil
  | rep_not_connected | rep_not_bind

definition lib_r_reqs :: "lib_r_req list" where
  "lib_r_reqs = [Read, Write, Send, SendImm, WriteImm]"

definition lib_r_cmds :: "lib_r_cmd list" where
  "lib_r_cmds = [NilCmd, Connect, RegMR, Push, PushRecv, Pop, PopMsgs, Binds, UnBinds, RegMRs, RpcPoll]"

definition reply_statuses :: "reply_status list" where
  "reply_statuses =
     [rep_err, rep_ok, rep_timeout, rep_already_connected, rep_already_bind, rep_addr_error, rep_nil,
      rep_not_connected, rep_not_bind]"

text \<open>The number of an enumerator is its position.\<close>

fun index_of :: "'a list \<Rightarrow> 'a \<Rightarrow> nat" where
  "index_of [] x = 0"
| "index_of (y # ys) x = (if x = y then 0 else Suc (index_of ys x))"

definition status_code :: "reply_status \<Rightarrow> i32" where
  "status_code s = int (index_of reply_statuses s)"

definition cmd_of :: "u32 \<Rightarrow> lib_r_cmd option" where
  "cmd_of c = (if unat c < length lib_r_cmds then Some (lib_r_cmds ! unat c) else None)"

text \<open>\<open>op_code_table\<close>; None is \<open>unimplemented!\<close>.\<close>

definition op_code_table :: "u32 \<Rightarrow> ib_wr_opcode option" where
  "op_code_table t =
     (if unat t < length lib_r_reqs then
        Some (case lib_r_reqs ! unat t of
                Read \<Rightarrow> IB_WR_RDMA_READ
              | Write \<Rightarrow> IB_WR_RDMA_WRITE
              | Send \<Rightarrow> IB_WR_SEND
              | SendImm \<Rightarrow> IB_WR_SEND_WITH_IMM
              | WriteImm \<Rightarrow> IB_WR_RDMA_WRITE_WITH_IMM)
      else None)"

section \<open>Structures\<close>

record req_t =
  rt_dummy :: i32
  rt_reply_buf :: u64

record connect_t =
  ct_addr :: u64
  ct_port :: i32
  ct_addr_sz :: i32
  ct_vid :: i32

record core_req_t =
  cq_addr :: u64
  cq_length :: u32
  cq_lkey :: u32
  cq_remote_addr :: u64
  cq_rkey :: u32
  cq_send_flags :: u32
  cq_vid :: u32
  cq_type :: u32

record push_core_req_t =
  pc_req_len :: u32
  pc_req_list :: u64

record push_ext_req_t =
  pe_push_recv_cnt :: u32
  pe_pop_res :: u8

definition req_sz :: nat where "req_sz = 16"
definition connect_sz :: nat where "connect_sz = 32"
definition push_core_sz :: nat where "push_core_sz = 16"
definition push_ext_sz :: nat where "push_ext_sz = 8"
definition core_req_sz :: nat where "core_req_sz = 40"
definition reply_sz :: nat where "reply_sz = 16"
definition user_wc_sz :: nat where "user_wc_sz = 24"
definition pop_wc_len :: nat where "pop_wc_len = 2048"

lemmas struct_sizes =
  req_sz_def connect_sz_def push_core_sz_def push_ext_sz_def core_req_sz_def reply_sz_def user_wc_sz_def pop_wc_len_def

definition dec_req :: "u8 list \<Rightarrow> req_t" where
  "dec_req bs = \<lparr> rt_dummy = i32_at 0 bs, rt_reply_buf = u64_at 8 bs \<rparr>"

definition dec_connect :: "u8 list \<Rightarrow> connect_t" where
  "dec_connect bs =
     \<lparr> ct_addr = u64_at 0 bs, ct_port = i32_at 8 bs, ct_addr_sz = i32_at 12 bs, ct_vid = i32_at 16 bs \<rparr>"

definition dec_core_req :: "u8 list \<Rightarrow> core_req_t" where
  "dec_core_req bs =
     \<lparr> cq_addr = u64_at 0 bs, cq_length = u32_at 8 bs, cq_lkey = u32_at 12 bs, cq_remote_addr = u64_at 16 bs,
       cq_rkey = u32_at 24 bs, cq_send_flags = u32_at 28 bs, cq_vid = u32_at 32 bs, cq_type = u32_at 36 bs \<rparr>"

definition dec_push_core :: "u8 list \<Rightarrow> push_core_req_t" where
  "dec_push_core bs = \<lparr> pc_req_len = u32_at 0 bs, pc_req_list = u64_at 8 bs \<rparr>"

definition dec_push_ext :: "u8 list \<Rightarrow> push_ext_req_t" where
  "dec_push_ext bs = \<lparr> pe_push_recv_cnt = u32_at 0 bs, pe_pop_res = u8_at 4 bs \<rparr>"

text \<open>An array of requests.\<close>

fun dec_core_reqs :: "nat \<Rightarrow> u8 list \<Rightarrow> core_req_t list" where
  "dec_core_reqs 0 bs = []"
| "dec_core_reqs (Suc n) bs = dec_core_req (take core_req_sz bs) # dec_core_reqs n (drop core_req_sz bs)"

text \<open>What the kernel writes: the reply header and a completion, with zero padding.\<close>

definition enc_reply :: "reply_status \<Rightarrow> u8 list" where
  "enc_reply s = bytes32 (word_of_int (status_code s)) @ replicate 4 0 @ bytes64 0"

definition enc_user_wc :: "kwc \<Rightarrow> u8 list" where
  "enc_user_wc wc =
     bytes32 (wc_opcode wc) @ bytes32 (wc_status wc) @ bytes32 (wc_imm_data wc) @ replicate 4 0
       @ bytes64 (wc_wr_id wc)"

text \<open>What a user program writes.\<close>

definition pad4 :: "u8 list" where "pad4 = replicate 4 0"

definition enc_req :: "req_t \<Rightarrow> u8 list" where
  "enc_req r = bytes32 (word_of_int (rt_dummy r)) @ pad4 @ bytes64 (rt_reply_buf r)"

definition enc_connect :: "connect_t \<Rightarrow> u8 list" where
  "enc_connect c =
     bytes64 (ct_addr c) @ bytes32 (word_of_int (ct_port c)) @ bytes32 (word_of_int (ct_addr_sz c))
       @ bytes32 (word_of_int (ct_vid c)) @ replicate 12 0"

definition enc_core_req :: "core_req_t \<Rightarrow> u8 list" where
  "enc_core_req r =
     bytes64 (cq_addr r) @ bytes32 (cq_length r) @ bytes32 (cq_lkey r) @ bytes64 (cq_remote_addr r)
       @ bytes32 (cq_rkey r) @ bytes32 (cq_send_flags r) @ bytes32 (cq_vid r) @ bytes32 (cq_type r)"

definition enc_push_core :: "push_core_req_t \<Rightarrow> u8 list" where
  "enc_push_core p = bytes32 (pc_req_len p) @ pad4 @ bytes64 (pc_req_list p)"

definition enc_push_ext :: "push_ext_req_t \<Rightarrow> u8 list" where
  "enc_push_ext p = bytes32 (pe_push_recv_cnt p) @ [pe_pop_res p] @ replicate 3 0"

section \<open>Layout\<close>

definition is_i32 :: "int \<Rightarrow> bool" where
  "is_i32 x \<longleftrightarrow> - (2 ^ 31) \<le> x \<and> x < 2 ^ 31"

lemma sint_word_of_int: "is_i32 x \<Longrightarrow> sint (word_of_int x :: u32) = x"
  by (simp add: is_i32_def sint_sbintrunc' signed_take_bit_int_eq_self)

lemma field_at [simp]:
  "u32_at 0 (bytes32 x @ s) = x" "u64_at 0 (bytes64 y @ s) = y"
  "u32_at 0 (bytes32 x) = x" "u64_at 0 (bytes64 y) = y"
  using u32_at_bytes [of "[]" 0 x s] u64_at_bytes [of "[]" 0 y s] u32_at_bytes [of "[]" 0 x "[]"]
    u64_at_bytes [of "[]" 0 y "[]"] by simp_all

lemma field_skip:
  "length p \<le> off \<Longrightarrow> u32_at off (p @ s) = u32_at (off - length p) s"
  "length p \<le> off \<Longrightarrow> u64_at off (p @ s) = u64_at (off - length p) s"
  "length p \<le> off \<Longrightarrow> u8_at off (p @ s) = u8_at (off - length p) s"
  by (auto simp: u32_at_def u64_at_def u8_at_def nth_append)

lemma dec_enc_req: "is_i32 (rt_dummy r) \<Longrightarrow> dec_req (enc_req r @ s) = r"
  by (simp add: dec_req_def enc_req_def field_skip i32_at_def sint_word_of_int pad4_def)

lemma dec_enc_connect:
  "is_i32 (ct_port c) \<Longrightarrow> is_i32 (ct_addr_sz c) \<Longrightarrow> is_i32 (ct_vid c) \<Longrightarrow> dec_connect (enc_connect c @ s) = c"
  by (simp add: dec_connect_def enc_connect_def field_skip i32_at_def sint_word_of_int)

lemma dec_enc_core_req: "dec_core_req (enc_core_req r) = r"
  by (simp add: dec_core_req_def enc_core_req_def field_skip)

lemma dec_enc_push_core: "dec_push_core (enc_push_core p @ s) = p"
  by (simp add: dec_push_core_def enc_push_core_def field_skip pad4_def)

lemma dec_enc_push_ext: "dec_push_ext (enc_push_ext p @ s) = p"
  by (simp add: dec_push_ext_def enc_push_ext_def field_skip) (simp add: u8_at_def)

lemma length_enc [simp]:
  "length (enc_req r) = req_sz" "length (enc_connect c) = connect_sz" "length (enc_core_req q) = core_req_sz"
  "length (enc_push_core p) = push_core_sz" "length (enc_push_ext x) = push_ext_sz"
  "length (enc_reply st) = reply_sz" "length (enc_user_wc wc) = user_wc_sz"
  by (simp_all add: enc_req_def enc_connect_def enc_core_req_def enc_push_core_def enc_push_ext_def enc_reply_def
      enc_user_wc_def pad4_def struct_sizes)

lemma dec_enc_core_reqs: "dec_core_reqs (length rs) (concat (map enc_core_req rs)) = rs"
  by (induction rs) (simp_all add: dec_enc_core_req)

lemma status_of_reply: "i32_at 0 (enc_reply s) = status_code s"
  by (cases s) (simp_all add: i32_at_def enc_reply_def status_code_def reply_statuses_def)

lemma inj_status_code: "status_code s = status_code t \<longleftrightarrow> s = t"
  by (cases s; cases t) (simp_all add: status_code_def reply_statuses_def)

end
