(* ===== verification/Syscall_Core.thy ===== *)
theory Syscall_Core
  imports Syscall_Abi Net_Parser
begin

text \<open>
  The global state of the system call module (\<open>KRdmaKit-syscall/src/client.rs\<close>), its
  lookups, and the helpers of \<open>core.rs\<close>: connecting a queue pair, posting and polling
  the receive buffers of a controller, and copying completions to the user.  The
  kernel's user access functions, its memory, path resolution and the functions of
  the library version that is not vendored (\<open>explore_path\<close>, \<open>self_clone\<close>, \<open>gid_eq\<close>, the
  RPC client) are parameters.  The module is a debug build: arithmetic overflow
  panics.  None is a panic, an access outside an array, or an endless loop.
\<close>

section \<open>Environment\<close>

record features =
  ft_dct_qp :: bool
  ft_meta_kv :: bool
  ft_meta_cache :: bool
  ft_migrate_qp :: bool
  ft_virtual_queue :: bool
  ft_rpc_server :: bool

text \<open>The global variables: contexts, controllers, the physical addresses of the global
  memory, the meta data of other nodes, the address of the meta server's table, the
  end points of the RPC clients; and the state of the kernel.\<close>

record 'd kstate =
  ks_rcontexts :: "RContext list"
  ks_rctrl :: "RCtrl list"
  ks_mem_pa :: "u64 list"
  ks_meta_info :: "(string \<times> EndPoint) list"
  ks_meta_kv_pa :: u64
  ks_rpc_clients :: "EndPoint list"
  ks_drv :: 'd

text \<open>\<open>sv_from_user a n\<close> are the \<open>n\<close> bytes that \<open>_copy_from_user\<close> leaves in the destination;
  \<open>sv_to_user\<close> returns the number of bytes not copied.  \<open>sv_u64\<close> to
  \<open>sv_memcpy\<close> read, write and copy kernel memory, \<open>sv_endpoint_sz\<close> is
  \<open>size_of::<EndPoint>()\<close>.\<close>

record 'd senv =
  sv_kenv :: "'d kenv"
  sv_feat :: features
  sv_from_user :: "u64 \<Rightarrow> nat \<Rightarrow> 'd \<Rightarrow> u8 list"
  sv_to_user :: "u64 \<Rightarrow> u8 list \<Rightarrow> 'd \<Rightarrow> nat \<times> 'd"
  sv_u64 :: "u64 \<Rightarrow> 'd \<Rightarrow> u64"
  sv_endpoint :: "u64 \<Rightarrow> 'd \<Rightarrow> EndPoint"
  sv_set_u64 :: "u64 \<Rightarrow> u64 \<Rightarrow> 'd \<Rightarrow> 'd"
  sv_set_endpoint :: "u64 \<Rightarrow> EndPoint \<Rightarrow> 'd \<Rightarrow> 'd"
  sv_endpoint_sz :: u64
  sv_memcpy :: "u64 \<Rightarrow> u64 \<Rightarrow> u64 \<Rightarrow> 'd \<Rightarrow> 'd"
  sv_explore_path :: "RContext \<Rightarrow> string \<Rightarrow> u64 \<Rightarrow> 'd \<Rightarrow> sa_path_rec option \<times> 'd"
  sv_self_clone :: "EndPoint \<Rightarrow> EndPoint"
  sv_gid_eq :: "ib_gid \<Rightarrow> ib_gid \<Rightarrow> bool"
  sv_meta_server_gid :: string
  sv_rpc_poll :: "'d kstate \<Rightarrow> 'd kstate option"

definition MAX_SERVICE_NUM :: nat where "MAX_SERVICE_NUM = 25"
definition UD_HEADER_SZ :: u64 where "UD_HEADER_SZ = 40"

text \<open>Checked arithmetic.\<close>

definition add64 :: "u64 \<Rightarrow> u64 \<Rightarrow> u64 option" where
  "add64 a b = (if unat a + unat b < 2 ^ 64 then Some (a + b) else None)"

definition mul64 :: "u64 \<Rightarrow> u64 \<Rightarrow> u64 option" where
  "mul64 a b = (if unat a * unat b < 2 ^ 64 then Some (a * b) else None)"

lemma add64_word_of_nat: "unat a + k < 2 ^ 64 \<Longrightarrow> add64 a (word_of_nat k) = Some (a + word_of_nat k)"
  by (simp add: add64_def unat_of_nat)

section \<open>Global lookups\<close>

text \<open>\<open>idx % len\<close> panics for an empty vector.\<close>

definition wrapped :: "usize \<Rightarrow> 'a list \<Rightarrow> 'a option" where
  "wrapped idx xs = (if xs = [] then None else Some (xs ! (idx mod length xs)))"

definition get_global_rcontext :: "usize \<Rightarrow> 'd kstate \<Rightarrow> RContext option" where
  "get_global_rcontext idx g = wrapped idx (ks_rcontexts g)"

definition get_global_rctrl :: "usize \<Rightarrow> 'd kstate \<Rightarrow> RCtrl option" where
  "get_global_rctrl idx g = wrapped idx (ks_rctrl g)"

definition get_global_test_mem_pa :: "usize \<Rightarrow> 'd kstate \<Rightarrow> u64 option" where
  "get_global_test_mem_pa idx g = wrapped idx (ks_mem_pa g)"

definition get_rpc_client :: "usize \<Rightarrow> 'd kstate \<Rightarrow> EndPoint option" where
  "get_rpc_client idx g = wrapped idx (ks_rpc_clients g)"

definition get_bind_ctrl :: "usize \<Rightarrow> 'd kstate \<Rightarrow> RCtrl option" where
  "get_bind_ctrl port g = get_global_rctrl (port * 2) g"

text \<open>The lookups return references: a changed controller is put back where it was.\<close>

definition put_global_rctrl :: "usize \<Rightarrow> RCtrl \<Rightarrow> 'd kstate \<Rightarrow> 'd kstate" where
  "put_global_rctrl idx r g = g \<lparr> ks_rctrl := (ks_rctrl g)[idx mod length (ks_rctrl g) := r] \<rparr>"

definition get_remote_dc_meta :: "string \<Rightarrow> 'd kstate \<Rightarrow> EndPoint option" where
  "get_remote_dc_meta gid g = map_of (ks_meta_info g) gid"

definition put_remote_dc_meta :: "'d senv \<Rightarrow> string \<Rightarrow> EndPoint \<Rightarrow> 'd kstate \<Rightarrow> 'd kstate" where
  "put_remote_dc_meta e gid point g =
     (let g' = g \<lparr> ks_meta_info := AList.update gid (sv_self_clone e point) (ks_meta_info g) \<rparr> in
      case get_remote_dc_meta gid g of
        None \<Rightarrow> g'
      | Some old \<Rightarrow> g' \<lparr> ks_drv := EndPoint_drop (kn_verbs (sv_kenv e)) old (ks_drv g) \<rparr>)"

definition evict_remote_dc_meta :: "'d senv \<Rightarrow> string \<Rightarrow> 'd kstate \<Rightarrow> 'd kstate" where
  "evict_remote_dc_meta e gid g =
     (let g' = g \<lparr> ks_meta_info := AList.delete gid (ks_meta_info g) \<rparr> in
      case get_remote_dc_meta gid g of
        None \<Rightarrow> g'
      | Some old \<Rightarrow> g' \<lparr> ks_drv := EndPoint_drop (kn_verbs (sv_kenv e)) old (ks_drv g) \<rparr>)"

section \<open>GIDs\<close>

text \<open>\<open>str_to_gid\<close> unwraps the parsed address.\<close>

definition str_to_gid :: "string \<Rightarrow> ib_gid option" where
  "str_to_gid addr = (case Guid_from_str addr of Ok g \<Rightarrow> Some (Guid_get_raw g) | Err _ \<Rightarrow> None)"

definition gid_to_str :: "ib_gid \<Rightarrow> string" where
  "gid_to_str gid = Guid_fmt (Guid_new_u8 gid)"

section \<open>Connecting\<close>

text \<open>A failed handshake drops the new connection; a failed creation is not an error.\<close>

definition qp_connect ::
  "'d senv \<Rightarrow> usize \<Rightarrow> usize \<Rightarrow> sa_path_rec \<Rightarrow> 'd kstate \<Rightarrow> ((KRC option, Error) result \<times> 'd kstate) option"
where
  "qp_connect e vid port path_rec g =
     (let v = kn_verbs (sv_kenv e); c = kn_cm (sv_kenv e) in do {
        ctrl \<leftarrow> get_global_rctrl port g;
        (rc, d) \<leftarrow> KRC_new_with_srq v c (KConfig_default (kn_random (sv_kenv e))) 0 0 (get_recv_cq ctrl) (ks_drv g);
        case rc of
          None \<Rightarrow> Some (Ok None, g \<lparr> ks_drv := d \<rparr>)
        | Some qp \<Rightarrow> do {
            (res, qp, d) \<leftarrow> rc_connect v c qp (word_of_nat vid) path_rec (word_of_nat port) d;
            (case res of
               Ok _ \<Rightarrow> Some (Ok (Some qp), g \<lparr> ks_drv := d \<rparr>)
             | Err er \<Rightarrow> do { d \<leftarrow> KRC_drop v c qp d; Some (Err er, g \<lparr> ks_drv := d \<rparr>) })
          }
      })"

section \<open>Receive buffers\<close>

definition core_post_recv ::
  "'d senv \<Rightarrow> usize \<Rightarrow> usize \<Rightarrow> usize \<Rightarrow> 'd kstate \<Rightarrow> (reply_status \<times> 'd kstate) option"
where
  "core_post_recv e core_id post_cnt vid g = do {
     ctrl \<leftarrow> get_global_rctrl core_id g;
     rc \<leftarrow> get_trc vid ctrl;
     (res, ctrl, d) \<leftarrow> ctrl_post_recvs (sv_kenv e) (krc_qp rc) post_cnt ctrl (ks_drv g);
     Some (if is_ok res then rep_ok else rep_err, (put_global_rctrl core_id ctrl g) \<lparr> ks_drv := d \<rparr>)
   }"

text \<open>\<open>pop_recv\<close> unwraps the result of the poll; it returns the completion array, to which
  the source has a pointer, and the number of new completions.\<close>

definition pop_recv ::
  "'d senv \<Rightarrow> usize \<Rightarrow> usize \<Rightarrow> usize \<Rightarrow> 'd kstate \<Rightarrow> ((kwc list \<times> usize) \<times> 'd kstate) option"
where
  "pop_recv e core_id pop_cnt offset g = do {
     ctrl \<leftarrow> get_global_rctrl core_id g;
     h \<leftarrow> rl_recv_buffer ctrl;
     (res, h, d) \<leftarrow> pop_recvs (kn_ib (sv_kenv e)) h (get_recv_cq ctrl) pop_cnt offset (ks_drv g);
     (case res of
        Err _ \<Rightarrow> None
      | Ok n \<Rightarrow> Some ((rh_wcs h, n), (put_global_rctrl core_id (ctrl \<lparr> rl_recv_buffer := Some h \<rparr>) g) \<lparr> ks_drv := d \<rparr>))
   }"

section \<open>Completions to the user\<close>

text \<open>One completion: its message is copied behind itself, and the completion to its slot
  of the reply.\<close>

definition copy_wc ::
  "'d senv \<Rightarrow> u64 \<Rightarrow> u32 \<Rightarrow> nat \<Rightarrow> kwc \<Rightarrow> 'd \<Rightarrow> 'd option"
where
  "copy_wc e reply_buf payload_sz i wc d = do {
     dst \<leftarrow> add64 (wc_wr_id wc) (ucast payload_sz);
     a \<leftarrow> add64 reply_buf (word_of_nat reply_sz);
     slot \<leftarrow> add64 a (word_of_nat (i * user_wc_sz));
     Some (snd (sv_to_user e slot (enc_user_wc wc) (sv_memcpy e dst (wc_wr_id wc) (ucast payload_sz) d)))
   }"

fun copy_wcs ::
  "'d senv \<Rightarrow> u64 \<Rightarrow> u32 \<Rightarrow> nat \<Rightarrow> kwc list \<Rightarrow> 'd \<Rightarrow> 'd option"
where
  "copy_wcs e reply_buf payload_sz i [] d = Some d"
| "copy_wcs e reply_buf payload_sz i (wc # wcs) d =
     Option.bind (copy_wc e reply_buf payload_sz i wc d) (copy_wcs e reply_buf payload_sz (Suc i) wcs)"

definition handle_pop_ret ::
  "'d senv \<Rightarrow> kwc list option \<Rightarrow> req_t \<Rightarrow> usize \<Rightarrow> u32 \<Rightarrow> 'd kstate \<Rightarrow> (reply_status \<times> 'd kstate) option"
where
  "handle_pop_ret e pop_ret req wc_len payload_sz g =
     (case pop_ret of
        None \<Rightarrow> Some (rep_nil, g)
      | Some wcs \<Rightarrow>
          if length wcs < wc_len then None
          else do {
            d \<leftarrow> copy_wcs e (rt_reply_buf req) payload_sz 0 (take wc_len wcs) (ks_drv g);
            a \<leftarrow> add64 (rt_reply_buf req) (word_of_nat reply_sz);
            cnt \<leftarrow> add64 a (word_of_nat (pop_wc_len * user_wc_sz));
            Some (rep_ok, g \<lparr> ks_drv := snd (sv_to_user e cnt (bytes32 (word_of_nat wc_len)) d) \<rparr>)
          })"

section \<open>Caches of a virtual queue\<close>

record RCConnectParam =
  cp_vid :: usize
  cp_port :: usize
  cp_path :: sa_path_rec

record LocalCache =
  lc_path_rec_cache :: "(string \<times> sa_path_rec) list"
  lc_dct_meta_cache :: "(string \<times> DCTargetMeta) list"
  lc_local_mr :: "TempMR option"
  lc_cached_client_endpoint :: "(usize \<times> EndPoint) list"
  lc_remote_endpoint :: "EndPoint option"

definition LocalCache_default :: "'d senv \<Rightarrow> 'd kstate \<Rightarrow> LocalCache option" where
  "LocalCache_default e g = do {
     pa \<leftarrow> get_global_test_mem_pa 0 g;
     ctx \<leftarrow> get_global_rcontext 0 g;
     Some \<lparr> lc_path_rec_cache = [], lc_dct_meta_cache = [],
            lc_local_mr = Some (TempMR_new pa (word_of_nat MAX_KMALLOC_SZ)
                                 (rc_get_lkey (kn_verbs (sv_kenv e)) ctx (ks_drv g))),
            lc_cached_client_endpoint = [], lc_remote_endpoint = None \<rparr>
   }"

end
