(* ===== verification/Virtual_Queue.thy ===== *)
theory Virtual_Queue
  imports Syscall_Core
begin

text \<open>
  The virtual queue behind a file descriptor (\<open>KRdmaKit-syscall/src/virtual_queue.rs\<close>)
  with every command of \<open>ioctrl\<close>, and the background thread that replaces the
  dynamically connected transport by a reliable connection (\<open>core.rs\<close>).  A system
  call runs to its end before the next one; the thread's two accesses to the queue
  are steps of their own.
\<close>

section \<open>State\<close>

text \<open>\<open>vq_threads\<close> is the number of background threads started on the queue.\<close>

record VQ =
  vq_virtual_queue :: "KRC option"
  vq_local_dc :: "KDC option"
  vq_local_ud :: "KUD option"
  vq_rc_connect_param :: "RCConnectParam option"
  vq_local_cache :: LocalCache
  vq_bind_port :: "usize option"
  vq_local_connect_port :: "usize option"
  vq_put_ud_info :: bool
  vq_threads :: nat

type_synonym 'd vq_result = "(reply_status \<times> VQ \<times> 'd kstate) option"

definition vq_open :: "'d senv \<Rightarrow> 'd kstate \<Rightarrow> VQ option" where
  "vq_open e g = do {
     cache \<leftarrow> LocalCache_default e g;
     Some \<lparr> vq_virtual_queue = None, vq_local_dc = None, vq_local_ud = None, vq_rc_connect_param = None,
            vq_local_cache = cache, vq_bind_port = None, vq_local_connect_port = None, vq_put_ud_info = False,
            vq_threads = 0 \<rparr>
   }"

definition is_bind_mode :: "VQ \<Rightarrow> bool" where
  "is_bind_mode q \<longleftrightarrow> vq_bind_port q \<noteq> None"

definition is_rc_connected :: "VQ \<Rightarrow> bool" where
  "is_rc_connected q \<longleftrightarrow> vq_virtual_queue q \<noteq> None"

text \<open>The outer option is the panic of the lookup, the inner one the result.\<close>

definition vq_get_bind_ctrl :: "VQ \<Rightarrow> 'd kstate \<Rightarrow> RCtrl option option" where
  "vq_get_bind_ctrl q g =
     (case vq_bind_port q of None \<Rightarrow> Some None | Some port \<Rightarrow> map_option Some (get_bind_ctrl port g))"

definition get_bind_ctrl_unsafe :: "VQ \<Rightarrow> 'd kstate \<Rightarrow> RCtrl option" where
  "get_bind_ctrl_unsafe q g = Option.bind (vq_bind_port q) (\<lambda>port. get_bind_ctrl port g)"

definition check_bind :: "VQ \<Rightarrow> usize \<Rightarrow> 'd kstate \<Rightarrow> bool option" where
  "check_bind q vid g =
     map_option (\<lambda>ctrl. case ctrl of None \<Rightarrow> False | Some ctrl \<Rightarrow> get_trc vid ctrl \<noteq> None) (vq_get_bind_ctrl q g)"

section \<open>Caches\<close>

definition get_path_rec_cache :: "VQ \<Rightarrow> string \<Rightarrow> sa_path_rec option" where
  "get_path_rec_cache q k = map_of (lc_path_rec_cache (vq_local_cache q)) k"

definition update_path_rec_cache :: "string \<Rightarrow> sa_path_rec \<Rightarrow> VQ \<Rightarrow> VQ" where
  "update_path_rec_cache k p q =
     q \<lparr> vq_local_cache := (vq_local_cache q)
          \<lparr> lc_path_rec_cache := AList.update k p (lc_path_rec_cache (vq_local_cache q)) \<rparr> \<rparr>"

definition get_dct_meta_cache :: "VQ \<Rightarrow> string \<Rightarrow> DCTargetMeta option" where
  "get_dct_meta_cache q k = map_of (lc_dct_meta_cache (vq_local_cache q)) k"

definition update_dct_meta_cache :: "string \<Rightarrow> DCTargetMeta \<Rightarrow> VQ \<Rightarrow> VQ" where
  "update_dct_meta_cache k m q =
     q \<lparr> vq_local_cache := (vq_local_cache q)
          \<lparr> lc_dct_meta_cache := AList.update k m (lc_dct_meta_cache (vq_local_cache q)) \<rparr> \<rparr>"

definition get_client_endpoint_cache :: "VQ \<Rightarrow> usize \<Rightarrow> EndPoint option" where
  "get_client_endpoint_cache q k = map_of (lc_cached_client_endpoint (vq_local_cache q)) k"

text \<open>The end point is read from the message at the address \<open>point\<close>; it gets an address
  handle of its own.\<close>

definition update_client_endpoint_cache ::
  "'d senv \<Rightarrow> usize \<Rightarrow> RContext \<Rightarrow> u64 \<Rightarrow> VQ \<Rightarrow> 'd \<Rightarrow> VQ \<times> 'd"
where
  "update_client_endpoint_cache e k ctx point q d =
     (let p = sv_endpoint e point d; v = kn_verbs (sv_kenv e);
          (ep, d) = EndPoint_new v (rc_pd ctx) (en_qpn p) (en_qkey p) (en_lid p) (en_gid p) (en_dct_num p) (en_mr p) d;
          d = (case get_client_endpoint_cache q k of None \<Rightarrow> d | Some old \<Rightarrow> EndPoint_drop v old d) in
      (q \<lparr> vq_local_cache := (vq_local_cache q)
           \<lparr> lc_cached_client_endpoint := AList.update k ep (lc_cached_client_endpoint (vq_local_cache q)) \<rparr> \<rparr>, d))"

text \<open>The result is always \<open>Ok\<close>: a path that cannot be found is unwrapped.\<close>

definition vq_explore_path ::
  "'d senv \<Rightarrow> usize \<Rightarrow> string \<Rightarrow> VQ \<Rightarrow> 'd kstate \<Rightarrow> (sa_path_rec \<times> VQ \<times> 'd kstate) option"
where
  "vq_explore_path e port addr q g =
     (case get_path_rec_cache q addr of
        Some p \<Rightarrow> Some (p, q, g)
      | None \<Rightarrow> do {
          ctrl \<leftarrow> get_global_rctrl port g;
          (let (ret, d) = sv_explore_path e (rl_context ctrl) addr (word_of_nat port) (ks_drv g) in do {
             p \<leftarrow> ret;
             Some (p, update_path_rec_cache addr p q, g \<lparr> ks_drv := d \<rparr>)
           })
        })"

section \<open>Connecting\<close>

text \<open>The entries of the meta server's table, which was read to \<open>base\<close>.\<close>

fun find_entry ::
  "'d senv \<Rightarrow> ib_gid \<Rightarrow> u64 \<Rightarrow> u64 \<Rightarrow> nat \<Rightarrow> 'd \<Rightarrow> EndPoint option option"
where
  "find_entry e target base i 0 d = Some None"
| "find_entry e target base i (Suc n) d = do {
     off \<leftarrow> mul64 i (sv_endpoint_sz e);
     va \<leftarrow> add64 base off;
     if va = 0 then None
     else if sv_gid_eq e (en_gid (sv_endpoint e va d)) target then Some (Some (sv_self_clone e (sv_endpoint e va d)))
     else find_entry e target base (i + 1) n d
   }"

text \<open>A read into the test memory, with its completion; the result is ignored.\<close>

definition dc_read_ignored ::
  "'d senv \<Rightarrow> KDC \<Rightarrow> u64 \<Rightarrow> u32 \<Rightarrow> usize \<Rightarrow> u64 \<Rightarrow> u32 \<Rightarrow> EndPoint \<Rightarrow> 'd \<Rightarrow> 'd"
where
  "dc_read_ignored e dc laddr lkey sz raddr rkey point d =
     (let b = kn_ib (sv_kenv e) in
      case dc_push b dc IB_WR_RDMA_READ laddr lkey sz raddr rkey point {IB_SEND_SIGNALED} d of
        (Err _, d) \<Rightarrow> d
      | (Ok _, d) \<Rightarrow> snd (dc_wait_til_comp b dc d))"

definition query_dct_meta ::
  "'d senv \<Rightarrow> string \<Rightarrow> VQ \<Rightarrow> 'd kstate \<Rightarrow> (EndPoint option \<times> 'd kstate) option"
where
  "query_dct_meta e remote_gid q g = do {
     meta_point \<leftarrow> get_remote_dc_meta (sv_meta_server_gid e) g;
     dc \<leftarrow> vq_local_dc q;
     local_mr \<leftarrow> lc_local_mr (vq_local_cache q);
     (let lkey = tm_rkey local_mr; rkey = tm_rkey (en_mr meta_point); pa = tm_addr local_mr;
          remote_pa = ks_meta_kv_pa g;
          d = dc_read_ignored e dc pa lkey 8 remote_pa rkey meta_point (ks_drv g) in do {
        remote_base \<leftarrow> add64 remote_pa 8;
        local_base \<leftarrow> add64 pa 8;
        entries \<leftarrow> Some (sv_u64 e (kn_pa_to_va (sv_kenv e) pa) d);
        read_len \<leftarrow> mul64 entries (sv_endpoint_sz e);
        d \<leftarrow> Some (dc_read_ignored e dc local_base lkey (unat read_len) remote_base rkey meta_point d);
        target \<leftarrow> str_to_gid remote_gid;
        found \<leftarrow> find_entry e target (kn_pa_to_va (sv_kenv e) local_base) 0 (unat entries) d;
        Some (found, g \<lparr> ks_drv := d \<rparr>)
      })
   }"

text \<open>Resolving the remote end point by a datagram query; None in the result is the error
  reply.  The resolver is dropped in every case.\<close>

definition sidr_resolve ::
  "'d senv \<Rightarrow> RContext \<Rightarrow> usize \<Rightarrow> string \<Rightarrow> VQ \<Rightarrow> 'd kstate \<Rightarrow> (EndPoint option \<times> VQ \<times> 'd kstate) option"
where
  "sidr_resolve e ctx port addr q g = do {
     (path, q, g) \<leftarrow> vq_explore_path e port addr q g;
     (let v = kn_verbs (sv_kenv e); c = kn_cm (sv_kenv e); (sidr, d) = SidrCM_new c ctx 0 (ks_drv g) in do {
        sidr \<leftarrow> sidr;
        (let (res, sidr, d) = sidr_connect v c sidr path (word_of_nat port) (word_of_nat DEFAULT_RPC_HINT) d;
             d = SidrCM_drop v c sidr d in
         Some (case res of Ok p \<Rightarrow> Some p | Err _ \<Rightarrow> None, q, g \<lparr> ks_drv := d \<rparr>))
      })
   }"

text \<open>The tail of the DC connection: the resolved end point is stored with an address
  handle of its own, then dropped.\<close>

definition connect_point ::
  "'d senv \<Rightarrow> RContext \<Rightarrow> string \<Rightarrow> EndPoint \<Rightarrow> VQ \<Rightarrow> 'd kstate \<Rightarrow> VQ \<times> 'd kstate"
where
  "connect_point e ctx cache_k point q g =
     (let v = kn_verbs (sv_kenv e);
          meta = \<lparr> dm_dct_num = en_dct_num point, dm_lid = en_lid point, dm_gid = en_gid point, dm_mr = en_mr point \<rparr>;
          (ep, d) = EndPoint_new v (rc_pd ctx) (en_qpn point) (en_qkey point) (en_lid point) (en_gid point)
                      (en_dct_num point) (en_mr point) (ks_drv g);
          d = (case lc_remote_endpoint (vq_local_cache q) of None \<Rightarrow> d | Some old \<Rightarrow> EndPoint_drop v old d);
          q = q \<lparr> vq_local_cache := (vq_local_cache q) \<lparr> lc_remote_endpoint := Some ep \<rparr> \<rparr>;
          q = (if ft_meta_cache (sv_feat e) then update_dct_meta_cache cache_k meta q else q) in
      (q, g \<lparr> ks_drv := EndPoint_drop v point d \<rparr>))"

definition start_migration ::
  "'d senv \<Rightarrow> usize \<Rightarrow> string \<Rightarrow> usize \<Rightarrow> VQ \<Rightarrow> 'd kstate \<Rightarrow> (VQ \<times> 'd kstate) option"
where
  "start_migration e port addr vid q g =
     (if ft_migrate_qp (sv_feat e) then do {
        (path, q, g) \<leftarrow> vq_explore_path e port addr q g;
        Some (q \<lparr> vq_rc_connect_param := Some \<lparr> cp_vid = vid, cp_port = port, cp_path = path \<rparr>,
                  vq_threads := vq_threads q + 1 \<rparr>, g)
      }
      else Some (q, g))"

definition connect_dc ::
  "'d senv \<Rightarrow> RCtrl \<Rightarrow> string \<Rightarrow> usize \<Rightarrow> usize \<Rightarrow> VQ \<Rightarrow> 'd kstate \<Rightarrow> 'd vq_result"
where
  "connect_dc e ctrl addr port vid q g =
     (let cache_k = addr @ fmt_radix 10 port in
      if get_dct_meta_cache q cache_k \<noteq> None then Some (rep_ok, q, g)
      else do {
        (q, g) \<leftarrow> start_migration e port addr vid q g;
        (point, g) \<leftarrow> (if ft_meta_kv (sv_feat e) then query_dct_meta e addr q g else Some (None, g));
        (point, q, g) \<leftarrow>
          (if point = None then sidr_resolve e (rl_context ctrl) port addr q g else Some (point, q, g));
        (case point of
           None \<Rightarrow> Some (rep_err, q, g)
         | Some point \<Rightarrow> Some (rep_ok, connect_point e (rl_context ctrl) cache_k point q g))
      })"

definition connect_rc ::
  "'d senv \<Rightarrow> string \<Rightarrow> usize \<Rightarrow> usize \<Rightarrow> VQ \<Rightarrow> 'd kstate \<Rightarrow> 'd vq_result"
where
  "connect_rc e addr port vid q g = do {
     (path, q, g) \<leftarrow> vq_explore_path e port addr q g;
     (res, g) \<leftarrow> qp_connect e vid port path g;
     (case res of
        Err _ \<Rightarrow> Some (rep_err, q, g)
      | Ok qp \<Rightarrow>
          if ft_virtual_queue (sv_feat e) then Some (rep_ok, q \<lparr> vq_virtual_queue := qp \<rparr>, g)
          else case qp of
            None \<Rightarrow> Some (rep_ok, q, g)
          | Some rc \<Rightarrow> do {
              d \<leftarrow> KRC_drop (kn_verbs (sv_kenv e)) (kn_cm (sv_kenv e)) rc (ks_drv g);
              Some (rep_ok, q, g \<lparr> ks_drv := d \<rparr>)
            })
   }"

definition connect_impl ::
  "'d senv \<Rightarrow> string \<Rightarrow> usize \<Rightarrow> usize \<Rightarrow> VQ \<Rightarrow> 'd kstate \<Rightarrow> 'd vq_result"
where
  "connect_impl e addr port vid q g =
     (if vq_virtual_queue q \<noteq> None then Some (rep_already_connected, q, g)
      else if \<not> is_ok (Guid_from_str addr) then Some (rep_addr_error, q, g)
      else do {
        ctrl \<leftarrow> get_global_rctrl port g;
        (let v = kn_verbs (sv_kenv e);
             mr = TempMR_new (tm_addr (get_self_test_mr v ctrl (ks_drv g))) (word_of_nat MAX_KMALLOC_SZ)
                    (rc_get_lkey v (rl_context ctrl) (ks_drv g));
             q = q \<lparr> vq_local_cache := (vq_local_cache q) \<lparr> lc_local_mr := Some mr \<rparr>,
                     vq_local_connect_port := Some port \<rparr>;
             q = (if vq_local_dc q = None
                  then q \<lparr> vq_local_dc := rl_dc ctrl, vq_local_ud := get_ud DEFAULT_RPC_HINT ctrl \<rparr> else q) in
         if ft_dct_qp (sv_feat e) then connect_dc e ctrl addr port vid q g
         else connect_rc e addr port vid q g)
      })"

section \<open>Receiving\<close>

definition push_recv_impl :: "'d senv \<Rightarrow> usize \<Rightarrow> VQ \<Rightarrow> 'd kstate \<Rightarrow> (reply_status \<times> 'd kstate) option" where
  "push_recv_impl e push_cnt q g =
     (case vq_bind_port q of
        Some port \<Rightarrow> do {
          bound \<leftarrow> check_bind q 1 g;
          if \<not> bound then Some (rep_not_connected, g) else core_post_recv e (port * 2) push_cnt 1 g
        }
      | None \<Rightarrow>
          (case vq_local_connect_port q of
             None \<Rightarrow> Some (rep_not_connected, g)
           | Some port \<Rightarrow> do {
               ctrl \<leftarrow> get_global_rctrl port g;
               qp \<leftarrow> (case vq_virtual_queue q of Some rc \<Rightarrow> Some (krc_qp rc) | None \<Rightarrow> map_option kud_qp (vq_local_ud q));
               (res, ctrl, d) \<leftarrow> ctrl_post_recvs (sv_kenv e) qp push_cnt ctrl (ks_drv g);
               Some (if is_ok res then rep_ok else rep_err, (put_global_rctrl port ctrl g) \<lparr> ks_drv := d \<rparr>)
             }))"

text \<open>One round of \<open>pop_msg_impl\<close> for a queue that is not bound.\<close>

definition pop_round ::
  "'d senv \<Rightarrow> VQ \<Rightarrow> usize \<Rightarrow> 'd kstate \<Rightarrow> ((kwc list option \<times> usize) \<times> 'd kstate) option"
where
  "pop_round e q act_pop_cnt g =
     (case vq_local_connect_port q of
        None \<Rightarrow> Some ((None, 0), g)
      | Some port \<Rightarrow> map_option (\<lambda>((wcs, n), g). ((Some wcs, n), g)) (pop_recv e port 2048 act_pop_cnt g))"

function pop_msg_loop ::
  "'d senv \<Rightarrow> VQ \<Rightarrow> req_t \<Rightarrow> u32 \<Rightarrow> u32 \<Rightarrow> nat \<Rightarrow> usize \<Rightarrow> 'd kstate \<Rightarrow> (reply_status \<times> 'd kstate) option"
where
  "pop_msg_loop e q req least_pop_cnt payload_sz retry act_pop_cnt g =
     (case pop_round e q act_pop_cnt g of
        None \<Rightarrow> None
      | Some ((pop_ret, pop_cnt), g) \<Rightarrow>
          if unat least_pop_cnt \<le> act_pop_cnt + pop_cnt \<or> 50000 < retry
          then handle_pop_ret e pop_ret req (act_pop_cnt + pop_cnt) payload_sz g
          else pop_msg_loop e q req least_pop_cnt payload_sz (retry + 1) (act_pop_cnt + pop_cnt) g)"
  by pat_completeness auto
termination
  by (relation "measure (\<lambda>(e, q, req, l, p, retry, a, g). 50001 - retry)") auto

declare pop_msg_loop.simps [simp del]

definition pop_msg_impl ::
  "'d senv \<Rightarrow> req_t \<Rightarrow> u32 \<Rightarrow> u32 \<Rightarrow> VQ \<Rightarrow> 'd kstate \<Rightarrow> (reply_status \<times> 'd kstate) option"
where
  "pop_msg_impl e req least_pop_cnt payload_sz q g =
     (case vq_bind_port q of
        Some port \<Rightarrow> do {
          ((wcs, n), g) \<leftarrow> pop_recv e (2 * port) 2048 0 g;
          handle_pop_ret e (Some wcs) req n payload_sz g
        }
      | None \<Rightarrow> pop_msg_loop e q req least_pop_cnt payload_sz 0 0 g)"

text \<open>The completion of a send.  A connected queue first asks the DC queue pair, for which
  \<open>get_dc\<close> unwraps.\<close>

definition pop_send :: "'d senv \<Rightarrow> usize \<Rightarrow> VQ \<Rightarrow> 'd kstate \<Rightarrow> (kwc option \<times> 'd) option" where
  "pop_send e vid q g =
     (let b = kn_ib (sv_kenv e) in
      if is_bind_mode q then do {
        bound \<leftarrow> check_bind q vid g;
        if \<not> bound then Some (None, ks_drv g)
        else do { ctrl \<leftarrow> get_bind_ctrl_unsafe q g; rc \<leftarrow> get_trc vid ctrl; Some (rc_pop b rc (ks_drv g)) }
      }
      else do {
        (res, d) \<leftarrow> (if ft_dct_qp (sv_feat e) then map_option (\<lambda>dc. dc_pop b dc (ks_drv g)) (vq_local_dc q)
                    else Some (None, ks_drv g));
        Some (case (res, vq_virtual_queue q) of
                (Some wc, _) \<Rightarrow> (Some wc, d)
              | (None, Some rc) \<Rightarrow> rc_pop b rc d
              | (None, None) \<Rightarrow> (None, d))
      })"

definition pop_impl ::
  "'d senv \<Rightarrow> req_t \<Rightarrow> usize \<Rightarrow> VQ \<Rightarrow> 'd kstate \<Rightarrow> (reply_status \<times> 'd kstate) option"
where
  "pop_impl e req vid q g = do {
     (wc, d) \<leftarrow> pop_send e vid q g;
     handle_pop_ret e (map_option (\<lambda>wc. [wc]) wc) req 1 0 (g \<lparr> ks_drv := d \<rparr>)
   }"

section \<open>Sending\<close>

text \<open>The common parameters of a request: opcode, local address, remote address and flags.
  A short write is sent inline, from its virtual address.\<close>

definition is_inline :: "core_req_t \<Rightarrow> ib_wr_opcode \<Rightarrow> bool" where
  "is_inline req op \<longleftrightarrow> unat (cq_length req) < 64 \<and> (op = IB_WR_RDMA_WRITE \<or> op = IB_WR_RDMA_WRITE_WITH_IMM)"

definition req_flags :: "core_req_t \<Rightarrow> ib_wr_opcode \<Rightarrow> ib_send_flags set" where
  "req_flags req op =
     (if is_inline req op then {IB_SEND_INLINE} else {}) \<union> (if cq_send_flags req = 0 then {} else {IB_SEND_SIGNALED})"

definition req_params ::
  "'d senv \<Rightarrow> u64 \<Rightarrow> u64 \<Rightarrow> core_req_t \<Rightarrow> (ib_wr_opcode \<times> u64 \<times> u64 \<times> ib_send_flags set) option"
where
  "req_params e local_pa remote_base req = do {
     laddr \<leftarrow> add64 local_pa (cq_addr req);
     raddr \<leftarrow> add64 (cq_remote_addr req) remote_base;
     op \<leftarrow> op_code_table (cq_type req);
     Some (op, if is_inline req op then kn_pa_to_va (sv_kenv e) laddr else laddr, raddr, req_flags req op)
   }"

fun rc_push_loop ::
  "'d senv \<Rightarrow> KRC \<Rightarrow> TempMR \<Rightarrow> TempMR \<Rightarrow> core_req_t list \<Rightarrow> 'd \<Rightarrow> (reply_status \<times> 'd) option"
where
  "rc_push_loop e rc local_mr remote_mr [] d = Some (rep_ok, d)"
| "rc_push_loop e rc local_mr remote_mr (req # reqs) d = do {
     (op, laddr, raddr, flags) \<leftarrow> req_params e (tm_addr local_mr) (tm_addr remote_mr) req;
     (case rc_push_with_imm (kn_ib (sv_kenv e)) rc op laddr (tm_rkey local_mr) (unat (cq_length req)) raddr
             (tm_rkey remote_mr) (cq_vid req) flags d of
        (Err _, d) \<Rightarrow> Some (rep_err, d)
      | (Ok _, d) \<Rightarrow> rc_push_loop e rc local_mr remote_mr reqs d)
   }"

definition rc_push_impl :: "'d senv \<Rightarrow> core_req_t list \<Rightarrow> VQ \<Rightarrow> 'd kstate \<Rightarrow> (reply_status \<times> 'd kstate) option" where
  "rc_push_impl e reqs q g =
     (case vq_virtual_queue q of
        None \<Rightarrow> Some (rep_nil, g)
      | Some rc \<Rightarrow> do {
          local_mr \<leftarrow> lc_local_mr (vq_local_cache q);
          remote_mr \<leftarrow> krc_remote_mr rc;
          (res, d) \<leftarrow> rc_push_loop e rc local_mr remote_mr reqs (ks_drv g);
          Some (res, g \<lparr> ks_drv := d \<rparr>)
        })"

fun dc_push_loop ::
  "'d senv \<Rightarrow> KDC \<Rightarrow> TempMR \<Rightarrow> EndPoint \<Rightarrow> core_req_t list \<Rightarrow> 'd \<Rightarrow> (reply_status \<times> 'd) option"
where
  "dc_push_loop e dc local_mr point [] d = Some (rep_ok, d)"
| "dc_push_loop e dc local_mr point (req # reqs) d = do {
     (op, laddr, raddr, flags) \<leftarrow> req_params e (tm_addr local_mr) (tm_addr (en_mr point)) req;
     (case dc_push (kn_ib (sv_kenv e)) dc op laddr (tm_rkey local_mr) (unat (cq_length req)) raddr
             (tm_rkey (en_mr point)) point flags d of
        (Err _, d) \<Rightarrow> Some (rep_err, d)
      | (Ok _, d) \<Rightarrow> dc_push_loop e dc local_mr point reqs d)
   }"

definition dc_push_impl :: "'d senv \<Rightarrow> core_req_t list \<Rightarrow> VQ \<Rightarrow> 'd kstate \<Rightarrow> (reply_status \<times> 'd kstate) option" where
  "dc_push_impl e reqs q g = do {
     local_mr \<leftarrow> lc_local_mr (vq_local_cache q);
     (case vq_local_dc q of
        None \<Rightarrow> Some (rep_nil, g)
      | Some dc \<Rightarrow> do {
          point \<leftarrow> lc_remote_endpoint (vq_local_cache q);
          (res, d) \<leftarrow> dc_push_loop e dc local_mr point reqs (ks_drv g);
          Some (res, g \<lparr> ks_drv := d \<rparr>)
        })
   }"

subsection \<open>Replies of a bound queue\<close>

definition HOST_LEN :: nat where "HOST_LEN = 12"

text \<open>The two counters: requests sent by datagram and by connection, per virtual
  identifier.\<close>

record pop_cnts =
  pn_ud :: "nat list"
  pn_rc :: "nat list"

definition pop_cnts_zero :: pop_cnts where
  "pop_cnts_zero = \<lparr> pn_ud = replicate HOST_LEN 0, pn_rc = replicate HOST_LEN 0 \<rparr>"

definition first_signaled :: "nat \<Rightarrow> ib_send_flags set" where
  "first_signaled n = (if n = 0 then {IB_SEND_SIGNALED} else {})"

text \<open>A reply to a client without a connection: its end point is taken from the cache, or
  read from the message that the request names.\<close>

definition bind_push_ud ::
  "'d senv \<Rightarrow> RCtrl \<Rightarrow> TempMR \<Rightarrow> usize \<Rightarrow> core_req_t \<Rightarrow> VQ \<Rightarrow> pop_cnts \<Rightarrow> 'd kstate
     \<Rightarrow> ((unit, Error) result \<times> VQ \<times> pop_cnts \<times> 'd kstate) option"
where
  "bind_push_ud e ctrl local_mr vid req q n g = do {
     wr_id \<leftarrow> add64 (cq_remote_addr req) UD_HEADER_SZ;
     (let (q, d) = (case get_client_endpoint_cache q vid of
                      Some _ \<Rightarrow> (q, ks_drv g)
                    | None \<Rightarrow> update_client_endpoint_cache e vid (rl_context ctrl) wr_id q (ks_drv g)) in do {
        endpoint \<leftarrow> get_client_endpoint_cache q vid;
        ud \<leftarrow> get_ud DEFAULT_RPC_HINT ctrl;
        op \<leftarrow> op_code_table (cq_type req);
        (let (res, d) = ud_push (kn_ib (sv_kenv e)) ud op (tm_addr local_mr) (tm_rkey local_mr) endpoint 0 0
                          (first_signaled (pn_ud n ! vid)) d in
         Some (res, q, n \<lparr> pn_ud := (pn_ud n)[vid := pn_ud n ! vid + 1] \<rparr>, g \<lparr> ks_drv := d \<rparr>))
      })
   }"

definition bind_push_rc ::
  "'d senv \<Rightarrow> RCtrl \<Rightarrow> TempMR \<Rightarrow> usize \<Rightarrow> core_req_t \<Rightarrow> VQ \<Rightarrow> pop_cnts \<Rightarrow> 'd kstate
     \<Rightarrow> ((unit, Error) result \<times> VQ \<times> pop_cnts \<times> 'd kstate) option"
where
  "bind_push_rc e ctrl local_mr vid req q n g = do {
     rc \<leftarrow> get_trc vid ctrl;
     laddr \<leftarrow> add64 (tm_addr local_mr) (cq_addr req);
     raddr \<leftarrow> add64 (cq_remote_addr req) (tm_addr local_mr);
     op \<leftarrow> op_code_table (cq_type req);
     (let (res, d) = rc_push_with_imm (kn_ib (sv_kenv e)) rc op laddr (tm_rkey local_mr) (unat (cq_length req)) raddr
                       (rc_get_rkey (kn_verbs (sv_kenv e)) (rl_context ctrl) (ks_drv g)) (word_of_nat vid)
                       (first_signaled (pn_rc n ! vid)) (ks_drv g) in
      Some (res, q, n \<lparr> pn_rc := (pn_rc n)[vid := pn_rc n ! vid + 1] \<rparr>, g \<lparr> ks_drv := d \<rparr>))
   }"

fun bind_push_loop ::
  "'d senv \<Rightarrow> RCtrl \<Rightarrow> TempMR \<Rightarrow> core_req_t list \<Rightarrow> VQ \<Rightarrow> pop_cnts \<Rightarrow> 'd kstate
     \<Rightarrow> (reply_status \<times> VQ \<times> pop_cnts \<times> 'd kstate) option"
where
  "bind_push_loop e ctrl local_mr [] q n g = Some (rep_ok, q, n, g)"
| "bind_push_loop e ctrl local_mr (req # reqs) q n g = do {
     vid \<leftarrow> Some (unat (cq_vid req) mod HOST_LEN);
     bound \<leftarrow> check_bind q vid g;
     (res, q, n, g) \<leftarrow>
       (if \<not> bound then bind_push_ud e ctrl local_mr vid req q n g else bind_push_rc e ctrl local_mr vid req q n g);
     (case res of
        Err _ \<Rightarrow> Some (rep_err, q, n, g)
      | Ok _ \<Rightarrow> bind_push_loop e ctrl local_mr reqs q n g)
   }"

text \<open>After the sends: new receive buffers for every request, and the completion of the one
  signalled send, per identifier.  The waits return a completion or not at all.\<close>

definition bind_post_ud ::
  "'d senv \<Rightarrow> usize \<Rightarrow> bool \<Rightarrow> nat \<Rightarrow> 'd kstate \<Rightarrow> (bool \<times> 'd kstate) option"
where
  "bind_post_ud e core pop_at_once cnt g = do {
     ctrl \<leftarrow> get_global_rctrl core g;
     (res, ctrl, d) \<leftarrow> ctrl_ud_post_recv (sv_kenv e) cnt ctrl (ks_drv g);
     g \<leftarrow> Some ((put_global_rctrl core ctrl g) \<lparr> ks_drv := d \<rparr>);
     if \<not> is_ok res then Some (False, g)
     else if pop_at_once then do {
       ud \<leftarrow> get_ud DEFAULT_RPC_HINT ctrl;
       (_, d) \<leftarrow> ud_wait_til_comp (kn_ib (sv_kenv e)) ud (ks_drv g);
       Some (True, g \<lparr> ks_drv := d \<rparr>)
     }
     else Some (True, g)
   }"

definition bind_post_rc ::
  "'d senv \<Rightarrow> usize \<Rightarrow> bool \<Rightarrow> usize \<Rightarrow> nat \<Rightarrow> 'd kstate \<Rightarrow> (bool \<times> 'd kstate) option"
where
  "bind_post_rc e core pop_at_once vid cnt g = do {
     ctrl \<leftarrow> get_global_rctrl core g;
     (res, ctrl, d) \<leftarrow> trc_post_recv (sv_kenv e) vid cnt ctrl (ks_drv g);
     g \<leftarrow> Some ((put_global_rctrl core ctrl g) \<lparr> ks_drv := d \<rparr>);
     if \<not> is_ok res then Some (False, g)
     else if pop_at_once then do {
       rc \<leftarrow> get_trc vid ctrl;
       (_, d) \<leftarrow> rc_wait_til_comp (kn_ib (sv_kenv e)) rc (ks_drv g);
       Some (True, g \<lparr> ks_drv := d \<rparr>)
     }
     else Some (True, g)
   }"

fun bind_post_loop ::
  "'d senv \<Rightarrow> usize \<Rightarrow> bool \<Rightarrow> pop_cnts \<Rightarrow> usize list \<Rightarrow> 'd kstate \<Rightarrow> (reply_status \<times> 'd kstate) option"
where
  "bind_post_loop e core pop_at_once n [] g = Some (rep_ok, g)"
| "bind_post_loop e core pop_at_once n (vid # vids) g = do {
     (cont, g) \<leftarrow> (if 0 < pn_ud n ! vid then bind_post_ud e core pop_at_once (pn_ud n ! vid) g else Some (True, g));
     if \<not> cont then Some (rep_err, g)
     else do {
       (cont, g) \<leftarrow> (if 0 < pn_rc n ! vid then bind_post_rc e core pop_at_once vid (pn_rc n ! vid) g else Some (True, g));
       if \<not> cont then Some (rep_err, g) else bind_post_loop e core pop_at_once n vids g
     }
   }"

definition bind_server_push_impl :: "'d senv \<Rightarrow> core_req_t list \<Rightarrow> bool \<Rightarrow> VQ \<Rightarrow> 'd kstate \<Rightarrow> 'd vq_result" where
  "bind_server_push_impl e reqs pop_at_once q g = do {
     port \<leftarrow> vq_bind_port q;
     ctrl \<leftarrow> get_bind_ctrl port g;
     local_mr \<leftarrow> lc_local_mr (vq_local_cache q);
     (res, q, n, g) \<leftarrow> bind_push_loop e ctrl local_mr reqs q pop_cnts_zero g;
     if res = rep_ok
     then map_option (\<lambda>(res, g). (res, q, g)) (bind_post_loop e (port * 2) pop_at_once n [1..<HOST_LEN] g)
     else Some (res, q, g)
   }"

subsection \<open>Datagrams of a client\<close>

text \<open>\<open>ud_push_impl\<close>, which no command uses.  On its first call it stores the queue's own
  end point in the test memory; the assignment drops what the memory held.\<close>

fun ud_push_loop ::
  "'d senv \<Rightarrow> KUD \<Rightarrow> u64 \<Rightarrow> u64 \<Rightarrow> u32 \<Rightarrow> EndPoint \<Rightarrow> core_req_t list \<Rightarrow> 'd \<Rightarrow> (reply_status \<times> 'd) option"
where
  "ud_push_loop e ud va laddr lkey point [] d = Some (rep_ok, d)"
| "ud_push_loop e ud va laddr lkey point (req # reqs) d = do {
     op \<leftarrow> op_code_table (cq_type req);
     laddr \<leftarrow> Some (if is_inline req op then va else laddr);
     (case ud_push (kn_ib (sv_kenv e)) ud op laddr lkey point (unat (cq_length req)) (cq_vid req) (req_flags req op) d of
        (Err _, d) \<Rightarrow> Some (rep_err, d)
      | (Ok _, d) \<Rightarrow> ud_push_loop e ud va laddr lkey point reqs d)
   }"

definition put_ud_info ::
  "'d senv \<Rightarrow> KUD \<Rightarrow> usize \<Rightarrow> u64 \<Rightarrow> 'd kstate \<Rightarrow> 'd kstate option"
where
  "put_ud_info e ud port va g = do {
     ctrl \<leftarrow> get_global_rctrl port g;
     (let v = kn_verbs (sv_kenv e); d = ks_drv g in do {
        n \<leftarrow> get_dc_num v ctrl d;
        point \<leftarrow> Some \<lparr> en_qpn = vb_qp_num v (kud_qp ud) d, en_qkey = kud_qkey ud, en_lid = rc_get_lid (rl_context ctrl),
                    en_gid = rc_get_gid (rl_context ctrl), en_dct_num = n, en_mr = get_self_test_mr v ctrl d, en_ah = 0 \<rparr>;
        Some (g \<lparr> ks_drv := sv_set_endpoint e va point (EndPoint_drop v (sv_endpoint e va d) d) \<rparr>)
      })
   }"

definition ud_push_impl :: "'d senv \<Rightarrow> core_req_t list \<Rightarrow> VQ \<Rightarrow> 'd kstate \<Rightarrow> 'd vq_result" where
  "ud_push_impl e reqs q g = do {
     local_mr \<leftarrow> lc_local_mr (vq_local_cache q);
     (case (vq_local_ud q, vq_local_connect_port q) of
        (Some ud, Some port) \<Rightarrow> do {
          point \<leftarrow> lc_remote_endpoint (vq_local_cache q);
          va \<leftarrow> Some (kn_pa_to_va (sv_kenv e) (tm_addr local_mr));
          g \<leftarrow> (if vq_put_ud_info q then Some g else put_ud_info e ud port va g);
          (res, d) \<leftarrow> ud_push_loop e ud va (tm_addr local_mr) (tm_rkey local_mr) point reqs (ks_drv g);
          Some (res, q \<lparr> vq_put_ud_info := True \<rparr>, g \<lparr> ks_drv := d \<rparr>)
        }
      | _ \<Rightarrow> Some (rep_nil, q, g))
   }"

section \<open>The commands\<close>

subsection \<open>Push\<close>

definition DEFAULT_BATCH_SZ :: nat where "DEFAULT_BATCH_SZ = 64"

definition push_chunk :: "'d senv \<Rightarrow> bool \<Rightarrow> core_req_t list \<Rightarrow> VQ \<Rightarrow> 'd kstate \<Rightarrow> 'd vq_result" where
  "push_chunk e pop_at_once reqs q g =
     (if is_bind_mode q then bind_server_push_impl e reqs pop_at_once q g
      else if vq_virtual_queue q \<noteq> None then map_option (\<lambda>(res, g). (res, q, g)) (rc_push_impl e reqs q g)
      else map_option (\<lambda>(res, g). (res, q, g)) (dc_push_impl e reqs q g))"

text \<open>The requests are copied from the user in batches.\<close>

definition read_batch :: "'d senv \<Rightarrow> u64 \<Rightarrow> nat \<Rightarrow> nat \<Rightarrow> 'd \<Rightarrow> core_req_t list option" where
  "read_batch e req_list send_offset send_len d = do {
     a \<leftarrow> add64 req_list (word_of_nat (send_offset * core_req_sz));
     Some (dec_core_reqs send_len (sv_from_user e a (send_len * core_req_sz) d))
   }"

function push_loop ::
  "'d senv \<Rightarrow> bool \<Rightarrow> u64 \<Rightarrow> nat \<Rightarrow> nat \<Rightarrow> reply_status \<Rightarrow> VQ \<Rightarrow> 'd kstate \<Rightarrow> 'd vq_result"
where
  "push_loop e pop_at_once req_list req_len send_offset ret q g =
     (if send_offset < req_len then
        (let send_len = min DEFAULT_BATCH_SZ (req_len - send_offset) in
         case read_batch e req_list send_offset send_len (ks_drv g) of
           None \<Rightarrow> None
         | Some reqs \<Rightarrow>
             (case push_chunk e pop_at_once reqs q g of
                None \<Rightarrow> None
              | Some (ret, q, g) \<Rightarrow>
                  if ret = rep_err then Some (ret, q, g)
                  else push_loop e pop_at_once req_list req_len (send_offset + send_len) ret q g))
      else Some (ret, q, g))"
  by pat_completeness auto
termination
  by (relation "measure (\<lambda>(e, p, l, n, off, r, q, g). n - off)") (auto simp: DEFAULT_BATCH_SZ_def)

declare push_loop.simps [simp del]

text \<open>The completion that \<open>pop_res\<close> asks for.  Without a connection it is awaited on the
  datagram queue pair.\<close>

definition push_wait :: "'d senv \<Rightarrow> VQ \<Rightarrow> 'd kstate \<Rightarrow> 'd kstate option" where
  "push_wait e q g =
     (let b = kn_ib (sv_kenv e) in
      case vq_virtual_queue q of
        None \<Rightarrow> do {
          ud \<leftarrow> vq_local_ud q;
          (_, d) \<leftarrow> ud_wait_til_comp b ud (ks_drv g);
          Some (g \<lparr> ks_drv := d \<rparr>)
        }
      | Some rc \<Rightarrow> do {
          (_, d) \<leftarrow> rc_wait_til_comp b rc (ks_drv g);
          Some (g \<lparr> ks_drv := d \<rparr>)
        })"

definition push_cmd :: "'d senv \<Rightarrow> u64 \<Rightarrow> VQ \<Rightarrow> 'd kstate \<Rightarrow> 'd vq_result" where
  "push_cmd e arg q g = do {
     a \<leftarrow> add64 arg (word_of_nat req_sz);
     a' \<leftarrow> add64 a (word_of_nat push_core_sz);
     push_req \<leftarrow> Some (dec_push_core (sv_from_user e a push_core_sz (ks_drv g)));
     push_ext \<leftarrow> Some (dec_push_ext (sv_from_user e a' push_ext_sz (ks_drv g)));
     (ret, g) \<leftarrow> (if \<not> is_bind_mode q \<and> 0 < pe_push_recv_cnt push_ext
                  then push_recv_impl e (unat (pe_push_recv_cnt push_ext)) q g else Some (rep_ok, g));
     (ret, q, g) \<leftarrow> push_loop e (pe_pop_res push_ext \<noteq> 0) (pc_req_list push_req) (unat (pc_req_len push_req)) 0 ret q g;
     if \<not> is_bind_mode q \<and> pe_pop_res push_ext \<noteq> 0 \<and> ret = rep_ok
     then map_option (\<lambda>g. (ret, q, g)) (push_wait e q g)
     else Some (ret, q, g)
   }"

subsection \<open>Connect\<close>

text \<open>\<open>core::str::from_utf8\<close>, whose error is unwrapped.\<close>

definition utf8_cont :: "u8 \<Rightarrow> bool" where
  "utf8_cont b \<longleftrightarrow> 0x80 \<le> unat b \<and> unat b \<le> 0xBF"

fun utf8_valid :: "u8 list \<Rightarrow> bool" where
  "utf8_valid [] \<longleftrightarrow> True"
| "utf8_valid (a # bs) \<longleftrightarrow>
     (if unat a < 0x80 then utf8_valid bs
      else case bs of
        [] \<Rightarrow> False
      | b # cs \<Rightarrow>
          if 0xC2 \<le> unat a \<and> unat a \<le> 0xDF then utf8_cont b \<and> utf8_valid cs
          else case cs of
            [] \<Rightarrow> False
          | c # ds \<Rightarrow>
              if 0xE0 \<le> unat a \<and> unat a \<le> 0xEF then
                utf8_cont b \<and> utf8_cont c \<and> (unat a = 0xE0 \<longrightarrow> 0xA0 \<le> unat b) \<and> (unat a = 0xED \<longrightarrow> unat b \<le> 0x9F)
                \<and> utf8_valid ds
              else case ds of
                [] \<Rightarrow> False
              | d # es \<Rightarrow>
                  0xF0 \<le> unat a \<and> unat a \<le> 0xF4 \<and> utf8_cont b \<and> utf8_cont c \<and> utf8_cont d
                  \<and> (unat a = 0xF0 \<longrightarrow> 0x90 \<le> unat b) \<and> (unat a = 0xF4 \<longrightarrow> unat b \<le> 0x8F) \<and> utf8_valid es)"

declare utf8_valid.simps(2) [simp del]

definition str_of_bytes :: "u8 list \<Rightarrow> string" where
  "str_of_bytes bs = map (\<lambda>b. char_of (unat b)) bs"

text \<open>The address: at most 39 bytes of the user's string in a zeroed buffer, all 39 of which
  are the string.\<close>

definition GUID_SZ :: nat where "GUID_SZ = 39"

definition read_addr :: "'d senv \<Rightarrow> connect_t \<Rightarrow> 'd \<Rightarrow> u8 list" where
  "read_addr e conn d =
     (let n = min GUID_SZ (usize_of_i32 (ct_addr_sz conn)); bs = sv_from_user e (ct_addr conn) n d in
      bs @ replicate (GUID_SZ - n) 0)"

text \<open>The remainder of the port has the sign of the port.\<close>

definition service_of_port :: "i32 \<Rightarrow> usize" where
  "service_of_port port = usize_of_i32 (sgn port * (\<bar>port\<bar> mod int MAX_SERVICE_NUM))"

definition connect_cmd :: "'d senv \<Rightarrow> u64 \<Rightarrow> VQ \<Rightarrow> 'd kstate \<Rightarrow> 'd vq_result" where
  "connect_cmd e arg q g = do {
     a \<leftarrow> add64 arg (word_of_nat req_sz);
     conn \<leftarrow> Some (dec_connect (sv_from_user e a connect_sz (ks_drv g)));
     addr \<leftarrow> Some (read_addr e conn (ks_drv g));
     if \<not> utf8_valid addr then None
     else connect_impl e (str_of_bytes addr) (service_of_port (ct_port conn)) (usize_of_i32 (ct_vid conn)) q g
   }"

subsection \<open>Bind\<close>

definition bind_cmd :: "'d senv \<Rightarrow> u64 \<Rightarrow> VQ \<Rightarrow> 'd kstate \<Rightarrow> 'd vq_result" where
  "bind_cmd e arg q g = do {
     a \<leftarrow> add64 arg (word_of_nat req_sz);
     port \<leftarrow> Some (usize_of_i32 (i32_at 0 (sv_from_user e a 4 (ks_drv g))));
     Some (if vq_bind_port q \<noteq> None then (rep_already_bind, q, g)
           else if MAX_SERVICE_NUM < port then (rep_nil, q, g)
           else (rep_ok, q \<lparr> vq_bind_port := Some port \<rparr>, g))
   }"

definition unbind_cmd :: "'d senv \<Rightarrow> u64 \<Rightarrow> VQ \<Rightarrow> 'd kstate \<Rightarrow> 'd vq_result" where
  "unbind_cmd e arg q g = do {
     a \<leftarrow> add64 arg (word_of_nat req_sz);
     port \<leftarrow> Some (usize_of_i32 (i32_at 0 (sv_from_user e a 4 (ks_drv g))));
     if vq_bind_port q \<noteq> Some port then Some (rep_not_bind, q, g)
     else do {
       (_, g) \<leftarrow> pop_recv e (port * 2) 2048 0 g;
       Some (rep_ok, q \<lparr> vq_bind_port := None \<rparr>, g)
     }
   }"

subsection \<open>Receive and completion commands\<close>

definition push_recv_cmd :: "'d senv \<Rightarrow> u64 \<Rightarrow> VQ \<Rightarrow> 'd kstate \<Rightarrow> 'd vq_result" where
  "push_recv_cmd e arg q g = do {
     a \<leftarrow> add64 arg (word_of_nat req_sz);
     cnt \<leftarrow> Some (usize_of_i32 (i32_at 0 (sv_from_user e a 4 (ks_drv g))));
     map_option (\<lambda>(res, g). (res, q, g)) (push_recv_impl e cnt q g)
   }"

definition pop_cmd :: "'d senv \<Rightarrow> u64 \<Rightarrow> req_t \<Rightarrow> VQ \<Rightarrow> 'd kstate \<Rightarrow> 'd vq_result" where
  "pop_cmd e arg req q g = do {
     a \<leftarrow> add64 arg (word_of_nat req_sz);
     vid \<leftarrow> Some (u32_at 0 (sv_from_user e a 4 (ks_drv g)));
     map_option (\<lambda>(res, g). (res, q, g)) (pop_impl e req (unat vid) q g)
   }"

definition pop_msgs_cmd :: "'d senv \<Rightarrow> u64 \<Rightarrow> req_t \<Rightarrow> VQ \<Rightarrow> 'd kstate \<Rightarrow> 'd vq_result" where
  "pop_msgs_cmd e arg req q g = do {
     a \<leftarrow> add64 arg (word_of_nat req_sz);
     a' \<leftarrow> add64 a 4;
     least_pop_cnt \<leftarrow> Some (u32_at 0 (sv_from_user e a 4 (ks_drv g)));
     payload_sz \<leftarrow> Some (u32_at 0 (sv_from_user e a' 4 (ks_drv g)));
     map_option (\<lambda>(res, g). (res, q, g)) (pop_msg_impl e req least_pop_cnt payload_sz q g)
   }"

subsection \<open>Dispatch\<close>

text \<open>\<open>RegMR\<close> has a number but no branch.  Without the feature \<open>rpc_server\<close> the command
  \<open>RpcPoll\<close> polls the first RPC client.\<close>

definition ioctl_cmd :: "'d senv \<Rightarrow> lib_r_cmd option \<Rightarrow> u64 \<Rightarrow> req_t \<Rightarrow> VQ \<Rightarrow> 'd kstate \<Rightarrow> 'd vq_result" where
  "ioctl_cmd e cmd arg req q g =
     (case cmd of
        Some NilCmd \<Rightarrow> Some (rep_ok, q, g)
      | Some Connect \<Rightarrow> connect_cmd e arg q g
      | Some RegMRs \<Rightarrow> Some (rep_ok, q, g)
      | Some Push \<Rightarrow> push_cmd e arg q g
      | Some PushRecv \<Rightarrow> push_recv_cmd e arg q g
      | Some Pop \<Rightarrow> pop_cmd e arg req q g
      | Some PopMsgs \<Rightarrow> pop_msgs_cmd e arg req q g
      | Some Binds \<Rightarrow> bind_cmd e arg q g
      | Some UnBinds \<Rightarrow> unbind_cmd e arg q g
      | Some RpcPoll \<Rightarrow>
          if ft_rpc_server (sv_feat e) then Some (rep_ok, q, g)
          else map_option (\<lambda>g. (rep_ok, q, g)) (sv_rpc_poll e g)
      | _ \<Rightarrow> Some (rep_err, q, g))"

text \<open>The return value: the number of bytes of the reply that could not be copied, or, for a
  \<open>Connect\<close> on a connected queue, the code of the reply, which is then not written.\<close>

definition ioctrl :: "'d senv \<Rightarrow> u32 \<Rightarrow> u64 \<Rightarrow> VQ \<Rightarrow> 'd kstate \<Rightarrow> (int \<times> VQ \<times> 'd kstate) option" where
  "ioctrl e cmd arg q g =
     (let req = dec_req (sv_from_user e arg req_sz (ks_drv g)) in
      if cmd_of cmd = Some Connect \<and> vq_virtual_queue q \<noteq> None
      then Some (status_code rep_already_connected, q, g)
      else do {
        (status, q, g) \<leftarrow> ioctl_cmd e (cmd_of cmd) arg req q g;
        (let (left, d) = sv_to_user e (rt_reply_buf req) (enc_reply status) (ks_drv g) in
         Some (int left, q, g \<lparr> ks_drv := d \<rparr>))
      })"

section \<open>Closing\<close>

definition drop_endpoints :: "'d verbs \<Rightarrow> EndPoint list \<Rightarrow> 'd \<Rightarrow> 'd" where
  "drop_endpoints v eps d = fold (EndPoint_drop v) eps d"

definition VQ_drop :: "'d senv \<Rightarrow> VQ \<Rightarrow> 'd kstate \<Rightarrow> 'd kstate option" where
  "VQ_drop e q g =
     (let v = kn_verbs (sv_kenv e); c = kn_cm (sv_kenv e) in do {
        d \<leftarrow> (case vq_virtual_queue q of None \<Rightarrow> Some (ks_drv g) | Some rc \<Rightarrow> KRC_drop v c rc (ks_drv g));
        Some (g \<lparr> ks_drv := drop_endpoints v
               (map snd (lc_cached_client_endpoint (vq_local_cache q))
                @ (case lc_remote_endpoint (vq_local_cache q) of None \<Rightarrow> [] | Some p \<Rightarrow> [p])) d \<rparr>)
      })"

section \<open>The migration thread\<close>

text \<open>A background thread connects, and then stores the connection: the two accesses to the
  queue are separate steps, between which system calls and other threads run.  The
  store drops a connection that another thread stored before.\<close>

datatype bg_thread = BgStarted | BgConnected "KRC option"

definition bg_connect ::
  "'d senv \<Rightarrow> VQ \<Rightarrow> 'd kstate \<Rightarrow> (bg_thread option \<times> 'd kstate) option"
where
  "bg_connect e q g = do {
     p \<leftarrow> vq_rc_connect_param q;
     if vq_virtual_queue q \<noteq> None then Some (None, g)
     else do {
       (res, g) \<leftarrow> qp_connect e (cp_vid p) (cp_port p) (cp_path p) g;
       (case res of Err _ \<Rightarrow> Some (None, g) | Ok qp \<Rightarrow> Some (Some (BgConnected qp), g))
     }
   }"

definition drop_rc_opt :: "'d senv \<Rightarrow> KRC option \<Rightarrow> 'd kstate \<Rightarrow> 'd kstate option" where
  "drop_rc_opt e rc g =
     (case rc of
        None \<Rightarrow> Some g
      | Some rc \<Rightarrow> map_option (\<lambda>d. g \<lparr> ks_drv := d \<rparr>) (KRC_drop (kn_verbs (sv_kenv e)) (kn_cm (sv_kenv e)) rc (ks_drv g)))"

definition bg_store :: "'d senv \<Rightarrow> KRC option \<Rightarrow> VQ \<Rightarrow> 'd kstate \<Rightarrow> (VQ \<times> 'd kstate) option" where
  "bg_store e qp q g =
     (if ft_virtual_queue (sv_feat e)
      then map_option (Pair (q \<lparr> vq_virtual_queue := qp \<rparr>)) (drop_rc_opt e (vq_virtual_queue q) g)
      else map_option (Pair q) (drop_rc_opt e qp g))"

end
