(* ===== verification/Syscall_User.thy ===== *)
theory Syscall_User
  imports Virtual_Queue
begin

text \<open>
  The user library of the system call (\<open>include/syscall.h\<close>), on top of the kernel side:
  every function lays out its request on the stack, calls \<open>ioctl\<close> and returns the
  status found in the reply buffer.  The process memory is the parameter
  \<open>'d umem\<close>; fields that a function leaves unset are zero.
\<close>

section \<open>Process memory\<close>

record 'd umem =
  um_store :: "u64 \<Rightarrow> u8 list \<Rightarrow> 'd \<Rightarrow> 'd"
  um_load :: "u64 \<Rightarrow> nat \<Rightarrow> 'd \<Rightarrow> u8 list"

text \<open>The bytes of the process: None where nothing is mapped.\<close>

definition mapped :: "('d \<Rightarrow> u64 \<Rightarrow> u8 option) \<Rightarrow> 'd \<Rightarrow> u64 \<Rightarrow> nat \<Rightarrow> bool" where
  "mapped rd d a n \<longleftrightarrow> (\<forall>i < n. rd d (a + word_of_nat i) \<noteq> None)"

definition bytes_at :: "('d \<Rightarrow> u64 \<Rightarrow> u8 option) \<Rightarrow> 'd \<Rightarrow> u64 \<Rightarrow> nat \<Rightarrow> u8 list" where
  "bytes_at rd d a n = map (\<lambda>i. the (rd d (a + word_of_nat i))) [0..<n]"

definition stored :: "(u64 \<Rightarrow> u8 option) \<Rightarrow> u64 \<Rightarrow> u8 list \<Rightarrow> u64 \<Rightarrow> u8 option" where
  "stored m a bs = (\<lambda>x. if unat (x - a) < length bs then Some (bs ! unat (x - a)) else m x)"

text \<open>\<open>_copy_from_user\<close> and \<open>_copy_to_user\<close> copy mapped memory completely.\<close>

definition user_copy_law :: "'d senv \<Rightarrow> ('d \<Rightarrow> u64 \<Rightarrow> u8 option) \<Rightarrow> bool" where
  "user_copy_law e rd \<longleftrightarrow>
     (\<forall>a n d. mapped rd d a n \<longrightarrow> sv_from_user e a n d = bytes_at rd d a n)
   \<and> (\<forall>a bs d. mapped rd d a (length bs) \<longrightarrow>
        fst (sv_to_user e a bs d) = 0 \<and> rd (snd (sv_to_user e a bs d)) = stored (rd d) a bs)"

text \<open>Loads and stores of the process in its mapped memory.\<close>

definition process_law :: "'d umem \<Rightarrow> ('d \<Rightarrow> u64 \<Rightarrow> u8 option) \<Rightarrow> bool" where
  "process_law u rd \<longleftrightarrow>
     (\<forall>a n d. mapped rd d a n \<longrightarrow> um_load u a n d = bytes_at rd d a n)
   \<and> (\<forall>a bs d. mapped rd d a (length bs) \<longrightarrow> rd (um_store u a bs d) = stored (rd d) a bs)"

definition apart :: "u64 \<Rightarrow> nat \<Rightarrow> u64 \<Rightarrow> nat \<Rightarrow> bool" where
  "apart a n b m \<longleftrightarrow> (\<forall>i < n. m \<le> unat (a + word_of_nat i - b))"

lemma user_copy_lawD:
  assumes "user_copy_law e rd"
  shows "mapped rd d a n \<Longrightarrow> sv_from_user e a n d = bytes_at rd d a n"
    and "mapped rd d a (length bs) \<Longrightarrow> fst (sv_to_user e a bs d) = 0"
    and "mapped rd d a (length bs) \<Longrightarrow> rd (snd (sv_to_user e a bs d)) = stored (rd d) a bs"
  using assms by (simp_all add: user_copy_law_def)

lemma process_lawD:
  assumes "process_law u rd"
  shows "mapped rd d a n \<Longrightarrow> um_load u a n d = bytes_at rd d a n"
    and "mapped rd d a (length bs) \<Longrightarrow> rd (um_store u a bs d) = stored (rd d) a bs"
  using assms by (simp_all add: process_law_def)

lemma length_bytes_at [simp]: "length (bytes_at rd d a n) = n"
  by (simp add: bytes_at_def)

lemma unat_offset: "i < n \<Longrightarrow> n \<le> 2 ^ 64 \<Longrightarrow> unat (a + word_of_nat i - a :: u64) = i"
  by (simp add: unat_of_nat)

lemma mapped_stored:
  assumes "rd d' = stored (rd d) a bs" "mapped rd d b n" shows "mapped rd d' b n"
  using assms by (auto simp: mapped_def stored_def)

lemma bytes_at_stored:
  assumes "rd d' = stored (rd d) a bs" "length bs \<le> 2 ^ 64"
  shows "bytes_at rd d' a (length bs) = bs"
  using assms by (intro nth_equalityI) (simp_all add: bytes_at_def stored_def unat_of_nat)

lemma bytes_at_apart:
  assumes "rd d' = stored (rd d) a bs" "apart b n a (length bs)"
  shows "bytes_at rd d' b n = bytes_at rd d b n"
  using assms by (auto simp: bytes_at_def stored_def apart_def)

lemma bytes_at_split:
  "bytes_at rd d a (n + m) = bytes_at rd d a n @ bytes_at rd d (a + word_of_nat n) m"
  by (rule nth_equalityI) (auto simp: bytes_at_def nth_append algebra_simps)

lemma mapped_split: "mapped rd d a (n + m) \<longleftrightarrow> mapped rd d a n \<and> mapped rd d (a + word_of_nat n) m"
proof
  show "mapped rd d a n \<and> mapped rd d (a + word_of_nat n) m" if "mapped rd d a (n + m)"
    using that unfolding mapped_def
    by (metis add.assoc add_less_cancel_left of_nat_add trans_less_add1)
  show "mapped rd d a (n + m)" if "mapped rd d a n \<and> mapped rd d (a + word_of_nat n) m"
    unfolding mapped_def
  proof (intro allI impI)
    fix i assume "i < n + m"
    then show "rd d (a + word_of_nat i) \<noteq> None"
      using that unfolding mapped_def
      by (cases "i < n") (auto dest: spec [of _ "i - n"])
  qed
qed

lemma bytes_at_part:
  assumes "i + k \<le> n"
  shows "bytes_at rd d (a + word_of_nat i) k = take k (drop i (bytes_at rd d a n))"
proof -
  have "n = i + (k + (n - i - k))" using assms by simp
  then have "bytes_at rd d a n = bytes_at rd d a i @ bytes_at rd d (a + word_of_nat i) k
      @ bytes_at rd d (a + word_of_nat i + word_of_nat k) (n - i - k)"
    by (metis bytes_at_split)
  then show ?thesis by simp
qed

lemma mapped_part:
  assumes "mapped rd d a n" "i + k \<le> n"
  shows "mapped rd d (a + word_of_nat i) k"
proof -
  have "n = i + (k + (n - i - k))" using assms by simp
  then show ?thesis using assms(1) by (metis mapped_split)
qed

text \<open>The request that a function has stored.\<close>

lemma from_user_stored:
  assumes e: "user_copy_law e rd" and u: "process_law u rd" and m: "mapped rd d sp (length req)"
    and len: "length req \<le> 2 ^ 64" and req: "req = p @ body @ s"
  shows "sv_from_user e (sp + word_of_nat (length p)) (length body) (um_store u sp req d) = body"
proof -
  let ?d = "um_store u sp req d"
  have st: "rd ?d = stored (rd d) sp req" using process_lawD(2) [OF u m] .
  have "mapped rd ?d sp (length p + (length body + length s))"
    using mapped_stored [OF st m] req by simp
  then have mb: "mapped rd ?d (sp + word_of_nat (length p)) (length body)"
    by (simp only: mapped_split)
  have "bytes_at rd ?d sp (length p + (length body + length s)) = req"
    using bytes_at_stored [OF st len] req by simp
  then have "bytes_at rd ?d (sp + word_of_nat (length p)) (length body) = body"
    unfolding bytes_at_split req by (simp add: append_eq_append_conv)
  then show ?thesis using user_copy_lawD(1) [OF e mb] by simp
qed

section \<open>The library\<close>

text \<open>\<open>ioctl\<close> returns \<open>-1\<close> when the kernel returns an error number.\<close>

definition ioctl :: "'d senv \<Rightarrow> lib_r_cmd \<Rightarrow> u64 \<Rightarrow> VQ \<Rightarrow> 'd kstate \<Rightarrow> (int \<times> VQ \<times> 'd kstate) option" where
  "ioctl e cmd arg q g =
     map_option (\<lambda>(r, q, g). (if - 4095 \<le> r \<and> r < 0 then - 1 else r, q, g))
       (ioctrl e (word_of_nat (index_of lib_r_cmds cmd)) arg q g)"

text \<open>The shape of every function: the request at \<open>sp\<close>, the status at \<open>rb\<close>.\<close>

definition call_ioctl ::
  "'d umem \<Rightarrow> 'd senv \<Rightarrow> lib_r_cmd \<Rightarrow> u64 \<Rightarrow> u64 \<Rightarrow> u8 list \<Rightarrow> VQ \<Rightarrow> 'd kstate \<Rightarrow> (int \<times> VQ \<times> 'd kstate) option"
where
  "call_ioctl u e cmd sp rb req q g = do {
     (r, q, g) \<leftarrow> ioctl e cmd sp q (g \<lparr> ks_drv := um_store u sp req (ks_drv g) \<rparr>);
     Some (if r = - 1 then - 1 else i32_at 0 (um_load u rb 4 (ks_drv g)), q, g)
   }"

definition qnil :: "'d umem \<Rightarrow> 'd senv \<Rightarrow> u64 \<Rightarrow> u64 \<Rightarrow> VQ \<Rightarrow> 'd kstate \<Rightarrow> (int \<times> VQ \<times> 'd kstate) option" where
  "qnil u e sp rb = call_ioctl u e NilCmd sp rb (enc_req \<lparr> rt_dummy = 73, rt_reply_buf = rb \<rparr>)"

text \<open>\<open>qconnect\<close> first sets the status of the reply to \<open>err\<close>.\<close>

definition qconnect ::
  "'d umem \<Rightarrow> 'd senv \<Rightarrow> u64 \<Rightarrow> u64 \<Rightarrow> u64 \<Rightarrow> i32 \<Rightarrow> i32 \<Rightarrow> i32 \<Rightarrow> VQ \<Rightarrow> 'd kstate \<Rightarrow> (int \<times> VQ \<times> 'd kstate) option"
where
  "qconnect u e sp rb addr addr_sz port vid q g =
     call_ioctl u e Connect sp rb
       (enc_req \<lparr> rt_dummy = 64, rt_reply_buf = rb \<rparr>
        @ enc_connect \<lparr> ct_addr = addr, ct_port = port, ct_addr_sz = addr_sz, ct_vid = vid \<rparr>)
       q (g \<lparr> ks_drv := um_store u rb (bytes32 (word_of_int (status_code rep_err))) (ks_drv g) \<rparr>)"

definition qreg_mr ::
  "'d umem \<Rightarrow> 'd senv \<Rightarrow> u64 \<Rightarrow> u64 \<Rightarrow> u64 \<Rightarrow> u32 \<Rightarrow> u32 \<Rightarrow> VQ \<Rightarrow> 'd kstate \<Rightarrow> (int \<times> VQ \<times> 'd kstate) option"
where
  "qreg_mr u e sp rb address sz hint =
     call_ioctl u e RegMRs sp rb
       (enc_req \<lparr> rt_dummy = 64, rt_reply_buf = rb \<rparr> @ bytes64 address @ bytes32 sz @ bytes32 hint)"

definition qpush ::
  "'d umem \<Rightarrow> 'd senv \<Rightarrow> u64 \<Rightarrow> u64 \<Rightarrow> push_core_req_t \<Rightarrow> u8 \<Rightarrow> u32 \<Rightarrow> VQ \<Rightarrow> 'd kstate
     \<Rightarrow> (int \<times> VQ \<times> 'd kstate) option"
where
  "qpush u e sp rb reqq pop_res push_recv_cnt =
     call_ioctl u e Push sp rb
       (enc_req \<lparr> rt_dummy = 0, rt_reply_buf = rb \<rparr> @ enc_push_core reqq
        @ enc_push_ext \<lparr> pe_push_recv_cnt = push_recv_cnt, pe_pop_res = pop_res \<rparr>)"

definition qpop ::
  "'d umem \<Rightarrow> 'd senv \<Rightarrow> u64 \<Rightarrow> u64 \<Rightarrow> i32 \<Rightarrow> VQ \<Rightarrow> 'd kstate \<Rightarrow> (int \<times> VQ \<times> 'd kstate) option"
where
  "qpop u e sp reply vid =
     call_ioctl u e Pop sp reply (enc_req \<lparr> rt_dummy = 0, rt_reply_buf = reply \<rparr> @ bytes32 (word_of_int vid) @ pad4)"

definition qpush_recv ::
  "'d umem \<Rightarrow> 'd senv \<Rightarrow> u64 \<Rightarrow> u64 \<Rightarrow> u32 \<Rightarrow> VQ \<Rightarrow> 'd kstate \<Rightarrow> (int \<times> VQ \<times> 'd kstate) option"
where
  "qpush_recv u e sp rb push_count =
     call_ioctl u e PushRecv sp rb (enc_req \<lparr> rt_dummy = 0, rt_reply_buf = rb \<rparr> @ bytes32 push_count @ pad4)"

definition qpop_msgs ::
  "'d umem \<Rightarrow> 'd senv \<Rightarrow> u64 \<Rightarrow> u64 \<Rightarrow> u32 \<Rightarrow> u32 \<Rightarrow> VQ \<Rightarrow> 'd kstate \<Rightarrow> (int \<times> VQ \<times> 'd kstate) option"
where
  "qpop_msgs u e sp reply pop_count payload_sz =
     call_ioctl u e PopMsgs sp reply
       (enc_req \<lparr> rt_dummy = 0, rt_reply_buf = reply \<rparr> @ bytes32 pop_count @ bytes32 payload_sz)"

definition qbind ::
  "'d umem \<Rightarrow> 'd senv \<Rightarrow> u64 \<Rightarrow> u64 \<Rightarrow> i32 \<Rightarrow> VQ \<Rightarrow> 'd kstate \<Rightarrow> (int \<times> VQ \<times> 'd kstate) option"
where
  "qbind u e sp rb port =
     call_ioctl u e Binds sp rb (enc_req \<lparr> rt_dummy = 64, rt_reply_buf = rb \<rparr> @ bytes32 (word_of_int port) @ pad4)"

definition qunbind ::
  "'d umem \<Rightarrow> 'd senv \<Rightarrow> u64 \<Rightarrow> u64 \<Rightarrow> i32 \<Rightarrow> VQ \<Rightarrow> 'd kstate \<Rightarrow> (int \<times> VQ \<times> 'd kstate) option"
where
  "qunbind u e sp rb port =
     call_ioctl u e UnBinds sp rb (enc_req \<lparr> rt_dummy = 64, rt_reply_buf = rb \<rparr> @ bytes32 (word_of_int port) @ pad4)"

definition qpoll_rpc :: "'d umem \<Rightarrow> 'd senv \<Rightarrow> u64 \<Rightarrow> u64 \<Rightarrow> VQ \<Rightarrow> 'd kstate \<Rightarrow> (int \<times> VQ \<times> 'd kstate) option" where
  "qpoll_rpc u e sp rb = call_ioctl u e RpcPoll sp rb (enc_req \<lparr> rt_dummy = 73, rt_reply_buf = rb \<rparr>)"

end
