(* ===== verification/Syscall_Demo.thy ===== *)
theory Syscall_Demo
  imports Rctrl_Props Syscall_User
begin

text \<open>
  A concrete environment of the system call module over the reference driver: user
  memory is a map of bytes, every path resolves, kernel memory reads as zero.  It
  serves the witnesses.
\<close>

definition demo_senv :: "features \<Rightarrow> ref_state senv" where
  "demo_senv ft =
     \<lparr> sv_kenv = demo_kenv, sv_feat = ft,
       sv_from_user = (\<lambda>a n d. if mapped rs_user d a n then bytes_at rs_user d a n else replicate n 0),
       sv_to_user = (\<lambda>a bs d. if mapped rs_user d a (length bs) then (0, d \<lparr> rs_user := stored (rs_user d) a bs \<rparr>)
                              else (length bs, d)),
       sv_u64 = (\<lambda>_ _. 0), sv_endpoint = (\<lambda>_ _. EndPoint_default), sv_set_u64 = (\<lambda>_ _ d. d),
       sv_set_endpoint = (\<lambda>_ _ d. d), sv_endpoint_sz = 64, sv_memcpy = (\<lambda>_ _ _ d. d),
       sv_explore_path = (\<lambda>_ _ _ d. (Some [1, 2, 3], d)), sv_self_clone = (\<lambda>p. p \<lparr> en_ah := 0 \<rparr>),
       sv_gid_eq = (=), sv_meta_server_gid = ''fe80'', sv_rpc_poll = Some \<rparr>"

definition demo_umem :: "ref_state umem" where
  "demo_umem =
     \<lparr> um_store = (\<lambda>a bs d. d \<lparr> rs_user := stored (rs_user d) a bs \<rparr>),
       um_load = (\<lambda>a n d. bytes_at rs_user d a n) \<rparr>"

definition demo_features :: features where
  "demo_features =
     \<lparr> ft_dct_qp = True, ft_meta_kv = False, ft_meta_cache = False, ft_migrate_qp = True, ft_virtual_queue = True,
       ft_rpc_server = True \<rparr>"

definition demo_kstate :: "nat \<Rightarrow> ref_state kstate" where
  "demo_kstate n =
     \<lparr> ks_rcontexts = [rl_context demo_ctrl], ks_rctrl = [demo_ctrl], ks_mem_pa = [4096], ks_meta_info = [],
       ks_meta_kv_pa = 0, ks_rpc_clients = [EndPoint_default], ks_drv = ref_init n \<rparr>"

definition demo_vq :: VQ where
  "demo_vq =
     \<lparr> vq_virtual_queue = None, vq_local_dc = None, vq_local_ud = None, vq_rc_connect_param = None,
       vq_local_cache =
         \<lparr> lc_path_rec_cache = [], lc_dct_meta_cache = [], lc_local_mr = Some (TempMR_new 4096 4194304 4),
           lc_cached_client_endpoint = [], lc_remote_endpoint = None \<rparr>,
       vq_bind_port = None, vq_local_connect_port = None, vq_put_ud_info = False, vq_threads = 0 \<rparr>"

lemma demo_vq_open: "vq_open (demo_senv ft) (demo_kstate n) = Some demo_vq"
  by (simp add: vq_open_def LocalCache_default_def get_global_test_mem_pa_def get_global_rcontext_def wrapped_def
      demo_kstate_def demo_vq_def demo_senv_def demo_kenv_def demo_ctrl_def rc_get_lkey_def ref_verbs_def
      MAX_KMALLOC_SZ_def)

lemma demo_user_copy: "user_copy_law (demo_senv ft) rs_user"
  by (simp add: user_copy_law_def demo_senv_def)

lemma demo_process: "process_law demo_umem rs_user"
  by (simp add: process_law_def demo_umem_def)

lemma demo_mapped: "mapped rs_user (ref_init n) a k"
  by (simp add: mapped_def ref_init_def)

text \<open>A process with a request at 4096 and data at 8192.\<close>

definition demo_mem :: "u8 list \<Rightarrow> u8 list \<Rightarrow> nat \<Rightarrow> ref_state" where
  "demo_mem req data n = um_store demo_umem 4096 req (um_store demo_umem 8192 data (ref_init n))"

lemma demo_store: "rs_user (um_store demo_umem a bs d) = stored (rs_user d) a bs"
  by (simp add: demo_umem_def)

lemma demo_mem_mapped: "mapped rs_user (demo_mem req data n) a k"
  unfolding demo_mem_def
  by (rule mapped_stored [where rd = rs_user, OF demo_store mapped_stored [where rd = rs_user, OF demo_store demo_mapped]])

lemma demo_mem_request:
  assumes "req = p @ body @ s" "length req \<le> 4096"
  shows "sv_from_user (demo_senv ft) (4096 + word_of_nat (length p)) (length body) (demo_mem req data n) = body"
proof -
  have m: "mapped rs_user (um_store demo_umem 8192 data (ref_init n)) 4096 (length req)"
    by (rule mapped_stored [where rd = rs_user, OF demo_store demo_mapped])
  show ?thesis
    unfolding demo_mem_def by (rule from_user_stored [OF demo_user_copy demo_process m _ assms(1)]) (use assms(2) in simp)
qed

lemma demo_mem_bytes:
  assumes "length req \<le> 4096" "length data \<le> 4096"
  shows "bytes_at rs_user (demo_mem req data n) 8192 (length data) = data"
proof -
  let ?d = "um_store demo_umem 8192 data (ref_init n)"
  have "apart 8192 (length data) 4096 (length req)"
    unfolding apart_def
  proof (intro allI impI)
    fix i assume "i < length data"
    then have "unat (4096 + word_of_nat i :: u64) = 4096 + i"
      using unat_add_word_of_nat [of "4096 :: u64" i] assms(2) by simp
    then show "length req \<le> unat (8192 + word_of_nat i - 4096 :: u64)" using assms(1) by (simp add: algebra_simps)
  qed
  then have "bytes_at rs_user (demo_mem req data n) 8192 (length data) = bytes_at rs_user ?d 8192 (length data)"
    unfolding demo_mem_def by (rule bytes_at_apart [where rd = rs_user, OF demo_store])
  also have "\<dots> = data" using bytes_at_stored [where rd = rs_user, OF demo_store] assms(2) by simp
  finally show ?thesis .
qed

lemma demo_mem_data:
  assumes "length req \<le> 4096" "length data \<le> 4096"
  shows "sv_from_user (demo_senv ft) 8192 (length data) (demo_mem req data n) = data"
  using user_copy_lawD(1) [OF demo_user_copy demo_mem_mapped] demo_mem_bytes [OF assms] by simp

end
