(* ===== verification/Syscall_User_Props.thy ===== *)
theory Syscall_User_Props
  imports Syscall_Demo
begin

text \<open>
  The system call end to end: what the functions of the user library return when
  the kernel side is the model of \<open>Virtual_Queue\<close>.
\<close>

section \<open>From the stack to the kernel and back\<close>

lemma cmd_of_index: "cmd_of (word_of_nat (index_of lib_r_cmds cmd)) = Some cmd"
  by (cases cmd) (simp_all add: cmd_of_def lib_r_cmds_def)

text \<open>A call whose command returns a status: the library returns its code.\<close>

lemma call_ioctl_status:
  assumes e: "user_copy_law e rd" and u: "process_law u rd"
    and m: "mapped rd (ks_drv g) sp (length req)" and len: "length req \<le> 2 ^ 64"
    and req: "req = enc_req \<lparr> rt_dummy = k, rt_reply_buf = rb \<rparr> @ body" and k: "is_i32 k"
    and c: "cmd \<noteq> Connect \<or> vq_virtual_queue q = None"
    and step: "ioctl_cmd e (Some cmd) sp \<lparr> rt_dummy = k, rt_reply_buf = rb \<rparr> q
                 (g \<lparr> ks_drv := um_store u sp req (ks_drv g) \<rparr>) = Some (st, q', g')"
    and rb: "mapped rd (ks_drv g') rb reply_sz"
  shows "call_ioctl u e cmd sp rb req q g =
           Some (status_code st, q', g' \<lparr> ks_drv := snd (sv_to_user e rb (enc_reply st) (ks_drv g')) \<rparr>)"
proof -
  let ?d = "um_store u sp req (ks_drv g)" and ?d' = "snd (sv_to_user e rb (enc_reply st) (ks_drv g'))"
  have "sv_from_user e sp req_sz ?d = enc_req \<lparr> rt_dummy = k, rt_reply_buf = rb \<rparr>"
    using from_user_stored [OF e u m len, of "[]" "enc_req \<lparr> rt_dummy = k, rt_reply_buf = rb \<rparr>" body] req by simp
  then have dec: "dec_req (sv_from_user e sp req_sz ?d) = \<lparr> rt_dummy = k, rt_reply_buf = rb \<rparr>"
    using dec_enc_req [of "\<lparr> rt_dummy = k, rt_reply_buf = rb \<rparr>" "[]"] k by simp
  have rb': "mapped rd (ks_drv g') rb (length (enc_reply st))" using rb by simp
  have st: "rd ?d' = stored (rd (ks_drv g')) rb (enc_reply st)" by (rule user_copy_lawD(3) [OF e rb'])
  have "mapped rd ?d' rb (4 + 12)" using mapped_stored [OF st rb] by (simp add: reply_sz_def)
  then have m4: "mapped rd ?d' rb 4" by (simp only: mapped_split)
  have "bytes_at rd ?d' rb (4 + 12) = enc_reply st"
    using bytes_at_stored [OF st] by (simp add: reply_sz_def)
  then have "take 4 (enc_reply st) = bytes_at rd ?d' rb 4"
    unfolding bytes_at_split by (metis append_eq_conv_conj length_bytes_at)
  then have "i32_at 0 (um_load u rb 4 ?d') = i32_at 0 (enc_reply st)"
    using process_lawD(1) [OF u m4] by (simp add: i32_at_def u32_at_def)
  then show ?thesis
    using c step user_copy_lawD(2) [OF e rb']
    by (auto simp: call_ioctl_def ioctl_def ioctrl_def cmd_of_index dec status_of_reply Let_def case_prod_beta)
qed

section \<open>Binding\<close>

lemma usize_of_i32_nonneg: "0 \<le> x \<Longrightarrow> x < 2 ^ 31 \<Longrightarrow> usize_of_i32 x = nat x"
  by (simp add: usize_of_i32_def)

lemma usize_of_i32_neg: "is_i32 x \<Longrightarrow> x < 0 \<Longrightarrow> 2 ^ 63 \<le> usize_of_i32 x"
proof -
  assume "is_i32 x" "x < 0"
  then have "(x + 2 ^ 64) mod 2 ^ 64 = x + 2 ^ 64" by (intro mod_pos_pos_trivial) (simp_all add: is_i32_def)
  then have "x mod 2 ^ 64 = x + 2 ^ 64" by simp
  moreover have "(2::int) ^ 63 \<le> x + 2 ^ 64" using \<open>is_i32 x\<close> by (simp add: is_i32_def)
  ultimately show ?thesis unfolding usize_of_i32_def by (simp add: nat_le_iff le_nat_iff)
qed

text \<open>The port of a bind request, as the kernel reads it.\<close>

lemma port_read:
  fixes sp rb :: u64 and port :: int
  defines "req \<equiv> enc_req \<lparr> rt_dummy = 64, rt_reply_buf = rb \<rparr> @ bytes32 (word_of_int port) @ pad4"
  assumes e: "user_copy_law e rd" and u: "process_law u rd" and m: "mapped rd d sp 24" and p: "is_i32 port"
  shows "i32_at 0 (sv_from_user e (sp + 16) 4 (um_store u sp req d)) = port"
proof -
  have len: "length req = 24" by (simp add: req_def struct_sizes pad4_def)
  have "sv_from_user e (sp + word_of_nat (length (enc_req \<lparr> rt_dummy = 64, rt_reply_buf = rb \<rparr>)))
      (length (bytes32 (word_of_int port :: u32))) (um_store u sp req d) = bytes32 (word_of_int port)"
    by (rule from_user_stored [OF e u m [folded len], where s = pad4]) (simp_all only: len, simp_all add: req_def)
  then show ?thesis using p by (simp add: struct_sizes i32_at_def sint_word_of_int)
qed

definition bind_outcome :: "int \<Rightarrow> VQ \<Rightarrow> reply_status \<times> VQ" where
  "bind_outcome port q =
     (if vq_bind_port q \<noteq> None then (rep_already_bind, q)
      else if 0 \<le> port \<and> port \<le> 25 then (rep_ok, q \<lparr> vq_bind_port := Some (nat port) \<rparr>) else (rep_nil, q))"

lemma bind_cmd_outcome:
  fixes port :: int
  assumes "unat arg + 16 < 2 ^ 64" "i32_at 0 (sv_from_user e (arg + 16) 4 (ks_drv g)) = port" "is_i32 port"
  shows "bind_cmd e arg q g = Some (fst (bind_outcome port q), snd (bind_outcome port q), g)"
proof (cases "port < 0")
  case True
  then have "25 < usize_of_i32 port" using usize_of_i32_neg [OF assms(3)] by simp
  with True assms show ?thesis
    by (simp add: bind_cmd_def bind_outcome_def add64_def struct_sizes MAX_SERVICE_NUM_def)
next
  case False
  then have "usize_of_i32 port = nat port" "25 < nat port \<longleftrightarrow> \<not> port \<le> 25"
    using assms(3) by (auto simp: usize_of_i32_nonneg is_i32_def)
  with False assms show ?thesis
    by (simp add: bind_cmd_def bind_outcome_def add64_def struct_sizes MAX_SERVICE_NUM_def)
qed

lemma unbind_cmd_other:
  fixes port :: int
  assumes "unat arg + 16 < 2 ^ 64" "i32_at 0 (sv_from_user e (arg + 16) 4 (ks_drv g)) = port"
    "vq_bind_port q \<noteq> Some (usize_of_i32 port)"
  shows "unbind_cmd e arg q g = Some (rep_not_bind, q, g)"
  using assms by (simp add: unbind_cmd_def add64_def struct_sizes)

lemma bind_request_mapped:
  assumes "process_law u rd" "mapped rd d sp (length req)" "mapped rd d rb reply_sz"
  shows "mapped rd (um_store u sp req d) rb reply_sz"
  by (rule mapped_stored [OF process_lawD(2) [OF assms(1,2)] assms(3)])

text \<open>C9. The system call end to end, through the user library, the layout of the requests
  and the dispatch of the kernel.  \<open>qbind\<close> returns \<open>ok\<close> exactly for a port from 0 to 25 on
  a queue without a port, \<open>already_bind\<close> on a queue that has one, and \<open>nil\<close> for another
  port; \<open>qunbind\<close> of a port that the queue does not have returns \<open>not_bind\<close>.  On a
  connected queue \<open>qconnect\<close> returns \<open>err\<close>: the kernel returns \<open>already_connected\<close> from
  the system call itself and writes no reply.\<close>

theorem user_library_statuses:
  assumes e: "user_copy_law e rd" and u: "process_law u rd"
    and m: "mapped rd (ks_drv g) sp 24" "mapped rd (ks_drv g) rb 16" "unat sp + 24 < 2 ^ 64" and p: "is_i32 port"
  shows "(\<exists>g'. qbind u e sp rb port q g = Some (status_code (fst (bind_outcome port q)), snd (bind_outcome port q), g'))
       \<and> (vq_bind_port q \<noteq> Some (usize_of_i32 port) \<longrightarrow> (\<exists>g'. qunbind u e sp rb port q g = Some (status_code rep_not_bind, q, g')))
       \<and> (vq_virtual_queue q \<noteq> None \<and> mapped rd (ks_drv g) sp 48 \<and> apart rb 4 sp 48 \<longrightarrow>
            (\<exists>g'. qconnect u e sp rb addr n port vid q g = Some (status_code rep_err, q, g')))"
proof (intro conjI impI)
  let ?req = "enc_req \<lparr> rt_dummy = 64, rt_reply_buf = rb \<rparr> @ bytes32 (word_of_int port) @ pad4"
  have len: "length ?req = 24" by (simp add: struct_sizes pad4_def)
  have mr: "mapped rd (um_store u sp ?req (ks_drv g)) rb reply_sz"
    by (rule bind_request_mapped [OF u]) (simp_all only: len m reply_sz_def)
  have rd: "i32_at 0 (sv_from_user e (sp + 16) 4 (um_store u sp ?req (ks_drv g))) = port"
    by (rule port_read [OF e u m(1) p])
  note status = call_ioctl_status [OF e u m(1) [folded len], where k = 64 and rb = rb]
  let ?g = "g \<lparr> ks_drv := um_store u sp ?req (ks_drv g) \<rparr>" and ?r = "\<lparr> rt_dummy = 64, rt_reply_buf = rb \<rparr>"
  have bind: "ioctl_cmd e (Some Binds) sp ?r q ?g = Some (fst (bind_outcome port q), snd (bind_outcome port q), ?g)"
    using m(3) rd p by (simp add: ioctl_cmd_def bind_cmd_outcome)
  show "\<exists>g'. qbind u e sp rb port q g = Some (status_code (fst (bind_outcome port q)), snd (bind_outcome port q), g')"
    unfolding qbind_def
    by (intro exI, rule status [OF _ _ _ _ bind]) (use len mr in \<open>simp_all add: is_i32_def\<close>)
  show "\<exists>g'. qunbind u e sp rb port q g = Some (status_code rep_not_bind, q, g')" if b: "vq_bind_port q \<noteq> Some (usize_of_i32 port)"
  proof -
    have unbind: "ioctl_cmd e (Some UnBinds) sp ?r q ?g = Some (rep_not_bind, q, ?g)"
      using m(3) rd b by (simp add: ioctl_cmd_def unbind_cmd_other)
    show ?thesis
      unfolding qunbind_def
      by (intro exI, rule status [OF _ _ _ _ unbind]) (use len mr in \<open>simp_all add: is_i32_def\<close>)
  qed
  show "\<exists>g'. qconnect u e sp rb addr n port vid q g = Some (status_code rep_err, q, g')"
    if v: "vq_virtual_queue q \<noteq> None \<and> mapped rd (ks_drv g) sp 48 \<and> apart rb 4 sp 48"
  proof -
    let ?er = "bytes32 (word_of_int (status_code rep_err))"
    let ?rq = "enc_req \<lparr> rt_dummy = 64, rt_reply_buf = rb \<rparr>
        @ enc_connect \<lparr> ct_addr = addr, ct_port = port, ct_addr_sz = n, ct_vid = vid \<rparr>"
    let ?d0 = "um_store u rb ?er (ks_drv g)" let ?d1 = "um_store u sp ?rq ?d0"
    have m4: "mapped rd (ks_drv g) rb 4" using m(2) mapped_split [of rd _ rb 4 12] by simp
    have s0: "rd ?d0 = stored (rd (ks_drv g)) rb ?er" by (rule process_lawD(2) [OF u]) (use m4 in simp)
    have l: "length ?rq = 48" by (simp add: struct_sizes)
    have s1: "rd ?d1 = stored (rd ?d0) sp ?rq"
      by (rule process_lawD(2) [OF u]) (use mapped_stored [OF s0, of sp 48] v l in simp)
    have "bytes_at rd ?d1 rb 4 = bytes_at rd ?d0 rb 4" by (rule bytes_at_apart [OF s1]) (use v l in simp)
    also have "\<dots> = ?er" using bytes_at_stored [OF s0] by simp
    finally have "um_load u rb 4 ?d1 = ?er"
      using process_lawD(1) [OF u mapped_stored [OF s1 mapped_stored [OF s0 m4]]] by simp
    then show ?thesis
      using v by (simp add: qconnect_def call_ioctl_def ioctl_def ioctrl_def cmd_of_index i32_at_def
          status_code_def reply_statuses_def)
  qed
qed

theorem user_library_statuses_witness:
  "(\<exists>g. qbind demo_umem (demo_senv demo_features) 4096 8192 3 demo_vq (demo_kstate 4) =
          Some (1, demo_vq \<lparr> vq_bind_port := Some 3 \<rparr>, g))
 \<and> (\<exists>g. qunbind demo_umem (demo_senv demo_features) 4096 8192 3 demo_vq (demo_kstate 4) = Some (8, demo_vq, g))"
proof -
  have "vq_bind_port demo_vq = None" by (simp add: demo_vq_def)
  then have "bind_outcome 3 demo_vq = (rep_ok, demo_vq \<lparr> vq_bind_port := Some 3 \<rparr>)"
    "vq_bind_port demo_vq \<noteq> Some (usize_of_i32 3)"
    by (simp_all add: bind_outcome_def)
  moreover have "status_code rep_ok = 1" "status_code rep_not_bind = 8"
    by (simp_all add: status_code_def reply_statuses_def)
  moreover have "is_i32 3" "ks_drv (demo_kstate 4) = ref_init 4" by (simp_all add: is_i32_def demo_kstate_def)
  ultimately show ?thesis
    using user_library_statuses [OF demo_user_copy demo_process, of "demo_kstate 4" 4096 8192 3 demo_features demo_vq] demo_mapped
    by simp
qed

end
