(* ===== verification/Connect_Props.thy ===== *)
theory Connect_Props
  imports Syscall_User_Props Net_Roundtrip
begin

text \<open>
  Properties of the \<open>Connect\<close> command: which addresses the kernel accepts, and how the
  command ends.
\<close>

section \<open>The printed address in the kernel's buffer\<close>

definition bytes_of_str :: "string \<Rightarrow> u8 list" where
  "bytes_of_str s = map (\<lambda>c. word_of_nat (of_char c)) s"

lemma length_bytes_of_str [simp]: "length (bytes_of_str s) = length s"
  by (simp add: bytes_of_str_def)

lemma str_of_bytes_of_str: "str_of_bytes (bytes_of_str s @ replicate k 0) = s @ replicate k (CHR 0x00)"
proof -
  have "char_of (unat (word_of_nat (of_char c) :: u8)) = c" for c
    using nat_of_char_less_256 [of c] by (simp add: unat_of_nat)
  moreover have "char_of (0::nat) = CHR 0x00" by (simp add: char_of_def)
  ultimately show ?thesis by (simp add: str_of_bytes_def bytes_of_str_def comp_def)
qed

lemma utf8_ascii: "\<forall>b \<in> set bs. unat b < 128 \<Longrightarrow> utf8_valid bs"
  by (induction bs) (simp_all add: utf8_valid.simps)

lemma length_fmt_radix_ge: "2 \<le> b \<Longrightarrow> b ^ k \<le> n \<Longrightarrow> k < length (fmt_radix b n)"
proof (induction k arbitrary: n)
  case (Suc k)
  have "b \<le> b ^ Suc k" using Suc.prems(1) by (intro self_le_power) simp_all
  then have "b \<le> n" using Suc.prems(2) by (rule order_trans)
  moreover have "b ^ k \<le> n div b" using Suc.prems by (simp add: less_eq_div_iff_mult_less_eq mult.commute)
  ultimately show ?case using Suc.IH [of "n div b"] Suc.prems(1) by (subst fmt_radix.simps) simp
qed simp

lemma length_fmt_hex_eq: "length (fmt_hex v) = 4 \<longleftrightarrow> 0x1000 \<le> v"
proof
  show "0x1000 \<le> v" if "length (fmt_hex v) = 4"
  proof (rule ccontr)
    assume "\<not> 0x1000 \<le> v"
    then have "unat v < 16 ^ 3" by (simp add: word_le_nat_alt)
    then have "length (fmt_hex v) \<le> 3" unfolding fmt_hex_def by (intro length_fmt_radix) simp_all
    with that show False by simp
  qed
  show "length (fmt_hex v) = 4" if "0x1000 \<le> v"
  proof -
    have "16 ^ 3 \<le> unat v" using that by (simp add: word_le_nat_alt)
    then have "3 < length (fmt_hex v)" unfolding fmt_hex_def by (intro length_fmt_radix_ge) simp_all
    moreover have "length (fmt_hex v) \<le> 4"
      unfolding fmt_hex_def using unsigned_less [where 'a = nat, of v] by (intro length_fmt_radix) simp_all
    ultimately show ?thesis by simp
  qed
qed

lemma length_fmt_hex_le: "length (fmt_hex v) \<le> 4"
  unfolding fmt_hex_def using unsigned_less [where 'a = nat, of v] by (intro length_fmt_radix) simp_all

lemma length_Guid_fmt:
  "length (Guid_fmt (Guid_new a b c d e f g h)) \<le> 39"
  "length (Guid_fmt (Guid_new a b c d e f g h)) = 39 \<longleftrightarrow> (\<forall>v \<in> set [a, b, c, d, e, f, g, h]. 0x1000 \<le> v)"
proof -
  have l: "length (Guid_fmt (Guid_new a b c d e f g h)) =
      length (fmt_hex a) + length (fmt_hex b) + length (fmt_hex c) + length (fmt_hex d)
      + length (fmt_hex e) + length (fmt_hex f) + length (fmt_hex g) + length (fmt_hex h) + 7"
    by (simp add: Guid_fmt_def)
  note le = length_fmt_hex_le [of a] length_fmt_hex_le [of b] length_fmt_hex_le [of c] length_fmt_hex_le [of d]
    length_fmt_hex_le [of e] length_fmt_hex_le [of f] length_fmt_hex_le [of g] length_fmt_hex_le [of h]
  show "length (Guid_fmt (Guid_new a b c d e f g h)) \<le> 39" using l le by linarith
  show "length (Guid_fmt (Guid_new a b c d e f g h)) = 39 \<longleftrightarrow> (\<forall>v \<in> set [a, b, c, d, e, f, g, h]. 0x1000 \<le> v)"
    using l le by (simp add: length_fmt_hex_eq [symmetric]) linarith
qed

text \<open>The characters of a printed GID are ASCII, and zero bytes are no digits.\<close>

lemma Guid_fmt_ascii: "c \<in> set (Guid_fmt g) \<Longrightarrow> of_char c < (128 :: nat)"
proof -
  have digit: "of_char (digit_char d) < (128 :: nat)" if "d < 16" for d
    using that by (auto simp: digit_char_def of_char_of)
  have joined: "c \<in> set (fmt_joined sep xs) \<Longrightarrow> c = sep \<or> (\<exists>x \<in> set xs. c \<in> set x)" for sep xs
    by (induction sep xs rule: fmt_joined.induct) auto
  assume "c \<in> set (Guid_fmt g)"
  then have "c = CHR '':'' \<or> (\<exists>v. c \<in> set (fmt_hex v))" unfolding Guid_fmt_def using joined by fastforce
  then show ?thesis using fmt_radix_digits [of 16 c] digit by (auto simp: fmt_hex_def)
qed

lemma guid_padded:
  assumes "wf_guid gid" "k = 39 - length (Guid_fmt gid)"
  shows "Guid_from_str (Guid_fmt gid @ replicate k (CHR 0x00)) =
           (if \<forall>v \<in> set (Guid_segments gid). 0x1000 \<le> v \<and> v \<noteq> 0xffff then Ok gid else Err AddrParseError)"
proof -
  from assms(1) obtain a b c d e f h i where g: "gid = Guid_new a b c d e f h i" by (rule wf_guid_cases)
  let ?rest = "replicate k (CHR 0x00)" and ?vs = "[a, b, c, d, e, f, h, i]"
  have "\<not> starts_digit 16 ?rest" by (cases k) (auto simp: starts_digit_def parse_digit_def)
  then obtain q where rd: "read_guid_addr (pat [] (Guid_fmt gid @ ?rest)) =
      (if 0xffff \<in> set ?vs then (None, q) else (Some gid, pat (Guid_fmt gid) ?rest))"
    using read_guid_printed [of ?rest "[]" a b c d e f h i] unfolding g append_Nil by blast
  have len: "k = 0 \<longleftrightarrow> (\<forall>v \<in> set ?vs. 0x1000 \<le> v)"
    using length_Guid_fmt [of a b c d e f h i] assms(2) g by auto
  show ?thesis
  proof (cases "0xffff \<in> set ?vs")
    case True
    with rd show ?thesis unfolding Guid_from_str_def using g by (auto intro: from_str_with_None)
  next
    case False
    show ?thesis
    proof (cases "k = 0")
      case True
      with rd False have "Guid_from_str (Guid_fmt gid) = Ok gid"
        unfolding Guid_from_str_def by (auto intro: from_str_with_Some)
      with True False len g show ?thesis by auto
    next
      case nz: False
      have "Guid_from_str (Guid_fmt gid @ ?rest) = Err AddrParseError"
        using rd False nz unfolding Guid_from_str_def
        by (auto simp: from_str_with_def read_till_eof_def read_atomically_def Parser_new_pat Option.is_none_def is_eof_def pat_def)
      with nz False len g show ?thesis by auto
    qed
  qed
qed

section \<open>The command\<close>

text \<open>C10. Which addresses \<open>Connect\<close> accepts.  The user passes the printed form of a GID.  The
  kernel copies it to a zeroed buffer of 39 bytes and parses all 39, so that the
  address is accepted exactly when every segment of the GID has four digits and
  none is \<open>ffff\<close>; then it is the same GID.  Otherwise a queue that is not connected
  answers \<open>addr_error\<close> and nothing changes.\<close>

theorem connect_accepts:
  assumes gid: "wf_guid gid" and ok: "full \<longleftrightarrow> (\<forall>s \<in> set (Guid_segments gid). 0x1000 \<le> s \<and> s \<noteq> 0xffff)"
    and arg: "unat arg + req_sz < 2 ^ 64"
    and conn: "conn = dec_connect (sv_from_user e (arg + word_of_nat req_sz) connect_sz (ks_drv g))"
    and sz: "ct_addr_sz conn = int (length (Guid_fmt gid))"
    and str: "sv_from_user e (ct_addr conn) (length (Guid_fmt gid)) (ks_drv g) = bytes_of_str (Guid_fmt gid)"
  shows "connect_cmd e arg q g =
           connect_impl e (str_of_bytes (read_addr e conn (ks_drv g))) (service_of_port (ct_port conn))
             (usize_of_i32 (ct_vid conn)) q g
       \<and> Guid_from_str (str_of_bytes (read_addr e conn (ks_drv g))) = (if full then Ok gid else Err AddrParseError)
       \<and> (\<not> full \<and> vq_virtual_queue q = None \<longrightarrow> connect_cmd e arg q g = Some (rep_addr_error, q, g))"
proof -
  let ?k = "39 - length (Guid_fmt gid)" and ?addr = "read_addr e conn (ks_drv g)"
  from gid obtain a b c d x f h i where g: "gid = Guid_new a b c d x f h i" by (rule wf_guid_cases)
  have le: "length (Guid_fmt gid) \<le> 39" using length_Guid_fmt(1) g by simp
  have "usize_of_i32 (ct_addr_sz conn) = length (Guid_fmt gid)" using sz le by (simp add: usize_of_i32_def)
  then have addr: "?addr = bytes_of_str (Guid_fmt gid) @ replicate ?k 0"
    using le str by (simp add: read_addr_def GUID_SZ_def min_def Let_def)
  have "utf8_valid ?addr"
    unfolding addr by (rule utf8_ascii) (auto simp: bytes_of_str_def unat_of_nat dest!: Guid_fmt_ascii)
  then have cmd: "connect_cmd e arg q g = connect_impl e (str_of_bytes ?addr) (service_of_port (ct_port conn))
      (usize_of_i32 (ct_vid conn)) q g"
    using arg conn by (simp add: connect_cmd_def add64_def struct_sizes)
  have parse: "Guid_from_str (str_of_bytes ?addr) = (if full then Ok gid else Err AddrParseError)"
    unfolding addr str_of_bytes_of_str using guid_padded [OF gid refl] ok by simp
  moreover have "connect_impl e (str_of_bytes ?addr) p n q g = Some (rep_addr_error, q, g)"
    if "\<not> full \<and> vq_virtual_queue q = None" for p n
    using parse that by (simp add: connect_impl_def is_ok_def)
  ultimately show ?thesis using cmd by simp
qed

text \<open>A process that asks to connect to the GID \<open>fe80:0:0:0:ec0d:9a03:2b:7c4e\<close>: the string at
  8192, the request at 4096.\<close>

definition demo_gid :: Guid where
  "demo_gid = Guid_new 0xfe80 0 0 0 0xec0d 0x9a03 0x2b 0x7c4e"

definition demo_connect :: connect_t where
  "demo_connect = \<lparr> ct_addr = 8192, ct_port = 0, ct_addr_sz = int (length (Guid_fmt demo_gid)), ct_vid = 1 \<rparr>"

definition demo_process_state :: ref_state where
  "demo_process_state =
     demo_mem (enc_req \<lparr> rt_dummy = 64, rt_reply_buf = 0 \<rparr> @ enc_connect demo_connect)
       (bytes_of_str (Guid_fmt demo_gid)) 4"

lemma demo_gid_length: "length (Guid_fmt demo_gid) \<le> 39"
  unfolding demo_gid_def by (rule length_Guid_fmt(1))

lemma demo_request_read:
  "sv_from_user (demo_senv ft) (4096 + word_of_nat req_sz) connect_sz demo_process_state = enc_connect demo_connect"
  using demo_mem_request [of _ "enc_req \<lparr> rt_dummy = 64, rt_reply_buf = 0 \<rparr>" "enc_connect demo_connect" "[]" ft]
  unfolding demo_process_state_def append_Nil2 length_enc by (simp add: struct_sizes)

lemma demo_address_read:
  "sv_from_user (demo_senv ft) 8192 (length (Guid_fmt demo_gid)) demo_process_state = bytes_of_str (Guid_fmt demo_gid)"
proof -
  let ?req = "enc_req \<lparr> rt_dummy = 64, rt_reply_buf = 0 \<rparr> @ enc_connect demo_connect"
  have "sv_from_user (demo_senv ft) 8192 (length (bytes_of_str (Guid_fmt demo_gid)))
      (demo_mem ?req (bytes_of_str (Guid_fmt demo_gid)) 4) = bytes_of_str (Guid_fmt demo_gid)"
    by (rule demo_mem_data) (use demo_gid_length in \<open>simp_all add: struct_sizes\<close>)
  then show ?thesis unfolding demo_process_state_def length_bytes_of_str .
qed

theorem connect_accepts_witness:
  "connect_cmd (demo_senv demo_features) 4096 demo_vq (demo_kstate 4 \<lparr> ks_drv := demo_process_state \<rparr>) =
     Some (rep_addr_error, demo_vq, demo_kstate 4 \<lparr> ks_drv := demo_process_state \<rparr>)"
proof (rule connect_accepts [where gid = demo_gid and full = False and conn = demo_connect, THEN conjunct2, THEN conjunct2,
      rule_format])
  show "wf_guid demo_gid" by (simp add: demo_gid_def)
  show "False \<longleftrightarrow> (\<forall>s \<in> set (Guid_segments demo_gid). 0x1000 \<le> s \<and> s \<noteq> 0xffff)" by (simp add: demo_gid_def)
  show "unat (4096 :: u64) + req_sz < 2 ^ 64" by (simp add: req_sz_def)
  have "dec_connect (enc_connect demo_connect) = demo_connect"
    using dec_enc_connect [of demo_connect "[]"] demo_gid_length by (simp add: demo_connect_def is_i32_def)
  then show "demo_connect = dec_connect (sv_from_user (demo_senv demo_features) (4096 + word_of_nat req_sz) connect_sz
      (ks_drv (demo_kstate 4 \<lparr> ks_drv := demo_process_state \<rparr>)))"
    by (simp add: demo_request_read)
  show "ct_addr_sz demo_connect = int (length (Guid_fmt demo_gid))" by (simp add: demo_connect_def)
  show "sv_from_user (demo_senv demo_features) (ct_addr demo_connect) (length (Guid_fmt demo_gid))
      (ks_drv (demo_kstate 4 \<lparr> ks_drv := demo_process_state \<rparr>)) = bytes_of_str (Guid_fmt demo_gid)"
    by (simp add: demo_connect_def demo_address_read)
  show "\<not> False \<and> vq_virtual_queue demo_vq = None" by (simp add: demo_vq_def)
qed

end
