(* ===== verification/Push_Props.thy ===== *)
theory Push_Props
  imports Syscall_Demo
begin

text \<open>
  The \<open>Push\<close> command of a connected queue: the batches in which the kernel copies the
  requests are invisible, and every request becomes the work request it describes.
\<close>

section \<open>Actions on a list of requests\<close>

text \<open>What the batching relies on: an action on requests ends with \<open>ok\<close> or \<open>err\<close>, and acting
  on a list is acting on its parts, up to the first error.\<close>

locale request_action =
  fixes act :: "core_req_t list \<Rightarrow> 'd \<Rightarrow> (reply_status \<times> 'd) option"
  assumes act_Nil: "act [] d = Some (rep_ok, d)"
    and act_append: "act (xs @ ys) d =
      (case act xs d of None \<Rightarrow> None | Some (r, d') \<Rightarrow> if r = rep_err then Some (r, d') else act ys d')"
    and act_status: "act xs d = Some (r, d') \<Longrightarrow> r = rep_ok \<or> r = rep_err"
begin

text \<open>The batched loop is one action on all requests: for an action of the queue \<open>q\<close> that
  does not change the user's memory.\<close>

lemma push_loop_whole:
  assumes chunk: "\<And>c g. push_chunk e pop c q g = map_option (\<lambda>(r, d). (r, q, g \<lparr> ks_drv := d \<rparr>)) (act c (ks_drv g))"
    and read: "\<And>off k d. keep d \<Longrightarrow> off + k \<le> length reqs \<Longrightarrow> read_batch e a off k d = Some (take k (drop off reqs))"
    and keep: "\<And>c d r d'. keep d \<Longrightarrow> act c d = Some (r, d') \<Longrightarrow> keep d'"
  shows "keep (ks_drv g) \<Longrightarrow> off \<le> length reqs \<Longrightarrow>
     push_loop e pop a (length reqs) off ret q g =
       (if off = length reqs then Some (ret, q, g)
        else map_option (\<lambda>(r, d). (r, q, g \<lparr> ks_drv := d \<rparr>)) (act (drop off reqs) (ks_drv g)))"
proof (induction "length reqs - off" arbitrary: off ret g rule: less_induct)
  case less
  show ?case
  proof (cases "off = length reqs")
    case True
    then show ?thesis by (simp add: push_loop.simps)
  next
    case False
    let ?k = "min DEFAULT_BATCH_SZ (length reqs - off)"
    have k: "0 < ?k" "off + ?k \<le> length reqs" using False less.prems(2) by (simp_all add: DEFAULT_BATCH_SZ_def)
    have split: "drop off reqs = take ?k (drop off reqs) @ drop (off + ?k) reqs"
      by (metis append_take_drop_id drop_drop add.commute)
    have whole: "act (drop off reqs) (ks_drv g) =
        (case act (take ?k (drop off reqs)) (ks_drv g) of None \<Rightarrow> None
         | Some (r, d') \<Rightarrow> if r = rep_err then Some (r, d') else act (drop (off + ?k) reqs) d')"
      by (subst split) (rule act_append)
    have loop: "push_loop e pop a (length reqs) off ret q g =
        (case act (take ?k (drop off reqs)) (ks_drv g) of None \<Rightarrow> None
         | Some (r, d') \<Rightarrow> if r = rep_err then Some (r, q, g \<lparr> ks_drv := d' \<rparr>)
                        else push_loop e pop a (length reqs) (off + ?k) r q (g \<lparr> ks_drv := d' \<rparr>))"
      using False less.prems by (subst push_loop.simps)
        (auto simp: read [OF less.prems(1) k(2)] chunk Let_def split: option.splits prod.splits)
    show ?thesis
    proof (cases "act (take ?k (drop off reqs)) (ks_drv g)")
      case None
      then show ?thesis using loop whole False by simp
    next
      case (Some p)
      obtain r d' where p: "p = (r, d')" by (cases p)
      show ?thesis
      proof (cases "r = rep_err")
        case True
        then show ?thesis using loop whole False Some p by simp
      next
        case nerr: False
        then have r: "r = rep_ok" using act_status Some p by blast
        have "keep d'" using keep [OF less.prems(1)] Some p by blast
        then have IH: "push_loop e pop a (length reqs) (off + ?k) r q (g \<lparr> ks_drv := d' \<rparr>) =
            (if off + ?k = length reqs then Some (r, q, g \<lparr> ks_drv := d' \<rparr>)
             else map_option (\<lambda>(r, d). (r, q, g \<lparr> ks_drv := d \<rparr>)) (act (drop (off + ?k) reqs) d'))"
          using less.hyps [of "off + ?k" "g \<lparr> ks_drv := d' \<rparr>" r] k False less.prems(2) by simp
        show ?thesis
          using loop whole False Some p nerr IH r by (auto simp: act_Nil)
      qed
    qed
  qed
qed

end

section \<open>The two transports\<close>

lemma rc_push_loop_append:
  "rc_push_loop e rc lm rm (xs @ ys) d =
     (case rc_push_loop e rc lm rm xs d of None \<Rightarrow> None
      | Some (r, d') \<Rightarrow> if r = rep_err then Some (r, d') else rc_push_loop e rc lm rm ys d')"
  by (induction xs arbitrary: d) (auto split: bind_splits result.splits prod.splits option.splits)

lemma rc_push_loop_status: "rc_push_loop e rc lm rm xs d = Some (r, d') \<Longrightarrow> r = rep_ok \<or> r = rep_err"
  by (induction xs arbitrary: d) (auto split: bind_splits result.splits prod.splits)

interpretation rcl: request_action "rc_push_loop e rc lm rm" for e rc lm rm
  by unfold_locales (simp, rule rc_push_loop_append, erule rc_push_loop_status)

lemma dc_push_loop_append:
  "dc_push_loop e dc lm pt (xs @ ys) d =
     (case dc_push_loop e dc lm pt xs d of None \<Rightarrow> None
      | Some (r, d') \<Rightarrow> if r = rep_err then Some (r, d') else dc_push_loop e dc lm pt ys d')"
  by (induction xs arbitrary: d) (auto split: bind_splits result.splits prod.splits option.splits)

lemma dc_push_loop_status: "dc_push_loop e dc lm pt xs d = Some (r, d') \<Longrightarrow> r = rep_ok \<or> r = rep_err"
  by (induction xs arbitrary: d) (auto split: bind_splits result.splits prod.splits)

interpretation dcl: request_action "dc_push_loop e dc lm pt" for e dc lm pt
  by unfold_locales (simp, rule dc_push_loop_append, erule dc_push_loop_status)

section \<open>The work requests\<close>

text \<open>The work request that a user's request describes; None when the addresses leave the
  address space or the type is unknown.\<close>

definition request_sge :: "u64 \<Rightarrow> u32 \<Rightarrow> core_req_t \<Rightarrow> ib_sge" where
  "request_sge laddr lkey req = \<lparr> sge_addr = laddr, sge_length = cq_length req, sge_lkey = lkey \<rparr>"

definition rc_request_wr :: "'d senv \<Rightarrow> TempMR \<Rightarrow> TempMR \<Rightarrow> core_req_t \<Rightarrow> ib_send_wr option" where
  "rc_request_wr e lm rm req =
     map_option (\<lambda>(op, laddr, raddr, flags).
         send_wr_default \<lparr> sw_opcode := op, sw_send_flags := flags, sw_imm_data := cq_vid req,
           sw_target := WrRdma raddr (tm_rkey rm), sw_sg_list := [request_sge laddr (tm_rkey lm) req] \<rparr>)
       (req_params e (tm_addr lm) (tm_addr rm) req)"

definition dc_request_wr :: "'d senv \<Rightarrow> TempMR \<Rightarrow> EndPoint \<Rightarrow> core_req_t \<Rightarrow> ib_send_wr option" where
  "dc_request_wr e lm pt req =
     map_option (\<lambda>(op, laddr, raddr, flags).
         send_wr_default \<lparr> sw_opcode := op, sw_send_flags := flags,
           sw_target := WrDc (en_ah pt) (en_dct_num pt) 73 raddr (tm_rkey (en_mr pt)),
           sw_sg_list := [request_sge laddr (tm_rkey lm) req] \<rparr>)
       (req_params e (tm_addr lm) (tm_addr (en_mr pt)) req)"

text \<open>Posting work requests one by one, up to the first that the driver refuses.\<close>

fun post_seq :: "'d kib \<Rightarrow> ptr \<Rightarrow> ib_send_wr option list \<Rightarrow> 'd \<Rightarrow> (reply_status \<times> 'd) option" where
  "post_seq b qp [] d = Some (rep_ok, d)"
| "post_seq b qp (None # wrs) d = None"
| "post_seq b qp (Some wr # wrs) d =
     (let (err, d) = kb_post_send b qp [wr] d in if err \<noteq> 0 then Some (rep_err, d) else post_seq b qp wrs d)"

lemma rc_push_loop_posts:
  "rc_push_loop e rc lm rm reqs d = post_seq (kn_ib (sv_kenv e)) (krc_qp rc) (map (rc_request_wr e lm rm) reqs) d"
proof (induction reqs arbitrary: d)
  case (Cons req reqs)
  then show ?case
    by (cases "req_params e (tm_addr lm) (tm_addr rm) req")
      (auto simp: rc_request_wr_def rc_push_with_imm_def rc_post_send_def kit_post_send_def request_sge_def Let_def
        split: prod.splits)
qed simp

lemma dc_push_loop_posts:
  "dc_push_loop e dc lm pt reqs d = post_seq (kn_ib (sv_kenv e)) (kdc_qp dc) (map (dc_request_wr e lm pt) reqs) d"
proof (induction reqs arbitrary: d)
  case (Cons req reqs)
  then show ?case
    by (cases "req_params e (tm_addr lm) (tm_addr (en_mr pt)) req")
      (auto simp: dc_request_wr_def dc_push_def dc_post_send_def kit_post_send_def request_sge_def Let_def
        split: prod.splits)
qed simp

text \<open>Posting does not touch the memory of the process.\<close>

definition posts_keep_user :: "'d senv \<Rightarrow> ('d \<Rightarrow> u64 \<Rightarrow> u8 option) \<Rightarrow> bool" where
  "posts_keep_user e rd \<longleftrightarrow> (\<forall>qp wrs d. rd (snd (kb_post_send (kn_ib (sv_kenv e)) qp wrs d)) = rd d)"

lemma post_seq_keeps:
  assumes "posts_keep_user e rd"
  shows "post_seq (kn_ib (sv_kenv e)) qp wrs d = Some (r, d') \<Longrightarrow> rd d' = rd d"
proof (induction "kn_ib (sv_kenv e)" qp wrs d rule: post_seq.induct)
  case (3 qp wr wrs d)
  have "rd (snd (kb_post_send (kn_ib (sv_kenv e)) qp [wr] d)) = rd d" using assms by (simp add: posts_keep_user_def)
  with 3 show ?case by (auto simp: Let_def split: prod.splits if_splits)
qed simp_all

section \<open>Reading the requests\<close>

lemma length_dec_core_reqs [simp]: "length (dec_core_reqs n bs) = n"
  by (induction n bs rule: dec_core_reqs.induct) simp_all

lemma dec_core_reqs_take: "n * core_req_sz \<le> m \<Longrightarrow> dec_core_reqs n (take m bs) = dec_core_reqs n bs"
  by (induction n bs arbitrary: m rule: dec_core_reqs.induct) (simp_all add: drop_take min_absorb1)

lemma drop_dec_core_reqs: "drop k (dec_core_reqs n bs) = dec_core_reqs (n - k) (drop (k * core_req_sz) bs)"
proof (induction k arbitrary: n bs)
  case (Suc k)
  show ?case by (cases n) (simp_all add: Suc add.commute)
qed simp

lemma take_dec_core_reqs: "k \<le> n \<Longrightarrow> take k (dec_core_reqs n bs) = dec_core_reqs k bs"
proof (induction k arbitrary: n bs)
  case (Suc k)
  then show ?case by (cases n) simp_all
qed simp

lemma read_batch_part:
  assumes e: "user_copy_law e rd" and m: "mapped rd d a (n * core_req_sz)" and a: "unat a + n * core_req_sz < 2 ^ 64"
    and le: "off + k \<le> n"
  shows "read_batch e a off k d = Some (take k (drop off (dec_core_reqs n (bytes_at rd d a (n * core_req_sz)))))"
proof -
  let ?i = "off * core_req_sz" and ?k = "k * core_req_sz" and ?n = "n * core_req_sz"
  have ik: "?i + ?k \<le> ?n" using le by (metis add_mult_distrib mult_le_mono1)
  then have "unat (word_of_nat ?i :: u64) = ?i" using a by (simp add: unat_of_nat del: of_nat_mult)
  then have add: "add64 a (word_of_nat ?i) = Some (a + word_of_nat ?i)" using a ik by (simp add: add64_def)
  have "sv_from_user e (a + word_of_nat ?i) ?k d = bytes_at rd d (a + word_of_nat ?i) ?k"
    by (rule user_copy_lawD(1) [OF e mapped_part [OF m ik]])
  also have "\<dots> = take ?k (drop ?i (bytes_at rd d a ?n))" by (rule bytes_at_part [OF ik])
  finally have rd: "sv_from_user e (a + word_of_nat ?i) ?k d = take ?k (drop ?i (bytes_at rd d a ?n))" .
  have "k \<le> n - off" using le by simp
  then have "take k (drop off (dec_core_reqs n (bytes_at rd d a ?n))) = dec_core_reqs k (drop ?i (bytes_at rd d a ?n))"
    by (simp only: drop_dec_core_reqs take_dec_core_reqs)
  then show ?thesis by (simp add: read_batch_def add rd dec_core_reqs_take del: of_nat_mult)
qed

text \<open>C1. The \<open>Push\<close> command of a queue that is not bound, without receive buffers and
  without waiting, posts exactly what the user asked for: the work request of every
  request in the user's array, in order, each by a post of its own on the reliable
  connection or, without one, on the DC queue pair, up to the first that the driver
  refuses (\<open>err\<close>).  The batches of 64 in which the kernel reads the array make no
  difference.  A request whose addresses overflow or whose type is unknown is a
  panic, after the requests before it were posted.\<close>

theorem push_posts_in_order:
  assumes e: "user_copy_law e rd" "posts_keep_user e rd" and arg: "unat arg + 40 < 2 ^ 64"
    and core: "dec_push_core (sv_from_user e (arg + 16) push_core_sz (ks_drv g)) = p" and n: "n = unat (pc_req_len p)"
    and ext: "dec_push_ext (sv_from_user e (arg + 32) push_ext_sz (ks_drv g)) = \<lparr> pe_push_recv_cnt = 0, pe_pop_res = 0 \<rparr>"
    and m: "mapped rd (ks_drv g) (pc_req_list p) (n * core_req_sz)" "unat (pc_req_list p) + n * core_req_sz < 2 ^ 64"
    and reqs: "reqs = dec_core_reqs n (bytes_at rd (ks_drv g) (pc_req_list p) (n * core_req_sz))"
    and q: "vq_bind_port q = None" "lc_local_mr (vq_local_cache q) = Some lm"
  shows "(vq_virtual_queue q = Some rc \<and> krc_remote_mr rc = Some rm \<longrightarrow>
            push_cmd e arg q g = map_option (\<lambda>(r, d). (r, q, g \<lparr> ks_drv := d \<rparr>))
              (post_seq (kn_ib (sv_kenv e)) (krc_qp rc) (map (rc_request_wr e lm rm) reqs) (ks_drv g)))
       \<and> (vq_virtual_queue q = None \<and> vq_local_dc q = Some dc \<and> lc_remote_endpoint (vq_local_cache q) = Some pt \<longrightarrow>
            push_cmd e arg q g = map_option (\<lambda>(r, d). (r, q, g \<lparr> ks_drv := d \<rparr>))
              (post_seq (kn_ib (sv_kenv e)) (kdc_qp dc) (map (dc_request_wr e lm pt) reqs) (ks_drv g)))"
proof -
  let ?keep = "\<lambda>d. rd d = rd (ks_drv g)"
  have len: "length reqs = n" by (simp add: reqs)
  have "unat (arg + 16) = unat arg + 16" using unat_add_word_of_nat [of arg 16] arg by simp
  then have add: "add64 arg (word_of_nat req_sz) = Some (arg + 16)" "add64 (arg + 16) (word_of_nat push_core_sz) = Some (arg + 32)"
    using arg by (simp_all add: add64_def req_sz_def push_core_sz_def)
  have "push_cmd e arg q g =
      Option.bind (push_loop e False (pc_req_list p) n 0 rep_ok q g) (\<lambda>(ret, q, g). Some (ret, q, g))"
    unfolding push_cmd_def add bind.simps core ext push_ext_req_t.simps by (simp add: n)
  then have cmd: "push_cmd e arg q g = push_loop e False (pc_req_list p) (length reqs) 0 rep_ok q g"
    unfolding len by (simp add: case_prod_beta')
  have read: "read_batch e (pc_req_list p) off k d = Some (take k (drop off reqs))"
    if "?keep d" "off + k \<le> length reqs" for off k d
  proof -
    have "mapped rd d (pc_req_list p) (n * core_req_sz)" using m(1) that(1) by (simp add: mapped_def)
    moreover have "bytes_at rd d (pc_req_list p) (n * core_req_sz) = bytes_at rd (ks_drv g) (pc_req_list p) (n * core_req_sz)"
      using that(1) by (simp add: bytes_at_def)
    ultimately show ?thesis using read_batch_part [OF e(1) _ m(2), of d off k] that(2) len by (simp add: reqs)
  qed
  have rc: "push_loop e False (pc_req_list p) (length reqs) 0 rep_ok q g =
      map_option (\<lambda>(r, d). (r, q, g \<lparr> ks_drv := d \<rparr>)) (rc_push_loop e rc lm rm reqs (ks_drv g))"
    if "vq_virtual_queue q = Some rc" "krc_remote_mr rc = Some rm"
  proof -
    have chunk: "push_chunk e False c q g = map_option (\<lambda>(r, d). (r, q, g \<lparr> ks_drv := d \<rparr>)) (rc_push_loop e rc lm rm c (ks_drv g))"
      for c g
      using that q by (auto simp: push_chunk_def rc_push_impl_def is_bind_mode_def split: bind_splits option.splits)
    have keep: "?keep d'" if "?keep d" "rc_push_loop e rc lm rm c d = Some (r, d')" for c d r d'
      using that post_seq_keeps [OF e(2)] by (simp add: rc_push_loop_posts)
    have "push_loop e False (pc_req_list p) (length reqs) 0 rep_ok q g =
        (if 0 = length reqs then Some (rep_ok, q, g)
         else map_option (\<lambda>(r, d). (r, q, g \<lparr> ks_drv := d \<rparr>)) (rc_push_loop e rc lm rm (drop 0 reqs) (ks_drv g)))"
      by (rule rcl.push_loop_whole [where keep = ?keep]) (rule chunk, erule (1) read, erule (1) keep, simp_all)
    then show ?thesis by (auto simp: rcl.act_Nil)
  qed
  have dc: "push_loop e False (pc_req_list p) (length reqs) 0 rep_ok q g =
      map_option (\<lambda>(r, d). (r, q, g \<lparr> ks_drv := d \<rparr>)) (dc_push_loop e dc lm pt reqs (ks_drv g))"
    if "vq_virtual_queue q = None" "vq_local_dc q = Some dc" "lc_remote_endpoint (vq_local_cache q) = Some pt"
  proof -
    have chunk: "push_chunk e False c q g = map_option (\<lambda>(r, d). (r, q, g \<lparr> ks_drv := d \<rparr>)) (dc_push_loop e dc lm pt c (ks_drv g))"
      for c g
      using that q by (auto simp: push_chunk_def dc_push_impl_def is_bind_mode_def split: bind_splits option.splits)
    have keep: "?keep d'" if "?keep d" "dc_push_loop e dc lm pt c d = Some (r, d')" for c d r d'
      using that post_seq_keeps [OF e(2)] by (simp add: dc_push_loop_posts)
    have "push_loop e False (pc_req_list p) (length reqs) 0 rep_ok q g =
        (if 0 = length reqs then Some (rep_ok, q, g)
         else map_option (\<lambda>(r, d). (r, q, g \<lparr> ks_drv := d \<rparr>)) (dc_push_loop e dc lm pt (drop 0 reqs) (ks_drv g)))"
      by (rule dcl.push_loop_whole [where keep = ?keep]) (rule chunk, erule (1) read, erule (1) keep, simp_all)
    then show ?thesis by (auto simp: dcl.act_Nil)
  qed
  show ?thesis using rc dc cmd by (simp add: rc_push_loop_posts dc_push_loop_posts)
qed

text \<open>Two requests of a process whose queue uses the DC transport: a read, and a short
  write that is sent inline.\<close>

definition demo_reqs :: "core_req_t list" where
  "demo_reqs =
     [\<lparr> cq_addr = 0, cq_length = 4096, cq_lkey = 0, cq_remote_addr = 64, cq_rkey = 0, cq_send_flags = 1, cq_vid = 2, cq_type = 0 \<rparr>,
      \<lparr> cq_addr = 8, cq_length = 16, cq_lkey = 0, cq_remote_addr = 128, cq_rkey = 0, cq_send_flags = 0, cq_vid = 2, cq_type = 1 \<rparr>]"

definition demo_point :: EndPoint where
  "demo_point = \<lparr> en_qpn = 5, en_qkey = 6, en_lid = 7, en_gid = replicate 16 9, en_dct_num = 11,
     en_mr = TempMR_new 65536 4194304 12, en_ah = 13 \<rparr>"

definition demo_dc_vq :: VQ where
  "demo_dc_vq = demo_vq \<lparr> vq_local_dc := Some \<lparr> kdc_qp = 1, kdc_cq = 2, kdc_recv_cq = 3 \<rparr>,
     vq_local_cache := (vq_local_cache demo_vq) \<lparr> lc_remote_endpoint := Some demo_point \<rparr> \<rparr>"

definition demo_push_state :: "ref_state kstate" where
  "demo_push_state = demo_kstate 4 \<lparr> ks_drv := demo_mem
     (enc_req \<lparr> rt_dummy = 0, rt_reply_buf = 0 \<rparr> @ enc_push_core \<lparr> pc_req_len = 2, pc_req_list = 8192 \<rparr>
      @ enc_push_ext \<lparr> pe_push_recv_cnt = 0, pe_pop_res = 0 \<rparr>)
     (concat (map enc_core_req demo_reqs)) 4 \<rparr>"

lemma demo_push_read:
  "sv_from_user (demo_senv ft) (4096 + 16) push_core_sz (ks_drv demo_push_state) =
     enc_push_core \<lparr> pc_req_len = 2, pc_req_list = 8192 \<rparr>"
  "sv_from_user (demo_senv ft) (4096 + 32) push_ext_sz (ks_drv demo_push_state) =
     enc_push_ext \<lparr> pe_push_recv_cnt = 0, pe_pop_res = 0 \<rparr>"
  "bytes_at rs_user (ks_drv demo_push_state) 8192 (2 * core_req_sz) = concat (map enc_core_req demo_reqs)"
proof -
  let ?r = "enc_req \<lparr> rt_dummy = 0, rt_reply_buf = 0 \<rparr>" and ?c = "enc_push_core \<lparr> pc_req_len = 2, pc_req_list = 8192 \<rparr>"
    and ?x = "enc_push_ext \<lparr> pe_push_recv_cnt = 0, pe_pop_res = 0 \<rparr>" and ?data = "concat (map enc_core_req demo_reqs)"
  have d: "ks_drv demo_push_state = demo_mem (?r @ ?c @ ?x) ?data 4" by (simp add: demo_push_state_def)
  have len: "length (?r @ ?c @ ?x) \<le> 4096" "length ?data = 2 * core_req_sz" "2 * core_req_sz \<le> 4096"
    by (simp_all add: struct_sizes demo_reqs_def)
  show "sv_from_user (demo_senv ft) (4096 + 16) push_core_sz (ks_drv demo_push_state) = ?c"
    using demo_mem_request [OF refl len(1), of ft ?data 4] unfolding d by (simp add: struct_sizes)
  have "sv_from_user (demo_senv ft) (4096 + word_of_nat (length (?r @ ?c))) (length ?x) (demo_mem (?r @ ?c @ ?x) ?data 4) = ?x"
    by (rule demo_mem_request [OF _ len(1), where s = "[]"]) simp
  then show "sv_from_user (demo_senv ft) (4096 + 32) push_ext_sz (ks_drv demo_push_state) = ?x"
    unfolding d by (simp add: struct_sizes)
  show "bytes_at rs_user (ks_drv demo_push_state) 8192 (2 * core_req_sz) = ?data"
    using demo_mem_bytes [OF len(1), of ?data 4] len(2,3) unfolding d by simp
qed

theorem push_posts_in_order_witness:
  "push_cmd (demo_senv demo_features) 4096 demo_dc_vq demo_push_state = Some (rep_ok, demo_dc_vq, demo_push_state)
 \<and> map (dc_request_wr (demo_senv demo_features) (TempMR_new 4096 4194304 4) demo_point) demo_reqs =
     [Some (send_wr_default \<lparr> sw_opcode := IB_WR_RDMA_READ, sw_send_flags := {IB_SEND_SIGNALED},
        sw_target := WrDc 13 11 73 65600 12, sw_sg_list := [\<lparr> sge_addr = 4096, sge_length = 4096, sge_lkey = 4 \<rparr>] \<rparr>),
      Some (send_wr_default \<lparr> sw_opcode := IB_WR_RDMA_WRITE, sw_send_flags := {IB_SEND_INLINE},
        sw_target := WrDc 13 11 73 65664 12, sw_sg_list := [\<lparr> sge_addr = 4104, sge_length = 16, sge_lkey = 4 \<rparr>] \<rparr>)]"
proof
  let ?e = "demo_senv demo_features" and ?lm = "TempMR_new 4096 4194304 4" and ?dc = "\<lparr> kdc_qp = 1, kdc_cq = 2, kdc_recv_cq = 3 \<rparr>"
  let ?p = "\<lparr> pc_req_len = 2, pc_req_list = 8192 \<rparr>"
  show wrs: "map (dc_request_wr ?e ?lm demo_point) demo_reqs =
     [Some (send_wr_default \<lparr> sw_opcode := IB_WR_RDMA_READ, sw_send_flags := {IB_SEND_SIGNALED},
        sw_target := WrDc 13 11 73 65600 12, sw_sg_list := [\<lparr> sge_addr = 4096, sge_length = 4096, sge_lkey = 4 \<rparr>] \<rparr>),
      Some (send_wr_default \<lparr> sw_opcode := IB_WR_RDMA_WRITE, sw_send_flags := {IB_SEND_INLINE},
        sw_target := WrDc 13 11 73 65664 12, sw_sg_list := [\<lparr> sge_addr = 4104, sge_length = 16, sge_lkey = 4 \<rparr>] \<rparr>)]"
    by (simp add: demo_reqs_def demo_point_def dc_request_wr_def req_params_def add64_def op_code_table_def lib_r_reqs_def
        request_sge_def TempMR_new_def is_inline_def req_flags_def demo_senv_def demo_kenv_def)
  have "vq_virtual_queue demo_dc_vq = None \<and> vq_local_dc demo_dc_vq = Some ?dc
      \<and> lc_remote_endpoint (vq_local_cache demo_dc_vq) = Some demo_point \<longrightarrow>
    push_cmd ?e 4096 demo_dc_vq demo_push_state = map_option (\<lambda>(r, d). (r, demo_dc_vq, demo_push_state \<lparr> ks_drv := d \<rparr>))
      (post_seq (kn_ib (sv_kenv ?e)) (kdc_qp ?dc) (map (dc_request_wr ?e ?lm demo_point) demo_reqs) (ks_drv demo_push_state))"
  proof (rule push_posts_in_order [where rd = rs_user and p = ?p and n = 2, THEN conjunct2])
    show "dec_push_core (sv_from_user ?e (4096 + 16) push_core_sz (ks_drv demo_push_state)) = ?p"
      using dec_enc_push_core [of ?p "[]"] by (simp only: demo_push_read append_Nil2)
    show "dec_push_ext (sv_from_user ?e (4096 + 32) push_ext_sz (ks_drv demo_push_state)) = \<lparr> pe_push_recv_cnt = 0, pe_pop_res = 0 \<rparr>"
      using dec_enc_push_ext [of _ "[]"] by (simp only: demo_push_read append_Nil2)
    have "demo_reqs = dec_core_reqs (length demo_reqs) (concat (map enc_core_req demo_reqs))" by (simp only: dec_enc_core_reqs)
    also have "length demo_reqs = 2" by (simp add: demo_reqs_def)
    finally show "demo_reqs = dec_core_reqs 2 (bytes_at rs_user (ks_drv demo_push_state) (pc_req_list ?p) (2 * core_req_sz))"
      by (simp only: demo_push_read push_core_req_t.simps)
    show "mapped rs_user (ks_drv demo_push_state) (pc_req_list ?p) (2 * core_req_sz)"
      by (simp add: demo_push_state_def demo_mem_mapped)
  qed (use demo_user_copy in \<open>simp_all add: posts_keep_user_def demo_senv_def demo_kenv_def core_req_sz_def demo_dc_vq_def demo_vq_def\<close>)
  then show "push_cmd ?e 4096 demo_dc_vq demo_push_state = Some (rep_ok, demo_dc_vq, demo_push_state)"
    unfolding wrs by (simp add: demo_senv_def demo_kenv_def demo_dc_vq_def demo_vq_def)
qed

end
