(* ===== verification/Pop_Props.thy ===== *)
theory Pop_Props
  imports Syscall_Demo
begin

text \<open>
  The receive side of the system call: how long \<open>PopMsgs\<close> polls, and what the reply
  buffer holds afterwards.
\<close>

section \<open>Rounds of polling\<close>

text \<open>\<open>n + 1\<close> rounds from the count \<open>acc\<close>: the last result, the new count and state.\<close>

fun pop_rounds ::
  "'d senv \<Rightarrow> VQ \<Rightarrow> nat \<Rightarrow> usize \<Rightarrow> 'd kstate \<Rightarrow> ((kwc list option \<times> usize) \<times> 'd kstate) option"
where
  "pop_rounds e q 0 acc g = map_option (\<lambda>((ret, n), g). ((ret, acc + n), g)) (pop_round e q acc g)"
| "pop_rounds e q (Suc k) acc g =
     (case pop_round e q acc g of None \<Rightarrow> None | Some ((_, n), g) \<Rightarrow> pop_rounds e q k (acc + n) g)"

definition finish_pop ::
  "'d senv \<Rightarrow> req_t \<Rightarrow> u32 \<Rightarrow> ((kwc list option \<times> usize) \<times> 'd kstate) option \<Rightarrow> (reply_status \<times> 'd kstate) option"
where
  "finish_pop e req payload_sz r =
     (case r of None \<Rightarrow> None | Some ((ret, tot), g) \<Rightarrow> handle_pop_ret e ret req tot payload_sz g)"

definition enough :: "u32 \<Rightarrow> ((kwc list option \<times> usize) \<times> 'd kstate) option \<Rightarrow> bool" where
  "enough least r \<longleftrightarrow> (case r of None \<Rightarrow> True | Some ((_, tot), _) \<Rightarrow> unat least \<le> tot)"

lemma enough_Suc:
  assumes "pop_round e q acc g = Some ((ret, n), g')"
  shows "enough least (pop_rounds e q (Suc k) acc g) = enough least (pop_rounds e q k (acc + n) g')"
  by (simp add: assms)

lemma pop_msg_loop_rounds:
  assumes "retry \<le> 50001"
  shows "\<exists>n \<le> 50001 - retry.
     pop_msg_loop e q req least payload_sz retry acc g = finish_pop e req payload_sz (pop_rounds e q n acc g)
   \<and> (\<forall>m < n. \<not> enough least (pop_rounds e q m acc g))
   \<and> (n < 50001 - retry \<longrightarrow> enough least (pop_rounds e q n acc g))"
  using assms
proof (induction "50001 - retry" arbitrary: retry acc g rule: less_induct)
  case less
  show ?case
  proof (cases "pop_round e q acc g")
    case None
    then show ?thesis
      by (intro exI [of _ 0]) (simp add: pop_msg_loop.simps [of e q] finish_pop_def enough_def)
  next
    case (Some p)
    obtain ret n g' where p: "p = ((ret, n), g')" by (metis prod.collapse)
    note loop = pop_msg_loop.simps [of e q req least payload_sz retry acc g]
    show ?thesis
    proof (cases "unat least \<le> acc + n \<or> 50000 < retry")
      case True
      then show ?thesis
        using less.prems loop Some p
        by (intro exI [of _ 0]) (auto simp: finish_pop_def enough_def)
    next
      case False
      then have "50001 - (retry + 1) < 50001 - retry" "retry + 1 \<le> 50001" by linarith+
      from less.hyps [OF this, of "acc + n" g'] obtain k where k: "k \<le> 50001 - (retry + 1)"
        "pop_msg_loop e q req least payload_sz (retry + 1) (acc + n) g' =
           finish_pop e req payload_sz (pop_rounds e q k (acc + n) g')"
        "\<forall>m < k. \<not> enough least (pop_rounds e q m (acc + n) g')"
        "k < 50001 - (retry + 1) \<longrightarrow> enough least (pop_rounds e q k (acc + n) g')" by blast
      have "\<not> enough least (pop_rounds e q m acc g)" if "m < Suc k" for m
      proof (cases m)
        case 0
        then show ?thesis using False Some p by (simp add: enough_def)
      next
        case (Suc j)
        then show ?thesis using that k(3) enough_Suc [of e q acc g ret n g'] Some p by simp
      qed
      then show ?thesis
        using False k loop Some p enough_Suc [of e q acc g ret n g']
        by (intro exI [of _ "Suc k"]) auto
    qed
  qed
qed

text \<open>C15. \<open>PopMsgs\<close> ends.  A queue that is not bound polls until it has the messages the
  user asked for, and gives up after 50002 polls; then it copies what it has.  It
  polls no further than the first time there are enough, or a poll panics.  On a
  queue that was never connected the answer is \<open>nil\<close>.\<close>

theorem pop_msgs_ends:
  assumes "vq_bind_port q = None"
  shows "(\<exists>n \<le> 50001.
       pop_msg_impl e req least payload_sz q g = finish_pop e req payload_sz (pop_rounds e q n 0 g)
     \<and> (\<forall>m < n. \<not> enough least (pop_rounds e q m 0 g))
     \<and> (n < 50001 \<longrightarrow> enough least (pop_rounds e q n 0 g)))
   \<and> (vq_local_connect_port q = None \<longrightarrow> pop_msg_impl e req least payload_sz q g = Some (rep_nil, g))"
proof
  have impl: "pop_msg_impl e req least payload_sz q g = pop_msg_loop e q req least payload_sz 0 0 g"
    using assms by (simp add: pop_msg_impl_def)
  then show rounds: "\<exists>n \<le> 50001.
       pop_msg_impl e req least payload_sz q g = finish_pop e req payload_sz (pop_rounds e q n 0 g)
     \<and> (\<forall>m < n. \<not> enough least (pop_rounds e q m 0 g))
     \<and> (n < 50001 \<longrightarrow> enough least (pop_rounds e q n 0 g))"
    using pop_msg_loop_rounds [of 0 e q req least payload_sz 0 g] by simp
  show "vq_local_connect_port q = None \<longrightarrow> pop_msg_impl e req least payload_sz q g = Some (rep_nil, g)"
  proof
    assume "vq_local_connect_port q = None"
    then have "pop_round e q acc g = Some ((None, 0), g)" for acc by (simp add: pop_round_def)
    then have "pop_rounds e q n acc g = Some ((None, acc), g)" for n acc by (induction n arbitrary: acc) simp_all
    then show "pop_msg_impl e req least payload_sz q g = Some (rep_nil, g)"
      using rounds by (auto simp: finish_pop_def handle_pop_ret_def)
  qed
qed

theorem pop_msgs_ends_witness:
  "pop_msg_impl (demo_senv demo_features) \<lparr> rt_dummy = 0, rt_reply_buf = 8192 \<rparr> 4 0 demo_vq (demo_kstate 4) =
     Some (rep_nil, demo_kstate 4)"
proof -
  have "vq_bind_port demo_vq = None" "vq_local_connect_port demo_vq = None" by (simp_all add: demo_vq_def)
  then show ?thesis
    using pop_msgs_ends [of demo_vq "demo_senv demo_features" "\<lparr> rt_dummy = 0, rt_reply_buf = 8192 \<rparr>" 4 0 "demo_kstate 4"]
    by blast
qed

section \<open>The reply buffer\<close>

lemma stored_Nil [simp]: "stored m a [] = m"
  by (simp add: stored_def)

lemma unat_diff_shift:
  fixes x a :: u64
  assumes "k < 2 ^ 64"
  shows "unat (x - (a + word_of_nat k)) = (if k \<le> unat (x - a) then unat (x - a) - k else unat (x - a) + 2 ^ 64 - k)"
proof -
  have k: "unat (word_of_nat k :: u64) = k" using assms by (simp add: unat_of_nat)
  have eq: "x - (a + word_of_nat k) = (x - a) - word_of_nat k" by (simp add: diff_diff_eq)
  show ?thesis
    unfolding eq unat_sub_if_size [of "x - a" "word_of_nat k"] k by (simp add: word_size)
qed

lemma stored_append:
  fixes a :: u64
  assumes "length xs + length ys < 2 ^ 64"
  shows "stored (stored m a xs) (a + word_of_nat (length xs)) ys = stored m a (xs @ ys)"
proof
  fix x
  let ?u = "unat (x - a)"
  have lt: "?u < 2 ^ 64" using unsigned_less [where 'a = nat, of "x - a"] by simp
  have sh: "unat (x - (a + word_of_nat (length xs))) =
      (if length xs \<le> ?u then ?u - length xs else ?u + 2 ^ 64 - length xs)"
    by (rule unat_diff_shift) (use assms in simp)
  show "stored (stored m a xs) (a + word_of_nat (length xs)) ys x = stored m a (xs @ ys) x"
  proof (cases "length xs \<le> ?u")
    case True
    then show ?thesis unfolding stored_def sh by (auto simp: nth_append)
  next
    case False
    then have "\<not> ?u + 2 ^ 64 - length xs < length ys" using assms lt by simp
    with False show ?thesis unfolding stored_def sh by (auto simp: nth_append)
  qed
qed

definition memcpy_keeps_user :: "'d senv \<Rightarrow> ('d \<Rightarrow> u64 \<Rightarrow> u8 option) \<Rightarrow> bool" where
  "memcpy_keeps_user e rd \<longleftrightarrow> (\<forall>dst src n d. rd (sv_memcpy e dst src n d) = rd d)"

lemma length_concat_wcs [simp]: "length (concat (map enc_user_wc wcs)) = user_wc_sz * length wcs"
  by (induction wcs) simp_all

lemma mapped_cong: "rd d' = rd d \<Longrightarrow> mapped rd d' a n = mapped rd d a n"
  by (simp add: mapped_def)

lemma copy_wc_step:
  assumes e: "user_copy_law e rd" "memcpy_keeps_user e rd"
    and m: "mapped rd d (rb + word_of_nat (reply_sz + i * user_wc_sz)) user_wc_sz"
    and b: "unat rb + reply_sz + i * user_wc_sz < 2 ^ 64" "unat (wc_wr_id wc) + unat payload_sz < 2 ^ 64"
  shows "\<exists>d'. copy_wc e rb payload_sz i wc d = Some d'
     \<and> rd d' = stored (rd d) (rb + word_of_nat (reply_sz + i * user_wc_sz)) (enc_user_wc wc)"
proof -
  let ?slot = "rb + word_of_nat (reply_sz + i * user_wc_sz)"
  let ?d = "sv_memcpy e (wc_wr_id wc + ucast payload_sz) (wc_wr_id wc) (ucast payload_sz) d"
  have "unat (ucast payload_sz :: u64) = unat payload_sz" 
    using unsigned_less [where 'a = nat, of payload_sz] by (simp add: unsigned_ucast_eq take_bit_nat_eq_self)
  then have dst: "add64 (wc_wr_id wc) (ucast payload_sz) = Some (wc_wr_id wc + ucast payload_sz)"
    using b(2) by (simp add: add64_def)
  have "unat (rb + word_of_nat reply_sz) = unat rb + reply_sz" using b(1) unat_add_word_of_nat [of rb reply_sz] by simp
  then have "add64 rb (word_of_nat reply_sz) = Some (rb + word_of_nat reply_sz)"
    "add64 (rb + word_of_nat reply_sz) (word_of_nat (i * user_wc_sz)) = Some (rb + word_of_nat reply_sz + word_of_nat (i * user_wc_sz))"
    using b(1) by (intro add64_word_of_nat; simp)+
  then have slot: "add64 rb (word_of_nat reply_sz) = Some (rb + word_of_nat reply_sz)"
    "add64 (rb + word_of_nat reply_sz) (word_of_nat (i * user_wc_sz)) = Some ?slot"
    by (simp_all only: of_nat_add add.assoc)
  have keep: "rd ?d = rd d" using e(2) by (simp add: memcpy_keeps_user_def)
  have "rd (snd (sv_to_user e ?slot (enc_user_wc wc) ?d)) = stored (rd ?d) ?slot (enc_user_wc wc)"
    by (rule user_copy_lawD(3) [OF e(1)]) (use m keep mapped_cong [of rd ?d d] in simp)
  then show ?thesis unfolding copy_wc_def using dst slot keep by (simp del: of_nat_mult of_nat_add)
qed

lemma copy_wcs_stored:
  assumes e: "user_copy_law e rd" "memcpy_keeps_user e rd"
  shows "mapped rd d (rb + word_of_nat (reply_sz + i * user_wc_sz)) (user_wc_sz * length wcs) \<Longrightarrow>
     unat rb + reply_sz + (i + length wcs) * user_wc_sz < 2 ^ 64 \<Longrightarrow>
     \<forall>wc \<in> set wcs. unat (wc_wr_id wc) + unat payload_sz < 2 ^ 64 \<Longrightarrow>
     \<exists>d'. copy_wcs e rb payload_sz i wcs d = Some d'
       \<and> rd d' = stored (rd d) (rb + word_of_nat (reply_sz + i * user_wc_sz)) (concat (map enc_user_wc wcs))"
proof (induction wcs arbitrary: i d)
  case (Cons wc wcs)
  let ?slot = "\<lambda>i. rb + word_of_nat (reply_sz + i * user_wc_sz) :: u64"
  have next_slot: "?slot (Suc i) = ?slot i + word_of_nat user_wc_sz" by (simp add: algebra_simps)
  have m: "mapped rd d (?slot i) user_wc_sz" "mapped rd d (?slot (Suc i)) (user_wc_sz * length wcs)"
    using Cons.prems(1) mapped_split [of rd d "?slot i" user_wc_sz "user_wc_sz * length wcs"]
    unfolding next_slot by (simp_all only: length_Cons mult_Suc_right)
  have "unat rb + reply_sz + i * user_wc_sz < 2 ^ 64" using Cons.prems(2) by (simp add: algebra_simps)
  then obtain d1 where d1: "copy_wc e rb payload_sz i wc d = Some d1" "rd d1 = stored (rd d) (?slot i) (enc_user_wc wc)"
    using copy_wc_step [OF e m(1)] Cons.prems(3) by fastforce
  obtain d2 where d2: "copy_wcs e rb payload_sz (Suc i) wcs d1 = Some d2"
    "rd d2 = stored (rd d1) (?slot (Suc i)) (concat (map enc_user_wc wcs))"
    using Cons.IH [OF mapped_stored [OF d1(2) m(2)]] Cons.prems(2,3) by fastforce
  have "user_wc_sz + user_wc_sz * length wcs < 2 ^ 64" using Cons.prems(2) by (simp add: algebra_simps)
  then have "rd d2 = stored (rd d) (?slot i) (enc_user_wc wc @ concat (map enc_user_wc wcs))"
    using stored_append [of "enc_user_wc wc" "concat (map enc_user_wc wcs)" "rd d" "?slot i"]
    unfolding d2(2) d1(2) next_slot length_enc length_concat_wcs by blast
  with d1(1) d2(1) show ?case by (simp del: of_nat_add of_nat_mult)
qed simp

definition pop_count_off :: nat where
  "pop_count_off = reply_sz + pop_wc_len * user_wc_sz"



end
