(* ===== verification/Meta_Rpc.thy ===== *)
theory Meta_Rpc
  imports Virtual_Queue
begin

text \<open>
  The meta data protocol (\<open>KRdmaKit-syscall/src/rpc/protocol.rs\<close>): its requests, the
  callers, and the handlers of the meta server, which keeps the end points of the
  registered nodes and publishes them as a table in its memory pages; and the
  remote connection of a queue pair.  The transport (\<open>RPCClient::call\<close>), the queue
  pair transitions of \<open>rc_connector\<close> and the reading and writing of structures in kernel
  memory are parameters.
\<close>

section \<open>Requests\<close>

datatype RPCReqType = Dummy | RegisterDCMeta | DeregisterDcMeta | QueryDCMeta | ConnectRC | DisconnectRC

fun RPCReqType_value :: "RPCReqType \<Rightarrow> u8" where
  "RPCReqType_value Dummy = 0"
| "RPCReqType_value RegisterDCMeta = 1"
| "RPCReqType_value DeregisterDcMeta = 2"
| "RPCReqType_value QueryDCMeta = 3"
| "RPCReqType_value ConnectRC = 4"
| "RPCReqType_value DisconnectRC = 5"

record payload_RegDCMeta =
  pr_gid :: ib_gid
  pr_port :: usize
  pr_local_point :: EndPoint

record payload_gid =
  pg_gid :: ib_gid

record payload_ConnectRC =
  pc_gid :: ib_gid
  pc_lid :: u16
  pc_qpn :: u32

record payload_DisconnectRC =
  px_qd :: usize

record reply_ConnectRC =
  ry_gid :: ib_gid
  ry_lid :: u16
  ry_qpn :: u32
  ry_qd :: usize

text \<open>\<open>rv_*_at\<close> read a payload at an address, \<open>rv_set_*\<close> write a reply; a call takes the
  server, the operation, the size in the header, the payload and the timeout, and
  None is a call that never returns.\<close>

record 'd renv =
  rv_senv :: "'d senv"
  rv_random8 :: u8
  rv_reg_at :: "u64 \<Rightarrow> 'd \<Rightarrow> payload_RegDCMeta"
  rv_gid_at :: "u64 \<Rightarrow> 'd \<Rightarrow> payload_gid"
  rv_connect_at :: "u64 \<Rightarrow> 'd \<Rightarrow> payload_ConnectRC"
  rv_disconnect_at :: "u64 \<Rightarrow> 'd \<Rightarrow> payload_DisconnectRC"
  rv_set_connect :: "u64 \<Rightarrow> reply_ConnectRC \<Rightarrow> 'd \<Rightarrow> 'd"
  rv_set_u32 :: "u64 \<Rightarrow> u32 \<Rightarrow> 'd \<Rightarrow> 'd"
  rv_bring_to_init :: "ptr \<Rightarrow> 'd \<Rightarrow> 'd"
  rv_bring_init_to_rtr :: "ptr \<Rightarrow> u32 \<Rightarrow> u16 \<Rightarrow> ib_gid \<Rightarrow> 'd \<Rightarrow> 'd"
  rv_bring_rtr_to_rts :: "ptr \<Rightarrow> 'd \<Rightarrow> 'd"
  rv_call_reg :: "EndPoint \<Rightarrow> u8 \<Rightarrow> nat \<Rightarrow> payload_RegDCMeta \<Rightarrow> nat \<Rightarrow> 'd \<Rightarrow> (u64 option \<times> 'd) option"
  rv_call_gid :: "EndPoint \<Rightarrow> u8 \<Rightarrow> nat \<Rightarrow> payload_gid \<Rightarrow> nat \<Rightarrow> 'd \<Rightarrow> (u64 option \<times> 'd) option"
  rv_call_query :: "EndPoint \<Rightarrow> u8 \<Rightarrow> nat \<Rightarrow> payload_gid \<Rightarrow> nat \<Rightarrow> 'd \<Rightarrow> (EndPoint option \<times> 'd) option"
  rv_call_connect :: "EndPoint \<Rightarrow> u8 \<Rightarrow> nat \<Rightarrow> payload_ConnectRC \<Rightarrow> nat \<Rightarrow> 'd \<Rightarrow> (reply_ConnectRC option \<times> 'd) option"
  rv_call_disconnect :: "EndPoint \<Rightarrow> u8 \<Rightarrow> nat \<Rightarrow> payload_DisconnectRC \<Rightarrow> nat \<Rightarrow> 'd \<Rightarrow> (u32 option \<times> 'd) option"

abbreviation rv_verbs :: "'d renv \<Rightarrow> 'd verbs" where "rv_verbs e \<equiv> kn_verbs (sv_kenv (rv_senv e))"
abbreviation rv_cm :: "'d renv \<Rightarrow> 'd kcm" where "rv_cm e \<equiv> kn_cm (sv_kenv (rv_senv e))"

section \<open>Callers\<close>

text \<open>The callers use the second RPC client; a payload's end point is dropped with it.\<close>

definition call_reg_dc_meta :: "'d renv \<Rightarrow> EndPoint \<Rightarrow> 'd kstate \<Rightarrow> (u64 option \<times> 'd kstate) option" where
  "call_reg_dc_meta e meta_point g = do {
     local_point \<leftarrow> get_rpc_client 1 g;
     payload \<leftarrow> Some \<lparr> pr_gid = en_gid local_point, pr_port = unat (rv_random8 e),
                        pr_local_point = sv_self_clone (rv_senv e) local_point \<rparr>;
     (res, d) \<leftarrow> rv_call_reg e meta_point (RPCReqType_value RegisterDCMeta) 1024 payload (500 * 1000) (ks_drv g);
     Some (res, g \<lparr> ks_drv := EndPoint_drop (rv_verbs e) (pr_local_point payload) d \<rparr>)
   }"

definition call_query_dc_meta ::
  "'d renv \<Rightarrow> EndPoint \<Rightarrow> string \<Rightarrow> 'd kstate \<Rightarrow> (EndPoint option \<times> 'd kstate) option"
where
  "call_query_dc_meta e meta_point for_gid g = do {
     _ \<leftarrow> get_rpc_client 1 g;
     gid \<leftarrow> str_to_gid for_gid;
     (res, d) \<leftarrow> rv_call_query e meta_point (RPCReqType_value QueryDCMeta) 1024 \<lparr> pg_gid = gid \<rparr> (5 * 1000) (ks_drv g);
     Some (res, g \<lparr> ks_drv := d \<rparr>)
   }"

definition call_dereg_dc_meta :: "'d renv \<Rightarrow> EndPoint \<Rightarrow> 'd kstate \<Rightarrow> (u64 option \<times> 'd kstate) option" where
  "call_dereg_dc_meta e meta_point g = do {
     local_point \<leftarrow> get_rpc_client 1 g;
     (res, d) \<leftarrow> rv_call_gid e meta_point (RPCReqType_value DeregisterDcMeta) 1024 \<lparr> pg_gid = en_gid local_point \<rparr>
                  (5 * 1000) (ks_drv g);
     Some (res, g \<lparr> ks_drv := d \<rparr>)
   }"

definition call_connect_rc ::
  "'d renv \<Rightarrow> EndPoint \<Rightarrow> u32 \<Rightarrow> 'd kstate \<Rightarrow> (reply_ConnectRC option \<times> 'd kstate) option"
where
  "call_connect_rc e meta_point local_qpn g = do {
     local_point \<leftarrow> get_rpc_client 1 g;
     (res, d) \<leftarrow> rv_call_connect e meta_point (RPCReqType_value ConnectRC) 1024
                  \<lparr> pc_gid = en_gid local_point, pc_lid = en_lid local_point, pc_qpn = local_qpn \<rparr> (15 * 1000) (ks_drv g);
     Some (res, g \<lparr> ks_drv := d \<rparr>)
   }"

definition call_disconnect_rc ::
  "'d renv \<Rightarrow> EndPoint \<Rightarrow> usize \<Rightarrow> 'd kstate \<Rightarrow> (u32 option \<times> 'd kstate) option"
where
  "call_disconnect_rc e meta_point qd g = do {
     _ \<leftarrow> get_rpc_client 1 g;
     (res, d) \<leftarrow> rv_call_disconnect e meta_point (RPCReqType_value DisconnectRC) 1024 \<lparr> px_qd = qd \<rparr> (5 * 1000) (ks_drv g);
     Some (res, g \<lparr> ks_drv := d \<rparr>)
   }"

section \<open>Handlers of the meta data\<close>

text \<open>The table of a page: the number of entries, then the end points, in the order in
  which the map is traversed, which is the order of the association list.  Each
  entry is a clone, dropped after the copy.\<close>

fun write_entries :: "'d senv \<Rightarrow> u64 \<Rightarrow> u64 \<Rightarrow> EndPoint list \<Rightarrow> 'd \<Rightarrow> 'd option" where
  "write_entries e va idx [] d = Some d"
| "write_entries e va idx (p # ps) d = do {
     a \<leftarrow> add64 va 8;
     off \<leftarrow> mul64 idx (sv_endpoint_sz e);
     a \<leftarrow> add64 a off;
     d \<leftarrow> Some (sv_set_endpoint e a (sv_self_clone e p) d);
     d \<leftarrow> Some (EndPoint_drop (kn_verbs (sv_kenv e)) (sv_self_clone e p) d);
     write_entries e va (idx + 1) ps d
   }"

fun write_pages :: "'d senv \<Rightarrow> EndPoint list \<Rightarrow> u64 list \<Rightarrow> 'd \<Rightarrow> 'd option" where
  "write_pages e metas [] d = Some d"
| "write_pages e metas (pa # pas) d = do {
     va \<leftarrow> Some (kn_pa_to_va (sv_kenv e) pa);
     d \<leftarrow> write_entries e va 0 metas d;
     write_pages e metas pas (sv_set_u64 e va (word_of_nat (length metas)) d)
   }"

definition reg_dc_meta_handler ::
  "'d renv \<Rightarrow> u64 \<Rightarrow> u64 \<Rightarrow> 'd kstate \<Rightarrow> (u32 \<times> 'd kstate) option"
where
  "reg_dc_meta_handler e req_va reply_va g =
     (let s = rv_senv e; payload = rv_reg_at e req_va (ks_drv g);
          g = put_remote_dc_meta s (gid_to_str (pr_gid payload)) (pr_local_point payload) g in do {
        kv_meta_pa \<leftarrow> get_global_test_mem_pa (pr_port payload) g;
        d \<leftarrow> write_pages s (map snd (ks_meta_info g)) (ks_mem_pa g) (ks_drv g);
        d \<leftarrow> Some (sv_set_u64 s reply_va kv_meta_pa d);
        Some (64, g \<lparr> ks_drv := EndPoint_drop (rv_verbs e) (pr_local_point payload) d \<rparr>)
      })"

definition dereg_dc_meta_handler ::
  "'d renv \<Rightarrow> u64 \<Rightarrow> u64 \<Rightarrow> 'd kstate \<Rightarrow> (u32 \<times> 'd kstate) option"
where
  "dereg_dc_meta_handler e req_va reply_va g =
     (let s = rv_senv e; payload = rv_gid_at e req_va (ks_drv g);
          g = evict_remote_dc_meta s (gid_to_str (pg_gid payload)) g in
      Some (64, g \<lparr> ks_drv := sv_set_u64 s reply_va 0 (ks_drv g) \<rparr>))"

text \<open>The reply is dropped after the copy.\<close>

definition query_dc_meta_handler ::
  "'d renv \<Rightarrow> u64 \<Rightarrow> u64 \<Rightarrow> 'd kstate \<Rightarrow> (u32 \<times> 'd kstate) option"
where
  "query_dc_meta_handler e req_va reply_va g =
     (let s = rv_senv e; payload = rv_gid_at e req_va (ks_drv g) in
      case get_remote_dc_meta (gid_to_str (pg_gid payload)) g of
        None \<Rightarrow> Some (0, g)
      | Some point \<Rightarrow>
          (let reply = sv_self_clone s point; d = sv_set_endpoint s reply_va reply (ks_drv g) in
           Some (ucast (sv_endpoint_sz s), g \<lparr> ks_drv := EndPoint_drop (rv_verbs e) reply d \<rparr>)))"

section \<open>Handlers of remote connections\<close>

text \<open>The results of the transitions are ignored.  The new connection replaces one that
  is registered under the same key, which is dropped.\<close>

definition connect_rc_handler ::
  "'d renv \<Rightarrow> u64 \<Rightarrow> u64 \<Rightarrow> 'd kstate \<Rightarrow> (u32 \<times> 'd kstate) option"
where
  "connect_rc_handler e req_va reply_va g =
     (let v = rv_verbs e; c = rv_cm e; payload = rv_connect_at e req_va (ks_drv g) in do {
        ctrl \<leftarrow> get_global_rctrl 0 g;
        (rc, d) \<leftarrow> KRC_new_with_srq v c (KConfig_default (kn_random (sv_kenv (rv_senv e)))) 0 0 (get_recv_cq ctrl) (ks_drv g);
        qp \<leftarrow> rc;
        d \<leftarrow> Some (rv_bring_to_init e (krc_qp qp) d);
        d \<leftarrow> Some (rv_bring_init_to_rtr e (krc_qp qp) (pc_qpn payload) (pc_lid payload) (pc_gid payload) d);
        d \<leftarrow> Some (rv_bring_rtr_to_rts e (krc_qp qp) d);
        node \<leftarrow> get_rpc_client 0 g;
        (new_key, ctrl) \<leftarrow> Some (get_next_in_qp_key 0 ctrl);
        reply \<leftarrow> Some \<lparr> ry_gid = en_gid node, ry_lid = en_lid node, ry_qpn = vb_qp_num v (krc_qp qp) d, ry_qd = unat new_key \<rparr>;
        d \<leftarrow> (case get_trc (unat new_key) ctrl of None \<Rightarrow> Some d | Some old \<Rightarrow> KRC_drop v c old d);
        ctrl \<leftarrow> Some (ctrl \<lparr> rl_registered_rcs := AList.update (unat new_key) qp (rl_registered_rcs ctrl) \<rparr>);
        Some (32, (put_global_rctrl 0 ctrl g) \<lparr> ks_drv := rv_set_connect e reply_va reply d \<rparr>)
      })"

definition disconnect_rc_handler ::
  "'d renv \<Rightarrow> u64 \<Rightarrow> u64 \<Rightarrow> 'd kstate \<Rightarrow> (u32 \<times> 'd kstate) option"
where
  "disconnect_rc_handler e req_va reply_va g =
     (let payload = rv_disconnect_at e req_va (ks_drv g) in do {
        ctrl \<leftarrow> get_global_rctrl 0 g;
        (ctrl, d) \<leftarrow> dereg_rc (sv_kenv (rv_senv e)) (px_qd payload) ctrl (ks_drv g);
        Some (4, (put_global_rctrl 0 ctrl g) \<lparr> ks_drv := rv_set_u32 e reply_va 0 d \<rparr>)
      })"

definition fill_handler_table ::
  "'d renv \<Rightarrow> (u8 \<rightharpoonup> (u64 \<Rightarrow> u64 \<Rightarrow> 'd kstate \<Rightarrow> (u32 \<times> 'd kstate) option)) \<Rightarrow>
     (u8 \<rightharpoonup> (u64 \<Rightarrow> u64 \<Rightarrow> 'd kstate \<Rightarrow> (u32 \<times> 'd kstate) option))"
where
  "fill_handler_table e table =
     table(RPCReqType_value RegisterDCMeta \<mapsto> reg_dc_meta_handler e,
           RPCReqType_value DeregisterDcMeta \<mapsto> dereg_dc_meta_handler e,
           RPCReqType_value QueryDCMeta \<mapsto> query_dc_meta_handler e,
           RPCReqType_value ConnectRC \<mapsto> connect_rc_handler e,
           RPCReqType_value DisconnectRC \<mapsto> disconnect_rc_handler e)"

end
