(* ===== verification/Client.thy ===== *)
theory Client
  imports Meta_Rpc
begin

text \<open>
  Loading and unloading of the system call module (\<open>Client\<close> of
  \<open>KRdmaKit-syscall/src/client.rs\<close>): a context per device, the controllers of the 25
  services, the RPC clients, the global memory, and the registration with the meta
  server.  The devices that the kernel reports, the allocation of physical memory and
  the construction of an RPC client are parameters.  None is a panic.
\<close>

record 'd cenv =
  ce_renv :: "'d renv"
  ce_devices :: "ptr list"
  ce_dev_verbs :: "ptr \<Rightarrow> 'd verbs"
  ce_dev_err :: "ptr \<Rightarrow> i32"
  ce_alloc_pa :: "usize \<Rightarrow> 'd \<Rightarrow> u64 \<times> 'd"
  ce_rpc_create :: "RContext \<Rightarrow> KUD \<Rightarrow> u32 \<Rightarrow> TempMR \<Rightarrow> 'd \<Rightarrow> EndPoint \<times> 'd"
  ce_rpc_drop :: "EndPoint \<Rightarrow> 'd \<Rightarrow> 'd"

abbreviation ce_senv :: "'d cenv \<Rightarrow> 'd senv" where "ce_senv e \<equiv> rv_senv (ce_renv e)"
abbreviation ce_kenv :: "'d cenv \<Rightarrow> 'd kenv" where "ce_kenv e \<equiv> sv_kenv (rv_senv (ce_renv e))"

section \<open>Devices, contexts and controllers\<close>

definition add_one :: "'d cenv \<Rightarrow> ptr \<Rightarrow> 'd \<Rightarrow> RNIC list \<Rightarrow> RNIC list" where
  "add_one e dev d nics =
     (case RNIC_create (ce_dev_verbs e dev) (ce_dev_err e dev) dev 1 d of
        Ok nic \<Rightarrow> nics @ [nic]
      | Err _ \<Rightarrow> nics)"

fun create_contexts :: "'d cenv \<Rightarrow> RNIC list \<Rightarrow> 'd \<Rightarrow> (RContext list \<times> 'd) option" where
  "create_contexts e [] d = Some ([], d)"
| "create_contexts e (nic # nics) d =
     (case RContext_create (kn_verbs (ce_kenv e)) nic d of
        (None, d) \<Rightarrow> None
      | (Some c, d) \<Rightarrow> map_option (\<lambda>(cs, d). (c # cs, d)) (create_contexts e nics d))"

text \<open>One controller per device for a service; its test memory has 4 MB.\<close>

fun create_service :: "'d cenv \<Rightarrow> nat \<Rightarrow> RContext list \<Rightarrow> 'd \<Rightarrow> (RCtrl list \<times> 'd) option" where
  "create_service e i [] d = Some ([], d)"
| "create_service e i (ctx # ctxs) d =
     (let (pa, d) = ce_alloc_pa e (4 * 1024 * 1024) d in
      case RCtrl_create (ce_kenv e) (word_of_nat i) ctx pa d of
        None \<Rightarrow> None
      | Some (None, d) \<Rightarrow> None
      | Some (Some r, d) \<Rightarrow> map_option (\<lambda>(rs, d). (r # rs, d)) (create_service e i ctxs d))"

fun create_services :: "'d cenv \<Rightarrow> nat list \<Rightarrow> RContext list \<Rightarrow> 'd \<Rightarrow> (RCtrl list \<times> 'd) option" where
  "create_services e [] ctxs d = Some ([], d)"
| "create_services e (i # is) ctxs d = do {
     (rs, d) \<leftarrow> create_service e i ctxs d;
     (rs', d) \<leftarrow> create_services e is ctxs d;
     Some (rs @ rs', d)
   }"

section \<open>RPC clients and global memory\<close>

fun create_rpc_clients :: "'d cenv \<Rightarrow> nat list \<Rightarrow> 'd kstate \<Rightarrow> 'd kstate option" where
  "create_rpc_clients e [] g = Some g"
| "create_rpc_clients e (i # is) g = do {
     ctx \<leftarrow> get_global_rcontext 0 g;
     ctrl \<leftarrow> get_global_rctrl (i * 2) g;
     mr \<leftarrow> Some (get_self_test_mr (kn_verbs (ce_kenv e)) ctrl (ks_drv g));
     dct_num \<leftarrow> get_dc_num (kn_verbs (ce_kenv e)) ctrl (ks_drv g);
     ud \<leftarrow> get_ud DEFAULT_RPC_HINT ctrl;
     (p, d) \<leftarrow> Some (ce_rpc_create e ctx ud dct_num mr (ks_drv g));
     create_rpc_clients e is (g \<lparr> ks_rpc_clients := ks_rpc_clients g @ [p], ks_drv := d \<rparr>)
   }"

fun create_global_mem :: "'d cenv \<Rightarrow> nat \<Rightarrow> 'd kstate \<Rightarrow> 'd kstate" where
  "create_global_mem e 0 g = g"
| "create_global_mem e (Suc n) g =
     (let (pa, d) = ce_alloc_pa e (1024 * 4) (ks_drv g) in
      create_global_mem e n (g \<lparr> ks_mem_pa := ks_mem_pa g @ [pa], ks_drv := d \<rparr>))"

section \<open>The meta server\<close>

text \<open>The path is tried 16 times.\<close>

fun explore_retry :: "'d senv \<Rightarrow> RContext \<Rightarrow> string \<Rightarrow> nat \<Rightarrow> 'd \<Rightarrow> sa_path_rec option \<times> 'd" where
  "explore_retry e ctx addr 0 d = (None, d)"
| "explore_retry e ctx addr (Suc n) d =
     (case sv_explore_path e ctx addr 0 d of
        (Some p, d) \<Rightarrow> (Some p, d)
      | (None, d) \<Rightarrow> explore_retry e ctx addr n d)"

text \<open>The result is whether the node is connected to the meta server; the resolver is
  dropped on every path.\<close>

definition conn_meta :: "'d cenv \<Rightarrow> 'd kstate \<Rightarrow> (bool \<times> 'd kstate) option" where
  "conn_meta e g =
     (let s = ce_senv e; v = kn_verbs (ce_kenv e); c = kn_cm (ce_kenv e); gid = sv_meta_server_gid s in
      if length (ks_mem_pa g) \<le> 1 \<or> ks_rcontexts g = [] then None
      else
        (let g = g \<lparr> ks_meta_kv_pa := ks_mem_pa g ! 1 \<rparr>; ctx = ks_rcontexts g ! 0;
             (path, d) = explore_retry s ctx gid 16 (ks_drv g) in
         case path of
           None \<Rightarrow> Some (False, g \<lparr> ks_drv := d \<rparr>)
         | Some path \<Rightarrow>
             (let (sidr, d) = SidrCM_new c ctx 0 d in do {
                sidr \<leftarrow> sidr;
                (let (res, sidr, d) = sidr_connect v c sidr path 0 (word_of_nat DEFAULT_RPC_HINT) d in
                 case res of
                   Err _ \<Rightarrow> Some (False, g \<lparr> ks_drv := SidrCM_drop v c sidr d \<rparr>)
                 | Ok point \<Rightarrow>
                     (let d = (case get_remote_dc_meta gid g of None \<Rightarrow> d | Some old \<Rightarrow> EndPoint_drop v old d);
                          g = g \<lparr> ks_meta_info := AList.update gid point (ks_meta_info g), ks_drv := d \<rparr> in do {
                        (reply, g) \<leftarrow> call_reg_dc_meta (ce_renv e) point g;
                        g \<leftarrow> Some (case reply of None \<Rightarrow> g | Some pa \<Rightarrow> g \<lparr> ks_meta_kv_pa := pa \<rparr>);
                        Some (True, g \<lparr> ks_drv := SidrCM_drop v c sidr (ks_drv g) \<rparr>)
                      }))
              })))"

section \<open>Loading and unloading\<close>

definition Client_create :: "'d cenv \<Rightarrow> 'd kstate \<Rightarrow> (bool \<times> 'd kstate) option" where
  "Client_create e g =
     (let nics = fold (\<lambda>dev. add_one e dev (ks_drv g)) (ce_devices e) [] in
      if nics = [] then Some (False, g)
      else do {
        (ctxs, d) \<leftarrow> create_contexts e nics (ks_drv g);
        g \<leftarrow> Some (g \<lparr> ks_rcontexts := ks_rcontexts g @ ctxs, ks_drv := d \<rparr>);
        (rs, d) \<leftarrow> create_services e [0..<MAX_SERVICE_NUM] (take (length nics) (ks_rcontexts g)) (ks_drv g);
        g \<leftarrow> Some (g \<lparr> ks_rctrl := ks_rctrl g @ rs, ks_drv := d \<rparr>);
        g \<leftarrow> create_rpc_clients e [0..<2] g;
        g \<leftarrow> Some (create_global_mem e 12 g);
        (if ft_meta_kv (sv_feat (ce_senv e)) then conn_meta e g else Some (True, g))
      })"

fun drop_ctrls :: "'d kenv \<Rightarrow> RCtrl list \<Rightarrow> 'd \<Rightarrow> 'd option" where
  "drop_ctrls e [] d = Some d"
| "drop_ctrls e (r # rs) d = Option.bind (RCtrl_drop e r d) (drop_ctrls e rs)"

fun reset_contexts :: "'d verbs \<Rightarrow> RContext list \<Rightarrow> 'd \<Rightarrow> RContext list \<times> 'd" where
  "reset_contexts v [] d = ([], d)"
| "reset_contexts v (c # cs) d =
     (let (c, d) = RContext_reset v c d; (cs, d) = reset_contexts v cs d in (c # cs, d))"

text \<open>Drop deregisters from the meta server, clears the meta data, the RPC clients and the
  controllers, and resets the contexts; the vector of the contexts keeps them.\<close>

definition Client_drop :: "'d cenv \<Rightarrow> 'd kstate \<Rightarrow> 'd kstate option" where
  "Client_drop e g =
     (let s = ce_senv e; v = kn_verbs (ce_kenv e) in do {
        g \<leftarrow> (if ft_meta_kv (sv_feat s) then do {
                point \<leftarrow> get_remote_dc_meta (sv_meta_server_gid s) g;
                map_option snd (call_dereg_dc_meta (ce_renv e) point g)
              } else Some g);
        d \<leftarrow> Some (fold (\<lambda>(_, p). EndPoint_drop v p) (ks_meta_info g) (ks_drv g));
        d \<leftarrow> Some (fold (ce_rpc_drop e) (ks_rpc_clients g) d);
        d \<leftarrow> drop_ctrls (ce_kenv e) (ks_rctrl g) d;
        (ctxs, d) \<leftarrow> Some (reset_contexts v (ks_rcontexts g) d);
        Some (g \<lparr> ks_meta_info := [], ks_rpc_clients := [], ks_rctrl := [], ks_rcontexts := ctxs, ks_drv := d \<rparr>)
      })"

end
