(* ===== verification/Meta_Props.thy ===== *)
theory Meta_Props
  imports Meta_Rpc Syscall_Demo
begin

text \<open>
  The table of the meta server: what the handlers publish in the memory pages, and what
  a client that reads a page finds there.
\<close>

section \<open>Kernel memory\<close>

text \<open>The ranges from \<open>a\<close> of length \<open>n\<close> and from \<open>b\<close> of length \<open>m\<close> do not overlap.\<close>

definition clear :: "u64 \<Rightarrow> nat \<Rightarrow> u64 \<Rightarrow> nat \<Rightarrow> bool" where
  "clear a n b m \<longleftrightarrow> unat a + n \<le> unat b \<or> unat b + m \<le> unat a"

text \<open>A read sees the last write to its place, and neither a write elsewhere nor the
  release of an address handle.\<close>

definition kmem_law :: "'d senv \<Rightarrow> bool" where
  "kmem_law e \<longleftrightarrow>
     (\<forall>a x d. sv_u64 e a (sv_set_u64 e a x d) = x)
   \<and> (\<forall>a p d. sv_endpoint e a (sv_set_endpoint e a p d) = p)
   \<and> (\<forall>a x b d. clear a 8 b 8 \<longrightarrow> sv_u64 e b (sv_set_u64 e a x d) = sv_u64 e b d)
   \<and> (\<forall>a x b d. clear a 8 b (unat (sv_endpoint_sz e)) \<longrightarrow> sv_endpoint e b (sv_set_u64 e a x d) = sv_endpoint e b d)
   \<and> (\<forall>a p b d. clear a (unat (sv_endpoint_sz e)) b 8 \<longrightarrow> sv_u64 e b (sv_set_endpoint e a p d) = sv_u64 e b d)
   \<and> (\<forall>a p b d. clear a (unat (sv_endpoint_sz e)) b (unat (sv_endpoint_sz e)) \<longrightarrow>
        sv_endpoint e b (sv_set_endpoint e a p d) = sv_endpoint e b d)
   \<and> (\<forall>h b d. sv_u64 e b (vb_destroy_ah (kn_verbs (sv_kenv e)) h d) = sv_u64 e b d)
   \<and> (\<forall>h b d. sv_endpoint e b (vb_destroy_ah (kn_verbs (sv_kenv e)) h d) = sv_endpoint e b d)"

lemma kmem_lawD:
  assumes "kmem_law e"
  shows "sv_u64 e a (sv_set_u64 e a x d) = x"
    "sv_endpoint e a (sv_set_endpoint e a p d) = p"
    "clear a 8 b 8 \<Longrightarrow> sv_u64 e b (sv_set_u64 e a x d) = sv_u64 e b d"
    "clear a 8 b (unat (sv_endpoint_sz e)) \<Longrightarrow> sv_endpoint e b (sv_set_u64 e a x d) = sv_endpoint e b d"
    "clear a (unat (sv_endpoint_sz e)) b 8 \<Longrightarrow> sv_u64 e b (sv_set_endpoint e a p d) = sv_u64 e b d"
    "clear a (unat (sv_endpoint_sz e)) b (unat (sv_endpoint_sz e)) \<Longrightarrow>
       sv_endpoint e b (sv_set_endpoint e a p d) = sv_endpoint e b d"
    "sv_u64 e b (EndPoint_drop (kn_verbs (sv_kenv e)) q d) = sv_u64 e b d"
    "sv_endpoint e b (EndPoint_drop (kn_verbs (sv_kenv e)) q d) = sv_endpoint e b d"
  using assms unfolding kmem_law_def EndPoint_drop_def by simp_all

text \<open>What lies outside the range is the same in both states.\<close>

definition same_outside :: "'d senv \<Rightarrow> u64 \<Rightarrow> nat \<Rightarrow> 'd \<Rightarrow> 'd \<Rightarrow> bool" where
  "same_outside e a n d d' \<longleftrightarrow>
     (\<forall>b. clear a n b 8 \<longrightarrow> sv_u64 e b d' = sv_u64 e b d)
   \<and> (\<forall>b. clear a n b (unat (sv_endpoint_sz e)) \<longrightarrow> sv_endpoint e b d' = sv_endpoint e b d)"

lemma clear_sub: "\<lbrakk> clear a n b m; unat a \<le> unat a'; unat a' + n' \<le> unat a + n \<rbrakk> \<Longrightarrow> clear a' n' b m"
  by (auto simp: clear_def)

lemma clear_sub_right: "\<lbrakk> clear a n b m; unat b \<le> unat b'; unat b' + m' \<le> unat b + m \<rbrakk> \<Longrightarrow> clear a n b' m'"
  by (auto simp: clear_def)

lemma clear_sym: "clear a n b m \<longleftrightarrow> clear b m a n"
  by (auto simp: clear_def)

lemma same_outside_refl: "same_outside e a n d d"
  by (simp add: same_outside_def)

lemma same_outside_trans:
  "\<lbrakk> same_outside e a n d d'; same_outside e a n d' d'' \<rbrakk> \<Longrightarrow> same_outside e a n d d''"
  by (simp add: same_outside_def)

lemma same_outside_mono:
  assumes "same_outside e a' n' d d'" "unat a \<le> unat a'" "unat a' + n' \<le> unat a + n"
  shows "same_outside e a n d d'"
  using assms clear_sub [where a = a and n = n] unfolding same_outside_def by blast

lemma same_outside_set:
  assumes "kmem_law e"
  shows "same_outside e a 8 d (sv_set_u64 e a x d)"
    "same_outside e a (unat (sv_endpoint_sz e)) d (sv_set_endpoint e a p d)"
    "same_outside e a n d (EndPoint_drop (kn_verbs (sv_kenv e)) q d)"
  using kmem_lawD [OF assms] by (simp_all add: same_outside_def)

section \<open>The table of a page\<close>

definition slot :: "'d senv \<Rightarrow> u64 \<Rightarrow> nat \<Rightarrow> u64" where
  "slot e va i = va + 8 + word_of_nat i * sv_endpoint_sz e"

definition table_at :: "'d senv \<Rightarrow> u64 \<Rightarrow> EndPoint list \<Rightarrow> 'd \<Rightarrow> bool" where
  "table_at e va ps d \<longleftrightarrow>
     sv_u64 e va d = word_of_nat (length ps) \<and> (\<forall>i<length ps. sv_endpoint e (slot e va i) d = ps ! i)"

definition table_len :: "'d senv \<Rightarrow> nat \<Rightarrow> nat" where
  "table_len e n = 8 + n * unat (sv_endpoint_sz e)"

lemma unat_slot:
  assumes "unat va + table_len e n < 2 ^ 64" "i \<le> n" "0 < unat (sv_endpoint_sz e)"
  shows "unat (slot e va i) = unat va + 8 + i * unat (sv_endpoint_sz e)"
    "add64 va 8 = Some (va + 8)"
    "mul64 (word_of_nat i) (sv_endpoint_sz e) = Some (word_of_nat i * sv_endpoint_sz e)"
    "add64 (va + 8) (word_of_nat i * sv_endpoint_sz e) = Some (slot e va i)"
proof -
  let ?s = "unat (sv_endpoint_sz e)"
  have b: "unat va + 8 + i * ?s < 2 ^ 64"
    using assms(1) mult_le_mono1 [OF assms(2), of ?s] unfolding table_len_def by linarith
  have "i \<le> i * ?s" using assms(3) by simp
  then have i: "i < 2 ^ 64" using b by linarith
  then have ui: "unat (word_of_nat i :: u64) = i" by (simp add: unat_of_nat)
  have m: "unat (word_of_nat i * sv_endpoint_sz e) = i * ?s"
    using b ui by (simp add: unat_word_ariths(2))
  have v: "unat (va + 8) = unat va + 8" using b by (simp add: unat_word_ariths(1))
  show "unat (slot e va i) = unat va + 8 + i * ?s"
    unfolding slot_def using b m v by (simp add: unat_word_ariths(1))
  show "add64 va 8 = Some (va + 8)" using b by (simp add: add64_def)
  show "mul64 (word_of_nat i) (sv_endpoint_sz e) = Some (word_of_nat i * sv_endpoint_sz e)"
    using b ui by (simp add: mul64_def)
  show "add64 (va + 8) (word_of_nat i * sv_endpoint_sz e) = Some (slot e va i)"
    using b m v by (simp add: add64_def slot_def)
qed

lemma write_entries_spec:
  assumes e: "kmem_law e" and sz: "0 < unat (sv_endpoint_sz e)"
  shows "\<lbrakk> unat va + table_len e n < 2 ^ 64; k + length ps \<le> n \<rbrakk> \<Longrightarrow>
    \<exists>d'. write_entries e va (word_of_nat k) ps d = Some d'
       \<and> (\<forall>i<length ps. sv_endpoint e (slot e va (k + i)) d' = sv_self_clone e (ps ! i))
       \<and> same_outside e (slot e va k) (length ps * unat (sv_endpoint_sz e)) d d'"
proof (induction ps arbitrary: k d)
  case Nil
  then show ?case by (simp add: same_outside_refl)
next
  case (Cons p ps)
  let ?s = "unat (sv_endpoint_sz e)" and ?c = "sv_self_clone e p"
  define d1 where "d1 = EndPoint_drop (kn_verbs (sv_kenv e)) ?c (sv_set_endpoint e (slot e va k) ?c d)"
  have s1: "same_outside e (slot e va k) ?s d d1"
    unfolding d1_def by (rule same_outside_trans [OF same_outside_set(2) [OF e] same_outside_set(3) [OF e]])
  have w: "write_entries e va (word_of_nat k) (p # ps) d = write_entries e va (word_of_nat (Suc k)) ps d1"
    using unat_slot [OF Cons.prems(1) _ sz, of k] Cons.prems(2) by (simp add: d1_def algebra_simps)
  obtain d2 where d2: "write_entries e va (word_of_nat (Suc k)) ps d1 = Some d2"
      "\<forall>i<length ps. sv_endpoint e (slot e va (Suc k + i)) d2 = sv_self_clone e (ps ! i)"
      "same_outside e (slot e va (Suc k)) (length ps * ?s) d1 d2"
    using Cons.IH [of "Suc k" d1] Cons.prems by auto
  have us: "unat (slot e va k) + ?s = unat (slot e va (Suc k))"
    using unat_slot(1) [OF Cons.prems(1) _ sz, of k] unat_slot(1) [OF Cons.prems(1) _ sz, of "Suc k"] Cons.prems(2) by simp
  have "clear (slot e va (Suc k)) (length ps * ?s) (slot e va k) ?s" using us by (simp add: clear_def)
  then have h: "sv_endpoint e (slot e va k) d2 = ?c"
    using d2(3) kmem_lawD(2,8) [OF e] by (simp add: same_outside_def d1_def)
  have "\<forall>i<length (p # ps). sv_endpoint e (slot e va (k + i)) d2 = sv_self_clone e ((p # ps) ! i)"
    using h d2(2) by (auto simp: less_Suc_eq_0_disj)
  moreover have "same_outside e (slot e va k) (length (p # ps) * ?s) d d2"
    by (rule same_outside_trans [OF same_outside_mono [OF s1] same_outside_mono [OF d2(3)]]) (use us in simp_all)
  ultimately show ?case using w d2(1) by auto
qed

lemma table_at_same_outside:
  assumes s: "same_outside e a n d d'" and c: "clear a n va (table_len e N)"
    and b: "unat va + table_len e N < 2 ^ 64" "0 < unat (sv_endpoint_sz e)" and l: "length ps \<le> N"
    and t: "table_at e va ps d"
  shows "table_at e va ps d'"
proof -
  have "clear a n va 8" by (rule clear_sub_right [OF c]) (simp_all add: table_len_def)
  moreover have "clear a n (slot e va i) (unat (sv_endpoint_sz e))" if "i < length ps" for i
  proof (rule clear_sub_right [OF c])
    have us: "unat (slot e va i) = unat va + 8 + i * unat (sv_endpoint_sz e)"
      using unat_slot(1) [OF b(1) _ b(2), of i] that l by simp
    then show "unat va \<le> unat (slot e va i)" by simp
    have "Suc i * unat (sv_endpoint_sz e) \<le> N * unat (sv_endpoint_sz e)" using that l by (intro mult_le_mono1) simp
    then show "unat (slot e va i) + unat (sv_endpoint_sz e) \<le> unat va + table_len e N"
      using us by (simp add: table_len_def)
  qed
  ultimately show ?thesis using s t by (simp add: same_outside_def table_at_def)
qed

abbreviation page_va :: "'d senv \<Rightarrow> u64 \<Rightarrow> u64" where "page_va e pa \<equiv> kn_pa_to_va (sv_kenv e) pa"

text \<open>Each page has room for a table of \<open>N\<close> entries, apart from the others.\<close>

definition pages_ok :: "'d senv \<Rightarrow> nat \<Rightarrow> u64 list \<Rightarrow> bool" where
  "pages_ok e N pas \<longleftrightarrow>
     0 < unat (sv_endpoint_sz e) \<and> (\<forall>pa\<in>set pas. unat (page_va e pa) + table_len e N < 2 ^ 64)
   \<and> sorted_wrt (\<lambda>p q. clear (page_va e p) (table_len e N) (page_va e q) (table_len e N)) pas"

lemma write_page_spec:
  assumes e: "kmem_law e" and sz: "0 < unat (sv_endpoint_sz e)"
    and b: "unat va + table_len e N < 2 ^ 64" and l: "length ms \<le> N"
  shows "\<exists>d'. write_entries e va 0 ms d = Some d'
     \<and> table_at e va (map (sv_self_clone e) ms) (sv_set_u64 e va (word_of_nat (length ms)) d')
     \<and> same_outside e va (table_len e N) d (sv_set_u64 e va (word_of_nat (length ms)) d')"
proof -
  let ?s = "unat (sv_endpoint_sz e)"
  obtain d' where d': "write_entries e va 0 ms d = Some d'"
      "\<forall>i<length ms. sv_endpoint e (slot e va i) d' = sv_self_clone e (ms ! i)"
      "same_outside e (slot e va 0) (length ms * ?s) d d'"
    using write_entries_spec [OF e sz b, of 0 ms d] l by auto
  let ?d = "sv_set_u64 e va (word_of_nat (length ms)) d'"
  have "clear va 8 (slot e va i) ?s" if "i < length ms" for i
    using unat_slot(1) [OF b _ sz, of i] that l by (simp add: clear_def)
  then have "table_at e va (map (sv_self_clone e) ms) ?d"
    using d'(2) kmem_lawD(1,4) [OF e] by (simp add: table_at_def)
  moreover have "same_outside e va (table_len e N) d ?d"
  proof (rule same_outside_trans [OF same_outside_mono [OF d'(3)] same_outside_mono [OF same_outside_set(1) [OF e]]])
    show "unat va \<le> unat (slot e va 0)" using unat_slot(1) [OF b _ sz, of 0] by simp
    show "unat (slot e va 0) + length ms * ?s \<le> unat va + table_len e N"
      using unat_slot(1) [OF b _ sz, of 0] mult_le_mono1 [OF l, of ?s] by (simp add: table_len_def)
  qed (simp_all add: table_len_def)
  ultimately show ?thesis using d'(1) by blast
qed

lemma write_pages_spec:
  assumes e: "kmem_law e" and l: "length ms \<le> N"
  shows "pages_ok e N pas \<Longrightarrow>
    \<exists>d'. write_pages e ms pas d = Some d'
       \<and> (\<forall>pa\<in>set pas. table_at e (page_va e pa) (map (sv_self_clone e) ms) d')
       \<and> (\<forall>va ps. (\<forall>pa\<in>set pas. clear (page_va e pa) (table_len e N) va (table_len e N))
             \<and> unat va + table_len e N < 2 ^ 64 \<and> length ps \<le> N \<and> table_at e va ps d \<longrightarrow> table_at e va ps d')"
proof (induction pas arbitrary: d)
  case Nil
  then show ?case by simp
next
  case (Cons pa pas)
  let ?va = "page_va e pa" and ?ms = "map (sv_self_clone e) ms"
  have ok: "pages_ok e N pas" and sz: "0 < unat (sv_endpoint_sz e)" and b: "unat ?va + table_len e N < 2 ^ 64"
    and cl: "\<forall>q\<in>set pas. clear ?va (table_len e N) (page_va e q) (table_len e N)"
    using Cons.prems by (simp_all add: pages_ok_def)
  obtain d1 where d1: "write_entries e ?va 0 ms d = Some d1"
      "table_at e ?va ?ms (sv_set_u64 e ?va (word_of_nat (length ms)) d1)"
      "same_outside e ?va (table_len e N) d (sv_set_u64 e ?va (word_of_nat (length ms)) d1)"
    using write_page_spec [OF e sz b l] by blast
  obtain d' where d': "write_pages e ms pas (sv_set_u64 e ?va (word_of_nat (length ms)) d1) = Some d'"
      "\<forall>pa\<in>set pas. table_at e (page_va e pa) ?ms d'"
      "\<And>va ps. \<lbrakk> \<forall>pa\<in>set pas. clear (page_va e pa) (table_len e N) va (table_len e N);
          unat va + table_len e N < 2 ^ 64; length ps \<le> N;
          table_at e va ps (sv_set_u64 e ?va (word_of_nat (length ms)) d1) \<rbrakk> \<Longrightarrow> table_at e va ps d'"
    using Cons.IH [OF ok, of "sv_set_u64 e ?va (word_of_nat (length ms)) d1"] by blast
  have "write_pages e ms (pa # pas) d = Some d'" using d1(1) d'(1) by simp
  moreover have "table_at e ?va ?ms d'"
    by (rule d'(3)) (use cl clear_sym b l d1(2) in auto)
  moreover have "table_at e va ps d'"
    if "\<forall>pa\<in>set (pa # pas). clear (page_va e pa) (table_len e N) va (table_len e N)"
      "unat va + table_len e N < 2 ^ 64" "length ps \<le> N" "table_at e va ps d" for va ps
    by (rule d'(3)) (use that table_at_same_outside [OF d1(3) _ _ sz] in auto)
  ultimately show ?case using d'(2) by auto
qed

section \<open>Histories of the meta server\<close>

text \<open>A clone has the fields of the end point but for the address handle; two GIDs are equal
  when their bytes are.\<close>

definition clone_law :: "'d senv \<Rightarrow> bool" where
  "clone_law e \<longleftrightarrow> (\<forall>p. \<exists>h. sv_self_clone e p = p \<lparr> en_ah := h \<rparr>) \<and> (\<forall>a b. sv_gid_eq e a b \<longleftrightarrow> a = b)"

lemma clone_gid: "clone_law e \<Longrightarrow> en_gid (sv_self_clone e p) = en_gid p"
proof -
  assume "clone_law e"
  then obtain h where "sv_self_clone e p = p \<lparr> en_ah := h \<rparr>" unfolding clone_law_def by blast
  then show ?thesis by simp
qed

text \<open>The handlers run one after the other, in any order.  A registration is one that
  \<open>call_reg_dc_meta\<close> sends: the node registers under its own GID.  The reply buffers lie
  outside the tables, and there is room for the new node.\<close>

definition reply_apart :: "'d renv \<Rightarrow> nat \<Rightarrow> u64 \<Rightarrow> nat \<Rightarrow> 'd kstate \<Rightarrow> bool" where
  "reply_apart e N reply n g \<longleftrightarrow>
     (\<forall>pa\<in>set (ks_mem_pa g). clear reply n (page_va (rv_senv e) pa) (table_len (rv_senv e) N))"

inductive meta_reach :: "'d renv \<Rightarrow> nat \<Rightarrow> 'd kstate \<Rightarrow> bool" for e N where
  start: "\<lbrakk> ks_meta_info g = []; pages_ok (rv_senv e) N (ks_mem_pa g) \<rbrakk> \<Longrightarrow> meta_reach e N g"
| register: "\<lbrakk> meta_reach e N g; pr_gid (rv_reg_at e req (ks_drv g)) = en_gid (pr_local_point (rv_reg_at e req (ks_drv g)));
    length (ks_meta_info g) < N; reply_apart e N reply 8 g;
    reg_dc_meta_handler e req reply g = Some (r, g') \<rbrakk> \<Longrightarrow> meta_reach e N g'"
| deregister: "\<lbrakk> meta_reach e N g; reply_apart e N reply 8 g;
    dereg_dc_meta_handler e req reply g = Some (r, g') \<rbrakk> \<Longrightarrow> meta_reach e N g'"
| lookup: "\<lbrakk> meta_reach e N g; reply_apart e N reply (unat (sv_endpoint_sz (rv_senv e))) g;
    query_dc_meta_handler e req reply g = Some (r, g') \<rbrakk> \<Longrightarrow> meta_reach e N g'"

text \<open>Every node is registered under its own GID, and while there are nodes every page has
  the table of the last registration, which contains them.\<close>

definition published :: "'d senv \<Rightarrow> nat \<Rightarrow> 'd kstate \<Rightarrow> EndPoint list \<Rightarrow> bool" where
  "published s N g T \<longleftrightarrow>
     length T \<le> N \<and> distinct (map en_gid T) \<and> snd ` set (ks_meta_info g) \<subseteq> set T
   \<and> (ks_meta_info g \<noteq> [] \<longrightarrow> (\<forall>pa\<in>set (ks_mem_pa g). table_at s (page_va s pa) (map (sv_self_clone s) T) (ks_drv g)))"

definition meta_keys :: "'d kstate \<Rightarrow> bool" where
  "meta_keys g \<longleftrightarrow>
     distinct (map fst (ks_meta_info g)) \<and> (\<forall>(k, p)\<in>set (ks_meta_info g). k = gid_to_str (en_gid p))"

definition meta_inv :: "'d senv \<Rightarrow> nat \<Rightarrow> 'd kstate \<Rightarrow> bool" where
  "meta_inv s N g \<longleftrightarrow> pages_ok s N (ks_mem_pa g) \<and> meta_keys g \<and> (\<exists>T. published s N g T)"

lemma set_update_distinct:
  "distinct (map fst al) \<Longrightarrow> set (AList.update k v al) = insert (k, v) {x \<in> set al. fst x \<noteq> k}"
  by (induction al) (auto simp: image_iff)

lemma length_update_le: "length (AList.update k v al) \<le> Suc (length al)"
  by (induction al) auto

lemma meta_keys_update:
  assumes "meta_keys g" "k = gid_to_str (en_gid p)" "ks_meta_info g' = AList.update k p (ks_meta_info g)"
  shows "meta_keys g'" "distinct (map en_gid (map snd (ks_meta_info g')))"
proof -
  show k: "meta_keys g'"
    using assms by (auto simp: meta_keys_def distinct_update set_update_distinct)
  have "map fst (ks_meta_info g') = map gid_to_str (map en_gid (map snd (ks_meta_info g')))"
    using k by (auto simp: meta_keys_def)
  then show "distinct (map en_gid (map snd (ks_meta_info g')))"
    using k unfolding meta_keys_def by (metis distinct_map)
qed

lemma put_remote_fields:
  "ks_meta_info (put_remote_dc_meta s k p g) = AList.update k (sv_self_clone s p) (ks_meta_info g)"
  "ks_mem_pa (put_remote_dc_meta s k p g) = ks_mem_pa g"
  by (simp_all add: put_remote_dc_meta_def Let_def split: option.split)

lemma evict_remote_fields:
  "ks_meta_info (evict_remote_dc_meta s k g) = AList.delete k (ks_meta_info g)"
  "ks_mem_pa (evict_remote_dc_meta s k g) = ks_mem_pa g"
  by (simp_all add: evict_remote_dc_meta_def Let_def split: option.split)

lemma evict_same: "kmem_law s \<Longrightarrow> same_outside s a n (ks_drv g) (ks_drv (evict_remote_dc_meta s k g))"
  by (simp add: evict_remote_dc_meta_def Let_def same_outside_refl same_outside_set split: option.split)

lemma reg_handler_spec:
  assumes e: "kmem_law (rv_senv e)" "clone_law (rv_senv e)" and inv: "meta_inv (rv_senv e) N g"
    and p: "p = rv_reg_at e req (ks_drv g)" "pr_gid p = en_gid (pr_local_point p)"
    and room: "length (ks_meta_info g) < N" "ks_mem_pa g \<noteq> []" and r: "reply_apart e N reply 8 g"
  shows "\<exists>g'. reg_dc_meta_handler e req reply g = Some (64, g') \<and> meta_inv (rv_senv e) N g'
     \<and> ks_meta_info g' = AList.update (gid_to_str (pr_gid p)) (sv_self_clone (rv_senv e) (pr_local_point p)) (ks_meta_info g)
     \<and> ks_mem_pa g' = ks_mem_pa g \<and> published (rv_senv e) N g' (map snd (ks_meta_info g'))"
proof -
  let ?s = "rv_senv e"
  define g1 where "g1 = put_remote_dc_meta ?s (gid_to_str (pr_gid p)) (pr_local_point p) g"
  let ?T = "map snd (ks_meta_info g1)"
  have i1: "ks_meta_info g1 = AList.update (gid_to_str (pr_gid p)) (sv_self_clone ?s (pr_local_point p)) (ks_meta_info g)"
    and m1: "ks_mem_pa g1 = ks_mem_pa g" by (simp_all add: g1_def put_remote_fields)
  have l: "length ?T \<le> N" using length_update_le [of _ _ "ks_meta_info g"] room i1 by (metis length_map Suc_leI order_trans)
  have pok: "pages_ok ?s N (ks_mem_pa g)" and mk: "meta_keys g" using inv by (simp_all add: meta_inv_def)
  have k1: "meta_keys g1" "distinct (map en_gid ?T)"
    by (rule meta_keys_update [OF mk _ i1]; simp add: clone_gid [OF e(2)] p(2))+
  obtain d1 where d1: "write_pages ?s ?T (ks_mem_pa g1) (ks_drv g1) = Some d1"
      "\<forall>pa\<in>set (ks_mem_pa g1). table_at ?s (page_va ?s pa) (map (sv_self_clone ?s) ?T) d1"
    using write_pages_spec [OF e(1) l pok, of "ks_drv g1"] unfolding m1 by blast
  obtain pa0 where pa0: "get_global_test_mem_pa (pr_port p) g1 = Some pa0"
    using room(2) m1 by (auto simp: get_global_test_mem_pa_def wrapped_def)
  define d2 where "d2 = EndPoint_drop (rv_verbs e) (pr_local_point p) (sv_set_u64 ?s reply pa0 d1)"
  have h: "reg_dc_meta_handler e req reply g = Some (64, g1 \<lparr> ks_drv := d2 \<rparr>)"
    using d1(1) pa0 unfolding reg_dc_meta_handler_def p(1) [symmetric] Let_def g1_def [symmetric] by (simp add: d2_def)
  have so: "same_outside ?s reply 8 d1 d2"
    unfolding d2_def by (rule same_outside_trans [OF same_outside_set(1) [OF e(1)] same_outside_set(3) [OF e(1)]])
  have "table_at ?s (page_va ?s pa) (map (sv_self_clone ?s) ?T) d2" if "pa \<in> set (ks_mem_pa g1)" for pa
    by (rule table_at_same_outside [OF so, where N = N])
      (use that r pok l d1(2) m1 in \<open>auto simp: reply_apart_def pages_ok_def\<close>)
  then have "published ?s N (g1 \<lparr> ks_drv := d2 \<rparr>) ?T"
    using l k1(2) by (simp add: published_def)
  then show ?thesis using h i1 m1 k1(1) pok by (auto simp: meta_inv_def meta_keys_def)
qed

lemma published_same_outside:
  assumes pub: "published s N g T" and pok: "pages_ok s N (ks_mem_pa g)"
    and so: "same_outside s a n (ks_drv g) (ks_drv g')"
    and cl: "\<forall>pa\<in>set (ks_mem_pa g). clear a n (page_va s pa) (table_len s N)"
    and f: "set (ks_meta_info g') \<subseteq> set (ks_meta_info g)" "ks_mem_pa g' = ks_mem_pa g"
  shows "published s N g' T"
proof -
  have "table_at s (page_va s pa) (map (sv_self_clone s) T) (ks_drv g')"
    if "ks_meta_info g' \<noteq> []" "pa \<in> set (ks_mem_pa g)" for pa
  proof (rule table_at_same_outside [OF so, where N = N])
    show "table_at s (page_va s pa) (map (sv_self_clone s) T) (ks_drv g)"
      using that pub f(1) by (auto simp: published_def)
  qed (use that cl pok pub in \<open>auto simp: pages_ok_def published_def\<close>)
  then show ?thesis using pub f by (auto simp: published_def)
qed

lemma dereg_handler_inv:
  assumes e: "kmem_law (rv_senv e)" and inv: "meta_inv (rv_senv e) N g" and r: "reply_apart e N reply 8 g"
    and h: "dereg_dc_meta_handler e req reply g = Some (n, g')"
  shows "meta_inv (rv_senv e) N g'"
proof -
  let ?s = "rv_senv e"
  define g1 where "g1 = evict_remote_dc_meta ?s (gid_to_str (pg_gid (rv_gid_at e req (ks_drv g)))) g"
  have g': "g' = g1 \<lparr> ks_drv := sv_set_u64 ?s reply 0 (ks_drv g1) \<rparr>"
    using h by (simp add: dereg_dc_meta_handler_def Let_def g1_def)
  have m: "ks_mem_pa g' = ks_mem_pa g" and i: "set (ks_meta_info g') \<subseteq> set (ks_meta_info g)"
    and di: "distinct (map fst (ks_meta_info g)) \<Longrightarrow> distinct (map fst (ks_meta_info g'))"
    by (auto simp: g' g1_def evict_remote_fields AList.delete_eq distinct_map_filter)
  obtain T where T: "published ?s N g T" and pok: "pages_ok ?s N (ks_mem_pa g)" and mk: "meta_keys g"
    using inv by (auto simp: meta_inv_def)
  have so: "same_outside ?s reply 8 (ks_drv g) (ks_drv g')"
    using same_outside_trans [OF evict_same [OF e] same_outside_set(1) [OF e]] by (simp add: g' g1_def)
  have "published ?s N g' T"
    by (rule published_same_outside [OF T pok so _ i m]) (use r in \<open>simp add: reply_apart_def\<close>)
  moreover have "meta_keys g'" using mk i di by (auto simp: meta_keys_def)
  ultimately show ?thesis using pok m by (auto simp: meta_inv_def)
qed

lemma query_handler_inv:
  assumes e: "kmem_law (rv_senv e)" and inv: "meta_inv (rv_senv e) N g"
    and r: "reply_apart e N reply (unat (sv_endpoint_sz (rv_senv e))) g"
    and h: "query_dc_meta_handler e req reply g = Some (n, g')"
  shows "meta_inv (rv_senv e) N g'"
proof -
  let ?s = "rv_senv e"
  obtain T where T: "published ?s N g T" and pok: "pages_ok ?s N (ks_mem_pa g)" and mk: "meta_keys g"
    using inv by (auto simp: meta_inv_def)
  have f: "ks_mem_pa g' = ks_mem_pa g" "ks_meta_info g' = ks_meta_info g"
    and so: "same_outside ?s reply (unat (sv_endpoint_sz ?s)) (ks_drv g) (ks_drv g')"
    using h same_outside_trans [OF same_outside_set(2) [OF e] same_outside_set(3) [OF e]]
    by (auto simp: query_dc_meta_handler_def Let_def same_outside_refl split: option.splits)
  have "published ?s N g' T"
    by (rule published_same_outside [OF T pok so _ _ f(1)]) (use r f in \<open>simp_all add: reply_apart_def\<close>)
  then show ?thesis using mk pok f by (auto simp: meta_inv_def meta_keys_def)
qed

lemma meta_reach_inv:
  assumes e: "kmem_law (rv_senv e)" "clone_law (rv_senv e)" and "meta_reach e N g"
  shows "meta_inv (rv_senv e) N g"
  using assms(3)
proof induction
  case (start g)
  then show ?case by (auto simp: meta_inv_def meta_keys_def published_def intro: exI [of _ "[]"])
next
  case (register g req reply r g')
  show ?case
  proof (cases "ks_mem_pa g = []")
    case True
    then have "get_global_test_mem_pa i (put_remote_dc_meta (rv_senv e) k p g) = None" for i k p
      by (simp add: get_global_test_mem_pa_def wrapped_def put_remote_fields)
    then show ?thesis using register.hyps(5) by (simp add: reg_dc_meta_handler_def Let_def)
  next
    case False
    then show ?thesis
      using reg_handler_spec [OF e register.IH refl register.hyps(2,3) _ register.hyps(4)] register.hyps(5) by auto
  qed
next
  case (deregister g reply req r g')
  then show ?case using dereg_handler_inv [OF e(1)] by blast
next
  case (lookup g reply req r g')
  then show ?case using query_handler_inv [OF e(1)] by blast
qed

section \<open>The lookup of a client\<close>

text \<open>The first entry with the GID.\<close>

lemma find_entry_spec:
  assumes g: "clone_law e" and sz: "0 < unat (sv_endpoint_sz e)" and base: "0 < unat base"
  shows "\<lbrakk> unat base + (k + length ps) * unat (sv_endpoint_sz e) < 2 ^ 64;
      \<forall>i<length ps. sv_endpoint e (base + word_of_nat (k + i) * sv_endpoint_sz e) d = ps ! i \<rbrakk> \<Longrightarrow>
    find_entry e target base (word_of_nat k) (length ps) d
      = Some (map_option (sv_self_clone e) (List.find (\<lambda>p. en_gid p = target) ps))"
proof (induction ps arbitrary: k)
  case Nil
  then show ?case by simp
next
  case (Cons p ps)
  let ?s = "unat (sv_endpoint_sz e)"
  have b: "unat base + k * ?s < 2 ^ 64" using Cons.prems(1) by (simp add: algebra_simps)
  have "k \<le> k * ?s" using sz by simp
  then have "k < 2 ^ 64" using b by linarith
  then have uk: "unat (word_of_nat k :: u64) = k" by (simp add: unat_of_nat)
  then have um: "unat (word_of_nat k * sv_endpoint_sz e) = k * ?s" using b by (simp add: unat_word_ariths(2))
  have m: "mul64 (word_of_nat k) (sv_endpoint_sz e) = Some (word_of_nat k * sv_endpoint_sz e)"
    using b uk by (simp add: mul64_def)
  have a: "add64 base (word_of_nat k * sv_endpoint_sz e) = Some (base + word_of_nat k * sv_endpoint_sz e)"
    using b um by (simp add: add64_def)
  have "unat (base + word_of_nat k * sv_endpoint_sz e) = unat base + k * ?s"
    using b um by (simp add: unat_word_ariths(1))
  then have nz: "base + word_of_nat k * sv_endpoint_sz e \<noteq> 0" using base by (metis add_gr_0 unat_0 less_irrefl)
  have h: "sv_endpoint e (base + word_of_nat k * sv_endpoint_sz e) d = p" using Cons.prems(2) by force
  have t: "\<forall>i<length ps. sv_endpoint e (base + word_of_nat (Suc k + i) * sv_endpoint_sz e) d = ps ! i"
  proof (intro allI impI)
    fix i assume "i < length ps"
    then show "sv_endpoint e (base + word_of_nat (Suc k + i) * sv_endpoint_sz e) d = ps ! i"
      using Cons.prems(2) [rule_format, of "Suc i"] by (simp del: of_nat_add of_nat_Suc)
  qed
  have ih: "find_entry e target base (word_of_nat (Suc k)) (length ps) d
      = Some (map_option (sv_self_clone e) (List.find (\<lambda>p. en_gid p = target) ps))"
    by (rule Cons.IH [OF _ t]) (use Cons.prems(1) in simp)
  have k1: "(word_of_nat (Suc k) :: u64) = word_of_nat k + 1" by (simp add: add.commute)
  have ge: "sv_gid_eq e x y \<longleftrightarrow> x = y" for x y using g by (simp add: clone_law_def)
  show ?case using ih unfolding k1 by (simp add: m a nz h ge)
qed

lemma find_gid_distinct:
  "\<lbrakk> distinct (map en_gid T); p \<in> set T \<rbrakk> \<Longrightarrow> List.find (\<lambda>q. en_gid q = en_gid p) T = Some p"
  by (induction T) force+

lemma registered_in_table:
  assumes inv: "meta_inv s N g" and "get_remote_dc_meta k g = Some p" "pa \<in> set (ks_mem_pa g)"
  shows "k = gid_to_str (en_gid p)"
    "\<exists>T. length T \<le> N \<and> distinct (map en_gid T) \<and> p \<in> set T
       \<and> table_at s (page_va s pa) (map (sv_self_clone s) T) (ks_drv g) \<and> N < 2 ^ 64
       \<and> unat (sv_u64 s (page_va s pa) (ks_drv g)) = length T"
proof -
  have m: "(k, p) \<in> set (ks_meta_info g)" using assms(2) by (simp add: get_remote_dc_meta_def map_of_SomeD)
  then show "k = gid_to_str (en_gid p)" using inv by (auto simp: meta_inv_def meta_keys_def)
  obtain T where T: "published s N g T" using inv by (auto simp: meta_inv_def)
  have b: "unat (page_va s pa) + table_len s N < 2 ^ 64" and sz: "0 < unat (sv_endpoint_sz s)"
    using inv assms(3) by (auto simp: meta_inv_def pages_ok_def)
  have "N \<le> N * unat (sv_endpoint_sz s)" using sz by simp
  then have N: "N < 2 ^ 64" using b unfolding table_len_def by linarith
  have t: "table_at s (page_va s pa) (map (sv_self_clone s) T) (ks_drv g)"
    and l: "length T \<le> N" "distinct (map en_gid T)" and p: "p \<in> set T"
    using T m assms(3) by (auto simp: published_def)
  have "sv_u64 s (page_va s pa) (ks_drv g) = word_of_nat (length T)" using t by (simp add: table_at_def)
  then have "unat (sv_u64 s (page_va s pa) (ks_drv g)) = length T" using l N by (simp add: unat_of_nat)
  then show "\<exists>T. length T \<le> N \<and> distinct (map en_gid T) \<and> p \<in> set T
       \<and> table_at s (page_va s pa) (map (sv_self_clone s) T) (ks_drv g) \<and> N < 2 ^ 64
       \<and> unat (sv_u64 s (page_va s pa) (ks_drv g)) = length T"
    using t l p N by blast
qed

text \<open>A lookup in a copy of the table at \<open>base\<close>.\<close>

lemma find_entry_table:
  assumes e: "clone_law s" and inv: "meta_inv s N g" and "get_remote_dc_meta k g = Some p" "pa \<in> set (ks_mem_pa g)"
    and n: "n = unat (sv_u64 s (page_va s pa) (ks_drv g))" and b: "0 < unat base" "unat base + N * unat (sv_endpoint_sz s) < 2 ^ 64"
    and c: "\<forall>i<n. sv_endpoint s (base + word_of_nat i * sv_endpoint_sz s) d = sv_endpoint s (slot s (page_va s pa) i) (ks_drv g)"
  shows "find_entry s (en_gid p) base 0 n d = Some (Some (sv_self_clone s (sv_self_clone s p)))" "n \<le> N"
proof -
  obtain T where T: "length T \<le> N" "distinct (map en_gid T)" "p \<in> set T"
      "table_at s (page_va s pa) (map (sv_self_clone s) T) (ks_drv g)" "n = length T"
    using registered_in_table [OF inv assms(3,4)] n by auto
  let ?T = "map (sv_self_clone s) T"
  have sz: "0 < unat (sv_endpoint_sz s)" using inv by (simp add: meta_inv_def pages_ok_def)
  have b': "unat base + (0 + length ?T) * unat (sv_endpoint_sz s) < 2 ^ 64"
    using b(2) mult_le_mono1 [OF T(1), of "unat (sv_endpoint_sz s)"] unfolding length_map add_0 by linarith
  have c': "\<forall>i<length ?T. sv_endpoint s (base + word_of_nat (0 + i) * sv_endpoint_sz s) d = ?T ! i"
    using c T(4,5) by (simp add: table_at_def)
  have d: "distinct (map en_gid ?T)" using T(2) by (simp add: clone_gid [OF e] comp_def)
  have "List.find (\<lambda>q. en_gid q = en_gid p) ?T = Some (sv_self_clone s p)"
    using find_gid_distinct [OF d, of "sv_self_clone s p"] T(3) by (simp add: clone_gid [OF e])
  then show "find_entry s (en_gid p) base 0 n d = Some (Some (sv_self_clone s (sv_self_clone s p)))"
    using find_entry_spec [OF e sz b(1) b' c', of "en_gid p"] T(5) by simp
  show "n \<le> N" using T(1,5) by simp
qed

text \<open>C3. The meta server and its clients agree.  In every state that the handlers reach
  from an empty server, in any order of registrations, deregistrations and queries, a
  registered node is filed under its own GID, the query handler answers with its end
  point, and a client that reads a page of the server by RDMA (\<open>query_dct_meta\<close>) finds
  the node's end point in the table: the reads copy the number of entries and then the
  entries.\<close>

theorem meta_lookup_finds_registered:
  assumes "kmem_law (rv_senv e)" "clone_law (rv_senv e)" and "meta_reach e N g"
    and "get_remote_dc_meta k g = Some p" "pa \<in> set (ks_mem_pa g)"
    and "get_remote_dc_meta (sv_meta_server_gid (rv_senv e)) gc = Some mp" "vq_local_dc q = Some dc"
      "lc_local_mr (vq_local_cache q) = Some mr"
    and "unat (tm_addr mr) + 8 < 2 ^ 64" "unat (ks_meta_kv_pa gc) + 8 < 2 ^ 64"
    and "base = page_va (rv_senv e) (tm_addr mr + 8)" "0 < unat base"
      "unat base + N * unat (sv_endpoint_sz (rv_senv e)) < 2 ^ 64"
    and "d1 = dc_read_ignored (rv_senv e) dc (tm_addr mr) (tm_rkey mr) 8 (ks_meta_kv_pa gc) (tm_rkey (en_mr mp)) mp (ks_drv gc)"
    and "sv_u64 (rv_senv e) (page_va (rv_senv e) (tm_addr mr)) d1 = sv_u64 (rv_senv e) (page_va (rv_senv e) pa) (ks_drv g)"
    and "n = unat (sv_u64 (rv_senv e) (page_va (rv_senv e) pa) (ks_drv g))"
    and "d2 = dc_read_ignored (rv_senv e) dc (tm_addr mr + 8) (tm_rkey mr) (n * unat (sv_endpoint_sz (rv_senv e)))
                (ks_meta_kv_pa gc + 8) (tm_rkey (en_mr mp)) mp d1"
    and "\<forall>i<n. sv_endpoint (rv_senv e) (base + word_of_nat i * sv_endpoint_sz (rv_senv e)) d2
                = sv_endpoint (rv_senv e) (slot (rv_senv e) (page_va (rv_senv e) pa) i) (ks_drv g)"
    and "str_to_gid k = Some (en_gid p)"
    and "gid_to_str (pg_gid (rv_gid_at e req (ks_drv g))) = k"
  shows "k = gid_to_str (en_gid p)
     \<and> query_dct_meta (rv_senv e) k q gc
         = Some (Some (sv_self_clone (rv_senv e) (sv_self_clone (rv_senv e) p)), gc \<lparr> ks_drv := d2 \<rparr>)
     \<and> (\<exists>g'. query_dc_meta_handler e req reply g = Some (ucast (sv_endpoint_sz (rv_senv e)), g')
           \<and> sv_endpoint (rv_senv e) reply (ks_drv g') = sv_self_clone (rv_senv e) p)"
proof -
  let ?s = "rv_senv e"
  have inv: "meta_inv ?s N g" using meta_reach_inv [OF assms(1-3)] .
  have f: "find_entry ?s (en_gid p) base 0 n d2 = Some (Some (sv_self_clone ?s (sv_self_clone ?s p)))" and n: "n \<le> N"
    by (rule find_entry_table [OF assms(2) inv assms(4,5,16,12,13,18)])+
  let ?m = "sv_u64 ?s (page_va ?s pa) (ks_drv g)"
  have "unat ?m * unat (sv_endpoint_sz ?s) < 2 ^ 64"
    using mult_le_mono1 [OF n, of "unat (sv_endpoint_sz ?s)"] assms(13) unfolding assms(16) by linarith
  then have m: "mul64 ?m (sv_endpoint_sz ?s) = Some (?m * sv_endpoint_sz ?s)"
      "unat (?m * sv_endpoint_sz ?s) = n * unat (sv_endpoint_sz ?s)"
    using assms(16) by (simp_all add: mul64_def unat_word_ariths(2))
  have a: "add64 (ks_meta_kv_pa gc) 8 = Some (ks_meta_kv_pa gc + 8)" "add64 (tm_addr mr) 8 = Some (tm_addr mr + 8)"
    using assms(9,10) by (simp_all add: add64_def)
  have "query_dct_meta ?s k q gc = Some (Some (sv_self_clone ?s (sv_self_clone ?s p)), gc \<lparr> ks_drv := d2 \<rparr>)"
    using f unfolding query_dct_meta_def Let_def
    by (simp add: assms(6-8,15,19) assms(14) [symmetric] a m assms(17) [symmetric] assms(11) [symmetric] assms(16) [symmetric])
  moreover have "\<exists>g'. query_dc_meta_handler e req reply g = Some (ucast (sv_endpoint_sz ?s), g')
           \<and> sv_endpoint ?s reply (ks_drv g') = sv_self_clone ?s p"
    using kmem_lawD(2,8) [OF assms(1)] by (simp add: query_dc_meta_handler_def assms(4,20) Let_def)
  ultimately show ?thesis using registered_in_table(1) [OF inv assms(4,5)] by blast
qed

section \<open>A server and a client\<close>

text \<open>Kernel memory holds objects as lists of words; a read request copies one object.\<close>

definition point_words :: "EndPoint \<Rightarrow> u64 list" where
  "point_words p = [ucast (en_qpn p), ucast (en_qkey p), ucast (en_lid p), ucast (en_dct_num p), tm_addr (en_mr p),
     ucast (tm_capacity (en_mr p)), ucast (tm_rkey (en_mr p)), en_ah p] @ map ucast (en_gid p)"

definition words_point :: "u64 list \<Rightarrow> EndPoint" where
  "words_point ws = \<lparr> en_qpn = ucast (ws ! 0), en_qkey = ucast (ws ! 1), en_lid = ucast (ws ! 2), en_gid = map ucast (drop 8 ws),
     en_dct_num = ucast (ws ! 3), en_mr = \<lparr> tm_addr = ws ! 4, tm_capacity = ucast (ws ! 5), tm_rkey = ucast (ws ! 6) \<rparr>,
     en_ah = ws ! 7 \<rparr>"

lemma ucast_up_down:
  "ucast (ucast (x :: u32) :: u64) = x" "ucast (ucast (y :: u16) :: u64) = y" "ucast (ucast (z :: u8) :: u64) = z"
  by (transfer; simp)+

lemma words_point_words [simp]: "words_point (point_words p) = p"
  by (cases p; cases "en_mr p") (simp add: words_point_def point_words_def comp_def ucast_up_down)

definition demo_meta_ib :: "ref_state kib" where
  "demo_meta_ib =
     \<lparr> kb_post_send = (\<lambda>_ wrs d.
         case wrs of
           w # _ \<Rightarrow>
             (case sw_target w of
                WrDc _ _ _ raddr _ \<Rightarrow> (0, d \<lparr> rs_kmem := (rs_kmem d)(sge_addr (hd (sw_sg_list w)) := rs_kmem d raddr) \<rparr>)
              | _ \<Rightarrow> (0, d))
         | [] \<Rightarrow> (0, d)),
       kb_post_recv = (\<lambda>_ _ d. (0, d)), kb_post_srq_recv = (\<lambda>_ _ d. (0, d)), kb_poll_cq = (\<lambda>_ _ d. (1, [zero_wc], d)) \<rparr>"

definition demo_node :: EndPoint where
  "demo_node = EndPoint_default \<lparr> en_gid := replicate 16 1, en_qpn := 5 \<rparr>"

definition demo_meta_senv :: "ref_state senv" where
  "demo_meta_senv = (demo_senv demo_features)
     \<lparr> sv_kenv := demo_kenv \<lparr> kn_ib := demo_meta_ib \<rparr>,
       sv_u64 := (\<lambda>a d. hd (rs_kmem d a)), sv_set_u64 := (\<lambda>a x d. d \<lparr> rs_kmem := (rs_kmem d)(a := [x]) \<rparr>),
       sv_endpoint := (\<lambda>a d. words_point (rs_kmem d a)),
       sv_set_endpoint := (\<lambda>a p d. d \<lparr> rs_kmem := (rs_kmem d)(a := point_words p) \<rparr>) \<rparr>"

definition demo_renv :: "ref_state renv" where
  "demo_renv =
     \<lparr> rv_senv = demo_meta_senv, rv_random8 = 0,
       rv_reg_at = (\<lambda>_ _. \<lparr> pr_gid = replicate 16 1, pr_port = 0, pr_local_point = demo_node \<rparr>),
       rv_gid_at = (\<lambda>_ _. \<lparr> pg_gid = replicate 16 1 \<rparr>),
       rv_connect_at = (\<lambda>_ _. \<lparr> pc_gid = replicate 16 1, pc_lid = 3, pc_qpn = 5 \<rparr>),
       rv_disconnect_at = (\<lambda>_ _. \<lparr> px_qd = 0 \<rparr>), rv_set_connect = (\<lambda>_ _ d. d), rv_set_u32 = (\<lambda>_ _ d. d),
       rv_bring_to_init = (\<lambda>_ d. d), rv_bring_init_to_rtr = (\<lambda>_ _ _ _ d. d), rv_bring_rtr_to_rts = (\<lambda>_ d. d),
       rv_call_reg = (\<lambda>_ _ _ _ _ d. Some (Some 4096, d)), rv_call_gid = (\<lambda>_ _ _ _ _ d. Some (Some 0, d)),
       rv_call_query = (\<lambda>_ _ _ _ _ d. Some (Some demo_node, d)), rv_call_connect = (\<lambda>_ _ _ _ _ d. Some (None, d)),
       rv_call_disconnect = (\<lambda>_ _ _ _ _ d. Some (Some 0, d)) \<rparr>"

lemma demo_meta_kmem: "kmem_law demo_meta_senv"
  by (auto simp: kmem_law_def demo_meta_senv_def demo_senv_def demo_kenv_def ref_verbs_def ref_free_def clear_def)

lemma demo_meta_clone: "clone_law demo_meta_senv"
  by (auto simp: clone_law_def demo_meta_senv_def demo_senv_def)

definition demo_server :: "ref_state kstate" where
  "demo_server = (demo_kstate 4)
     \<lparr> ks_meta_info := [(gid_to_str (replicate 16 1), demo_node)],
       ks_drv := (ref_init 4) \<lparr> rs_kmem := (\<lambda>_. [])(4104 := point_words demo_node, 4096 := [1], 256 := [4096]) \<rparr> \<rparr>"

lemma demo_register: "reg_dc_meta_handler demo_renv 0 256 (demo_kstate 4) = Some (64, demo_server)"
  by (simp add: reg_dc_meta_handler_def demo_renv_def demo_meta_senv_def demo_senv_def demo_kenv_def demo_kstate_def
      put_remote_dc_meta_def get_remote_dc_meta_def get_global_test_mem_pa_def wrapped_def demo_node_def EndPoint_default_def
      add64_def mul64_def EndPoint_drop_def en_valid_def ref_init_def demo_server_def Let_def)

definition demo_client :: "ref_state kstate" where
  "demo_client = demo_server \<lparr> ks_meta_info := [(''fe80'', EndPoint_default)], ks_meta_kv_pa := 4096 \<rparr>"

definition demo_client_vq :: VQ where
  "demo_client_vq = demo_vq
     \<lparr> vq_local_dc := Some \<lparr> kdc_qp = 1, kdc_cq = 2, kdc_recv_cq = 2 \<rparr>,
       vq_local_cache := (vq_local_cache demo_vq) \<lparr> lc_local_mr := Some (TempMR_new 8192 4096 4) \<rparr> \<rparr>"

lemma demo_read:
  "dc_read_ignored demo_meta_senv dc laddr lkey sz raddr rkey p d
     = d \<lparr> rs_kmem := (rs_kmem d)(laddr := rs_kmem d raddr) \<rparr>"
  by (simp add: dc_read_ignored_def dc_push_def dc_post_send_def kit_post_send_def demo_meta_senv_def demo_kenv_def demo_meta_ib_def
      dc_wait_til_comp_def dc_wait_loop.simps dc_pop_def poll_one_def send_wr_default_def demo_senv_def Let_def)

lemma demo_reach: "meta_reach demo_renv 1 demo_server"
proof (rule meta_reach.register [OF meta_reach.start _ _ _ demo_register])
  show "ks_meta_info (demo_kstate 4) = []" by (simp add: demo_kstate_def)
  show "pages_ok (rv_senv demo_renv) 1 (ks_mem_pa (demo_kstate 4))"
    by (simp add: pages_ok_def demo_kstate_def demo_renv_def demo_meta_senv_def demo_senv_def demo_kenv_def table_len_def)
  show "reply_apart demo_renv 1 256 8 (demo_kstate 4)"
    by (simp add: reply_apart_def clear_def demo_kstate_def demo_renv_def demo_meta_senv_def demo_senv_def demo_kenv_def)
qed (simp_all add: demo_renv_def demo_node_def demo_kstate_def)

lemma demo_gid_text: "str_to_gid (gid_to_str (replicate 16 1)) = Some (replicate 16 1)"
  by code_simp

lemma demo_meta_fields:
  "rv_senv demo_renv = demo_meta_senv" "kn_pa_to_va (sv_kenv demo_meta_senv) a = a" "sv_endpoint_sz demo_meta_senv = 64"
  "sv_meta_server_gid demo_meta_senv = ''fe80''" "sv_u64 demo_meta_senv a d = hd (rs_kmem d a)"
  "sv_endpoint demo_meta_senv a d = words_point (rs_kmem d a)" "sv_self_clone demo_meta_senv p = p \<lparr> en_ah := 0 \<rparr>"
  by (simp_all add: demo_renv_def demo_meta_senv_def demo_senv_def demo_kenv_def)

theorem meta_lookup_finds_registered_witness:
  "\<exists>d. query_dct_meta demo_meta_senv (gid_to_str (replicate 16 1)) demo_client_vq demo_client
     = Some (Some demo_node, demo_client \<lparr> ks_drv := d \<rparr>)"
proof -
  let ?dc = "\<lparr> kdc_qp = 1, kdc_cq = 2, kdc_recv_cq = 2 \<rparr>" and ?mr = "TempMR_new 8192 4096 4"
  let ?d1 = "dc_read_ignored demo_meta_senv ?dc (tm_addr ?mr) (tm_rkey ?mr) 8 (ks_meta_kv_pa demo_client)
      (tm_rkey (en_mr EndPoint_default)) EndPoint_default (ks_drv demo_client)"
  let ?n = "unat (sv_u64 demo_meta_senv (page_va demo_meta_senv 4096) (ks_drv demo_server))"
  let ?d2 = "dc_read_ignored demo_meta_senv ?dc (tm_addr ?mr + 8) (tm_rkey ?mr) (?n * unat (sv_endpoint_sz demo_meta_senv))
      (ks_meta_kv_pa demo_client + 8) (tm_rkey (en_mr EndPoint_default)) EndPoint_default ?d1"
  have "query_dct_meta demo_meta_senv (gid_to_str (replicate 16 1)) demo_client_vq demo_client
     = Some (Some (sv_self_clone demo_meta_senv (sv_self_clone demo_meta_senv demo_node)), demo_client \<lparr> ks_drv := ?d2 \<rparr>)"
  proof (rule meta_lookup_finds_registered [of demo_renv 1 demo_server _ demo_node 4096 demo_client EndPoint_default
        demo_client_vq ?dc ?mr 8200 ?d1 ?n ?d2 0, unfolded demo_meta_fields(1), THEN conjunct2, THEN conjunct1])
    show "kmem_law demo_meta_senv" by (rule demo_meta_kmem)
    show "clone_law demo_meta_senv" by (rule demo_meta_clone)
    show "meta_reach demo_renv 1 demo_server" by (rule demo_reach)
    show "str_to_gid (gid_to_str (replicate 16 1)) = Some (en_gid demo_node)" using demo_gid_text by (simp add: demo_node_def)
    show "gid_to_str (pg_gid (rv_gid_at demo_renv 0 (ks_drv demo_server))) = gid_to_str (replicate 16 1)"
      by (simp add: demo_renv_def)
    show "\<forall>i<?n. sv_endpoint demo_meta_senv (8200 + word_of_nat i * sv_endpoint_sz demo_meta_senv) ?d2 =
        sv_endpoint demo_meta_senv (slot demo_meta_senv (page_va demo_meta_senv 4096) i) (ks_drv demo_server)"
      by (simp add: demo_meta_fields demo_read demo_server_def demo_client_def slot_def TempMR_new_def)
  qed (simp_all add: demo_meta_fields demo_read demo_server_def demo_client_def demo_client_vq_def demo_vq_def
        demo_kstate_def get_remote_dc_meta_def TempMR_new_def)
  then show ?thesis by (auto simp: demo_meta_fields demo_node_def EndPoint_default_def)
qed

text \<open>C23. Deregistration leaves the table.  In every reachable state of the server a
  deregistration removes exactly the node under that GID, so that the query handler
  answers 0; but no page changes, and a client that looks the node up in a copy of a
  page still finds its end point.\<close>

theorem deregistration_leaves_table:
  assumes "kmem_law (rv_senv e)" "clone_law (rv_senv e)" and "meta_reach e N g"
    and "get_remote_dc_meta k g = Some p" "pa \<in> set (ks_mem_pa g)"
    and "gid_to_str (pg_gid (rv_gid_at e req (ks_drv g))) = k" "reply_apart e N reply 8 g"
  shows "\<exists>g'. dereg_dc_meta_handler e req reply g = Some (64, g')
     \<and> get_remote_dc_meta k g' = None \<and> (\<forall>k'. k' \<noteq> k \<longrightarrow> get_remote_dc_meta k' g' = get_remote_dc_meta k' g)
     \<and> (\<forall>req' reply'. gid_to_str (pg_gid (rv_gid_at e req' (ks_drv g'))) = k \<longrightarrow>
           query_dc_meta_handler e req' reply' g' = Some (0, g'))
     \<and> (\<forall>base d n. 0 < unat base \<and> unat base + N * unat (sv_endpoint_sz (rv_senv e)) < 2 ^ 64
           \<and> n = unat (sv_u64 (rv_senv e) (page_va (rv_senv e) pa) (ks_drv g'))
           \<and> (\<forall>i<n. sv_endpoint (rv_senv e) (base + word_of_nat i * sv_endpoint_sz (rv_senv e)) d
                   = sv_endpoint (rv_senv e) (slot (rv_senv e) (page_va (rv_senv e) pa) i) (ks_drv g')) \<longrightarrow>
           find_entry (rv_senv e) (en_gid p) base 0 n d
             = Some (Some (sv_self_clone (rv_senv e) (sv_self_clone (rv_senv e) p))))"
proof -
  let ?s = "rv_senv e" and ?va = "page_va (rv_senv e) pa"
  define g1 where "g1 = evict_remote_dc_meta ?s k g"
  let ?g' = "g1 \<lparr> ks_drv := sv_set_u64 ?s reply 0 (ks_drv g1) \<rparr>"
  have h: "dereg_dc_meta_handler e req reply g = Some (64, ?g')"
    by (simp add: dereg_dc_meta_handler_def Let_def g1_def assms(6))
  have i: "get_remote_dc_meta k ?g' = None" "\<forall>k'. k' \<noteq> k \<longrightarrow> get_remote_dc_meta k' ?g' = get_remote_dc_meta k' g"
    by (simp_all add: get_remote_dc_meta_def g1_def evict_remote_fields delete_conv')
  then have qr: "query_dc_meta_handler e req' reply' ?g' = Some (0, ?g')"
    if "gid_to_str (pg_gid (rv_gid_at e req' (ks_drv ?g'))) = k" for req' reply'
    using that by (simp add: query_dc_meta_handler_def Let_def)
  have inv: "meta_inv ?s N g" using meta_reach_inv [OF assms(1-3)] .
  then have b: "unat ?va + table_len ?s N < 2 ^ 64" "0 < unat (sv_endpoint_sz ?s)"
    using assms(5) by (auto simp: meta_inv_def pages_ok_def)
  have so: "same_outside ?s reply 8 (ks_drv g) (ks_drv ?g')"
    using same_outside_trans [OF evict_same [OF assms(1)] same_outside_set(1) [OF assms(1)]] by (simp add: g1_def)
  obtain T where T: "length T \<le> N" "table_at ?s ?va (map (sv_self_clone ?s) T) (ks_drv g)"
      "unat (sv_u64 ?s ?va (ks_drv g)) = length T"
    using registered_in_table(2) [OF inv assms(4,5)] by blast
  have "table_at ?s ?va (map (sv_self_clone ?s) T) (ks_drv ?g')"
    by (rule table_at_same_outside [OF so _ b, where ps = "map (sv_self_clone ?s) T"])
      (use T assms(5,7) in \<open>simp_all add: reply_apart_def\<close>)
  then have eq: "sv_u64 ?s ?va (ks_drv ?g') = sv_u64 ?s ?va (ks_drv g)"
      "\<forall>i<length T. sv_endpoint ?s (slot ?s ?va i) (ks_drv ?g') = sv_endpoint ?s (slot ?s ?va i) (ks_drv g)"
    using T(2) by (simp_all add: table_at_def)
  have "find_entry ?s (en_gid p) base 0 n d = Some (Some (sv_self_clone ?s (sv_self_clone ?s p)))"
    if "0 < unat base" "unat base + N * unat (sv_endpoint_sz ?s) < 2 ^ 64" "n = unat (sv_u64 ?s ?va (ks_drv ?g'))"
      "\<forall>i<n. sv_endpoint ?s (base + word_of_nat i * sv_endpoint_sz ?s) d = sv_endpoint ?s (slot ?s ?va i) (ks_drv ?g')"
    for base d n
    by (intro find_entry_table(1) [OF assms(2) inv assms(4,5) _ that(1,2)])
      (use that(3,4) eq T(3) in simp_all)
  then show ?thesis using h i qr by blast
qed

theorem deregistration_leaves_table_witness:
  "\<exists>g'. dereg_dc_meta_handler demo_renv 0 256 demo_server = Some (64, g')
     \<and> get_remote_dc_meta (gid_to_str (replicate 16 1)) g' = None
     \<and> find_entry demo_meta_senv (replicate 16 1) 4104 0 1 (ks_drv g') = Some (Some demo_node)"
proof -
  have k: "gid_to_str (pg_gid (rv_gid_at demo_renv 0 (ks_drv demo_server))) = gid_to_str (replicate 16 1)"
    by (simp add: demo_renv_def)
  have g: "get_remote_dc_meta (gid_to_str (replicate 16 1)) demo_server = Some demo_node"
    by (simp add: demo_server_def get_remote_dc_meta_def)
  have pa: "4096 \<in> set (ks_mem_pa demo_server)" by (simp add: demo_server_def demo_kstate_def)
  have r: "reply_apart demo_renv 1 256 8 demo_server"
    by (simp add: reply_apart_def clear_def demo_server_def demo_kstate_def demo_meta_fields)
  obtain g' where g': "dereg_dc_meta_handler demo_renv 0 256 demo_server = Some (64, g')"
      "get_remote_dc_meta (gid_to_str (replicate 16 1)) g' = None"
      "\<And>base d n. \<lbrakk> 0 < unat base; unat base + 1 * unat (sv_endpoint_sz demo_meta_senv) < 2 ^ 64;
          n = unat (sv_u64 demo_meta_senv (page_va demo_meta_senv 4096) (ks_drv g'));
          \<forall>i<n. sv_endpoint demo_meta_senv (base + word_of_nat i * sv_endpoint_sz demo_meta_senv) d
                = sv_endpoint demo_meta_senv (slot demo_meta_senv (page_va demo_meta_senv 4096) i) (ks_drv g') \<rbrakk> \<Longrightarrow>
          find_entry demo_meta_senv (en_gid demo_node) base 0 n d
            = Some (Some (sv_self_clone demo_meta_senv (sv_self_clone demo_meta_senv demo_node)))"
    using deregistration_leaves_table [of demo_renv 1 demo_server _ demo_node 4096 0 256, unfolded demo_meta_fields(1),
        OF demo_meta_kmem demo_meta_clone demo_reach g pa k r] by blast
  have "ks_drv g' = (ks_drv demo_server) \<lparr> rs_kmem := (rs_kmem (ks_drv demo_server))(256 := [0]) \<rparr>"
    using g'(1) by (auto simp: dereg_dc_meta_handler_def demo_renv_def demo_meta_senv_def demo_senv_def evict_remote_dc_meta_def
        get_remote_dc_meta_def demo_server_def EndPoint_drop_def en_valid_def demo_node_def EndPoint_default_def Let_def)
  then have "find_entry demo_meta_senv (en_gid demo_node) 4104 0 1 (ks_drv g')
      = Some (Some (sv_self_clone demo_meta_senv (sv_self_clone demo_meta_senv demo_node)))"
    by (intro g'(3)) (simp_all add: demo_meta_fields demo_server_def slot_def)
  then show ?thesis using g' by (auto simp: demo_meta_fields demo_node_def EndPoint_default_def)
qed

end
