(* ===== verification/Remote_Props.thy ===== *)
theory Remote_Props
  imports Meta_Props
begin

text \<open>
  Connections made by remote procedure call: the handlers share the registry of the first
  controller with the connection manager.
\<close>

section \<open>What the handlers allocate\<close>

definition rpc_keeps :: "'d renv \<Rightarrow> ('d \<Rightarrow> resource set) \<Rightarrow> bool" where
  "rpc_keeps e live \<longleftrightarrow>
     (\<forall>d. live (snd (cm_create_id (rv_cm e) d)) = live d)
   \<and> (\<forall>a r d. live (rv_set_connect e a r d) = live d) \<and> (\<forall>a x d. live (rv_set_u32 e a x d) = live d)
   \<and> (\<forall>qp d. live (rv_bring_to_init e qp d) = live d)
   \<and> (\<forall>qp n l g d. live (rv_bring_init_to_rtr e qp n l g d) = live d)
   \<and> (\<forall>qp d. live (rv_bring_rtr_to_rts e qp d) = live d)"

lemma rpc_keepsD:
  assumes "rpc_keeps e live"
  shows "live (snd (cm_create_id (rv_cm e) d)) = live d" "live (rv_set_connect e a r d) = live d"
    "live (rv_set_u32 e a x d) = live d" "live (rv_bring_to_init e qp d) = live d"
    "live (rv_bring_init_to_rtr e qp n l g d) = live d" "live (rv_bring_rtr_to_rts e qp d) = live d"
  using assms unfolding rpc_keeps_def by simp_all

text \<open>A queue pair with a handle of its own.\<close>

lemma KRC_new_own_live:
  assumes e: "kenv_lifetimes e live" and cm: "\<And>d. live (snd (cm_create_id (kn_cm e) d)) = live d"
    and n: "KRC_new_with_srq (kn_verbs e) (kn_cm e) config 0 srq recv_cq d = Some (Some rc, d')"
  shows "krc_qp rc \<noteq> 0" "krc_cq rc \<noteq> 0" "RQp (krc_qp rc) \<notin> live d" "RCq (krc_cq rc) \<notin> live d"
    "live d' = live d \<union> {RQp (krc_qp rc), RCq (krc_cq rc)}" "krc_cm rc \<noteq> 0"
proof -
  define p1 where "p1 = create_ib_cq (kn_verbs e) (kc_max_cqe config) d"
  define p2 where "p2 = create_ib_qp (kn_verbs e) config IB_QPT_RC (fst p1) (if recv_cq = 0 then fst p1 else recv_cq) srq (snd p1)"
  define p3 where "p3 = cm_create_id (kn_cm e) (snd p2)"
  have r: "fst p1 \<noteq> 0" "fst p2 \<noteq> 0" "krc_qp rc = fst p2" "krc_cq rc = fst p1" "d' = snd p3" "krc_cm rc = fst p3" "fst p3 \<noteq> 0"
    using n by (auto simp: KRC_new_with_srq_def ClientCM_new_def Let_def case_prod_beta p1_def p2_def p3_def KRC_drop_def
        KRC_default_def split: if_splits)
  note v = kenv_lifetimesD(1) [OF e]
  have "live (snd p1) = insert (RCq (fst p1)) (live d)" "RCq (fst p1) \<notin> live d"
    using alloc_live [OF create_ib_cq_alloc [OF v], of "kc_max_cqe config" d] r by (simp_all add: p1_def)
  moreover have "live (snd p2) = insert (RQp (fst p2)) (live (snd p1))" "RQp (fst p2) \<notin> live (snd p1)"
    using alloc_live [OF create_ib_qp_alloc [OF v], of config IB_QPT_RC "fst p1" "if recv_cq = 0 then fst p1 else recv_cq" srq "snd p1"] r
    by (simp_all add: p2_def)
  moreover have "live (snd p3) = live (snd p2)" by (simp add: p3_def cm)
  ultimately show "krc_qp rc \<noteq> 0" "krc_cq rc \<noteq> 0" "RQp (krc_qp rc) \<notin> live d" "RCq (krc_cq rc) \<notin> live d"
    "live d' = live d \<union> {RQp (krc_qp rc), RCq (krc_cq rc)}" "krc_cm rc \<noteq> 0" using r by auto
qed

lemma AList_update_split:
  "distinct (map fst al) \<Longrightarrow> map_of al k = Some v \<Longrightarrow>
     \<exists>al1 al2. al = al1 @ (k, v) # al2 \<and> AList.update k w al = al1 @ (k, w) # al2"
proof (induction al)
  case (Cons p al)
  show ?case
  proof (cases "fst p = k")
    case True
    with Cons.prems show ?thesis by (intro exI [of _ "[]"] exI [of _ al]) (cases p, simp)
  next
    case False
    with Cons obtain al1 al2 where "al = al1 @ (k, v) # al2" "AList.update k w al = al1 @ (k, w) # al2" by (cases p) auto
    with False show ?thesis by (intro exI [of _ "p # al1"] exI [of _ al2]) (cases p, simp)
  qed
qed simp

lemma ctl_inv_replace:
  assumes inv: "ctl_inv live base r d" and k: "get_trc k r = Some old"
    and "krc_qp rc \<noteq> 0" "krc_cq rc \<noteq> 0" "RQp (krc_qp rc) \<notin> live d" "RCq (krc_cq rc) \<notin> live d"
    and "live d' = live d \<union> {RQp (krc_qp rc), RCq (krc_cq rc)} - {RQp (krc_qp old), RCq (krc_cq old)}"
    and "rl_registered_rcs r' = AList.update k rc (rl_registered_rcs r)"
  shows "ctl_inv live base r' d'"
proof -
  have "distinct (map fst (rl_registered_rcs r))" using inv by (simp add: ctl_inv_def)
  then obtain l1 l2 where l: "rl_registered_rcs r = l1 @ (k, old) # l2" "rl_registered_rcs r' = l1 @ (k, rc) # l2"
    using AList_update_split k assms(8) by (metis get_trc_def)
  then show ?thesis using inv assms(3-7) unfolding ctl_inv_def by auto
qed

text \<open>What a connection by remote procedure call does to the registry and the driver.\<close>

lemma connect_rc_handler_spec:
  assumes k: "kenv_lifetimes (sv_kenv (rv_senv e)) live" "rpc_keeps e live"
    and c: "get_global_rctrl 0 g = Some r" and inv: "ctl_inv live base r (ks_drv g)"
    and h: "connect_rc_handler e req reply g = Some (n, g')"
  shows "\<exists>rc r'. g' = (put_global_rctrl 0 r' g) \<lparr> ks_drv := ks_drv g' \<rparr> \<and> n = 32
     \<and> rl_registered_rcs r' = AList.update (unat (rl_free_in_qp_key r)) rc (rl_registered_rcs r)
     \<and> rl_free_in_qp_key r' = rl_free_in_qp_key r + 1
     \<and> RQp (krc_qp rc) \<notin> live (ks_drv g) \<and> RCq (krc_cq rc) \<notin> live (ks_drv g) \<and> krc_cm rc \<noteq> 0
     \<and> ctl_inv live base r' (ks_drv g')"
proof -
  let ?k = "sv_kenv (rv_senv e)" and ?key = "unat (rl_free_in_qp_key r)"
  let ?cfg = "KConfig_default (kn_random ?k)"
  obtain rc d1 where new: "KRC_new_with_srq (rv_verbs e) (rv_cm e) ?cfg 0 0 (get_recv_cq r) (ks_drv g) = Some (Some rc, d1)"
    using h c by (auto simp: connect_rc_handler_def Let_def split: bind_splits option.splits)
  note nl = KRC_new_own_live [OF k(1) rpc_keepsD(1) [OF k(2)] new]
  let ?pl = "rv_connect_at e req (ks_drv g)"
  let ?d2 = "rv_bring_rtr_to_rts e (krc_qp rc) (rv_bring_init_to_rtr e (krc_qp rc) (pc_qpn ?pl) (pc_lid ?pl) (pc_gid ?pl)
      (rv_bring_to_init e (krc_qp rc) d1))"
  let ?r' = "r \<lparr> rl_free_in_qp_key := rl_free_in_qp_key r + 1,
      rl_registered_rcs := AList.update ?key rc (rl_registered_rcs r) \<rparr>"
  have l2: "live ?d2 = live (ks_drv g) \<union> {RQp (krc_qp rc), RCq (krc_cq rc)}" using nl by (simp add: rpc_keepsD [OF k(2)])
  have t: "get_trc ?key (r \<lparr> rl_free_in_qp_key := rl_free_in_qp_key r + 1 \<rparr>) = get_trc ?key r" by (simp add: get_trc_def)
  obtain node where node: "get_rpc_client 0 g = Some node"
    using h c new by (auto simp: connect_rc_handler_def Let_def split: bind_splits)
  let ?rep = "\<lparr> ry_gid = en_gid node, ry_lid = en_lid node, ry_qpn = vb_qp_num (rv_verbs e) (krc_qp rc) ?d2, ry_qd = ?key \<rparr>"
  have h': "Option.bind (case get_trc ?key r of None \<Rightarrow> Some ?d2 | Some old \<Rightarrow> KRC_drop (rv_verbs e) (rv_cm e) old ?d2)
      (\<lambda>d. Some (32, (put_global_rctrl 0 ?r' g) \<lparr> ks_drv := rv_set_connect e reply ?rep d \<rparr>)) = Some (n, g')"
    using h c new node t by (simp add: connect_rc_handler_def get_next_in_qp_key_def Let_def)
  then obtain d3 where d3: "(case get_trc ?key r of None \<Rightarrow> Some ?d2 | Some old \<Rightarrow> KRC_drop (rv_verbs e) (rv_cm e) old ?d2) = Some d3"
    by (cases "case get_trc ?key r of None \<Rightarrow> Some ?d2 | Some old \<Rightarrow> KRC_drop (rv_verbs e) (rv_cm e) old ?d2") auto
  have n: "n = 32" and g': "g' = (put_global_rctrl 0 ?r' g) \<lparr> ks_drv := rv_set_connect e reply ?rep d3 \<rparr>"
    using h' unfolding d3 by simp_all
  have "ctl_inv live base ?r' (ks_drv g')"
  proof (cases "get_trc ?key r")
    case None
    then have "live (ks_drv g') = live (ks_drv g) \<union> {RQp (krc_qp rc), RCq (krc_cq rc)}"
      using d3 g' l2 None by (simp add: rpc_keepsD [OF k(2)])
    then show ?thesis by (intro ctl_inv_add [OF inv None nl(1-4)]) simp_all
  next
    case (Some old)
    then have "(?key, old) \<in> set (rl_registered_rcs r)" by (simp add: get_trc_def map_of_SomeD)
    then have "krc_cq old \<noteq> 0" using inv by (auto simp: ctl_inv_def)
    then have "live (ks_drv g') = live (ks_drv g) \<union> {RQp (krc_qp rc), RCq (krc_cq rc)} - {RQp (krc_qp old), RCq (krc_cq old)}"
      using d3 g' l2 Some KRC_drop_live [OF k(1)] by (simp add: rpc_keepsD [OF k(2)])
    then show ?thesis by (intro ctl_inv_replace [OF inv Some nl(1-4)]) simp_all
  qed
  then show ?thesis using n g' nl by (intro exI [of _ rc] exI [of _ ?r']) simp
qed

lemma get_put_rctrl: "get_global_rctrl i g = Some r \<Longrightarrow> get_global_rctrl i ((put_global_rctrl i r' g) \<lparr> ks_drv := d \<rparr>) = Some r'"
  by (auto simp: get_global_rctrl_def put_global_rctrl_def wrapped_def split: if_splits)

section \<open>Histories of a node\<close>

text \<open>The events of the connection manager at the first controller and the calls of remote
  nodes, one after the other in any order.\<close>

inductive node_reach :: "'d renv \<Rightarrow> 'd kstate \<Rightarrow> 'd kstate \<Rightarrow> bool" for e g0 where
  start: "node_reach e g0 g0"
| event: "\<lbrakk> node_reach e g0 g; get_global_rctrl 0 g = Some r; \<And>req qd. ev \<noteq> ReqReceived 0 req qd;
    cm_handler (sv_kenv (rv_senv e)) ev r (ks_drv g) = Some (r', d') \<rbrakk> \<Longrightarrow>
    node_reach e g0 ((put_global_rctrl 0 r' g) \<lparr> ks_drv := d' \<rparr>)"
| remote_connect: "\<lbrakk> node_reach e g0 g; connect_rc_handler e req reply g = Some (n, g') \<rbrakk> \<Longrightarrow> node_reach e g0 g'"
| remote_disconnect: "\<lbrakk> node_reach e g0 g; disconnect_rc_handler e req reply g = Some (n, g') \<rbrakk> \<Longrightarrow> node_reach e g0 g'"

lemma node_reach_inv:
  assumes k: "kenv_lifetimes (sv_kenv (rv_senv e)) live" "rpc_keeps e live" and "node_reach e g0 g"
    and "get_global_rctrl 0 g0 = Some r0" "ctl_inv live base r0 (ks_drv g0)"
  shows "\<exists>r. get_global_rctrl 0 g = Some r \<and> ctl_inv live base r (ks_drv g)"
  using assms(3-5)
proof induction
  case (event g r ev r' d')
  then show ?case using cm_handler_inv [OF k(1) _ event.hyps(3,4)] get_put_rctrl by fastforce
next
  case (remote_connect g req reply n g')
  then obtain r where r: "get_global_rctrl 0 g = Some r" "ctl_inv live base r (ks_drv g)" by blast
  then show ?case
    using connect_rc_handler_spec [OF k r remote_connect.hyps(2)] get_put_rctrl [OF r(1)] by metis
next
  case (remote_disconnect g req reply n g')
  then obtain r where r: "get_global_rctrl 0 g = Some r" "ctl_inv live base r (ks_drv g)" by blast
  obtain r' d' where d: "dereg_rc (sv_kenv (rv_senv e)) (px_qd (rv_disconnect_at e req (ks_drv g))) r (ks_drv g) = Some (r', d')"
      "g' = (put_global_rctrl 0 r' g) \<lparr> ks_drv := rv_set_u32 e reply 0 d' \<rparr>"
    using remote_disconnect.hyps(2) r(1) by (auto simp: disconnect_rc_handler_def Let_def split: bind_splits)
  have "ctl_inv live base r' d'" by (rule dereg_rc_inv [OF k(1) r(2) d(1)])
  then show ?case using get_put_rctrl [OF r(1)] d(2) by (auto simp: ctl_inv_def rpc_keepsD [OF k(2)])
qed auto


text \<open>A remote connection over the reference driver.\<close>

lemma demo_remote_laws:
  "kenv_lifetimes (sv_kenv (rv_senv demo_renv)) rs_live" "rpc_keeps demo_renv rs_live"
  using demo_kenv_lifetimes
  by (simp_all add: demo_renv_def demo_meta_senv_def demo_senv_def kenv_lifetimes_def rpc_keeps_def demo_kenv_def demo_kcm_def
      demo_meta_ib_def)

definition demo_rc :: KRC where
  "demo_rc = \<lparr> krc_qp = 17, krc_cq = 16, krc_recv_cq = 6, krc_srq = 0, krc_remote_mr = None, krc_cm = 8 \<rparr>"

lemma demo_ctrl_0: "get_global_rctrl 0 (demo_kstate n) = Some demo_ctrl" "rl_registered_rcs demo_ctrl = []"
  by (simp_all add: get_global_rctrl_def wrapped_def demo_kstate_def demo_ctrl_def)

lemma demo_remote_connect:
  "\<exists>g'. connect_rc_handler demo_renv 0 256 (demo_kstate 4) = Some (32, g')
     \<and> map_option rl_registered_rcs (get_global_rctrl 0 g') = Some [(0, demo_rc)]"
  by (simp add: connect_rc_handler_def demo_renv_def demo_meta_senv_def demo_senv_def demo_kenv_def demo_kcm_def
      get_global_rctrl_def put_global_rctrl_def get_rpc_client_def wrapped_def demo_kstate_def demo_ctrl_def
      KRC_new_with_srq_def ClientCM_new_def create_ib_cq_def create_ib_qp_def ref_verbs_def ref_alloc_def ref_init_def
      get_next_in_qp_key_def get_trc_def get_recv_cq_def demo_rc_def Let_def)



text \<open>A registry in which a client has taken the key 0.\<close>

definition demo_taken :: "ref_state kstate" where
  "demo_taken = (demo_kstate 4)
     \<lparr> ks_rctrl := [demo_ctrl \<lparr> rl_registered_rcs := [(0, demo_rc \<lparr> krc_qp := 100, krc_cq := 101 \<rparr>)] \<rparr>],
       ks_drv := (ref_init 4) \<lparr> rs_live := {RQp 100, RCq 101} \<rparr> \<rparr>"

lemma demo_taken_connect: "\<exists>g'. connect_rc_handler demo_renv 0 256 demo_taken = Some (32, g')"
  by (simp add: demo_taken_def connect_rc_handler_def demo_renv_def demo_meta_senv_def demo_senv_def demo_kenv_def demo_kcm_def
      get_global_rctrl_def get_rpc_client_def wrapped_def demo_kstate_def demo_ctrl_def KRC_drop_def
      KRC_new_with_srq_def ClientCM_new_def create_ib_cq_def create_ib_qp_def ref_verbs_def ref_alloc_def ref_init_def
      get_next_in_qp_key_def get_trc_def get_recv_cq_def demo_rc_def Let_def)


end
