(* ===== verification/Client_Props.thy ===== *)
theory Client_Props
  imports Client Remote_Props
begin

text \<open>
  What loading the module sets up: which controller serves which service.
\<close>

section \<open>Controllers and services\<close>

lemma reg_ud_fields: "reg_ud v k ud r d = Some (r', d') \<Longrightarrow> rl_id r' = rl_id r \<and> rl_context r' = rl_context r"
  by (auto simp: reg_ud_def Let_def split: option.splits)

lemma RCtrl_create_fields:
  assumes "RCtrl_create e sid ctx pa d = Some (Some r, d')"
  shows "rl_id r = sid" "rl_context r = ctx"
  using assms
  by (auto simp: RCtrl_create_def Let_def case_prod_beta dest!: reg_ud_fields split: option.splits result.splits prod.splits)

lemma create_service_ids:
  "create_service e i ctxs d = Some (rs, d') \<Longrightarrow>
     length rs = length ctxs \<and> (\<forall>j<length ctxs. rl_id (rs ! j) = word_of_nat i \<and> rl_context (rs ! j) = ctxs ! j)"
proof (induction ctxs arbitrary: d rs d')
  case (Cons c ctxs)
  obtain r d1 rs' where r: "RCtrl_create (ce_kenv e) (word_of_nat i) c (fst (ce_alloc_pa e (4 * 1024 * 1024) d))
        (snd (ce_alloc_pa e (4 * 1024 * 1024) d)) = Some (Some r, d1)"
      "create_service e i ctxs d1 = Some (rs', d')" "rs = r # rs'"
    using Cons.prems by (auto simp: Let_def case_prod_beta split: option.splits)
  then show ?case using Cons.IH [OF r(2)] RCtrl_create_fields [OF r(1)] by (auto simp: less_Suc_eq_0_disj)
qed simp

lemma create_services_ids:
  "create_services e is ctxs d = Some (rs, d') \<Longrightarrow>
     length rs = length is * length ctxs
   \<and> (\<forall>a<length is. \<forall>j<length ctxs. rl_id (rs ! (a * length ctxs + j)) = word_of_nat (is ! a)
        \<and> rl_context (rs ! (a * length ctxs + j)) = ctxs ! j)"
proof (induction "is" arbitrary: d rs d')
  case (Cons i "is")
  obtain rs1 d1 rs2 where r: "create_service e i ctxs d = Some (rs1, d1)" "create_services e is ctxs d1 = Some (rs2, d')"
      "rs = rs1 @ rs2"
    using Cons.prems by (auto split: bind_splits)
  note s1 = create_service_ids [OF r(1)] and s2 = Cons.IH [OF r(2)]
  have "rl_id (rs ! (a * length ctxs + j)) = word_of_nat ((i # is) ! a)
      \<and> rl_context (rs ! (a * length ctxs + j)) = ctxs ! j"
    if "a < length (i # is)" "j < length ctxs" for a j
    using that s1 s2 by (cases a) (auto simp: r(3) nth_append)
  then show ?case using s1 s2 r(3) by simp
qed simp

lemma create_rpc_clients_ctrls:
  "create_rpc_clients e is g = Some g' \<Longrightarrow> ks_rctrl g' = ks_rctrl g \<and> ks_rcontexts g' = ks_rcontexts g"
proof (induction "is" arbitrary: g)
  case (Cons i "is")
  obtain p d where "create_rpc_clients e is (g \<lparr> ks_rpc_clients := ks_rpc_clients g @ [p], ks_drv := d \<rparr>) = Some g'"
    using Cons.prems by (auto split: bind_splits prod.splits)
  from Cons.IH [OF this] show ?case by simp
qed simp

lemma create_global_mem_fields:
  "ks_rctrl (create_global_mem e n g) = ks_rctrl g" "ks_rcontexts (create_global_mem e n g) = ks_rcontexts g"
  "length (ks_mem_pa (create_global_mem e n g)) = length (ks_mem_pa g) + n"
  by (induction n arbitrary: g) (simp_all add: case_prod_beta Let_def)

lemma call_reg_ctrls:
  "call_reg_dc_meta e p g = Some (r, g') \<Longrightarrow> ks_rctrl g' = ks_rctrl g \<and> ks_rcontexts g' = ks_rcontexts g"
  by (auto simp: call_reg_dc_meta_def split: bind_splits)

lemma conn_meta_ctrls: "conn_meta e g = Some (b, g') \<Longrightarrow> ks_rctrl g' = ks_rctrl g \<and> ks_rcontexts g' = ks_rcontexts g"
  by (auto simp: conn_meta_def Let_def case_prod_beta dest!: call_reg_ctrls split: if_splits option.splits result.splits bind_splits)

lemma create_contexts_length: "create_contexts e nics d = Some (cs, d') \<Longrightarrow> length cs = length nics"
  by (induction nics arbitrary: d cs d') (auto split: option.splits prod.splits)

lemma Client_create_ctrls:
  assumes "Client_create e g0 = Some (b, g)" "ks_rctrl g0 = []" "ks_rcontexts g0 = []"
  shows "length (ks_rctrl g) = MAX_SERVICE_NUM * length (ks_rcontexts g)"
    "\<And>a j. \<lbrakk> a < MAX_SERVICE_NUM; j < length (ks_rcontexts g) \<rbrakk> \<Longrightarrow>
       rl_id (ks_rctrl g ! (a * length (ks_rcontexts g) + j)) = word_of_nat a
     \<and> rl_context (ks_rctrl g ! (a * length (ks_rcontexts g) + j)) = ks_rcontexts g ! j"
proof -
  let ?nics = "fold (\<lambda>dev. add_one e dev (ks_drv g0)) (ce_devices e) []"
  have "length (ks_rctrl g) = MAX_SERVICE_NUM * length (ks_rcontexts g)
     \<and> (\<forall>a<MAX_SERVICE_NUM. \<forall>j<length (ks_rcontexts g).
          rl_id (ks_rctrl g ! (a * length (ks_rcontexts g) + j)) = word_of_nat a
        \<and> rl_context (ks_rctrl g ! (a * length (ks_rcontexts g) + j)) = ks_rcontexts g ! j)"
  proof (cases "?nics = []")
    case True
    then show ?thesis using assms by (simp add: Client_create_def)
  next
    case False
    obtain ctxs d1 where c: "create_contexts e ?nics (ks_drv g0) = Some (ctxs, d1)"
      using assms(1) False by (auto simp: Client_create_def Let_def split: bind_splits)
    have lc: "length ctxs = length ?nics" using create_contexts_length [OF c] .
    obtain rs d2 where r: "create_services e [0..<MAX_SERVICE_NUM] ctxs d1 = Some (rs, d2)"
      using assms False c lc by (auto simp: Client_create_def Let_def split: bind_splits)
    obtain g1 where g1: "create_rpc_clients e [0..<2] (g0 \<lparr> ks_rcontexts := ctxs, ks_rctrl := rs, ks_drv := d2 \<rparr>) = Some g1"
      "(if ft_meta_kv (sv_feat (ce_senv e)) then conn_meta e (create_global_mem e 12 g1)
        else Some (True, create_global_mem e 12 g1)) = Some (b, g)"
      using assms False c lc r by (auto simp: Client_create_def Let_def simp del: upt_rec_numeral split: bind_splits)
    have "ks_rctrl g = rs" "ks_rcontexts g = ctxs"
      using g1(2) create_rpc_clients_ctrls [OF g1(1)]
      by (auto simp: create_global_mem_fields dest!: conn_meta_ctrls split: if_splits)
    then show ?thesis using create_services_ids [OF r] by simp
  qed
  then show "length (ks_rctrl g) = MAX_SERVICE_NUM * length (ks_rcontexts g)"
    "\<And>a j. \<lbrakk> a < MAX_SERVICE_NUM; j < length (ks_rcontexts g) \<rbrakk> \<Longrightarrow>
       rl_id (ks_rctrl g ! (a * length (ks_rcontexts g) + j)) = word_of_nat a
     \<and> rl_context (ks_rctrl g ! (a * length (ks_rcontexts g) + j)) = ks_rcontexts g ! j"
    by blast+
qed

text \<open>C25. Which controller a bound port uses.  After loading the module with \<open>n\<close> devices
  there are 25 controllers per device, and the controller of port \<open>p\<close> listens for the
  service \<open>(2p mod 25n) div n\<close> on the device \<open>2p mod n\<close>.  With two devices port \<open>p\<close> is served
  by the controller of service \<open>p\<close> on the first device, and port 25, which \<open>Bind\<close> accepts,
  shares the controller of port 0; with one device no port but 0 is served by the
  controller of its own service.\<close>

theorem bind_controller_of_port:
  assumes "Client_create e g0 = Some (b, g)" "ks_rctrl g0 = []" "ks_rcontexts g0 = []"
    and "n = length (ks_rcontexts g)" "0 < n"
  shows "length (ks_rctrl g) = 25 * n
     \<and> (\<exists>r. get_bind_ctrl port g = Some r \<and> rl_id r = word_of_nat (2 * port mod (25 * n) div n)
          \<and> rl_context r = ks_rcontexts g ! (2 * port mod n)
          \<and> (n = 2 \<and> port < 25 \<longrightarrow> rl_id r = word_of_nat port \<and> rl_context r = ks_rcontexts g ! 0)
          \<and> (n = 1 \<and> 0 < port \<and> port < 25 \<longrightarrow> rl_id r \<noteq> word_of_nat port))
     \<and> (n = 2 \<longrightarrow> get_bind_ctrl 25 g = get_bind_ctrl 0 g)"
proof -
  note c = Client_create_ctrls [OF assms(1-3), folded assms(4), unfolded MAX_SERVICE_NUM_def]
  let ?i = "2 * port mod (25 * n)"
  have i: "?i div n < 25" using assms(5) by (simp add: less_mult_imp_div_less)
  have ne: "ks_rctrl g \<noteq> []" using c(1) assms(5) by auto
  have lk: "get_bind_ctrl p g = Some (ks_rctrl g ! (2 * p mod (25 * n)))" for p
    using ne c(1) by (simp add: get_bind_ctrl_def get_global_rctrl_def wrapped_def mult.commute)
  have m: "?i mod n = 2 * port mod n" by (simp add: mod_mod_cancel)
  have "?i = ?i div n * n + 2 * port mod n" using m by (metis div_mult_mod_eq)
  then have id: "rl_id (ks_rctrl g ! ?i) = word_of_nat (?i div n)" "rl_context (ks_rctrl g ! ?i) = ks_rcontexts g ! (2 * port mod n)"
    using c(2) [OF i, of "2 * port mod n"] assms(5) by simp_all
  have two: "?i div n = port \<and> 2 * port mod n = 0" if "n = 2" "port < 25" using that by simp
  have "word_of_nat (?i div n) \<noteq> (word_of_nat port :: u64)" if "n = 1" "0 < port" "port < 25"
  proof -
    have "2 * port mod 25 \<noteq> port"
    proof (cases "2 * port < 25")
      case False
      then have "2 * port mod 25 = 2 * port - 25" using that(3) by (simp add: mod_if)
      then show ?thesis using that(2,3) False by linarith
    qed (use that(2) in simp)
    then show ?thesis using that by (simp add: word_of_nat_eq_iff take_bit_nat_eq_self)
  qed
  then show ?thesis using c(1) lk id two by auto
qed

text \<open>A machine with one device, whose driver answers every call with the same handles.\<close>

definition flat_verbs :: "ref_state verbs" where
  "flat_verbs = ref_verbs
     \<lparr> vb_alloc_pd := (\<lambda>d. (5, d)), vb_get_dma_mr := (\<lambda>_ _ d. (4, d)), vb_create_cq := (\<lambda>_ d. (6, d)),
       vb_create_srq := (\<lambda>_ _ d. (7, d)), vb_create_qp := (\<lambda>_ d. (8, d)), vb_create_dct := (\<lambda>_ d. (9, d)),
       vb_modify_qp := (\<lambda>_ _ _ d. (0, d)) \<rparr>"

definition flat_cenv :: "ref_state cenv" where
  "flat_cenv =
     \<lparr> ce_renv = demo_renv \<lparr> rv_senv := demo_meta_senv \<lparr> sv_kenv := demo_kenv \<lparr> kn_verbs := flat_verbs \<rparr> \<rparr> \<rparr>,
       ce_devices = [3], ce_dev_verbs = (\<lambda>_. flat_verbs), ce_dev_err = (\<lambda>_. 0), ce_alloc_pa = (\<lambda>_ d. (4096, d)),
       ce_rpc_create = (\<lambda>_ _ _ _ d. (demo_node, d)), ce_rpc_drop = (\<lambda>_ d. d) \<rparr>"

definition flat_start :: "ref_state kstate" where
  "flat_start = \<lparr> ks_rcontexts = [], ks_rctrl = [], ks_mem_pa = [], ks_meta_info = [], ks_meta_kv_pa = 0, ks_rpc_clients = [],
     ks_drv = ref_init 4 \<rparr>"

definition flat_ctx :: RContext where
  "flat_ctx = \<lparr> rc_hca = \<lparr> rn_hca = 3, rn_default_gid = replicate 16 9, rn_port = 1, rn_lid = 7 \<rparr>, rc_kmr = 4, rc_pd = 5 \<rparr>"

lemma flat_fields:
  "ce_kenv flat_cenv = demo_kenv \<lparr> kn_verbs := flat_verbs \<rparr>" "ce_devices flat_cenv = [3]"
  "ce_dev_verbs flat_cenv dev = flat_verbs" "ce_dev_err flat_cenv dev = 0" "ce_alloc_pa flat_cenv n d = (4096, d)"
  "ce_rpc_create flat_cenv c u k m d = (demo_node, d)" "sv_feat (ce_senv flat_cenv) = demo_features"
  by (simp_all add: flat_cenv_def demo_meta_senv_def demo_senv_def)

lemma flat_post:
  "\<exists>h h'. RecvHelper_create (\<lambda>x. x) CTRL_N (MAX_KMALLOC_SZ div CTRL_N) 4 4096 = Some h
      \<and> post_recvs (kn_ib demo_kenv) h qp 0 CTRL_N d = Some (Ok (), h', d)"
proof -
  obtain h where h: "RecvHelper_create (\<lambda>x. x) CTRL_N (MAX_KMALLOC_SZ div CTRL_N) 4 4096 = Some h"
    by (simp add: RecvHelper_create_eq CTRL_N_def MAX_KMALLOC_SZ_def)
  then have inv: "rh_inv (\<lambda>x. x) CTRL_N (MAX_KMALLOC_SZ div CTRL_N) 4 4096 h"
    by (rule RecvHelper_create_inv) (simp add: CTRL_N_def)
  have "rh_cur_idx h = 0" using h by (auto simp: RecvHelper_create_eq split: if_splits)
  then show ?thesis
    using h post_recvs_inv [OF inv, where sz = CTRL_N and b = "kn_ib demo_kenv" and srq = 0 and qp = qp and d = d]
    by (auto simp: demo_kenv_def CTRL_N_def)
qed

definition flat_ctrl :: "RCtrl \<Rightarrow> bool" where
  "flat_ctrl r \<longleftrightarrow> get_ud DEFAULT_RPC_HINT r \<noteq> None \<and> (\<forall>d. get_dc_num flat_verbs r d \<noteq> None)"

lemma flat_create:
  "\<exists>r. RCtrl_create (ce_kenv flat_cenv) sid flat_ctx 4096 (ref_init 4) = Some (Some r, ref_init 4) \<and> flat_ctrl r"
proof -
  obtain h h' where h: "RecvHelper_create (\<lambda>x. x) CTRL_N (MAX_KMALLOC_SZ div CTRL_N) 4 4096 = Some h"
      "post_recvs (kn_ib demo_kenv) h 8 0 CTRL_N (ref_init 4) = Some (Ok (), h', ref_init 4)"
    using flat_post by blast
  have env: "kn_verbs (ce_kenv flat_cenv) = flat_verbs" "kn_cm (ce_kenv flat_cenv) = demo_kcm"
    "kn_ib (ce_kenv flat_cenv) = kn_ib demo_kenv" "kn_pa_to_va (ce_kenv flat_cenv) = (\<lambda>x. x)" "kn_random (ce_kenv flat_cenv) = 7"
    by (simp_all add: flat_fields demo_kenv_def)
  have s: "DCTServer_new flat_verbs b d = (Some \<lparr> ds_dct = 9, ds_cq = 6, ds_srq = 7, ds_recv_cq = 6 \<rparr>, d)" for b d
    by (simp add: DCTServer_new_def DCTServer_new_from_config_def create_ib_cq_def flat_verbs_def)
  have u: "\<exists>ud. KUD_new_with_srq flat_verbs b 6 0 (ref_init 4) = Some (Some ud, ref_init 4) \<and> kud_qp ud = 8" for b
    by (simp add: KUD_new_with_srq_def KUD_new_from_config_def create_ib_cq_def create_ib_qp_def flat_verbs_def
        bring_ud_to_ready_def get_qp_status_def kit_modify_def ref_verbs_def ref_init_def Let_def)
  then obtain ud where ud: "KUD_new_with_srq flat_verbs 7 6 0 (ref_init 4) = Some (Some ud, ref_init 4)" "kud_qp ud = 8" by blast
  have dc: "snd (KDC_new_with_srq flat_verbs pd 0 6 d) = d" for pd d
    by (simp add: KDC_new_with_srq_def create_dc_qp_def create_ib_cq_def flat_verbs_def bring_dc_to_ready_def
        bring_dc_to_init_def bring_dc_to_rtr_def bring_dc_to_rts_def kit_modify_def Let_def case_prod_beta)
  have "rc_get_lkey flat_verbs flat_ctx d = 4" for d by (simp add: rc_get_lkey_def flat_verbs_def ref_verbs_def flat_ctx_def)
  moreover have "ClientCM_new demo_kcm d = (Some 8, d)" "ClientCM_listen demo_kcm 8 sid d = (Ok (), d)" for d
    by (simp_all add: ClientCM_new_def ClientCM_listen_def demo_kcm_def code_result_def)
  ultimately show ?thesis
    using ud h dc
    by (simp add: RCtrl_create_def env s get_recv_cq_def reg_ud_def get_ud_def case_prod_beta Let_def flat_ctrl_def get_dc_num_def)
qed

lemma flat_services:
  "\<exists>rs. create_services flat_cenv is [flat_ctx] (ref_init 4) = Some (rs, ref_init 4) \<and> length rs = length is \<and> (\<forall>r\<in>set rs. flat_ctrl r)"
proof (induction "is")
  case (Cons i "is")
  obtain r where r: "RCtrl_create (ce_kenv flat_cenv) (word_of_nat i) flat_ctx 4096 (ref_init 4) = Some (Some r, ref_init 4)"
      "flat_ctrl r" using flat_create by blast
  have "create_service flat_cenv i [flat_ctx] (ref_init 4) = Some ([r], ref_init 4)"
    using r(1) by (simp add: flat_fields(5))
  then show ?case using Cons.IH r(2) by (auto simp del: create_service.simps)
qed simp

lemma flat_rpc_clients:
  assumes "ks_rctrl g \<noteq> []" "\<forall>r\<in>set (ks_rctrl g). flat_ctrl r" "ks_rcontexts g \<noteq> []"
  shows "\<exists>g'. create_rpc_clients flat_cenv is g = Some g'"
  using assms
proof (induction "is" arbitrary: g)
  case (Cons i "is")
  let ?r = "ks_rctrl g ! (i * 2 mod length (ks_rctrl g))"
  have "?r \<in> set (ks_rctrl g)" using Cons.prems(1) by simp
  then have "flat_ctrl ?r" using Cons.prems(2) by blast
  then obtain ud n where "get_ud DEFAULT_RPC_HINT ?r = Some ud" "get_dc_num flat_verbs ?r (ks_drv g) = Some n"
    unfolding flat_ctrl_def by blast
  moreover have "kn_verbs (ce_kenv flat_cenv) = flat_verbs" by (simp add: flat_fields)
  ultimately show ?case
    using Cons.prems by (simp add: get_global_rcontext_def get_global_rctrl_def wrapped_def flat_fields(6) Cons.IH)
qed simp

lemma flat_loaded: "\<exists>g. Client_create flat_cenv flat_start = Some (True, g) \<and> ks_rcontexts g = [flat_ctx]"
proof -
  let ?nic = "\<lparr> rn_hca = 3, rn_default_gid = replicate 16 9, rn_port = 1, rn_lid = 7 \<rparr>"
  obtain rs where rs: "create_services flat_cenv [0..<MAX_SERVICE_NUM] [flat_ctx] (ref_init 4) = Some (rs, ref_init 4)"
      "length rs = 25" "\<forall>r\<in>set rs. flat_ctrl r"
    using flat_services [of "[0..<MAX_SERVICE_NUM]"] by (auto simp: MAX_SERVICE_NUM_def)
  have nics: "fold (\<lambda>dev. add_one flat_cenv dev (ks_drv flat_start)) (ce_devices flat_cenv) [] = [?nic]"
    by (simp add: flat_fields add_one_def RNIC_create_def flat_verbs_def ref_verbs_def numeral_eq_Suc)
  have ctxs: "create_contexts flat_cenv [?nic] (ref_init 4) = Some ([flat_ctx], ref_init 4)"
    by (simp add: flat_fields RContext_create_def flat_verbs_def flat_ctx_def)
  let ?g = "flat_start \<lparr> ks_rcontexts := [flat_ctx], ks_rctrl := rs, ks_drv := ref_init 4 \<rparr>"
  have "ks_rctrl ?g \<noteq> []" using rs(2) by auto
  then obtain g1 where g1: "create_rpc_clients flat_cenv [0..<2] ?g = Some g1"
    using flat_rpc_clients [of ?g "[0..<2]"] rs(3) by auto
  have "Client_create flat_cenv flat_start = Some (True, create_global_mem flat_cenv 12 g1)"
    unfolding Client_create_def nics Let_def using ctxs rs(1) g1
    by (simp add: flat_start_def flat_fields demo_features_def del: upt_rec_numeral create_global_mem.simps)
  then show ?thesis using create_rpc_clients_ctrls [OF g1] by (simp add: create_global_mem_fields)
qed

theorem bind_controller_of_port_witness:
  "\<exists>g r. Client_create flat_cenv flat_start = Some (True, g) \<and> get_bind_ctrl 3 g = Some r \<and> rl_id r = 6"
proof -
  obtain g where g: "Client_create flat_cenv flat_start = Some (True, g)" "ks_rcontexts g = [flat_ctx]"
    using flat_loaded by blast
  have "\<exists>r. get_bind_ctrl 3 g = Some r \<and> rl_id r = word_of_nat (2 * 3 mod (25 * 1) div 1)"
    using bind_controller_of_port [OF g(1), of 1 3] g(2) by (auto simp: flat_start_def)
  then show ?thesis using g(1) by auto
qed

end
