(* ===== verification/Vq_Keeps.thy ===== *)
theory Vq_Keeps
  imports Remote_Props
begin

text \<open>
  What the operations of a virtual queue leave alone: sending, receiving and polling
  neither acquire nor release driver resources.
\<close>

section \<open>The environment\<close>

text \<open>Which calls of the environment leave the driver's resources alone: the connection
  manager's messages, posts and polls, copies and path queries.  A failed address
  handle is null, and clones carry no handle.\<close>

definition senv_lifetimes :: "'d senv \<Rightarrow> ('d \<Rightarrow> resource set) \<Rightarrow> bool" where
  "senv_lifetimes e live \<longleftrightarrow>
     kenv_lifetimes (sv_kenv e) live
   \<and> (\<forall>d. live (snd (cm_create_id (kn_cm (sv_kenv e)) d)) = live d)
   \<and> (\<forall>cm r q d. live (snd (cm_send_req (kn_cm (sv_kenv e)) cm r q d)) = live d)
   \<and> (\<forall>cm d. live (snd (cm_send_rtu (kn_cm (sv_kenv e)) cm d)) = live d)
   \<and> (\<forall>cm p s h d. live (snd (cm_send_sidr_req (kn_cm (sv_kenv e)) cm p s h d)) = live d)
   \<and> (\<forall>cm d. live (snd (cm_events (kn_cm (sv_kenv e)) cm d)) = live d)
   \<and> (\<forall>qp wrs d. live (snd (kb_post_send (kn_ib (sv_kenv e)) qp wrs d)) = live d)
   \<and> (\<forall>cq n d. live (snd (snd (kb_poll_cq (kn_ib (sv_kenv e)) cq n d))) = live d)
   \<and> (\<forall>a bs d. live (snd (sv_to_user e a bs d)) = live d) \<and> (\<forall>a b n d. live (sv_memcpy e a b n d) = live d)
   \<and> (\<forall>c s p d. live (snd (sv_explore_path e c s p d)) = live d)
   \<and> (\<forall>pd a d. \<not> ptr_is_err Kernel (fst (vb_create_ah (kn_verbs (sv_kenv e)) pd a d)))
   \<and> (\<forall>p. en_ah (sv_self_clone e p) = 0)"

lemma senv_lifetimesD:
  assumes "senv_lifetimes e live"
  shows "kenv_lifetimes (sv_kenv e) live"
    "live (snd (cm_create_id (kn_cm (sv_kenv e)) d)) = live d"
    "live (snd (cm_send_req (kn_cm (sv_kenv e)) cm r q d)) = live d"
    "live (snd (cm_send_rtu (kn_cm (sv_kenv e)) cm d)) = live d"
    "live (snd (cm_send_sidr_req (kn_cm (sv_kenv e)) cm p s h d)) = live d"
    "live (snd (cm_events (kn_cm (sv_kenv e)) cm d)) = live d"
    "live (snd (kb_post_send (kn_ib (sv_kenv e)) qp wrs d)) = live d"
    "live (snd (snd (kb_poll_cq (kn_ib (sv_kenv e)) cq n d))) = live d"
    "live (snd (sv_to_user e a bs d)) = live d" "live (sv_memcpy e a b k d) = live d"
    "live (snd (sv_explore_path e c addr sid d)) = live d"
    "\<not> ptr_is_err Kernel (fst (vb_create_ah (kn_verbs (sv_kenv e)) pd at d))"
    "en_ah (sv_self_clone e pt) = 0"
  using assms unfolding senv_lifetimes_def by simp_all

section \<open>Polling\<close>

lemma poll_one_live: "senv_lifetimes e live \<Longrightarrow> live (snd (poll_one (kn_ib (sv_kenv e)) cq d)) = live d"
  by (simp add: poll_one_def case_prod_beta Let_def senv_lifetimesD)

lemma wait_loop_live:
  assumes L: "senv_lifetimes e live" and "wait_loop (kn_ib (sv_kenv e)) cq d = Some y"
  shows "live (snd y) = live d"
proof (rule wait_loop.raw_induct [OF _ assms(2), where P = "\<lambda>b cq d y. b = kn_ib (sv_kenv e) \<longrightarrow> live (snd y) = live d",
      rule_format, OF _ refl])
  fix wait b cq d y
  assume ih: "\<And>b cq d y. \<lbrakk> wait b cq d = Some y; b = kn_ib (sv_kenv e) \<rbrakk> \<Longrightarrow> live (snd y) = live d"
    and r: "(case poll_one b cq d of (None, d') \<Rightarrow> wait b cq d' | (Some wc, d') \<Rightarrow> Some (wc, d')) = Some y"
    and b: "b = kn_ib (sv_kenv e)"
  show "live (snd y) = live d"
    using r ih poll_one_live [OF L, of cq d] b by (cases "poll_one b cq d"; cases "fst (poll_one b cq d)") auto
qed

lemma dc_wait_loop_live:
  assumes L: "senv_lifetimes e live"
  shows "live (snd (dc_wait_loop (kn_ib (sv_kenv e)) dc cnt d)) = live d"
proof (induction "kn_ib (sv_kenv e)" dc cnt d rule: dc_wait_loop.induct)
  case (1 dc cnt d)
  obtain r d' where p: "dc_pop (kn_ib (sv_kenv e)) dc d = (r, d')" by fastforce
  then have "live d' = live d" using poll_one_live [OF L, of "kdc_cq dc" d] by (simp add: dc_pop_def)
  then show ?case using 1 [OF p [symmetric]] p by (subst dc_wait_loop.simps) (auto split: option.split)
qed

lemma pop_recvs_live:
  assumes L: "senv_lifetimes e live" and "pop_recvs (kn_ib (sv_kenv e)) h cq n off d = Some (r, h', d')"
  shows "live d' = live d"
  using assms(2) by (auto simp: pop_recvs_def case_prod_beta Let_def senv_lifetimesD [OF L] split: if_splits option.splits)

lemma pop_recv_live:
  assumes L: "senv_lifetimes e live" and "pop_recv e core n off g = Some (w, g')"
  shows "live (ks_drv g') = live (ks_drv g)"
  using assms(2) pop_recvs_live [OF L] by (auto simp: pop_recv_def split: bind_splits result.splits)

lemma copy_wcs_live:
  assumes L: "senv_lifetimes e live"
  shows "copy_wcs e a sz i wcs d = Some d' \<Longrightarrow> live d' = live d"
  by (induction wcs arbitrary: i d) (auto simp: copy_wc_def senv_lifetimesD [OF L] split: bind_splits)

lemma handle_pop_ret_live:
  assumes L: "senv_lifetimes e live" and "handle_pop_ret e r req n sz g = Some (s, g')"
  shows "live (ks_drv g') = live (ks_drv g)"
  using assms(2) copy_wcs_live [OF L]
  by (auto simp: handle_pop_ret_def senv_lifetimesD [OF L] split: option.splits if_splits bind_splits)

lemma pop_round_live:
  assumes L: "senv_lifetimes e live" and "pop_round e q n g = Some (w, g')"
  shows "live (ks_drv g') = live (ks_drv g)"
  using assms(2) pop_recv_live [OF L] by (auto simp: pop_round_def split: option.splits)

lemma pop_msg_loop_live:
  assumes L: "senv_lifetimes e live"
  shows "pop_msg_loop e q req l sz retry n g = Some (s, g') \<Longrightarrow> live (ks_drv g') = live (ks_drv g)"
  using L
proof (induction e q req l sz retry n g rule: pop_msg_loop.induct)
  case (1 e q req l sz retry n g)
  obtain r c g1 where p: "pop_round e q n g = Some ((r, c), g1)"
    using 1(2) by (subst (asm) pop_msg_loop.simps) (auto split: option.splits)
  have g1: "live (ks_drv g1) = live (ks_drv g)" using pop_round_live [OF 1(3) p] .
  show ?case
  proof (cases "unat l \<le> n + c \<or> 50000 < retry")
    case True
    then show ?thesis using 1(2) p g1 handle_pop_ret_live [OF 1(3)] by (subst (asm) pop_msg_loop.simps) auto
  next
    case False
    then have "pop_msg_loop e q req l sz (retry + 1) (n + c) g1 = Some (s, g')"
      using 1(2) p by (subst (asm) pop_msg_loop.simps) auto
    then show ?thesis using 1(1) [OF p refl refl _ _ 1(3)] False g1 by auto
  qed
qed

lemma pop_msg_impl_live:
  assumes L: "senv_lifetimes e live" and "pop_msg_impl e req l sz q g = Some (s, g')"
  shows "live (ks_drv g') = live (ks_drv g)"
  using assms(2) pop_recv_live [OF L] handle_pop_ret_live [OF L] pop_msg_loop_live [OF L]
  by (fastforce simp: pop_msg_impl_def split: option.splits bind_splits)

lemma pop_impl_live:
  assumes L: "senv_lifetimes e live" and "pop_impl e req vid q g = Some (s, g')"
  shows "live (ks_drv g') = live (ks_drv g)"
proof -
  obtain wc d where p: "pop_send e vid q g = Some (wc, d)"
      "handle_pop_ret e (map_option (\<lambda>wc. [wc]) wc) req 1 0 (g \<lparr> ks_drv := d \<rparr>) = Some (s, g')"
    using assms(2) by (auto simp: pop_impl_def split: bind_splits)
  have "live d = live (ks_drv g)"
    using p(1) poll_one_live [OF L]
    by (auto simp: pop_send_def rc_pop_def dc_pop_def Let_def split: if_splits bind_splits option.splits prod.splits)
      (metis snd_conv)+
  then show ?thesis using handle_pop_ret_live [OF L p(2)] by simp
qed

section \<open>Posting\<close>

lemma post_live:
  assumes "senv_lifetimes e live"
  shows "live (snd (kit_post_send (kn_ib (sv_kenv e)) qp sge wr d)) = live d"
  by (simp add: kit_post_send_def case_prod_beta Let_def senv_lifetimesD [OF assms])

lemma rc_push_loop_live:
  assumes L: "senv_lifetimes e live"
  shows "rc_push_loop e rc lm rm reqs d = Some (s, d') \<Longrightarrow> live d' = live d"
proof (induction reqs arbitrary: d)
  case (Cons req reqs)
  obtain op la ra fl where p: "req_params e (tm_addr lm) (tm_addr rm) req = Some (op, la, ra, fl)"
    using Cons.prems by (auto split: bind_splits)
  define r where "r = rc_push_with_imm (kn_ib (sv_kenv e)) rc op la (tm_rkey lm) (unat (cq_length req)) ra (tm_rkey rm)
    (cq_vid req) fl d"
  have "live (snd r) = live d" using post_live [OF L] by (simp add: r_def rc_push_with_imm_def rc_post_send_def)
  then show ?case
    using Cons p unfolding rc_push_loop.simps by (auto simp: r_def [symmetric] split: result.splits prod.splits)
qed simp

lemma dc_push_loop_live:
  assumes L: "senv_lifetimes e live"
  shows "dc_push_loop e dc lm pt reqs d = Some (s, d') \<Longrightarrow> live d' = live d"
proof (induction reqs arbitrary: d)
  case (Cons req reqs)
  obtain op la ra fl where p: "req_params e (tm_addr lm) (tm_addr (en_mr pt)) req = Some (op, la, ra, fl)"
    using Cons.prems by (auto split: bind_splits)
  define r where "r = dc_push (kn_ib (sv_kenv e)) dc op la (tm_rkey lm) (unat (cq_length req)) ra (tm_rkey (en_mr pt)) pt fl d"
  have "live (snd r) = live d" using post_live [OF L] by (simp add: r_def dc_push_def dc_post_send_def)
  then show ?case
    using Cons p unfolding dc_push_loop.simps by (auto simp: r_def [symmetric] split: result.splits prod.splits)
qed simp

lemma rc_push_impl_live:
  assumes L: "senv_lifetimes e live" and "rc_push_impl e reqs q g = Some (s, g')"
  shows "live (ks_drv g') = live (ks_drv g)"
  using assms(2) rc_push_loop_live [OF L] by (auto simp: rc_push_impl_def split: option.splits bind_splits)

lemma dc_push_impl_live:
  assumes L: "senv_lifetimes e live" and "dc_push_impl e reqs q g = Some (s, g')"
  shows "live (ks_drv g') = live (ks_drv g)"
  using assms(2) dc_push_loop_live [OF L] by (auto simp: dc_push_impl_def split: option.splits bind_splits)

lemma push_recv_impl_live:
  assumes L: "senv_lifetimes e live" and "push_recv_impl e n q g = Some (s, g')"
  shows "live (ks_drv g') = live (ks_drv g)"
  using assms(2) ctrl_post_recvs_live(1) [OF senv_lifetimesD(1) [OF L]]
  by (auto simp: push_recv_impl_def core_post_recv_def split: option.splits bind_splits if_splits)

lemma push_wait_live:
  assumes L: "senv_lifetimes e live" and "push_wait e q g = Some g'"
  shows "live (ks_drv g') = live (ks_drv g)"
  using assms(2) wait_loop_live [OF L]
  by (fastforce simp: push_wait_def ud_wait_til_comp_def rc_wait_til_comp_def Let_def split: option.splits bind_splits)

lemma unbind_cmd_live:
  assumes L: "senv_lifetimes e live" and "unbind_cmd e arg q g = Some (s, q', g')"
  shows "live (ks_drv g') = live (ks_drv g)"
  using assms(2) pop_recv_live [OF L] by (fastforce simp: unbind_cmd_def split: bind_splits if_splits)

lemma bind_post_loop_live:
  assumes L: "senv_lifetimes e live"
  shows "bind_post_loop e core p n vids g = Some (s, g') \<Longrightarrow> live (ks_drv g') = live (ks_drv g)"
proof (induction vids arbitrary: g)
  case (Cons vid vids)
  note k = ctrl_post_recvs_live(1) [OF senv_lifetimesD(1) [OF L]]
  have u: "live (ks_drv g2) = live (ks_drv g1)" if "bind_post_ud e core p c g1 = Some (b, g2)" for c b g1 g2
    using that k wait_loop_live [OF L]
    by (fastforce simp: bind_post_ud_def ctrl_ud_post_recv_def ud_wait_til_comp_def split: bind_splits if_splits option.splits)
  have r: "live (ks_drv g2) = live (ks_drv g1)" if "bind_post_rc e core p v c g1 = Some (b, g2)" for v c b g1 g2
    using that k wait_loop_live [OF L]
    by (fastforce simp: bind_post_rc_def trc_post_recv_def rc_wait_til_comp_def split: bind_splits if_splits option.splits)
  show ?case using Cons.prems Cons.IH u r by (fastforce split: bind_splits if_splits)
qed simp

end
