(* ===== verification/Vq_Owner.thy ===== *)
theory Vq_Owner
  imports Vq_Keeps "HOL-Library.Multiset"
begin

text \<open>
  Who owns the resources of a virtual queue: its connection, the end points that it
  caches, and the connections that its migration threads have made and not yet stored.
  The threads run between the system calls.
\<close>

section \<open>Ownership\<close>

text \<open>The driver holds \<open>base\<close> and, each once, the resources \<open>M\<close>.\<close>

definition owns :: "('d \<Rightarrow> resource set) \<Rightarrow> resource set \<Rightarrow> resource multiset \<Rightarrow> 'd \<Rightarrow> bool" where
  "owns live base M d \<longleftrightarrow> live d = base \<union> set_mset M \<and> set_mset M \<inter> base = {} \<and> (\<forall>x. count M x \<le> 1)"

lemma owns_same: "live d' = live d \<Longrightarrow> owns live base M d \<Longrightarrow> owns live base M d'"
  by (simp add: owns_def)

lemma owns_acquire:
  assumes "owns live base M d" "x \<notin> live d" "live d' = insert x (live d)"
  shows "owns live base (add_mset x M) d'"
proof -
  have "count M x = 0" using assms(1,2) by (auto simp: owns_def count_eq_zero_iff)
  then show ?thesis using assms by (auto simp: owns_def)
qed

lemma owns_release:
  assumes "owns live base (add_mset x M) d" "live d' = live d - {x}"
  shows "owns live base M d'"
proof -
  have c: "count (add_mset x M) y \<le> 1" for y using assms(1) by (simp add: owns_def)
  have "x \<notin># M" using c [of x] by (auto simp: not_in_iff)
  moreover have "count M y \<le> 1" for y using c [of y] by (simp split: if_splits)
  ultimately show ?thesis using assms by (auto simp: owns_def)
qed

definition rc_res :: "KRC \<Rightarrow> resource multiset" where
  "rc_res rc = {#RQp (krc_qp rc), RCq (krc_cq rc)#}"

definition rc_opt_res :: "KRC option \<Rightarrow> resource multiset" where
  "rc_opt_res rc = (case rc of None \<Rightarrow> {#} | Some rc \<Rightarrow> rc_res rc)"

definition ep_res :: "EndPoint \<Rightarrow> resource multiset" where
  "ep_res p = (if en_ah p = 0 then {#} else {#RAh (en_ah p)#})"

definition ep_opt_res :: "EndPoint option \<Rightarrow> resource multiset" where
  "ep_opt_res p = (case p of None \<Rightarrow> {#} | Some p \<Rightarrow> ep_res p)"

definition eps_res :: "('k \<times> EndPoint) list \<Rightarrow> resource multiset" where
  "eps_res l = sum_list (map (\<lambda>(k, p). ep_res p) l)"

lemma res_simps [simp]:
  "rc_opt_res None = {#}" "rc_opt_res (Some rc) = rc_res rc" "ep_opt_res None = {#}" "ep_opt_res (Some p) = ep_res p"
  "eps_res [] = {#}" "eps_res ((k, p) # l) = ep_res p + eps_res l" "eps_res (l1 @ l2) = eps_res l1 + eps_res l2"
  by (simp_all add: rc_opt_res_def ep_opt_res_def eps_res_def)

definition rc_ok :: "KRC option \<Rightarrow> bool" where
  "rc_ok rc \<longleftrightarrow> (case rc of None \<Rightarrow> True | Some rc \<Rightarrow> krc_qp rc \<noteq> 0 \<and> krc_cq rc \<noteq> 0)"

lemma rc_ok_simps [simp]: "rc_ok None" "rc_ok (Some rc) \<longleftrightarrow> krc_qp rc \<noteq> 0 \<and> krc_cq rc \<noteq> 0"
  by (simp_all add: rc_ok_def)

definition vq_res :: "VQ \<Rightarrow> resource multiset" where
  "vq_res q = rc_opt_res (vq_virtual_queue q) + eps_res (lc_cached_client_endpoint (vq_local_cache q))
     + ep_opt_res (lc_remote_endpoint (vq_local_cache q))"

section \<open>End points and connections\<close>

lemma EndPoint_new_owns:
  assumes L: "senv_lifetimes e live" and o: "owns live base M d"
    and n: "EndPoint_new (kn_verbs (sv_kenv e)) pd qpn qkey lid gid dct mr d = (p, d')"
  shows "owns live base (ep_res p + M) d'"
proof -
  let ?a = "ah_default \<lparr> ah_dlid := ucast lid, ah_sl := 0, ah_port_num := 1, ah_grh := grh_default \<lparr> grh_dgid := gid \<rparr> \<rparr>"
  define r where "r = vb_create_ah (kn_verbs (sv_kenv e)) pd ?a d"
  have a: "allocates live is_null RAh (vb_create_ah (kn_verbs (sv_kenv e)) pd ?a)"
    by (rule verbs_lifetimesD(7) [OF kenv_lifetimesD(1) [OF senv_lifetimesD(1) [OF L]]])
  have p: "en_ah p = fst r" "d' = snd r"
    using n senv_lifetimesD(12) [OF L] by (auto simp: EndPoint_new_def create_ib_ah_def r_def case_prod_beta Let_def)
  show ?thesis
  proof (cases "fst r = 0")
    case True
    then show ?thesis using alloc_live(1) [OF a, of d] p o by (simp add: ep_res_def owns_same r_def)
  next
    case False
    then show ?thesis
      using owns_acquire [OF o, of "RAh (fst r)" d'] alloc_live [OF a, of d] p by (simp add: ep_res_def r_def)
  qed
qed

lemma EndPoint_drop_owns:
  assumes L: "senv_lifetimes e live" and o: "owns live base (ep_res p + M) d"
  shows "owns live base M (EndPoint_drop (kn_verbs (sv_kenv e)) p d)"
proof (cases "en_ah p = 0")
  case True
  then show ?thesis using o by (simp add: EndPoint_drop_def en_valid_def ep_res_def)
next
  case False
  have "frees live RAh (vb_destroy_ah (kn_verbs (sv_kenv e)))"
    using verbs_lifetimesD [OF kenv_lifetimesD(1) [OF senv_lifetimesD(1) [OF L]]] by blast
  then show ?thesis
    using o False by (auto simp: EndPoint_drop_def en_valid_def ep_res_def freesD intro: owns_release)
qed

lemma KRC_drop_owns:
  assumes L: "senv_lifetimes e live" and o: "owns live base (rc_res rc + M) d"
    and "KRC_drop (kn_verbs (sv_kenv e)) (kn_cm (sv_kenv e)) rc d = Some d'" and "krc_cq rc \<noteq> 0"
  shows "owns live base M d'"
proof -
  have l: "live d' = live d - {RQp (krc_qp rc), RCq (krc_cq rc)}"
    by (rule KRC_drop_live [OF senv_lifetimesD(1) [OF L] assms(3,4)])
  have c: "count (rc_res rc + M) y \<le> 1" for y using o by (simp add: owns_def)
  have "RQp (krc_qp rc) \<notin># M" "RCq (krc_cq rc) \<notin># M"
    using c [of "RQp (krc_qp rc)"] c [of "RCq (krc_cq rc)"] by (auto simp: rc_res_def not_in_iff)
  moreover have "count M y \<le> 1" for y using c [of y] by simp
  ultimately show ?thesis using o l by (auto simp: owns_def rc_res_def)
qed

lemma KRC_new_owns:
  assumes L: "senv_lifetimes e live" and o: "owns live base M d"
    and n: "KRC_new_with_srq (kn_verbs (sv_kenv e)) (kn_cm (sv_kenv e)) cfg 0 srq rcq d = Some (Some rc, d')"
  shows "owns live base (rc_res rc + M) d'" "krc_qp rc \<noteq> 0" "krc_cq rc \<noteq> 0"
proof -
  note k = KRC_new_own_live [OF senv_lifetimesD(1) [OF L] senv_lifetimesD(2) [OF L] n]
  have "count M (RQp (krc_qp rc)) = 0" "count M (RCq (krc_cq rc)) = 0"
    using o k(3,4) by (auto simp: owns_def count_eq_zero_iff)
  then show "owns live base (rc_res rc + M) d'" using o k(3-5) by (auto simp: owns_def rc_res_def)
  show "krc_qp rc \<noteq> 0" "krc_cq rc \<noteq> 0" using k by simp_all
qed

lemma handle_reply_keeps:
  assumes k: "kenv_lifetimes k live" and h: "handle_reply (kn_verbs k) (kn_cm k) rc reply d = Some (b, rc', d')"
  shows "live d' = live d" "krc_qp rc' = krc_qp rc" "krc_cq rc' = krc_cq rc"
proof -
  obtain r d1 where p: "bring_to_rtr (kn_verbs k) (kn_cm k) rc (krc_cm rc) d = Some (r, d1)"
    using h by (auto simp: handle_reply_def split: option.splits)
  have l1: "live d1 = live d" using bring_to_rtr_live [OF k p] by simp
  have "live d' = live d \<and> krc_qp rc' = krc_qp rc \<and> krc_cq rc' = krc_cq rc"
  proof (cases r)
    case (Err x)
    then show ?thesis using h p l1 by (clarsimp simp: handle_reply_def)
  next
    case (Ok x)
    then obtain r2 d2 where "bring_to_rts (kn_verbs k) (kn_cm k) rc (krc_cm rc) d1 = Some (r2, d2)" "d' = d2"
        "rc' = rc \<lparr> krc_remote_mr := Some (py_mr reply) \<rparr>"
      using h p by (auto simp: handle_reply_def split: option.splits)
    then show ?thesis using bring_to_rts_live [OF k] l1 by fastforce
  qed
  then show "live d' = live d" "krc_qp rc' = krc_qp rc" "krc_cq rc' = krc_cq rc" by simp_all
qed

lemma rc_wait_done_keeps:
  assumes L: "senv_lifetimes e live"
  shows "rc_wait_done (kn_verbs (sv_kenv e)) (kn_cm (sv_kenv e)) es rc d = Some (r, rc', d') \<Longrightarrow>
    live d' = live d \<and> krc_qp rc' = krc_qp rc \<and> krc_cq rc' = krc_cq rc"
proof (induction es arbitrary: rc d)
  case (Cons ev es)
  obtain b rc1 d1 where h: "rc_cm_handler (kn_verbs (sv_kenv e)) (kn_cm (sv_kenv e)) rc ev d = Some (b, rc1, d1)"
    using Cons.prems by (auto split: option.splits)
  have "live d1 = live d \<and> krc_qp rc1 = krc_qp rc \<and> krc_cq rc1 = krc_cq rc"
    using h handle_reply_keeps [OF senv_lifetimesD(1) [OF L]] by (cases ev) auto
  then show ?case using Cons h by (cases b) auto
qed simp

lemma rc_connect_keeps:
  assumes L: "senv_lifetimes e live"
    and "rc_connect (kn_verbs (sv_kenv e)) (kn_cm (sv_kenv e)) rc qd path sid d = Some (r, rc', d')"
  shows "live d' = live d" "krc_qp rc' = krc_qp rc" "krc_cq rc' = krc_cq rc"
proof -
  let ?v = "kn_verbs (sv_kenv e)" and ?c = "kn_cm (sv_kenv e)"
  define s where "s = send_req ?c (krc_cm rc) (connect_req (vb_qp_num ?v (krc_qp rc) d) path sid) qd d"
  have ls: "live (snd s) = live d" by (simp add: s_def send_req_def case_prod_beta Let_def senv_lifetimesD [OF L])
  define ev where "ev = cm_events ?c (krc_cm rc) (snd s)"
  have le: "live (snd ev) = live d" using ls by (simp add: ev_def senv_lifetimesD [OF L])
  have rtu: "live (snd (send_rtu ?c (krc_cm rc1) d1)) = live d1" for rc1 d1
    by (simp add: send_rtu_def case_prod_beta Let_def senv_lifetimesD [OF L])
  have "live d' = live d \<and> krc_qp rc' = krc_qp rc \<and> krc_cq rc' = krc_cq rc"
  proof (cases "fst s")
    case (Err x)
    then show ?thesis using assms(2) ls by (auto simp: rc_connect_def s_def [symmetric] split: prod.splits)
  next
    case (Ok x)
    then obtain w rc1 d1 where w: "rc_wait_done ?v ?c (fst ev) rc (snd ev) = Some (w, rc1, d1)"
        "(r, rc', d') = (case w of Err x \<Rightarrow> (Err x, rc1, d1) | Ok _ \<Rightarrow> (fst (send_rtu ?c (krc_cm rc1) d1), rc1, snd (send_rtu ?c (krc_cm rc1) d1)))"
      using assms(2) by (auto simp: rc_connect_def s_def [symmetric] ev_def case_prod_beta Let_def split: prod.splits option.splits result.splits)
    then show ?thesis using rc_wait_done_keeps [OF L w(1)] le by (auto simp: rtu split: result.splits)
  qed
  then show "live d' = live d" "krc_qp rc' = krc_qp rc" "krc_cq rc' = krc_cq rc" by simp_all
qed

lemma qp_connect_owns:
  assumes L: "senv_lifetimes e live" and o: "owns live base M (ks_drv g)"
    and c: "qp_connect e vid port path g = Some (res, g')"
  shows "case res of Ok qp \<Rightarrow> owns live base (rc_opt_res qp + M) (ks_drv g') \<and> rc_ok qp | Err _ \<Rightarrow> owns live base M (ks_drv g')"
proof -
  let ?v = "kn_verbs (sv_kenv e)" and ?c = "kn_cm (sv_kenv e)"
  obtain ctrl rc d1 where r: "get_global_rctrl port g = Some ctrl"
      "KRC_new_with_srq ?v ?c (KConfig_default (kn_random (sv_kenv e))) 0 0 (get_recv_cq ctrl) (ks_drv g) = Some (rc, d1)"
    using c by (auto simp: qp_connect_def Let_def split: bind_splits)
  have "rc \<noteq> None"
    using r(2) by (auto simp: KRC_new_with_srq_def KRC_drop_def KRC_default_def Let_def case_prod_beta split: if_splits option.splits)
  then obtain qp where qp: "rc = Some qp" by blast
  note n = KRC_new_owns [OF L o r(2) [unfolded qp]]
  obtain res1 qp1 d2 where k: "rc_connect ?v ?c qp (word_of_nat vid) path (word_of_nat port) d1 = Some (res1, qp1, d2)"
      "(case res1 of Ok _ \<Rightarrow> Some (Ok (Some qp1), g \<lparr> ks_drv := d2 \<rparr>)
        | Err er \<Rightarrow> Option.bind (KRC_drop ?v ?c qp1 d2) (\<lambda>d. Some (Err er, g \<lparr> ks_drv := d \<rparr>))) = Some (res, g')"
    using c r qp by (auto simp: qp_connect_def Let_def split: bind_splits)
  note kk = rc_connect_keeps [OF L k(1)]
  have o2: "owns live base (rc_res qp1 + M) d2" using owns_same [OF kk(1) n(1)] kk by (simp add: rc_res_def)
  show ?thesis
  proof (cases res1)
    case (Ok x)
    then show ?thesis using k(2) o2 n kk by auto
  next
    case (Err er)
    then obtain d3 where "KRC_drop ?v ?c qp1 d2 = Some d3" "res = Err er" "g' = g \<lparr> ks_drv := d3 \<rparr>"
      using k(2) by (auto split: bind_splits)
    then show ?thesis using KRC_drop_owns [OF L o2] n kk by simp
  qed
qed

section \<open>Resolving an end point\<close>

lemma sidr_wait_owns:
  assumes L: "senv_lifetimes e live"
  shows "owns live base (ep_res (sc_end_point s) + M) d \<Longrightarrow>
    sidr_wait_done (kn_verbs (sv_kenv e)) es s d = (r, s', d') \<Longrightarrow> owns live base (ep_res (sc_end_point s') + M) d'"
proof (induction es arbitrary: s d)
  case (Cons ev es)
  let ?v = "kn_verbs (sv_kenv e)"
  have h: "owns live base (ep_res (sc_end_point s1) + M) d1" if "sidr_cm_handler ?v s ev d = (b, s1, d1)" for b s1 d1
  proof (cases "\<exists>qpn qkey reply. ev = SidrRepReceived qpn qkey reply")
    case False
    then show ?thesis using that Cons.prems(1) by (cases ev) auto
  next
    case True
    then obtain qpn qkey reply where ev: "ev = SidrRepReceived qpn qkey reply" by blast
    show ?thesis
    proof (cases "sp_status reply")
      case StOk
      define n where "n = EndPoint_new ?v (rc_pd (sc_context s)) qpn qkey (sp_lid reply) (sp_gid reply) (sp_dct_num reply) (sp_mr reply) d"
      have "owns live base (ep_res (fst n) + (ep_res (sc_end_point s) + M)) (snd n)"
        using EndPoint_new_owns [OF L Cons.prems(1)] by (metis n_def prod.collapse)
      then have "owns live base (ep_res (sc_end_point s) + (ep_res (fst n) + M)) (snd n)" by (simp add: union_assoc union_commute union_lcomm)
      then show ?thesis
        using EndPoint_drop_owns [OF L] that ev StOk
        by (auto simp: handle_sidr_reply_def n_def case_prod_beta Let_def)
    next
      case StNotExist
      then show ?thesis
        using that ev EndPoint_drop_owns [OF L Cons.prems(1)] by (auto simp: handle_sidr_reply_def ep_res_def EndPoint_default_def)
    qed (use that ev Cons.prems(1) in \<open>auto simp: handle_sidr_reply_def\<close>)
  qed
  obtain b s1 d1 where s1: "sidr_cm_handler ?v s ev d = (b, s1, d1)" by (cases "sidr_cm_handler ?v s ev d") auto
  show ?case using Cons.prems(2) s1 h [OF s1] Cons.IH [OF h [OF s1]] by (auto split: if_splits)
qed simp

lemma sidr_connect_owns:
  assumes L: "senv_lifetimes e live" and o: "owns live base (ep_res (sc_end_point s) + M) d"
    and c: "sidr_connect (kn_verbs (sv_kenv e)) (kn_cm (sv_kenv e)) s path sid hint d = (res, s', d')"
  shows "owns live base (ep_res (sc_end_point s') + (ep_opt_res (case res of Ok p \<Rightarrow> Some p | Err _ \<Rightarrow> None) + M)) d'"
proof -
  let ?v = "kn_verbs (sv_kenv e)" and ?c = "kn_cm (sv_kenv e)"
  define m where "m = send_sidr ?c (sc_cm s) path (bswap64 sid) hint d"
  have lm: "live (snd m) = live d" by (simp add: m_def send_sidr_def case_prod_beta Let_def senv_lifetimesD [OF L])
  show ?thesis
  proof (cases "fst m")
    case (Err x)
    then have "res = Err x" "s' = s" "d' = snd m" using c by (auto simp: sidr_connect_def m_def [symmetric] split: prod.splits)
    then show ?thesis using owns_same [OF lm o] by simp
  next
    case (Ok x)
    define ev where "ev = cm_events ?c (sc_cm s) (snd m)"
    define w where "w = sidr_wait_done ?v (fst ev) s (snd ev)"
    have "live (snd ev) = live d" using lm by (simp add: ev_def senv_lifetimesD [OF L])
    then have ow: "owns live base (ep_res (sc_end_point (fst (snd w))) + M) (snd (snd w))"
      using sidr_wait_owns [OF L owns_same [OF _ o]] by (metis w_def prod.collapse)
    have r: "(res, s', d') = (case w of (Err x, s, d) \<Rightarrow> (Err x, s, d) | (Ok _, s, d) \<Rightarrow>
        if \<not> en_valid (sc_end_point s) then (Err EINVAL, s, d)
        else (Ok (fst (en_transfer (sc_end_point s))), s \<lparr> sc_end_point := snd (en_transfer (sc_end_point s)) \<rparr>, d))"
      using c Ok by (simp add: sidr_connect_def m_def [symmetric] ev_def w_def case_prod_beta Let_def split: prod.splits)
    show ?thesis
      using r ow by (cases w; cases "fst w") (auto simp: en_transfer_def ep_res_def en_valid_def split: if_splits)
  qed
qed

lemma SidrCM_drop_owns:
  assumes L: "senv_lifetimes e live" and "owns live base (ep_res (sc_end_point s) + M) d"
  shows "owns live base M (SidrCM_drop (kn_verbs (sv_kenv e)) (kn_cm (sv_kenv e)) s d)"
proof -
  have "live (snd (ClientCM_reset (kn_cm (sv_kenv e)) (sc_cm s) d)) = live d"
    by (simp add: ClientCM_reset_def kenv_lifetimesD [OF senv_lifetimesD(1) [OF L]])
  then show ?thesis unfolding SidrCM_drop_def by (intro EndPoint_drop_owns [OF L] owns_same [OF _ assms(2)])
qed

text \<open>A path query changes the queue's path cache only.\<close>

definition same_owner :: "VQ \<Rightarrow> VQ \<Rightarrow> bool" where
  "same_owner q q' \<longleftrightarrow> vq_res q' = vq_res q \<and> vq_virtual_queue q' = vq_virtual_queue q"

lemma vq_explore_path_owns:
  assumes L: "senv_lifetimes e live" and "vq_explore_path e port addr q g = Some (p, q', g')"
  shows "live (ks_drv g') = live (ks_drv g)" "same_owner q q'"
proof -
  have u: "same_owner q (update_path_rec_cache a p q)" for a p
    by (simp add: same_owner_def vq_res_def update_path_rec_cache_def)
  have "live (ks_drv g') = live (ks_drv g) \<and> same_owner q q'"
  proof (cases "get_path_rec_cache q addr")
    case (Some p')
    then show ?thesis using assms(2) by (auto simp: vq_explore_path_def same_owner_def)
  next
    case None
    then obtain ctrl where "get_global_rctrl port g = Some ctrl"
      using assms(2) by (auto simp: vq_explore_path_def split: bind_splits)
    then show ?thesis
      using assms(2) None u
      by (auto simp: vq_explore_path_def case_prod_beta Let_def senv_lifetimesD [OF L] split: bind_splits)
  qed
  then show "live (ks_drv g') = live (ks_drv g)" "same_owner q q'" by simp_all
qed

lemma sidr_resolve_owns:
  assumes L: "senv_lifetimes e live" and o: "owns live base M (ks_drv g)"
    and r: "sidr_resolve e ctx port addr q g = Some (p, q', g')"
  shows "owns live base (ep_opt_res p + M) (ks_drv g')" "same_owner q q'"
proof -
  let ?v = "kn_verbs (sv_kenv e)" and ?c = "kn_cm (sv_kenv e)"
  obtain path g1 where x: "vq_explore_path e port addr q g = Some (path, q', g1)"
    and r1: "(let (sidr, d) = SidrCM_new ?c ctx 0 (ks_drv g1) in Option.bind sidr (\<lambda>sidr.
        let (res, sidr, d) = sidr_connect ?v ?c sidr path (word_of_nat port) (word_of_nat DEFAULT_RPC_HINT) d;
             d = SidrCM_drop ?v ?c sidr d in
         Some (case res of Ok p \<Rightarrow> Some p | Err _ \<Rightarrow> None, q', g1 \<lparr> ks_drv := d \<rparr>))) = Some (p, q', g')"
    using r by (auto simp: sidr_resolve_def Let_def case_prod_beta split: bind_splits)
  note xx = vq_explore_path_owns [OF L x]
  show "same_owner q q'" by (rule xx(2))
  define n where "n = SidrCM_new ?c ctx 0 (ks_drv g1)"
  obtain s where s: "fst n = Some s" using r1 by (auto simp: n_def [symmetric] case_prod_beta split: bind_splits)
  have sn: "sc_end_point s = EndPoint_default" "live (snd n) = live (ks_drv g)"
    using s xx(1) by (auto simp: n_def SidrCM_new_def ClientCM_new_def case_prod_beta Let_def senv_lifetimesD [OF L] split: if_splits)
  define k where "k = sidr_connect ?v ?c s path (word_of_nat port) (word_of_nat DEFAULT_RPC_HINT) (snd n)"
  have "owns live base (ep_res (sc_end_point s) + M) (snd n)"
    using owns_same [OF sn(2) o] sn(1) by (simp add: ep_res_def EndPoint_default_def)
  then have "owns live base (ep_res (sc_end_point (fst (snd k))) + (ep_opt_res (case fst k of Ok p \<Rightarrow> Some p | Err _ \<Rightarrow> None) + M)) (snd (snd k))"
    using sidr_connect_owns [OF L] by (metis k_def prod.collapse)
  then have "owns live base (ep_opt_res (case fst k of Ok p \<Rightarrow> Some p | Err _ \<Rightarrow> None) + M) (SidrCM_drop ?v ?c (fst (snd k)) (snd (snd k)))"
    by (rule SidrCM_drop_owns [OF L])
  moreover have "p = (case fst k of Ok p \<Rightarrow> Some p | Err _ \<Rightarrow> None)" "ks_drv g' = SidrCM_drop ?v ?c (fst (snd k)) (snd (snd k))"
    using r1 s by (auto simp: n_def [symmetric] k_def case_prod_beta Let_def split: bind_splits)
  ultimately show "owns live base (ep_opt_res p + M) (ks_drv g')" by simp
qed

lemma find_entry_clone: "find_entry e t base i n d = Some (Some p) \<Longrightarrow> \<exists>x. p = sv_self_clone e x"
  by (induction n arbitrary: i) (auto split: bind_splits if_splits)

lemma query_dct_meta_owns:
  assumes L: "senv_lifetimes e live" and q: "query_dct_meta e addr q g = Some (p, g')"
  shows "live (ks_drv g') = live (ks_drv g)" "ep_opt_res p = {#}"
proof -
  have r: "live (dc_read_ignored e dc a k n ra rk pt d) = live d" for dc a k n ra rk pt d
    using post_live [OF L] dc_wait_loop_live [OF L]
    by (auto simp: dc_read_ignored_def dc_push_def dc_post_send_def dc_wait_til_comp_def Let_def split: prod.splits result.splits)
      (metis snd_conv)+
  show "live (ks_drv g') = live (ks_drv g)"
    using q by (auto simp: query_dct_meta_def Let_def r split: bind_splits)
  have "\<exists>base i n d t. find_entry e t base i n d = Some p"
    using q by (clarsimp simp: query_dct_meta_def Let_def split: bind_splits) blast
  then show "ep_opt_res p = {#}"
    using find_entry_clone senv_lifetimesD(13) [OF L] by (cases p) (fastforce simp: ep_res_def)+
qed

section \<open>Connecting\<close>

lemma connect_point_owns:
  assumes L: "senv_lifetimes e live" and o: "owns live base (ep_res point + (vq_res q + M)) (ks_drv g)"
    and c: "connect_point e ctx k point q g = (q', g')"
  shows "owns live base (vq_res q' + M) (ks_drv g')" "vq_virtual_queue q' = vq_virtual_queue q"
proof -
  let ?v = "kn_verbs (sv_kenv e)" and ?old = "lc_remote_endpoint (vq_local_cache q)"
  define n where "n = EndPoint_new ?v (rc_pd ctx) (en_qpn point) (en_qkey point) (en_lid point) (en_gid point)
      (en_dct_num point) (en_mr point) (ks_drv g)"
  define d1 where "d1 = (case ?old of None \<Rightarrow> snd n | Some old \<Rightarrow> EndPoint_drop ?v old (snd n))"
  let ?rest = "rc_opt_res (vq_virtual_queue q) + eps_res (lc_cached_client_endpoint (vq_local_cache q))"
  have q': "vq_res q' = ?rest + ep_res (fst n)" and vq: "vq_virtual_queue q' = vq_virtual_queue q"
    and g': "ks_drv g' = EndPoint_drop ?v point d1"
    using c by (auto simp: connect_point_def n_def d1_def vq_res_def update_dct_meta_cache_def case_prod_beta Let_def
        split: if_splits option.splits)
  have "owns live base (ep_res (fst n) + (ep_res point + (vq_res q + M))) (snd n)"
    using EndPoint_new_owns [OF L o] by (metis n_def prod.collapse)
  then have o1: "owns live base (ep_opt_res ?old + (ep_res point + (?rest + ep_res (fst n) + M))) (snd n)"
    by (simp add: vq_res_def ac_simps)
  have "owns live base (ep_res point + (?rest + ep_res (fst n) + M)) d1"
    using o1 EndPoint_drop_owns [OF L] by (cases ?old) (auto simp: d1_def)
  then show "owns live base (vq_res q' + M) (ks_drv g')" unfolding q' g' by (rule EndPoint_drop_owns [OF L])
  show "vq_virtual_queue q' = vq_virtual_queue q" by (rule vq)
qed

lemma start_migration_owns:
  assumes L: "senv_lifetimes e live" and "start_migration e port addr vid q g = Some (q', g')"
  shows "live (ks_drv g') = live (ks_drv g)" "same_owner q q'"
proof -
  have t: "same_owner q1 (q1 \<lparr> vq_rc_connect_param := p, vq_threads := n \<rparr>)" for q1 p n by (simp add: same_owner_def vq_res_def)
  have tr: "same_owner a b \<Longrightarrow> same_owner b c \<Longrightarrow> same_owner a c" for a b c by (simp add: same_owner_def)
  have "live (ks_drv g') = live (ks_drv g) \<and> same_owner q q'"
  proof (cases "ft_migrate_qp (sv_feat e)")
    case True
    then obtain path q1 where x: "vq_explore_path e port addr q g = Some (path, q1, g')"
        "q' = q1 \<lparr> vq_rc_connect_param := Some \<lparr> cp_vid = vid, cp_port = port, cp_path = path \<rparr>, vq_threads := vq_threads q1 + 1 \<rparr>"
      using assms(2) by (auto simp: start_migration_def split: bind_splits)
    then show ?thesis using vq_explore_path_owns [OF L x(1)] tr t by blast
  next
    case False
    then show ?thesis using assms(2) by (simp add: start_migration_def same_owner_def)
  qed
  then show "live (ks_drv g') = live (ks_drv g)" "same_owner q q'" by simp_all
qed

lemma connect_dc_owns:
  assumes L: "senv_lifetimes e live" and o: "owns live base (vq_res q + M) (ks_drv g)"
    and c: "connect_dc e ctrl addr port vid q g = Some (s, q', g')"
  shows "owns live base (vq_res q' + M) (ks_drv g')" "vq_virtual_queue q' = vq_virtual_queue q"
proof -
  let ?k = "addr @ fmt_radix 10 port"
  have "owns live base (vq_res q' + M) (ks_drv g') \<and> vq_virtual_queue q' = vq_virtual_queue q"
  proof (cases "get_dct_meta_cache q ?k")
    case (Some m)
    then show ?thesis using c o by (simp add: connect_dc_def)
  next
    case None
    define meta where "meta = (\<lambda>q1 g1. if ft_meta_kv (sv_feat e) then query_dct_meta e addr q1 g1 else Some (None, g1))"
    define sidr where "sidr = (\<lambda>p q1 g2. if p = None then sidr_resolve e (rl_context ctrl) port addr q1 g2 else Some (p, q1, g2))"
    have c': "Option.bind (start_migration e port addr vid q g) (\<lambda>(q1, g1). Option.bind (meta q1 g1) (\<lambda>(p, g2).
        Option.bind (sidr p q1 g2) (\<lambda>(p2, q2, g3). case p2 of None \<Rightarrow> Some (rep_err, q2, g3)
          | Some point \<Rightarrow> Some (rep_ok, connect_point e (rl_context ctrl) ?k point q2 g3)))) = Some (s, q', g')"
      using c None unfolding connect_dc_def Let_def meta_def sidr_def by (simp only: if_False simp_thms)
    then obtain q1 g1 p g2 p2 q2 g3 where m: "start_migration e port addr vid q g = Some (q1, g1)"
        "meta q1 g1 = Some (p, g2)" "sidr p q1 g2 = Some (p2, q2, g3)"
        "(case p2 of None \<Rightarrow> Some (rep_err, q2, g3) | Some point \<Rightarrow> Some (rep_ok, connect_point e (rl_context ctrl) ?k point q2 g3))
           = Some (s, q', g')"
      by (auto split: bind_splits)
    note m1 = start_migration_owns [OF L m(1)]
    have p: "live (ks_drv g2) = live (ks_drv g1)" "ep_opt_res p = {#}"
      using m(2) query_dct_meta_owns [OF L] by (auto simp: meta_def split: if_splits)
    have o2: "owns live base (vq_res q1 + M) (ks_drv g2)"
      using owns_same [OF trans [OF p(1) m1(1)] o] m1(2) by (simp add: same_owner_def)
    have o3: "owns live base (ep_opt_res p2 + (vq_res q1 + M)) (ks_drv g3)" and so: "same_owner q1 q2"
      using m(3) o2 p(2) sidr_resolve_owns [OF L o2] by (auto simp: sidr_def same_owner_def split: if_splits)
    show ?thesis
    proof (cases p2)
      case None
      then show ?thesis using m(4) o3 so m1(2) by (simp add: same_owner_def)
    next
      case (Some point)
      then have cp: "connect_point e (rl_context ctrl) ?k point q2 g3 = (q', g')" using m(4) by simp
      have "owns live base (ep_res point + (vq_res q2 + M)) (ks_drv g3)" using o3 so Some by (simp add: same_owner_def)
      then show ?thesis using connect_point_owns [OF L _ cp] so m1(2) by (simp add: same_owner_def)
    qed
  qed
  then show "owns live base (vq_res q' + M) (ks_drv g')" "vq_virtual_queue q' = vq_virtual_queue q" by simp_all
qed

lemma connect_rc_owns:
  assumes L: "senv_lifetimes e live" and o: "owns live base (vq_res q + M) (ks_drv g)" and n: "vq_virtual_queue q = None"
    and c: "connect_rc e addr port vid q g = Some (s, q', g')"
  shows "owns live base (vq_res q' + M) (ks_drv g')" "rc_ok (vq_virtual_queue q')"
proof -
  obtain path q1 g1 res g2 where m: "vq_explore_path e port addr q g = Some (path, q1, g1)"
      "qp_connect e vid port path g1 = Some (res, g2)"
    using c by (auto simp: connect_rc_def split: bind_splits)
  note x = vq_explore_path_owns [OF L m(1)]
  have n1: "vq_virtual_queue q1 = None" using x(2) n by (simp add: same_owner_def)
  have o1: "owns live base (vq_res q1 + M) (ks_drv g1)" using owns_same [OF x(1) o] x(2) by (simp add: same_owner_def)
  note k = qp_connect_owns [OF L o1 m(2)]
  have "owns live base (vq_res q' + M) (ks_drv g') \<and> rc_ok (vq_virtual_queue q')"
  proof (cases res)
    case (Err x)
    then show ?thesis using c m k n1 by (simp add: connect_rc_def)
  next
    case (Ok qp)
    then have kk: "owns live base (rc_opt_res qp + (vq_res q1 + M)) (ks_drv g2)" "rc_ok qp" using k by simp_all
    show ?thesis
    proof (cases "ft_virtual_queue (sv_feat e)")
      case True
      then show ?thesis using c m Ok kk n1 by (auto simp: connect_rc_def vq_res_def ac_simps)
    next
      case False
      then show ?thesis
        using c m Ok kk n1 KRC_drop_owns [OF L] by (cases qp) (auto simp: connect_rc_def split: bind_splits)
    qed
  qed
  then show "owns live base (vq_res q' + M) (ks_drv g')" "rc_ok (vq_virtual_queue q')" by simp_all
qed

lemma connect_impl_owns:
  assumes L: "senv_lifetimes e live" and o: "owns live base (vq_res q + M) (ks_drv g)" and r: "rc_ok (vq_virtual_queue q)"
    and c: "connect_impl e addr port vid q g = Some (s, q', g')"
  shows "owns live base (vq_res q' + M) (ks_drv g') \<and> rc_ok (vq_virtual_queue q')"
proof (cases "vq_virtual_queue q = None \<and> is_ok (Guid_from_str addr)")
  case False
  then show ?thesis using c o r by (auto simp: connect_impl_def split: if_splits)
next
  case True
  obtain ctrl where ctrl: "get_global_rctrl port g = Some ctrl"
    using c True by (auto simp: connect_impl_def split: bind_splits)
  define q0 where "q0 = q \<lparr> vq_local_cache := (vq_local_cache q) \<lparr> lc_local_mr := Some
      (TempMR_new (tm_addr (get_self_test_mr (kn_verbs (sv_kenv e)) ctrl (ks_drv g))) (word_of_nat MAX_KMALLOC_SZ)
        (rc_get_lkey (kn_verbs (sv_kenv e)) (rl_context ctrl) (ks_drv g))) \<rparr>, vq_local_connect_port := Some port \<rparr>"
  define q1 where "q1 = (if vq_local_dc q0 = None
      then q0 \<lparr> vq_local_dc := rl_dc ctrl, vq_local_ud := get_ud DEFAULT_RPC_HINT ctrl \<rparr> else q0)"
  have "vq_res q1 = vq_res q" "vq_virtual_queue q1 = None" using True by (simp_all add: q1_def q0_def vq_res_def)
  moreover have "(if ft_dct_qp (sv_feat e) then connect_dc e ctrl addr port vid q1 g else connect_rc e addr port vid q1 g) = Some (s, q', g')"
    using c True ctrl unfolding connect_impl_def Let_def q1_def q0_def by (simp only: simp_thms if_False not_True_eq_False Option.bind.simps)
  ultimately show ?thesis
    using connect_dc_owns [OF L, of base q1 M g] connect_rc_owns [OF L, of base q1 M g] o by (auto split: if_splits)
qed

end
