(* ===== verification/Vq_Props.thy ===== *)
theory Vq_Props
  imports Vq_Owner Connect_Props
begin

text \<open>
  The histories of a virtual queue: system calls and migration threads in any order.
\<close>

section \<open>System calls\<close>

definition vq_owned :: "('d \<Rightarrow> resource set) \<Rightarrow> resource set \<Rightarrow> resource multiset \<Rightarrow> VQ \<Rightarrow> 'd kstate \<Rightarrow> bool" where
  "vq_owned live base M q g \<longleftrightarrow> owns live base (vq_res q + M) (ks_drv g) \<and> rc_ok (vq_virtual_queue q)"

lemma vq_owned_same: "\<lbrakk> vq_owned live base M q g; live (ks_drv g') = live (ks_drv g) \<rbrakk> \<Longrightarrow> vq_owned live base M q g'"
  by (simp add: vq_owned_def owns_def)

lemma endpoint_cache_owned:
  assumes L: "senv_lifetimes e live" and o: "owns live base (vq_res q + M) d"
    and n: "get_client_endpoint_cache q vid = None" and u: "update_client_endpoint_cache e vid ctx a q d = (q', d')"
  shows "owns live base (vq_res q' + M) d'" "vq_virtual_queue q' = vq_virtual_queue q"
proof -
  let ?p = "sv_endpoint e a d"
  define r where "r = EndPoint_new (kn_verbs (sv_kenv e)) (rc_pd ctx) (en_qpn ?p) (en_qkey ?p) (en_lid ?p) (en_gid ?p)
      (en_dct_num ?p) (en_mr ?p) d"
  have q': "q' = q \<lparr> vq_local_cache := (vq_local_cache q) \<lparr> lc_cached_client_endpoint :=
        lc_cached_client_endpoint (vq_local_cache q) @ [(vid, fst r)] \<rparr> \<rparr>" and d': "d' = snd r"
    using u n AList_update_new [of "lc_cached_client_endpoint (vq_local_cache q)" vid]
    by (auto simp: update_client_endpoint_cache_def get_client_endpoint_cache_def r_def case_prod_beta Let_def)
  have "owns live base (ep_res (fst r) + (vq_res q + M)) (snd r)"
    using EndPoint_new_owns [OF L o] by (metis r_def prod.collapse)
  then show "owns live base (vq_res q' + M) d'" by (simp add: q' d' vq_res_def ac_simps)
  show "vq_virtual_queue q' = vq_virtual_queue q" by (simp add: q')
qed

lemma bind_push_ud_owned:
  assumes L: "senv_lifetimes e live" and o: "vq_owned live base M q g"
    and b: "bind_push_ud e ctrl mr vid req q n g = Some (res, q', n', g')"
  shows "vq_owned live base M q' g'"
proof -
  obtain w where w: "add64 (cq_remote_addr req) UD_HEADER_SZ = Some w" using b by (auto simp: bind_push_ud_def split: bind_splits)
  define c where "c = (case get_client_endpoint_cache q vid of Some _ \<Rightarrow> (q, ks_drv g)
      | None \<Rightarrow> update_client_endpoint_cache e vid (rl_context ctrl) w q (ks_drv g))"
  have oc: "owns live base (vq_res (fst c) + M) (snd c) \<and> vq_virtual_queue (fst c) = vq_virtual_queue q"
  proof (cases "get_client_endpoint_cache q vid")
    case None
    then have u: "update_client_endpoint_cache e vid (rl_context ctrl) w q (ks_drv g) = (fst c, snd c)" by (simp add: c_def)
    have "owns live base (vq_res q + M) (ks_drv g)" using o by (simp add: vq_owned_def)
    then show ?thesis using endpoint_cache_owned [OF L _ None u] by blast
  next
    case (Some p)
    then show ?thesis using o by (simp add: c_def vq_owned_def)
  qed
  have b': "Option.bind (get_client_endpoint_cache (fst c) vid) (\<lambda>p. Option.bind (get_ud DEFAULT_RPC_HINT ctrl) (\<lambda>ud.
      Option.bind (op_code_table (cq_type req)) (\<lambda>op.
        let (res, d) = ud_push (kn_ib (sv_kenv e)) ud op (tm_addr mr) (tm_rkey mr) p 0 0 (first_signaled (pn_ud n ! vid)) (snd c) in
        Some (res, fst c, n \<lparr> pn_ud := (pn_ud n)[vid := pn_ud n ! vid + 1] \<rparr>, g \<lparr> ks_drv := d \<rparr>)))) = Some (res, q', n', g')"
    using b by (simp only: bind_push_ud_def w c_def Option.bind.simps case_prod_beta Let_def)
  then obtain p ud op where p: "get_client_endpoint_cache (fst c) vid = Some p" "get_ud DEFAULT_RPC_HINT ctrl = Some ud"
      "op_code_table (cq_type req) = Some op"
    by (auto split: bind_splits)
  define r where "r = ud_push (kn_ib (sv_kenv e)) ud op (tm_addr mr) (tm_rkey mr) p 0 0 (first_signaled (pn_ud n ! vid)) (snd c)"
  have "live (snd r) = live (snd c)" using post_live [OF L] by (simp add: r_def ud_push_def ud_post_send_def)
  moreover have "q' = fst c" "ks_drv g' = snd r"
    using b' p by (auto simp: r_def case_prod_beta Let_def)
  ultimately show ?thesis using oc o by (simp add: vq_owned_def owns_def)
qed

lemma bind_push_rc_owned:
  assumes L: "senv_lifetimes e live" and o: "vq_owned live base M q g"
    and b: "bind_push_rc e ctrl mr vid req q n g = Some (res, q', n', g')"
  shows "vq_owned live base M q' g'"
proof -
  have "q' = q" "live (ks_drv g') = live (ks_drv g)"
    using b post_live [OF L]
    by (auto simp: bind_push_rc_def rc_push_with_imm_def rc_post_send_def case_prod_beta Let_def split: bind_splits)
  then show ?thesis using vq_owned_same [OF o] by simp
qed

lemma bind_push_loop_owned:
  assumes L: "senv_lifetimes e live"
  shows "vq_owned live base M q g \<Longrightarrow> bind_push_loop e ctrl mr reqs q n g = Some (res, q', n', g') \<Longrightarrow> vq_owned live base M q' g'"
proof (induction reqs arbitrary: q n g)
  case (Cons req reqs)
  let ?vid = "unat (cq_vid req) mod HOST_LEN"
  obtain b r q1 n1 g1 where s: "check_bind q ?vid g = Some b"
      "(if \<not> b then bind_push_ud e ctrl mr ?vid req q n g else bind_push_rc e ctrl mr ?vid req q n g) = Some (r, q1, n1, g1)"
    using Cons.prems(2) by (auto split: bind_splits)
  have o1: "vq_owned live base M q1 g1"
    using s(2) bind_push_ud_owned [OF L Cons.prems(1)] bind_push_rc_owned [OF L Cons.prems(1)] by (auto split: if_splits)
  show ?case using Cons.prems(2) s o1 Cons.IH [OF o1] by (cases r) auto
qed simp

lemma bind_server_push_owned:
  assumes L: "senv_lifetimes e live" and o: "vq_owned live base M q g"
    and b: "bind_server_push_impl e reqs pop q g = Some (s, q', g')"
  shows "vq_owned live base M q' g'"
proof -
  obtain port ctrl mr where p: "vq_bind_port q = Some port" "get_bind_ctrl port g = Some ctrl" "lc_local_mr (vq_local_cache q) = Some mr"
    using b by (auto simp: bind_server_push_impl_def split: bind_splits)
  obtain r q1 n g1 where l: "bind_push_loop e ctrl mr reqs q pop_cnts_zero g = Some (r, q1, n, g1)"
    using b p by (auto simp: bind_server_push_impl_def split: bind_splits)
  have o1: "vq_owned live base M q1 g1" by (rule bind_push_loop_owned [OF L o l])
  show ?thesis
  proof (cases "r = rep_ok")
    case True
    then obtain s' where "bind_post_loop e (port * 2) pop n [1..<HOST_LEN] g1 = Some (s', g')" "q' = q1"
      using b p l by (auto simp: bind_server_push_impl_def simp del: upt_rec_numeral)
    then show ?thesis using bind_post_loop_live [OF L] vq_owned_same [OF o1] by simp
  next
    case False
    then show ?thesis using b p l o1 by (simp add: bind_server_push_impl_def)
  qed
qed

lemma push_chunk_owned:
  assumes L: "senv_lifetimes e live" and o: "vq_owned live base M q g" and b: "push_chunk e p reqs q g = Some (s, q', g')"
  shows "vq_owned live base M q' g'"
proof (cases "is_bind_mode q")
  case True
  then show ?thesis using bind_server_push_owned [OF L o] b by (auto simp: push_chunk_def)
next
  case False
  then have "q' = q" "live (ks_drv g') = live (ks_drv g)"
    using b rc_push_impl_live [OF L] dc_push_impl_live [OF L] by (auto simp: push_chunk_def split: if_splits)
  then show ?thesis using vq_owned_same [OF o] by simp
qed

lemma push_loop_owned:
  assumes L: "senv_lifetimes e live"
  shows "vq_owned live base M q g \<Longrightarrow> push_loop e p l n off ret q g = Some (s, q', g') \<Longrightarrow> vq_owned live base M q' g'"
  using L
proof (induction e p l n off ret q g rule: push_loop.induct)
  case (1 e p l n off ret q g)
  show ?case
  proof (cases "off < n")
    case False
    then show ?thesis using "1.prems" by (subst (asm) push_loop.simps) simp
  next
    case True
    let ?m = "min DEFAULT_BATCH_SZ (n - off)"
    obtain reqs s1 q1 g1 where r: "read_batch e l off ?m (ks_drv g) = Some reqs" "push_chunk e p reqs q g = Some (s1, q1, g1)"
      using "1.prems"(2) True by (subst (asm) push_loop.simps) (auto simp: Let_def split: option.splits)
    have o1: "vq_owned live base M q1 g1" by (rule push_chunk_owned [OF "1.prems"(3,1) r(2)])
    show ?thesis
    proof (cases "s1 = rep_err")
      case e: True
      then show ?thesis using "1.prems"(2) True r o1 by (subst (asm) push_loop.simps) (simp add: Let_def)
    next
      case False
      then have "push_loop e p l n (off + ?m) s1 q1 g1 = Some (s, q', g')"
        using "1.prems"(2) True r by (subst (asm) push_loop.simps) (simp add: Let_def)
      then show ?thesis using "1.IH" [OF True refl r refl refl False o1 _ "1.prems"(3)] by blast
    qed
  qed
qed

lemma push_cmd_owned:
  assumes L: "senv_lifetimes e live" and o: "vq_owned live base M q g" and b: "push_cmd e arg q g = Some (s, q', g')"
  shows "vq_owned live base M q' g'"
proof -
  obtain a a' where a: "add64 arg (word_of_nat req_sz) = Some a" "add64 a (word_of_nat push_core_sz) = Some a'"
    using b by (auto simp: push_cmd_def split: bind_splits)
  define rq where "rq = dec_push_core (sv_from_user e a push_core_sz (ks_drv g))"
  define ext where "ext = dec_push_ext (sv_from_user e a' push_ext_sz (ks_drv g))"
  define recv where "recv = (if \<not> is_bind_mode q \<and> 0 < pe_push_recv_cnt ext
      then push_recv_impl e (unat (pe_push_recv_cnt ext)) q g else Some (rep_ok, g))"
  have b': "Option.bind recv (\<lambda>(ret, g).
      Option.bind (push_loop e (pe_pop_res ext \<noteq> 0) (pc_req_list rq) (unat (pc_req_len rq)) 0 ret q g) (\<lambda>(ret, q, g).
        if \<not> is_bind_mode q \<and> pe_pop_res ext \<noteq> 0 \<and> ret = rep_ok
        then map_option (\<lambda>g. (ret, q, g)) (push_wait e q g) else Some (ret, q, g))) = Some (s, q', g')"
    using b unfolding recv_def rq_def ext_def by (simp only: push_cmd_def a Option.bind.simps)
  then obtain ret g1 where r1: "recv = Some (ret, g1)" by (auto split: bind_splits)
  have o1: "vq_owned live base M q g1"
    using r1 push_recv_impl_live [OF L] vq_owned_same [OF o] o by (auto simp: recv_def split: if_splits)
  obtain ret2 q2 g2 where r2: "push_loop e (pe_pop_res ext \<noteq> 0) (pc_req_list rq) (unat (pc_req_len rq)) 0 ret q g1 = Some (ret2, q2, g2)"
    using b' r1 by (auto split: bind_splits)
  have o2: "vq_owned live base M q2 g2" by (rule push_loop_owned [OF L o1 r2])
  have "(if \<not> is_bind_mode q2 \<and> pe_pop_res ext \<noteq> 0 \<and> ret2 = rep_ok
      then map_option (\<lambda>g. (ret2, q2, g)) (push_wait e q2 g2) else Some (ret2, q2, g2)) = Some (s, q', g')"
    using b' r1 r2 by simp
  then show ?thesis using push_wait_live [OF L] vq_owned_same [OF o2] o2 by (auto split: if_splits)
qed

lemma ioctl_cmd_owned:
  assumes L: "senv_lifetimes e live" and f: "ft_rpc_server (sv_feat e)" and o: "vq_owned live base M q g"
    and c: "ioctl_cmd e cmd arg req q g = Some (s, q', g')"
  shows "vq_owned live base M q' g'"
proof -
  have same: "vq_owned live base M q' g'" if "q' = q" "live (ks_drv g') = live (ks_drv g)"
    using vq_owned_same [OF o] that by simp
  consider (conn) "cmd = Some Connect" | (push) "cmd = Some Push" | (bindc) "cmd = Some Binds" | (unbindc) "cmd = Some UnBinds"
    | (recv) "cmd = Some PushRecv" | (pop) "cmd = Some Pop" | (msgs) "cmd = Some PopMsgs"
    | (other) "q' = q" "g' = g"
    using c f by (cases cmd; cases "the cmd") (auto simp: ioctl_cmd_def)
  then show ?thesis
  proof cases
    case conn
    then obtain addr port vid where "connect_impl e addr port vid q g = Some (s, q', g')"
      using c by (auto simp: ioctl_cmd_def connect_cmd_def split: bind_splits if_splits)
    then show ?thesis using connect_impl_owns [OF L _ _ \<open>connect_impl e addr port vid q g = Some (s, q', g')\<close>, of base M] o by (simp add: vq_owned_def)
  next
    case push
    then show ?thesis using push_cmd_owned [OF L o] c by (simp add: ioctl_cmd_def)
  next
    case bindc
    then have "g' = g" "vq_res q' = vq_res q" "vq_virtual_queue q' = vq_virtual_queue q"
      using c by (auto simp: ioctl_cmd_def bind_cmd_def vq_res_def split: bind_splits if_splits)
    then show ?thesis using o by (simp add: vq_owned_def)
  next
    case unbindc
    then have u: "unbind_cmd e arg q g = Some (s, q', g')" using c by (simp add: ioctl_cmd_def)
    then have "vq_res q' = vq_res q" "vq_virtual_queue q' = vq_virtual_queue q"
      by (auto simp: unbind_cmd_def vq_res_def split: bind_splits if_splits)
    then show ?thesis using o unbind_cmd_live [OF L u] by (simp add: vq_owned_def owns_def)
  next
    case recv
    then show ?thesis
      using c push_recv_impl_live [OF L] by (intro same) (auto simp: ioctl_cmd_def push_recv_cmd_def split: bind_splits)
  next
    case pop
    then show ?thesis
      using c pop_impl_live [OF L] by (intro same) (auto simp: ioctl_cmd_def pop_cmd_def split: bind_splits)
  next
    case msgs
    then show ?thesis
      using c pop_msg_impl_live [OF L] by (intro same) (auto simp: ioctl_cmd_def pop_msgs_cmd_def split: bind_splits)
  next
    case other
    then show ?thesis using o by simp
  qed
qed

lemma ioctrl_owned:
  assumes L: "senv_lifetimes e live" and f: "ft_rpc_server (sv_feat e)" and o: "vq_owned live base M q g"
    and c: "ioctrl e cmd arg q g = Some (r, q', g')"
  shows "vq_owned live base M q' g'"
proof (cases "cmd_of cmd = Some Connect \<and> vq_virtual_queue q \<noteq> None")
  case True
  then show ?thesis using c o by (simp add: ioctrl_def Let_def)
next
  case False
  let ?req = "dec_req (sv_from_user e arg req_sz (ks_drv g))"
  have c': "Option.bind (ioctl_cmd e (cmd_of cmd) arg ?req q g) (\<lambda>(st, q, g).
      let (left, d) = sv_to_user e (rt_reply_buf ?req) (enc_reply st) (ks_drv g) in Some (int left, q, g \<lparr> ks_drv := d \<rparr>))
      = Some (r, q', g')"
    using c False unfolding ioctrl_def Let_def by (simp only: if_False)
  then obtain st g1 where i: "ioctl_cmd e (cmd_of cmd) arg ?req q g = Some (st, q', g1)"
      "ks_drv g' = snd (sv_to_user e (rt_reply_buf ?req) (enc_reply st) (ks_drv g1))"
    by (auto simp: case_prod_beta Let_def split: bind_splits)
  have "vq_owned live base M q' g1" by (rule ioctl_cmd_owned [OF L f o i(1)])
  then show ?thesis using i(2) by (auto simp: senv_lifetimesD(9) [OF L] intro: vq_owned_same)
qed

section \<open>Histories\<close>

text \<open>The threads that a call starts run on their own: each connects at some later time, and
  stores its connection at some time after that.\<close>

inductive vq_reach :: "'d senv \<Rightarrow> 'd kstate \<Rightarrow> VQ \<Rightarrow> 'd kstate \<Rightarrow> bg_thread list \<Rightarrow> bool" for e g0 where
  opened: "vq_open e g0 = Some q \<Longrightarrow> vq_reach e g0 q g0 []"
| called: "\<lbrakk> vq_reach e g0 q g ts; ioctrl e cmd arg q g = Some (r, q', g') \<rbrakk> \<Longrightarrow>
    vq_reach e g0 q' g' (ts @ replicate (vq_threads q' - vq_threads q) BgStarted)"
| connects: "\<lbrakk> vq_reach e g0 q g (t1 @ BgStarted # t2); bg_connect e q g = Some (Some t, g') \<rbrakk> \<Longrightarrow>
    vq_reach e g0 q g' (t1 @ t # t2)"
| gives_up: "\<lbrakk> vq_reach e g0 q g (t1 @ BgStarted # t2); bg_connect e q g = Some (None, g') \<rbrakk> \<Longrightarrow>
    vq_reach e g0 q g' (t1 @ t2)"
| stores: "\<lbrakk> vq_reach e g0 q g (t1 @ BgConnected qp # t2); bg_store e qp q g = Some (q', g') \<rbrakk> \<Longrightarrow>
    vq_reach e g0 q' g' (t1 @ t2)"

definition thread_rc :: "bg_thread \<Rightarrow> KRC option" where
  "thread_rc t = (case t of BgStarted \<Rightarrow> None | BgConnected qp \<Rightarrow> qp)"

definition threads_res :: "bg_thread list \<Rightarrow> resource multiset" where
  "threads_res ts = sum_list (map (\<lambda>t. rc_opt_res (thread_rc t)) ts)"

lemma threads_res_simps [simp]:
  "threads_res [] = {#}" "threads_res (BgStarted # ts) = threads_res ts"
  "threads_res (BgConnected qp # ts) = rc_opt_res qp + threads_res ts"
  "threads_res (ts1 @ ts2) = threads_res ts1 + threads_res ts2" "threads_res (replicate n BgStarted) = {#}"
  by (induction n) (simp_all add: threads_res_def thread_rc_def)

definition sys_inv :: "('d \<Rightarrow> resource set) \<Rightarrow> resource set \<Rightarrow> VQ \<Rightarrow> 'd kstate \<Rightarrow> bg_thread list \<Rightarrow> bool" where
  "sys_inv live base q g ts \<longleftrightarrow> vq_owned live base (threads_res ts) q g \<and> (\<forall>t\<in>set ts. rc_ok (thread_rc t))"

lemma bg_connect_owned:
  assumes L: "senv_lifetimes e live" and o: "owns live base M (ks_drv g)" and b: "bg_connect e q g = Some (t, g')"
  shows "case t of None \<Rightarrow> owns live base M (ks_drv g')
    | Some t \<Rightarrow> owns live base (rc_opt_res (thread_rc t) + M) (ks_drv g') \<and> rc_ok (thread_rc t)"
proof (cases "vq_virtual_queue q")
  case (Some rc)
  then show ?thesis using b o by (auto simp: bg_connect_def split: bind_splits)
next
  case None
  obtain p where p: "vq_rc_connect_param q = Some p" using b by (auto simp: bg_connect_def split: bind_splits)
  then obtain res g1 where c1: "qp_connect e (cp_vid p) (cp_port p) (cp_path p) g = Some (res, g1)"
      "(case res of Err _ \<Rightarrow> Some (None, g1) | Ok qp \<Rightarrow> Some (Some (BgConnected qp), g1)) = Some (t, g')"
    using b None by (auto simp: bg_connect_def split: bind_splits)
  then have c: "qp_connect e (cp_vid p) (cp_port p) (cp_path p) g = Some (res, g')"
      "t = (case res of Err _ \<Rightarrow> None | Ok qp \<Rightarrow> Some (BgConnected qp))"
    by (cases res; simp)+
  then show ?thesis using qp_connect_owns [OF L o c(1)] by (auto simp: thread_rc_def split: result.splits)
qed

lemma drop_rc_opt_owned:
  assumes L: "senv_lifetimes e live" and o: "owns live base (rc_opt_res rc + M) (ks_drv g)" and r: "rc_ok rc"
    and d: "drop_rc_opt e rc g = Some g'"
  shows "owns live base M (ks_drv g')"
proof (cases rc)
  case (Some x)
  then obtain d' where "KRC_drop (kn_verbs (sv_kenv e)) (kn_cm (sv_kenv e)) x (ks_drv g) = Some d'" "g' = g \<lparr> ks_drv := d' \<rparr>"
    using d by (auto simp: drop_rc_opt_def)
  then show ?thesis using KRC_drop_owns [OF L, of base x M "ks_drv g" d'] o r Some by simp
qed (use d o in \<open>simp add: drop_rc_opt_def\<close>)

lemma bg_store_owned:
  assumes L: "senv_lifetimes e live" and o: "vq_owned live base (rc_opt_res qp + M) q g" and r: "rc_ok qp"
    and b: "bg_store e qp q g = Some (q', g')"
  shows "vq_owned live base M q' g'"
proof (cases "ft_virtual_queue (sv_feat e)")
  case True
  have "owns live base (rc_opt_res (vq_virtual_queue q) + (vq_res (q \<lparr> vq_virtual_queue := qp \<rparr>) + M)) (ks_drv g)"
    using o by (simp add: vq_owned_def vq_res_def ac_simps)
  then show ?thesis
    using b True o r drop_rc_opt_owned [OF L] by (auto simp: bg_store_def vq_owned_def)
next
  case False
  have "owns live base (rc_opt_res qp + (vq_res q + M)) (ks_drv g)" using o by (simp add: vq_owned_def ac_simps)
  then show ?thesis using b False o r drop_rc_opt_owned [OF L] by (auto simp: bg_store_def vq_owned_def)
qed

lemma vq_reach_inv:
  assumes L: "senv_lifetimes e live" and f: "ft_rpc_server (sv_feat e)" and "vq_reach e g0 q g ts"
  shows "sys_inv live (live (ks_drv g0)) q g ts"
  using assms(3)
proof induction
  case (opened q)
  then show ?case
    by (auto simp: sys_inv_def vq_owned_def vq_open_def LocalCache_default_def owns_def vq_res_def split: bind_splits)
next
  case (called q g ts cmd arg r q' g')
  then show ?case using ioctrl_owned [OF L f] by (auto simp: sys_inv_def thread_rc_def)
next
  case (connects q g t1 t2 t g')
  have "owns live (live (ks_drv g0)) (vq_res q + (threads_res t1 + threads_res t2)) (ks_drv g)"
    using connects.IH by (simp add: sys_inv_def vq_owned_def)
  from bg_connect_owned [OF L this connects.hyps(2)] connects.IH show ?case
    by (cases t) (auto simp: sys_inv_def vq_owned_def thread_rc_def ac_simps)
next
  case (gives_up q g t1 t2 g')
  have "owns live (live (ks_drv g0)) (vq_res q + (threads_res t1 + threads_res t2)) (ks_drv g)"
    using gives_up.IH by (simp add: sys_inv_def vq_owned_def)
  from bg_connect_owned [OF L this gives_up.hyps(2)] gives_up.IH show ?case
    by (auto simp: sys_inv_def vq_owned_def)
next
  case (stores q g t1 qp t2 q' g')
  have "vq_owned live (live (ks_drv g0)) (rc_opt_res qp + (threads_res t1 + threads_res t2)) q g" "rc_ok qp"
    using stores.IH by (auto simp: sys_inv_def thread_rc_def vq_owned_def ac_simps)
  from bg_store_owned [OF L this stores.hyps(2)] stores.IH show ?case by (auto simp: sys_inv_def)
qed

section \<open>Closing a queue\<close>

lemma drop_endpoints_owned:
  assumes L: "senv_lifetimes e live"
  shows "owns live base (sum_list (map ep_res eps) + M) d \<Longrightarrow> owns live base M (drop_endpoints (kn_verbs (sv_kenv e)) eps d)"
proof (induction eps arbitrary: d)
  case (Cons p eps)
  then have "owns live base (ep_res p + (sum_list (map ep_res eps) + M)) d" by (simp add: union_assoc)
  then show ?case using Cons.IH [OF EndPoint_drop_owns [OF L]] by (simp add: drop_endpoints_def)
qed (simp add: drop_endpoints_def)

lemma VQ_drop_owned:
  assumes L: "senv_lifetimes e live" and o: "vq_owned live base M q g"
  shows "\<exists>g'. VQ_drop e q g = Some g' \<and> owns live base M (ks_drv g')"
proof -
  let ?v = "kn_verbs (sv_kenv e)" and ?c = "kn_cm (sv_kenv e)" and ?rc = "vq_virtual_queue q"
  let ?eps = "map snd (lc_cached_client_endpoint (vq_local_cache q))
      @ (case lc_remote_endpoint (vq_local_cache q) of None \<Rightarrow> [] | Some p \<Rightarrow> [p])"
  have r: "sum_list (map ep_res ?eps) = eps_res (lc_cached_client_endpoint (vq_local_cache q))
      + ep_opt_res (lc_remote_endpoint (vq_local_cache q))"
    by (simp add: eps_res_def comp_def case_prod_unfold split: option.split)
  have ok: "rc_ok ?rc" and o1: "owns live base (rc_opt_res ?rc + (sum_list (map ep_res ?eps) + M)) (ks_drv g)"
    using o unfolding r by (simp_all add: vq_owned_def vq_res_def ac_simps)
  obtain d where d: "(case ?rc of None \<Rightarrow> Some (ks_drv g) | Some rc \<Rightarrow> KRC_drop ?v ?c rc (ks_drv g)) = Some d"
      "owns live base (sum_list (map ep_res ?eps) + M) d"
  proof (cases ?rc)
    case None
    then show ?thesis using o1 that by simp
  next
    case (Some rc)
    then obtain d where "KRC_drop ?v ?c rc (ks_drv g) = Some d" using ok by (auto simp: KRC_drop_def)
    then show ?thesis using Some ok o1 KRC_drop_owns [OF L, of base rc _ "ks_drv g" d] that by simp
  qed
  have "VQ_drop e q g = Some (g \<lparr> ks_drv := drop_endpoints ?v ?eps d \<rparr>)" using d(1) by (simp add: VQ_drop_def Let_def)
  then show ?thesis using drop_endpoints_owned [OF L d(2)] by simp
qed


text \<open>A queue over the reference driver, whose user connects to a node that answers.\<close>

definition own_gid :: Guid where
  "own_gid = Guid_new 0xfe80 0x1000 0x1000 0x1000 0xec0d 0x9a03 0x1002 0x7c4e"

definition own_connect :: connect_t where
  "own_connect = \<lparr> ct_addr = 8192, ct_port = 0, ct_addr_sz = 39, ct_vid = 1 \<rparr>"

definition own_features :: features where
  "own_features = \<lparr> ft_dct_qp = False, ft_meta_kv = False, ft_meta_cache = False, ft_migrate_qp = False,
     ft_virtual_queue = True, ft_rpc_server = True \<rparr>"

definition own_verbs :: "ref_state verbs" where
  "own_verbs = ref_verbs \<lparr> vb_create_ah := (\<lambda>_ _ d. (0, d)) \<rparr>"

definition own_kcm :: "ref_state kcm" where
  "own_kcm = demo_kcm \<lparr> cm_events := (\<lambda>_ d. ([RepReceived (Payload_new_from_null 1)], d)) \<rparr>"

definition own_senv :: "ref_state senv" where
  "own_senv = (demo_senv own_features)
     \<lparr> sv_kenv := demo_kenv \<lparr> kn_verbs := own_verbs, kn_cm := own_kcm \<rparr>,
       sv_from_user := (\<lambda>a n d. if a = 8192 then bytes_of_str (Guid_fmt own_gid)
         else if a = 4096 then enc_req \<lparr> rt_dummy = 64, rt_reply_buf = 16384 \<rparr> else enc_connect own_connect) \<rparr>"

lemma own_lifetimes: "senv_lifetimes own_senv rs_live"
proof -
  have "verbs_lifetimes own_verbs rs_live"
    using ref_verbs_lifetimes unfolding verbs_lifetimes_def own_verbs_def by (simp add: allocates_def)
  then have "kenv_lifetimes (sv_kenv own_senv) rs_live"
    by (simp add: own_senv_def kenv_lifetimes_def demo_kenv_def own_kcm_def demo_kcm_def)
  then show ?thesis
    by (simp add: senv_lifetimes_def own_senv_def demo_senv_def demo_kenv_def own_kcm_def demo_kcm_def own_verbs_def ptr_is_err_def)
qed

lemma own_fields:
  "kn_verbs (sv_kenv own_senv) = own_verbs" "kn_cm (sv_kenv own_senv) = own_kcm" "kn_random (sv_kenv own_senv) = 7"
  "sv_feat own_senv = own_features" "sv_explore_path own_senv c a p d = (Some [1, 2, 3], d)"
  by (simp_all add: own_senv_def demo_kenv_def demo_senv_def)

definition own_state :: "ptr \<Rightarrow> ib_qp_state \<Rightarrow> ref_state" where
  "own_state qp st = \<lparr> rs_next = 18, rs_budget = 2, rs_live = {RQp 17, RCq 16}, rs_qp = (\<lambda>_. IB_QPS_RESET)(qp := st),
     rs_user = (\<lambda>_. Some 0), rs_kmem = (\<lambda>_. []) \<rparr>"

lemma own_new:
  "KRC_new_with_srq own_verbs own_kcm cfg 0 0 6 (ref_init 4) = Some (Some demo_rc, own_state 17 IB_QPS_RESET)"
  by (simp add: KRC_new_with_srq_def ClientCM_new_def create_ib_cq_def create_ib_qp_def own_verbs_def own_kcm_def demo_kcm_def
      ref_verbs_def ref_alloc_def ref_init_def own_state_def demo_rc_def fun_upd_idem)

lemma own_rtr: "bring_to_rtr own_verbs own_kcm demo_rc 8 (own_state 17 IB_QPS_RESET) = Some (Ok (), own_state 17 IB_QPS_RTR)"
  by (simp add: bring_to_rtr_def bring_to_init_def rc_bring_def get_qp_status_def kit_modify_def own_kcm_def demo_kcm_def own_verbs_def
      ref_verbs_def ref_modify_def ib_required_def qp_attr_default_def own_state_def demo_rc_def insert_commute)

lemma own_rts: "bring_to_rts own_verbs own_kcm demo_rc 8 (own_state 17 IB_QPS_RTR) = Some (Ok (), own_state 17 IB_QPS_RTS)"
  by (simp add: bring_to_rts_def rc_bring_def get_qp_status_def kit_modify_def own_kcm_def demo_kcm_def own_verbs_def
      ref_verbs_def ref_modify_def ib_required_def qp_attr_default_def own_state_def demo_rc_def insert_commute)

lemma own_connects:
  "\<exists>rc. qp_connect own_senv 1 0 path (demo_kstate 4) = Some (Ok (Some rc), (demo_kstate 4) \<lparr> ks_drv := own_state 17 IB_QPS_RTS \<rparr>)
     \<and> krc_qp rc = 17 \<and> krc_cq rc = 16"
proof -
  have cq: "get_recv_cq demo_ctrl = 6" by (simp add: get_recv_cq_def demo_ctrl_def)
  have cm: "krc_cm demo_rc = 8" by (simp add: demo_rc_def)
  have d: "ks_drv (demo_kstate 4) = ref_init 4" by (simp add: demo_kstate_def)
  have h: "handle_reply own_verbs own_kcm demo_rc r (own_state 17 IB_QPS_RESET)
      = Some (True, demo_rc \<lparr> krc_remote_mr := Some (py_mr r) \<rparr>, own_state 17 IB_QPS_RTS)" for r
    by (simp add: handle_reply_def cm own_rtr own_rts)
  have "rc_connect own_verbs own_kcm demo_rc (word_of_nat 1) path 0 (own_state 17 IB_QPS_RESET)
      = Some (Ok (), demo_rc \<lparr> krc_remote_mr := Some (py_mr (Payload_new_from_null 1)) \<rparr>, own_state 17 IB_QPS_RTS)"
    using h by (simp add: rc_connect_def send_req_def send_rtu_def own_kcm_def demo_kcm_def code_result_def Let_def)
  then show ?thesis
    by (simp add: qp_connect_def own_fields demo_ctrl_0 cq d own_new Let_def demo_rc_def)
qed

lemma own_address:
  "utf8_valid (bytes_of_str (Guid_fmt own_gid))"
  "length (Guid_fmt own_gid) = 39"
  "is_ok (Guid_from_str (str_of_bytes (bytes_of_str (Guid_fmt own_gid))))"
  "service_of_port 0 = 0" "usize_of_i32 1 = 1" "cmd_of 1 = Some Connect"
proof -
  show "utf8_valid (bytes_of_str (Guid_fmt own_gid))"
    by (rule utf8_ascii) (auto simp: bytes_of_str_def unat_of_nat dest!: Guid_fmt_ascii)
  show l: "length (Guid_fmt own_gid) = 39" unfolding own_gid_def by (subst length_Guid_fmt(2)) simp
  have "wf_guid own_gid" "\<forall>v \<in> set (Guid_segments own_gid). 0x1000 \<le> v \<and> v \<noteq> 0xffff" by (simp_all add: own_gid_def)
  then have "Guid_from_str (Guid_fmt own_gid @ replicate 0 (CHR 0x00)) = Ok own_gid"
    using guid_padded [of own_gid 0] l by simp
  then show "is_ok (Guid_from_str (str_of_bytes (bytes_of_str (Guid_fmt own_gid))))"
    using str_of_bytes_of_str [of "Guid_fmt own_gid" 0] by (simp add: is_ok_def)
  show "service_of_port 0 = 0" "usize_of_i32 1 = 1" by (simp_all add: service_of_port_def usize_of_i32_def)
  show "cmd_of 1 = Some Connect" by code_simp
qed

lemma own_read: "read_addr own_senv own_connect d = bytes_of_str (Guid_fmt own_gid)"
  by (simp add: read_addr_def own_connect_def own_senv_def GUID_SZ_def usize_of_i32_def own_address(2) Let_def)

lemma own_request: "dec_connect (sv_from_user own_senv (4096 + word_of_nat req_sz) connect_sz d) = own_connect"
proof -
  have "dec_connect (enc_connect own_connect) = own_connect"
    using dec_enc_connect [of own_connect "[]"] by (simp add: own_connect_def is_i32_def)
  then show ?thesis by (simp add: own_senv_def req_sz_def)
qed

lemma own_ioctl:
  "\<exists>q g. ioctrl own_senv 1 4096 demo_vq (demo_kstate 4) = Some (0, q, g) \<and> rs_live (ks_drv g) = {RQp 17, RCq 16}"
proof -
  let ?addr = "str_of_bytes (bytes_of_str (Guid_fmt own_gid))" and ?g = "demo_kstate 4"
  obtain rc where rc: "qp_connect own_senv 1 0 [1, 2, 3] ?g = Some (Ok (Some rc), ?g \<lparr> ks_drv := own_state 17 IB_QPS_RTS \<rparr>)"
    using own_connects by blast
  have x: "vq_explore_path own_senv 0 ?addr q ?g = Some ([1, 2, 3], update_path_rec_cache ?addr [1, 2, 3] q, ?g)"
    if "get_path_rec_cache q ?addr = None" for q
    using that by (simp add: vq_explore_path_def demo_ctrl_0 own_fields)
  have "get_path_rec_cache q ?addr = None" if "lc_path_rec_cache (vq_local_cache q) = []" for q
    using that by (simp add: get_path_rec_cache_def)
  then have cr: "\<exists>q'. connect_rc own_senv ?addr 0 1 q ?g = Some (rep_ok, q', ?g \<lparr> ks_drv := own_state 17 IB_QPS_RTS \<rparr>)"
    if "lc_path_rec_cache (vq_local_cache q) = []" for q
    using that x rc by (simp add: connect_rc_def own_fields own_features_def)
  let ?mr = "TempMR_new (tm_addr (get_self_test_mr own_verbs demo_ctrl (ks_drv ?g))) (word_of_nat MAX_KMALLOC_SZ)
      (rc_get_lkey own_verbs (rl_context demo_ctrl) (ks_drv ?g))"
  let ?q = "demo_vq \<lparr> vq_local_cache := (vq_local_cache demo_vq) \<lparr> lc_local_mr := Some ?mr \<rparr>, vq_local_connect_port := Some 0,
      vq_local_dc := rl_dc demo_ctrl, vq_local_ud := get_ud DEFAULT_RPC_HINT demo_ctrl \<rparr>"
  have "connect_impl own_senv ?addr 0 1 demo_vq ?g = connect_rc own_senv ?addr 0 1 ?q ?g"
    by (simp add: connect_impl_def own_address(3) demo_ctrl_0 own_fields own_features_def Let_def demo_vq_def)
  moreover have "lc_path_rec_cache (vq_local_cache ?q) = []" by (simp add: demo_vq_def)
  ultimately obtain q' where q': "connect_impl own_senv ?addr 0 1 demo_vq ?g = Some (rep_ok, q', ?g \<lparr> ks_drv := own_state 17 IB_QPS_RTS \<rparr>)"
    using cr [of ?q] by metis
  have "connect_cmd own_senv 4096 demo_vq ?g = Some (rep_ok, q', ?g \<lparr> ks_drv := own_state 17 IB_QPS_RTS \<rparr>)"
    using q' own_address own_request own_read
    by (simp add: connect_cmd_def add64_def req_sz_def own_connect_def)
  then show ?thesis
    by (simp add: ioctrl_def own_address(6) ioctl_cmd_def demo_vq_def Let_def case_prod_beta own_senv_def demo_senv_def mapped_def own_state_def)
qed


end
