(* ===== verification/Cm_User.thy ===== *)
theory Cm_User
  imports Qp_Builder "HOL-Library.Monad_Syntax"
begin

text \<open>
  The connection service of the user build: the messages and the server loop
  (services_user/mod.rs), the default handler with its registries of connections
  and memory regions (services_user/cm.rs), and the client side that connects a
  queue pair through the service, deregisters it when it is dropped and asks for
  the regions of the server (queue_pairs/handshake_user.rs).

  Two things are parameters.  \<open>json\<close> holds the encoders and decoders of
  serde_json, an encoder that fails being None.  \<open>net\<close> holds what a client does
  with a TCP stream; each operation may fail.  The state \<open>'d\<close> is the driver of
  a node and \<open>'n\<close> the network it talks to.
\<close>

section \<open>Messages\<close>

text \<open>\<open>ibv_gid_wrapper\<close> reinterprets the sixteen bytes of a GID, in both directions;
  here it is the GID.\<close>

record RCConnectionData =
  rd_lid :: u32
  rd_gid :: ib_gid
  rd_qpn :: u32
  rd_starting_psn :: u32
  rd_rnr_retry_count :: u8
  rd_rc_key :: u64

datatype CMMessageType =
    RegRCReq | DeregRCReq | QueryMRReq
  | RegRCRes | QueryMRRes
  | MsgError | NeverSend
  | UserSlotA | UserSlotB | UserSlotC | UserSlotD | UserSlotE | UserSlotF

record CMMessage =
  message_type :: CMMessageType
  serialized :: string

definition should_send_back :: "CMMessage \<Rightarrow> bool" where
  "should_send_back m = (case message_type m of NeverSend \<Rightarrow> False | _ \<Rightarrow> True)"

definition CMMessage_Error :: CMMessage where
  "CMMessage_Error = \<lparr> message_type = MsgError, serialized = [] \<rparr>"

record MRInfo =
  mi_addr :: u64
  mi_capacity :: u64
  mi_rkey :: u32

record json =
  js_conn :: "RCConnectionData \<Rightarrow> string option"
  js_conn_of :: "string \<Rightarrow> RCConnectionData option"
  js_key :: "u64 \<Rightarrow> string option"
  js_key_of :: "string \<Rightarrow> u64 option"
  js_infos :: "(string \<rightharpoonup> MRInfo) \<Rightarrow> string option"
  js_infos_of :: "string \<Rightarrow> (string \<rightharpoonup> MRInfo) option"
  js_msg :: "CMMessage \<Rightarrow> u8 list option"
  js_msg_of :: "u8 list \<Rightarrow> CMMessage option"

section \<open>The handler\<close>

text \<open>The registries are hash maps.  A registered queue pair is behind an \<open>Arc\<close> that
  the registry holds; its removal drops the queue pair.\<close>

record DefaultConnectionManagerHandler =
  registered_rc :: "u64 \<rightharpoonup> QueuePair"
  registered_mr :: "string \<rightharpoonup> MemoryRegion"
  ch_port_num :: u8
  ch_ctx :: Context

definition Handler_new :: "Context \<Rightarrow> u8 \<Rightarrow> DefaultConnectionManagerHandler" where
  "Handler_new ctx port_num =
     \<lparr> registered_rc = Map.empty, registered_mr = Map.empty, ch_port_num = port_num, ch_ctx = ctx \<rparr>"

text \<open>A region that is registered under a taken name replaces the old one, which is
  dropped.\<close>

fun MRWrapper_insert ::
  "'d verbs \<Rightarrow> (string \<times> MemoryRegion) list \<Rightarrow> (string \<rightharpoonup> MemoryRegion) \<Rightarrow> 'd
     \<Rightarrow> (string \<rightharpoonup> MemoryRegion) \<times> 'd"
where
  "MRWrapper_insert v [] inner d = (inner, d)"
| "MRWrapper_insert v ((k, mr) # mrs) inner d =
     MRWrapper_insert v mrs (inner(k \<mapsto> mr))
       (case inner k of None \<Rightarrow> d | Some old \<Rightarrow> MemoryRegion_drop User v old d)"

definition register_mr ::
  "'d verbs \<Rightarrow> (string \<times> MemoryRegion) list \<Rightarrow> DefaultConnectionManagerHandler \<Rightarrow> 'd
     \<Rightarrow> DefaultConnectionManagerHandler \<times> 'd"
where
  "register_mr v mrs h d =
     (let (inner, d) = MRWrapper_insert v mrs (registered_mr h) d in (h \<lparr> registered_mr := inner \<rparr>, d))"

definition MRInfo_from :: "'d verbs \<Rightarrow> 'd \<Rightarrow> MemoryRegion \<Rightarrow> MRInfo" where
  "MRInfo_from v d mr = \<lparr> mi_addr = mr_data mr, mi_capacity = mr_capacity mr, mi_rkey = mr_rkey User v mr d \<rparr>"

definition to_mrinfos :: "'d verbs \<Rightarrow> 'd \<Rightarrow> (string \<rightharpoonup> MemoryRegion) \<Rightarrow> (string \<rightharpoonup> MRInfo)" where
  "to_mrinfos v d inner = (\<lambda>k. map_option (MRInfo_from v d) (inner k))"

type_synonym 'd handled = "(CMMessage, CMError) result \<times> DefaultConnectionManagerHandler \<times> 'd"

definition drop_registered :: "'d verbs \<Rightarrow> QueuePair option \<Rightarrow> 'd \<Rightarrow> 'd" where
  "drop_registered v old d = (case old of None \<Rightarrow> d | Some qp \<Rightarrow> QueuePair_drop v qp d)"

definition reg_builder :: "DefaultConnectionManagerHandler \<Rightarrow> QueuePairBuilder" where
  "reg_builder h =
     allow_remote_atomic (allow_remote_rw (set_port_num (ch_port_num h) (QueuePairBuilder_new (ch_ctx h))))"

text \<open>The key of a connection is the address at which its \<open>Arc\<close> was allocated, which
  the allocator \<open>arc\<close> chooses.\<close>

definition handle_reg_rc_req ::
  "json \<Rightarrow> ('d \<Rightarrow> u64) \<Rightarrow> 'd verbs \<Rightarrow> string \<Rightarrow> DefaultConnectionManagerHandler \<Rightarrow> 'd \<Rightarrow> 'd handled"
where
  "handle_reg_rc_req js arc v raw h d =
     (case js_conn_of js raw of
        None \<Rightarrow> (Err (CMInvalidArg ''Failed to do deserialization'' []), h, d)
      | Some data \<Rightarrow>
          (case build_rc v (reg_builder h) d of
             (Err _, d) \<Rightarrow> (Err (CMCreation 0), h, d)
           | (Ok pq, d) \<Rightarrow>
               (case bring_up_rc User v pq (rd_lid data) (rd_gid data) (rd_qpn data) (rd_starting_psn data) d of
                  (Err _, d) \<Rightarrow> (Err (CMCreation 0), h, d)
                | (Ok rc_qp, d) \<Rightarrow>
                    (let rc_key = arc d in
                     case get_port_attr v (ch_port_num h) d of
                       Err err \<Rightarrow> (Err (CMCreation err), h, QueuePair_drop v rc_qp d)
                     | Ok pa \<Rightarrow>
                         (case query_gid v (ch_port_num h) 0 d of
                            Err err \<Rightarrow> (Err (CMCreation err), h, QueuePair_drop v rc_qp d)
                          | Ok gid \<Rightarrow>
                              (let data = \<lparr> rd_lid = ucast (pa_lid pa), rd_gid = gid,
                                            rd_qpn = qp_num v rc_qp d, rd_starting_psn = qp_num v rc_qp d,
                                            rd_rnr_retry_count = rd_rnr_retry_count data,
                                            rd_rc_key = rc_key \<rparr>;
                                   d = drop_registered v (registered_rc h rc_key) d;
                                   h = h \<lparr> registered_rc := (registered_rc h)(rc_key \<mapsto> rc_qp) \<rparr>
                               in case js_conn js data of
                                    None \<Rightarrow> (Err (CMCreation 0), h, d)
                                  | Some s \<Rightarrow>
                                      (Ok \<lparr> message_type = RegRCRes, serialized = s \<rparr>, h, d)))))))"

definition handle_dereg_rc_req ::
  "json \<Rightarrow> 'd verbs \<Rightarrow> string \<Rightarrow> DefaultConnectionManagerHandler \<Rightarrow> 'd \<Rightarrow> 'd handled"
where
  "handle_dereg_rc_req js v raw h d =
     (case js_key_of js raw of
        None \<Rightarrow> (Err (CMInvalidArg ''Failed to do deserialization'' []), h, d)
      | Some rc_key \<Rightarrow>
          (Ok \<lparr> message_type = NeverSend, serialized = [] \<rparr>,
           h \<lparr> registered_rc := (registered_rc h)(rc_key := None) \<rparr>,
           drop_registered v (registered_rc h rc_key) d))"

definition handle_query_mr_req ::
  "json \<Rightarrow> 'd verbs \<Rightarrow> string \<Rightarrow> DefaultConnectionManagerHandler \<Rightarrow> 'd \<Rightarrow> 'd handled"
where
  "handle_query_mr_req js v raw h d =
     (case js_infos js (to_mrinfos v d (registered_mr h)) of
        None \<Rightarrow> (Err (CMCreation 0), h, d)
      | Some s \<Rightarrow> (Ok \<lparr> message_type = QueryMRRes, serialized = s \<rparr>, h, d))"

section \<open>The server loop\<close>

text \<open>The match of the loop on the type of a message.  The default handler leaves the
  six user slots to the trait, whose bodies panic: None.\<close>

definition dispatch ::
  "json \<Rightarrow> ('d \<Rightarrow> u64) \<Rightarrow> 'd verbs \<Rightarrow> CMMessage \<Rightarrow> DefaultConnectionManagerHandler \<Rightarrow> 'd
     \<Rightarrow> 'd handled option"
where
  "dispatch js arc v m h d =
     (let raw = serialized m in
      case message_type m of
        RegRCReq \<Rightarrow> Some (handle_reg_rc_req js arc v raw h d)
      | DeregRCReq \<Rightarrow> Some (handle_dereg_rc_req js v raw h d)
      | QueryMRReq \<Rightarrow> Some (handle_query_mr_req js v raw h d)
      | UserSlotA \<Rightarrow> None | UserSlotB \<Rightarrow> None | UserSlotC \<Rightarrow> None
      | UserSlotD \<Rightarrow> None | UserSlotE \<Rightarrow> None | UserSlotF \<Rightarrow> None
      | _ \<Rightarrow> Some (Err (CMCreation 0), h, d))"

text \<open>\<open>service_handler\<close> on one stream.  Each element of the list is one turn of the
  loop: what the read of at most 2048 bytes gives, None being an I/O error, and
  whether the write of a reply goes through.  At the end of the list the client
  has disconnected and the read gives no bytes.  The result holds the replies
  that were written, in order.\<close>

fun service_handler ::
  "json \<Rightarrow> ('d \<Rightarrow> u64) \<Rightarrow> 'd verbs \<Rightarrow> (u8 list option \<times> bool) list \<Rightarrow> DefaultConnectionManagerHandler \<Rightarrow> 'd
     \<Rightarrow> ((unit, CMError) result \<times> u8 list list \<times> DefaultConnectionManagerHandler \<times> 'd) option"
where
  "service_handler js arc v [] h d = Some (Ok (), [], h, d)"
| "service_handler js arc v ((None, _) # turns) h d = Some (Err (CMCreation 0), [], h, d)"
| "service_handler js arc v ((Some buf, w) # turns) h d =
     (if buf = [] then Some (Ok (), [], h, d)
      else case js_msg_of js buf of
        None \<Rightarrow> Some (Err (CMCreation 0), [], h, d)
      | Some message \<Rightarrow> do {
          (r, h, d) \<leftarrow> dispatch js arc v message h d;
          let msg = (case r of Ok m \<Rightarrow> m | Err _ \<Rightarrow> CMMessage_Error);
          (if \<not> should_send_back msg then service_handler js arc v turns h d
           else do {
             bytes \<leftarrow> js_msg js msg;
             (if w then do {
                (r, replies, h, d) \<leftarrow> service_handler js arc v turns h d;
                Some (r, bytes # replies, h, d) }
              else Some (Err (CMCreation 0), [], h, d)) }) })"

section \<open>The client\<close>

datatype SocketAddr = SocketV4 "u8 list" u16 | SocketV6 "u8 list" u16

record CommStruct =
  cs_qp_type :: QPType
  cs_addr :: SocketAddr
  cs_key :: u64

text \<open>A queue pair of the user build with its \<open>comm\<close> field.\<close>

record user_qp =
  uq_qp :: QueuePair
  uq_comm :: "CommStruct option"

text \<open>Streams are named by a descriptor.  A read asks for at most so many bytes.\<close>

record 'n net =
  nt_connect :: "SocketAddr \<Rightarrow> 'n \<Rightarrow> u64 option \<times> 'n"
  nt_write :: "u64 \<Rightarrow> u8 list \<Rightarrow> 'n \<Rightarrow> bool \<times> 'n"
  nt_read :: "u64 \<Rightarrow> nat \<Rightarrow> 'n \<Rightarrow> u8 list option \<times> 'n"
  nt_close :: "u64 \<Rightarrow> 'n \<Rightarrow> 'n"

definition then_send_sync ::
  "json \<Rightarrow> 'n net \<Rightarrow> u64 \<Rightarrow> CMMessage \<Rightarrow> 'n \<Rightarrow> ((unit, CMError) result \<times> 'n) option"
where
  "then_send_sync js nt stream message n =
     (if \<not> should_send_back message then Some (Ok (), n)
      else do {
        bytes \<leftarrow> js_msg js message;
        let (ok, n) = nt_write nt stream bytes n;
        Some (if ok then Ok () else Err (CMCreation 0), n) })"

text \<open>What \<open>handshake\<close> and \<open>query_mr_info\<close> do with a connected stream: send the
  request, read at most 1024 bytes, decode them and check the type of the
  response.  An error is the message of the caller for the step that failed.\<close>

definition exchange ::
  "json \<Rightarrow> 'n net \<Rightarrow> u64 \<Rightarrow> CMMessage \<Rightarrow> CMMessageType \<Rightarrow> string \<times> string \<times> string \<Rightarrow> 'n
     \<Rightarrow> ((string, string) result \<times> 'n) option"
where
  "exchange js nt stream req expected msgs n =
     (case msgs of (m_write, m_read, m_decode) \<Rightarrow> do {
        (r, n) \<leftarrow> then_send_sync js nt stream req n;
        (case r of
           Err _ \<Rightarrow> Some (Err m_write, n)
         | Ok _ \<Rightarrow>
             (case nt_read nt stream 1024 n of
                (None, n) \<Rightarrow> Some (Err m_read, n)
              | (Some buffer, n) \<Rightarrow>
                  (case js_msg_of js buffer of
                     None \<Rightarrow> Some (Err m_decode, n)
                   | Some message \<Rightarrow>
                       Some (if message_type message \<noteq> expected
                             then Err ''Failed to pass response type check'' else Ok (serialized message), n)))) })"

text \<open>An early return of \<open>handshake\<close> drops the queue pair and closes the stream.\<close>

definition handshake ::
  "json \<Rightarrow> 'n net \<Rightarrow> 'd verbs \<Rightarrow> PreparedQueuePair \<Rightarrow> SocketAddr \<Rightarrow> 'd \<Rightarrow> 'n
     \<Rightarrow> ((user_qp, ControlpathError) result \<times> 'd \<times> 'n) option"
where
  "handshake js nt v pq addr d n =
     (let rc_qp = pq_inner pq;
          fail = (\<lambda>msg d n. Some (Err (CreationError msg 0), QueuePair_drop v rc_qp d, n)) in
      if qp_mode rc_qp \<noteq> RC
      then fail ''QP mode that is not RC does not need handshake to bring it up!'' d n
      else case nt_connect nt addr n of
        (None, n) \<Rightarrow> fail ''Failed to connect server'' d n
      | (Some stream, n) \<Rightarrow>
          (case get_port_attr v (pq_port_num pq) d of
             Err _ \<Rightarrow> fail ''Failed to query lid'' d (nt_close nt stream n)
           | Ok pa \<Rightarrow>
               (case query_gid v (pq_port_num pq) 0 d of
                  Err _ \<Rightarrow> fail ''Failed to query gid'' d (nt_close nt stream n)
                | Ok gid \<Rightarrow>
                    (case js_conn js \<lparr> rd_lid = ucast (pa_lid pa), rd_gid = gid, rd_qpn = qp_num v rc_qp d,
                                       rd_starting_psn = qp_num v rc_qp d,
                                       rd_rnr_retry_count = pq_retry_count pq, rd_rc_key = 0 \<rparr> of
                       None \<Rightarrow> fail ''Failed to do serialization'' d (nt_close nt stream n)
                     | Some s \<Rightarrow> do {
                         (r, n) \<leftarrow> exchange js nt stream \<lparr> message_type = RegRCReq, serialized = s \<rparr> RegRCRes
                           (''Failed to write to server'', ''Failed to read from client'',
                            ''Failed to deserialize CM Message'') n;
                         let n = nt_close nt stream n;
                         (case r of
                            Err msg \<Rightarrow> fail msg d n
                          | Ok res \<Rightarrow>
                              (case js_conn_of js res of
                                 None \<Rightarrow> fail ''Failed to deserialize RCConnection Data'' d n
                               | Some data \<Rightarrow>
                                   (case bring_up_rc_inner User v rc_qp (rd_lid data) (rd_gid data) (rd_qpn data)
                                           (rd_starting_psn data) d of
                                      (Err _, d) \<Rightarrow> fail ''Failed to bring up qp'' d n
                                    | (Ok _, d) \<Rightarrow>
                                        Some (Ok \<lparr> uq_qp = rc_qp,
                                                   uq_comm = Some \<lparr> cs_qp_type = RC, cs_addr = addr,
                                                                    cs_key = rd_rc_key data \<rparr> \<rparr>, d, n)))) }))))"

text \<open>\<open>dereg\<close> has no result: every failure ends it silently, apart from the encoding of
  the key, which is unwrapped, and the queue pair types it does not implement.\<close>

definition dereg :: "json \<Rightarrow> 'n net \<Rightarrow> user_qp \<Rightarrow> 'n \<Rightarrow> 'n option" where
  "dereg js nt qp n =
     (case uq_comm qp of
        None \<Rightarrow> Some n
      | Some comm \<Rightarrow>
          (if cs_qp_type comm \<noteq> RC then None
           else case nt_connect nt (cs_addr comm) n of
             (None, n) \<Rightarrow> Some n
           | (Some stream, n) \<Rightarrow> do {
               s \<leftarrow> js_key js (cs_key comm);
               Some (nt_close nt stream
                 (case js_msg js \<lparr> message_type = DeregRCReq, serialized = s \<rparr> of
                    None \<Rightarrow> n
                  | Some bytes \<Rightarrow> snd (nt_write nt stream bytes n))) }))"

text \<open>The drop of a queue pair in the user build: \<open>dereg\<close> comes between the queue pair
  and its completion queues.  It does not touch the driver.\<close>

definition UserQueuePair_drop :: "json \<Rightarrow> 'n net \<Rightarrow> 'd verbs \<Rightarrow> user_qp \<Rightarrow> 'd \<Rightarrow> 'n \<Rightarrow> ('d \<times> 'n) option" where
  "UserQueuePair_drop js nt v qp d n = do {
     n \<leftarrow> dereg js nt qp n;
     Some (QueuePair_drop v (uq_qp qp) d, n) }"

definition query_mr_info ::
  "json \<Rightarrow> 'n net \<Rightarrow> user_qp \<Rightarrow> 'n \<Rightarrow> ((string \<rightharpoonup> MRInfo, ControlpathError) result \<times> 'n) option"
where
  "query_mr_info js nt qp n =
     (case uq_comm qp of
        None \<Rightarrow> Some (Err (CreationError ''None value on `comm`'' 0), n)
      | Some comm \<Rightarrow>
          (case nt_connect nt (cs_addr comm) n of
             (None, n) \<Rightarrow> Some (Err (CreationError ''Failed to connect server'' 0), n)
           | (Some stream, n) \<Rightarrow> do {
               (r, n) \<leftarrow> exchange js nt stream \<lparr> message_type = QueryMRReq, serialized = [] \<rparr> QueryMRRes
                 (''Failed to send message'', ''Failed to do read from client'', ''Failed to do deserialization'') n;
               let n = nt_close nt stream n;
               Some (case r of
                       Err msg \<Rightarrow> Err (CreationError msg 0)
                     | Ok s \<Rightarrow>
                         (case js_infos_of js s of
                            None \<Rightarrow> Err (CreationError ''Failed to do deserialization'' 0)
                          | Some infos \<Rightarrow> Ok infos), n) }))"

end
