(* ===== verification/Cm_Props.thy ===== *)
theory Cm_Props
  imports Cm_User Qp_Props Syscall_Abi
begin

text \<open>
  The properties of the connection service of the user build: what the registry
  of the server owns in the driver, what a handshake leaves behind on every
  branch, and the two sides composed: a handshake with the service connects the
  two queue pairs to each other and dropping the client's undoes it on both.
\<close>

section \<open>What the registry owns\<close>

definition entry_res :: "(u64 \<rightharpoonup> QueuePair) \<Rightarrow> u64 \<Rightarrow> resource set" where
  "entry_res reg k = (case reg k of None \<Rightarrow> {} | Some qp \<Rightarrow> qp_resources qp)"

text \<open>Beyond \<open>base\<close> the driver holds the resources of the registered connections and
  nothing else, and no resource belongs to two of them.\<close>

definition registry_owns ::
  "('d \<Rightarrow> resource set) \<Rightarrow> resource set \<Rightarrow> (u64 \<rightharpoonup> QueuePair) \<Rightarrow> 'd \<Rightarrow> bool"
where
  "registry_owns live base reg d \<longleftrightarrow>
     live d = base \<union> (\<Union>k. entry_res reg k) \<and> (\<forall>k. base \<inter> entry_res reg k = {}) \<and>
     (\<forall>k l. k \<noteq> l \<longrightarrow> entry_res reg k \<inter> entry_res reg l = {})"

lemma entry_res_simps [simp]:
  "entry_res Map.empty k = {}"
  "entry_res (reg(j \<mapsto> qp)) k = (if k = j then qp_resources qp else entry_res reg k)"
  "entry_res (reg(j := None)) k = (if k = j then {} else entry_res reg k)"
  by (simp_all add: entry_res_def)

lemma live_drop_registered [kr_live]:
  "verbs_lifetimes v live \<Longrightarrow> live (drop_registered v (reg k) d) = live d - entry_res reg k"
  by (simp add: drop_registered_def entry_res_def live_qp_drop split: option.split)

lemma registry_owns_iff:
  "registry_owns live base reg d \<longleftrightarrow>
     (\<forall>x. x \<in> live d \<longleftrightarrow> x \<in> base \<or> (\<exists>k. x \<in> entry_res reg k)) \<and>
     (\<forall>x k. x \<in> base \<longrightarrow> x \<notin> entry_res reg k) \<and>
     (\<forall>x k l. x \<in> entry_res reg k \<longrightarrow> x \<in> entry_res reg l \<longrightarrow> k = l)"
  unfolding registry_owns_def by blast

lemma registry_owns_remove:
  assumes own: "registry_owns live base reg d" and d': "live d' = live d - entry_res reg k"
  shows "registry_owns live base (reg(k := None)) d'"
  using own unfolding registry_owns_iff d' entry_res_simps by (auto split: if_splits)

lemma registry_owns_insert:
  assumes own: "registry_owns live base reg d" and fresh: "live d \<inter> qp_resources qp = {}"
    and d': "live d' = (live d \<union> qp_resources qp) - entry_res reg k"
  shows "registry_owns live base (reg(k \<mapsto> qp)) d'"
proof -
  have new: "x \<notin> base" "x \<notin> entry_res reg j" if "x \<in> qp_resources qp" for x j
    using own fresh that unfolding registry_owns_iff by blast+
  show ?thesis
    using own new unfolding registry_owns_iff d' entry_res_simps by (auto split: if_splits) metis
qed

lemma registry_owns_cong: "registry_owns live base reg d \<Longrightarrow> live d' = live d \<Longrightarrow> registry_owns live base reg d'"
  by (simp add: registry_owns_def)

text \<open>Building and bringing up the server's queue pair.\<close>

lemma acquires_bring_up:
  assumes v: "verbs_lifetimes v live" and b: "build_rc v b d = (Ok pq, d1)"
    and u: "bring_up_rc sp v pq lid gid qpn psn d1 = (r, d2)"
  shows "acquires live qp_resources d (r, d2)"
proof -
  have a: "live d \<inter> qp_resources (pq_inner pq) = {}" "live d1 = live d \<union> qp_resources (pq_inner pq)"
    by (rule rc.create_Ok [OF v b])+
  have "case r of Ok q \<Rightarrow> q = pq_inner pq \<and> live d2 = live d1 | Err _ \<Rightarrow> live d2 = live d1 - qp_resources (pq_inner pq)"
    using consume_lifetimes [OF v live_bring_up_rc_inner [OF v] u [unfolded bring_up_rc_def]] .
  with a show ?thesis by (cases r) auto
qed

lemma reg_owns:
  assumes v: "verbs_lifetimes v live" and own: "registry_owns live base (registered_rc h) d"
    and r: "handle_reg_rc_req js arc v raw h d = (r, h', d')"
  shows "registry_owns live base (registered_rc h') d'"
proof (cases "js_conn_of js raw")
  case None with own r show ?thesis by (auto simp: handle_reg_rc_req_def)
next
  case (Some data)
  note same = registry_owns_cong [OF own]
  obtain x d1 where x: "build_rc v (reg_builder h) d = (x, d1)" by force
  show ?thesis
  proof (cases x)
    case (Err e)
    with Some r x have "h' = h" "d' = d1" by (simp_all add: handle_reg_rc_req_def)
    with same [OF rc.create_Err [OF v x [unfolded Err]]] show ?thesis by simp
  next
    case (Ok pq)
    obtain y d2 where y: "bring_up_rc User v pq (rd_lid data) (rd_gid data) (rd_qpn data) (rd_starting_psn data) d1 = (y, d2)"
      by force
    note acq = acquires_bring_up [OF v x [unfolded Ok] y]
    show ?thesis
    proof (cases y)
      case (Err e)
      with Some \<open>x = Ok pq\<close> r x y have "h' = h" "d' = d2" by (simp_all add: handle_reg_rc_req_def)
      with same acq Err show ?thesis by simp
    next
      case (Ok qp)
      with acq have fresh: "live d \<inter> qp_resources qp = {}" and d2: "live d2 = live d \<union> qp_resources qp" by simp_all
      then have "live (QueuePair_drop v qp d2) = live d" by (auto simp: kr_live [OF v])
      then have keep: "registry_owns live base (registered_rc h) (QueuePair_drop v qp d2)" by (rule same)
      have new: "registry_owns live base ((registered_rc h)(arc d2 \<mapsto> qp)) (drop_registered v (registered_rc h (arc d2)) d2)"
        using registry_owns_insert [OF own fresh] live_drop_registered [OF v] d2 by metis
      show ?thesis
        using r Some \<open>x = Ok pq\<close> Ok x y keep new
        by (auto simp: handle_reg_rc_req_def Let_def split: result.splits option.splits)
    qed
  qed
qed

lemma dereg_owns:
  assumes v: "verbs_lifetimes v live" and own: "registry_owns live base (registered_rc h) d"
    and r: "handle_dereg_rc_req js v raw h d = (r, h', d')"
  shows "registry_owns live base (registered_rc h') d'"
  using own r registry_owns_remove [OF own live_drop_registered [OF v]]
  by (auto simp: handle_dereg_rc_req_def split: option.splits)

lemma dispatch_owns:
  assumes v: "verbs_lifetimes v live" and own: "registry_owns live base (registered_rc h) d"
    and r: "dispatch js arc v m h d = Some (r, h', d')"
  shows "registry_owns live base (registered_rc h') d'"
proof (cases "message_type m")
  case RegRCReq with r reg_owns [OF v own] show ?thesis by (simp add: dispatch_def)
next
  case DeregRCReq with r dereg_owns [OF v own] show ?thesis by (simp add: dispatch_def)
qed (use own r in \<open>auto simp: dispatch_def handle_query_mr_req_def split: option.splits\<close>)

text \<open>One stream after the other, or the messages of several streams interleaved: a
  message is handled without waiting, so the service is a sequence of runs of
  the loop, each over some turns of one stream.\<close>

inductive cm_reach ::
  "json \<Rightarrow> ('d \<Rightarrow> u64) \<Rightarrow> 'd verbs \<Rightarrow> DefaultConnectionManagerHandler \<Rightarrow> 'd
     \<Rightarrow> DefaultConnectionManagerHandler \<Rightarrow> 'd \<Rightarrow> bool"
  for js arc v h0 d0
where
  start: "cm_reach js arc v h0 d0 h0 d0"
| turns: "cm_reach js arc v h0 d0 h d \<Longrightarrow> service_handler js arc v ts h d = Some (r, replies, h', d')
    \<Longrightarrow> cm_reach js arc v h0 d0 h' d'"

lemma service_handler_owns:
  assumes v: "verbs_lifetimes v live"
  shows "registry_owns live base (registered_rc h) d \<Longrightarrow>
    service_handler js arc v ts h d = Some (r, replies, h', d') \<Longrightarrow>
    registry_owns live base (registered_rc h') d'"
proof (induction ts arbitrary: h d r replies)
  case Nil then show ?case by simp
next
  case (Cons t ts)
  obtain b w where t: "t = (b, w)" by force
  show ?case
  proof (cases "\<exists>buf m. b = Some buf \<and> buf \<noteq> [] \<and> js_msg_of js buf = Some m")
    case False
    with Cons.prems t show ?thesis by (cases b) (auto split: if_splits)
  next
    case True
    then obtain buf m where b: "b = Some buf" "buf \<noteq> []" "js_msg_of js buf = Some m" by blast
    with Cons.prems(2) t obtain x h1 d1 where x: "dispatch js arc v m h d = Some (x, h1, d1)"
      by (cases "dispatch js arc v m h d") auto
    note own1 = dispatch_owns [OF v Cons.prems(1) x]
    define msg where "msg = (case x of Ok m \<Rightarrow> m | Err _ \<Rightarrow> CMMessage_Error)"
    have "(h', d') = (h1, d1) \<or> (\<exists>r replies. service_handler js arc v ts h1 d1 = Some (r, replies, h', d'))"
      using Cons.prems(2) t b x
      by (auto simp: msg_def [symmetric] split: if_splits bind_splits)
    then show ?thesis using own1 Cons.IH [OF own1] by auto
  qed
qed

text \<open>C16. The registry of the connection service owns what the service creates.
  Whatever messages arrive, well-formed or not, on however many streams, the
  driver holds exactly the queue pairs and completion queues of the registered
  connections beyond what it held when the service started, and no two
  connections share one: a registration that fails on any branch leaves nothing
  behind, a deregistration releases the connection, and one of an unknown key
  changes nothing.\<close>

theorem service_registry_owned:
  assumes v: "verbs_lifetimes v live"
    and reach: "cm_reach js arc v (Handler_new ctx port) d0 h d"
  shows "registry_owns live (live d0) (registered_rc h) d"
  using reach
proof induction
  case start
  show ?case by (simp add: registry_owns_def Handler_new_def)
next
  case turns
  show ?case by (rule service_handler_owns [OF v turns.IH turns.hyps(2)])
qed

section \<open>The client on its own\<close>

lemma exchange_total:
  assumes "\<forall>m. js_msg js m \<noteq> None"
  obtains r n' where "exchange js nt stream req ty msgs n = Some (r, n')"
proof -
  obtain x n1 where "then_send_sync js nt stream req n = Some (x, n1)"
    using assms [rule_format, of req] by (cases "should_send_back req"; cases "js_msg js req") (simp_all add: then_send_sync_def case_prod_beta Let_def)
  then have "\<exists>r n'. exchange js nt stream req ty msgs n = Some (r, n')"
    by (cases msgs; cases x) (auto simp: exchange_def split: prod.split option.split)
  with that show thesis by blast
qed

definition handshake_result ::
  "'d verbs \<Rightarrow> ('d \<Rightarrow> resource set) \<Rightarrow> ('d \<Rightarrow> ptr \<Rightarrow> ib_qp_state) \<Rightarrow> PreparedQueuePair \<Rightarrow> SocketAddr
     \<Rightarrow> 'd \<Rightarrow> (user_qp, ControlpathError) result \<Rightarrow> 'd \<Rightarrow> bool"
where
  "handshake_result v live st pq addr d r d' =
     (case r of
        Err e \<Rightarrow> (\<exists>msg. e = CreationError msg 0) \<and> live d' = live d - qp_resources (pq_inner pq)
      | Ok uq \<Rightarrow>
          uq_qp uq = pq_inner pq \<and> qp_mode (pq_inner pq) = RC \<and>
          (\<exists>key. uq_comm uq = Some \<lparr> cs_qp_type = RC, cs_addr = addr, cs_key = key \<rparr>) \<and>
          live d' = live d \<and>
          (st d (inner_qp (pq_inner pq)) = IB_QPS_RESET \<longrightarrow> st d' (inner_qp (pq_inner pq)) = IB_QPS_RTS))"

lemma handshake_result_fail:
  assumes "verbs_lifetimes v live" and "live d1 = live d"
  shows "handshake_result v live st pq addr d (Err (CreationError msg 0)) (QueuePair_drop v (pq_inner pq) d1)"
  using assms by (simp add: handshake_result_def live_qp_drop)

lemma bring_up_user_rts:
  assumes law: "qp_state_law v st" and "qp_mode qp = RC" and "st d (inner_qp qp) = IB_QPS_RESET"
    and out: "bring_up_rc_inner sp v qp lid gid rqpn psn d = (Ok x, d')"
  shows "st d' (inner_qp qp) = IB_QPS_RTS"
proof -
  obtain ah a3 where a3: "\<And>d. qa_qp_state (a3 d) = IB_QPS_RTS" and
    eq: "\<And>d. bring_up_rc_inner sp v qp lid gid rqpn psn d =
       (if qp_mode qp \<noteq> RC then (Err (CreationError ''bring up type check log::error!'' 0), d)
        else case qp_status v qp d of
          Err e \<Rightarrow> (Err e, d)
        | Ok s \<Rightarrow> if s = Reset then rc_chain v qp ah rqpn psn a3 d else (Ok (), d))"
    by (rule bring_up_rc_inner_shape) blast
  from out assms(2) obtain s where s: "qp_status v qp d = Ok s" by (cases "qp_status v qp d") (auto simp: eq)
  from qp_status_Ok [OF law s] assms(3) have "s = Reset" by simp
  with s out assms(2) have "rc_chain v qp ah rqpn psn a3 d = (Ok x, d')" by (simp add: eq)
  from three_steps_outcome [OF law rc_masks a3 this [unfolded rc_chain_def]] show ?thesis by auto
qed

text \<open>C17. A handshake has two outcomes, whatever the network does and whatever the
  peer answers.  Either it returns the queue pair it was given, with the address
  of the server and the key the server sent, the driver holding the same
  resources as before; the queue pair is then ready to send if it was in the
  reset state.  Or it returns an error and the queue pair and its completion
  queues have been released.  It always returns when every message can be
  encoded.\<close>

theorem handshake_outcome:
  assumes v: "verbs_lifetimes v live" and law: "qp_state_law v st"
    and enc: "\<forall>m. js_msg js m \<noteq> None"
  shows "\<exists>r d' n'. handshake js nt v pq addr d n = Some (r, d', n') \<and> handshake_result v live st pq addr d r d'"
proof -
  let ?qp = "pq_inner pq"
  define good where "good out \<longleftrightarrow> (\<exists>r d' n'. out = Some (r, d', n') \<and> handshake_result v live st pq addr d r d')"
    for out :: "((user_qp, ControlpathError) result \<times> 'a \<times> 'b) option"
  have fail: "good (Some (Err (CreationError msg 0), QueuePair_drop v ?qp d1, n1))" if "live d1 = live d" for msg d1 n1
    using handshake_result_fail [OF v that] unfolding good_def by blast
  have up: "good (Some (Ok \<lparr> uq_qp = ?qp, uq_comm = Some \<lparr> cs_qp_type = RC, cs_addr = addr, cs_key = k \<rparr> \<rparr>, d1, n1))"
    if "bring_up_rc_inner User v ?qp lid gid qpn psn d = (Ok (), d1)" and "qp_mode ?qp = RC" for lid gid qpn psn d1 n1 k
    using that live_bring_up_rc_inner [OF v, of User ?qp lid gid qpn psn d] bring_up_user_rts [OF law that(2) _ that(1)]
    by (simp add: handshake_result_def good_def)
  have down: "good (Some (Err (CreationError msg 0), QueuePair_drop v ?qp d1, n1))"
    if "bring_up_rc_inner User v ?qp lid gid qpn psn d = (Err e, d1)" for lid gid qpn psn d1 n1 e msg
    by (rule fail) (use that live_bring_up_rc_inner [OF v, of User ?qp lid gid qpn psn d] in simp)
  have ex: "good (exchange js nt s req ty msgs n \<bind> k)" if "\<And>r n'. good (k (r, n'))" for s req ty msgs n k
    by (rule exchange_total [OF enc, of nt s req ty msgs n]) (simp add: that)
  have "good (handshake js nt v pq addr d n)"
    unfolding handshake_def Let_def
    by (auto intro!: ex fail [OF refl] intro: up down split: prod.split option.split result.split)
  then show ?thesis by (simp add: good_def)
qed

section \<open>Client and server together\<close>

text \<open>What the two sides need of serde_json: every message and every key can be
  encoded and is decoded to itself, as is connection data with a GID of sixteen
  bytes; the messages that carry connection data or a key fit in the 1024 bytes
  of the client's buffer.\<close>

definition json_law :: "json \<Rightarrow> bool" where
  "json_law js \<longleftrightarrow>
     (\<forall>m. \<exists>bs. js_msg js m = Some bs \<and> bs \<noteq> [] \<and> js_msg_of js bs = Some m) \<and>
     (\<forall>x. length (rd_gid x) = 16 \<longrightarrow> (\<exists>s. js_conn js x = Some s \<and> js_conn_of js s = Some x \<and>
        (\<forall>ty. length (the (js_msg js \<lparr> message_type = ty, serialized = s \<rparr>)) \<le> 1024))) \<and>
     (\<forall>k. \<exists>s. js_key js k = Some s \<and> js_key_of js s = Some k \<and>
        (\<forall>ty. length (the (js_msg js \<lparr> message_type = ty, serialized = s \<rparr>)) \<le> 1024))"

text \<open>A network with one server on it that loses nothing: what is written reaches the
  server in pieces of at most 2048 bytes, its replies wait to be read.\<close>

record 'd peer =
  pe_handler :: DefaultConnectionManagerHandler
  pe_driver :: 'd
  pe_inbox :: "u8 list"

fun chunks :: "u8 list \<Rightarrow> u8 list list" where
  "chunks bs = (if length bs \<le> 2048 then [bs] else take 2048 bs # chunks (drop 2048 bs))"

declare chunks.simps [simp del]

definition wire :: "json \<Rightarrow> ('d \<Rightarrow> u64) \<Rightarrow> 'd verbs \<Rightarrow> SocketAddr \<Rightarrow> 'd peer net" where
  "wire js arc v server =
     \<lparr> nt_connect = (\<lambda>a n. if a = server then (Some 3, n \<lparr> pe_inbox := [] \<rparr>) else (None, n)),
       nt_write = (\<lambda>_ bs n.
         case service_handler js arc v (map (\<lambda>b. (Some b, True)) (chunks bs)) (pe_handler n) (pe_driver n) of
           None \<Rightarrow> (True, n)
         | Some (_, replies, h, d) \<Rightarrow>
             (True, \<lparr> pe_handler = h, pe_driver = d, pe_inbox = pe_inbox n @ concat replies \<rparr>)),
       nt_read = (\<lambda>_ k n. (Some (take k (pe_inbox n)), n \<lparr> pe_inbox := drop k (pe_inbox n) \<rparr>)),
       nt_close = (\<lambda>_ n. n) \<rparr>"

lemma json_msg:
  assumes "json_law js"
  obtains bs where "js_msg js m = Some bs" "bs \<noteq> []" "js_msg_of js bs = Some m"
  using assms unfolding json_law_def by blast

lemma json_conn:
  assumes "json_law js" and "length (rd_gid x) = 16"
  obtains s where "js_conn js x = Some s" "js_conn_of js s = Some x"
    "\<And>ty. length (the (js_msg js \<lparr> message_type = ty, serialized = s \<rparr>)) \<le> 1024"
  using assms unfolding json_law_def by blast

lemma json_key:
  assumes "json_law js"
  obtains s where "js_key js k = Some s" "js_key_of js s = Some k"
    "\<And>ty. length (the (js_msg js \<lparr> message_type = ty, serialized = s \<rparr>)) \<le> 1024"
  using assms unfolding json_law_def by blast

text \<open>One request over the wire, with and without a reply.\<close>

lemma wire_turn:
  assumes js: "json_law js" and bs: "js_msg js m = Some bs" and len: "length bs \<le> 2048"
    and out: "dispatch js arc v m h d = Some (Ok res, h', d')"
  shows "snd (nt_write (wire js arc v a) st bs \<lparr> pe_handler = h, pe_driver = d, pe_inbox = [] \<rparr>) =
           \<lparr> pe_handler = h', pe_driver = d',
             pe_inbox = (if should_send_back res then the (js_msg js res) else []) \<rparr>"
    and "fst (nt_write (wire js arc v a) st bs n) = True"
proof -
  obtain bs' where "js_msg js m = Some bs'" "bs' \<noteq> []" "js_msg_of js bs' = Some m" by (rule json_msg [OF js])
  with bs have m: "bs \<noteq> []" "js_msg_of js bs = Some m" by simp_all
  obtain rb where rb: "js_msg js res = Some rb" by (rule json_msg [OF js])
  show "snd (nt_write (wire js arc v a) st bs \<lparr> pe_handler = h, pe_driver = d, pe_inbox = [] \<rparr>) =
           \<lparr> pe_handler = h', pe_driver = d',
             pe_inbox = (if should_send_back res then the (js_msg js res) else []) \<rparr>"
    using m len rb out by (simp add: wire_def chunks.simps [of bs])
  show "fst (nt_write (wire js arc v a) st bs n) = True"
    by (simp add: wire_def split: option.split prod.split)
qed

lemma wire_exchange:
  assumes js: "json_law js" and req: "should_send_back req" "length (the (js_msg js req)) \<le> 1024"
    and out: "dispatch js arc v req h d = Some (Ok res, h', d')"
    and res: "should_send_back res" "length (the (js_msg js res)) \<le> 1024"
  shows "exchange js (wire js arc v a) st req (message_type res) msgs
           \<lparr> pe_handler = h, pe_driver = d, pe_inbox = [] \<rparr> =
         Some (Ok (serialized res), \<lparr> pe_handler = h', pe_driver = d', pe_inbox = [] \<rparr>)"
proof -
  obtain bs where bs: "js_msg js req = Some bs" by (rule json_msg [OF js])
  obtain rb where rb: "js_msg js res = Some rb" "js_msg_of js rb = Some res" by (rule json_msg [OF js])
  have "nt_write (wire js arc v a) st bs \<lparr> pe_handler = h, pe_driver = d, pe_inbox = [] \<rparr> =
      (True, \<lparr> pe_handler = h', pe_driver = d', pe_inbox = rb \<rparr>)"
    using wire_turn [OF js bs _ out] req bs res(1) rb(1) by (simp add: prod_eq_iff)
  then have "then_send_sync js (wire js arc v a) st req \<lparr> pe_handler = h, pe_driver = d, pe_inbox = [] \<rparr> =
      Some (Ok (), \<lparr> pe_handler = h', pe_driver = d', pe_inbox = rb \<rparr>)"
    using req(1) bs by (simp add: then_send_sync_def)
  then show ?thesis
    using rb res(2) by (cases msgs) (simp add: exchange_def wire_def)
qed

text \<open>What the server relies on: it can build a queue pair, which then is in the reset
  state and accepts the transitions, its port has a LID and a GID, and the
  allocator does not hand out an address that is in use.\<close>

definition server_ready ::
  "('d \<Rightarrow> u64) \<Rightarrow> 'd verbs \<Rightarrow> ('d \<Rightarrow> ptr \<Rightarrow> ib_qp_state) \<Rightarrow> DefaultConnectionManagerHandler \<Rightarrow> 'd
     \<Rightarrow> QueuePair \<Rightarrow> 'd \<Rightarrow> u16 \<Rightarrow> ib_gid \<Rightarrow> bool"
where
  "server_ready arc v st h d sqp d1 lid gid \<longleftrightarrow>
     (\<exists>pq. build_rc v (reg_builder h) d = (Ok pq, d1) \<and> sqp = pq_inner pq) \<and>
     qp_accepts_law v st RC (inner_qp sqp) \<and> st d1 (inner_qp sqp) = IB_QPS_RESET \<and>
     (\<forall>d. \<exists>pa. get_port_attr v (ch_port_num h) d = Ok pa \<and> pa_lid pa = lid) \<and>
     (\<forall>d. query_gid v (ch_port_num h) 0 d = Ok gid) \<and> length gid = 16 \<and>
     (\<forall>d. registered_rc h (arc d) = None)"

lemma build_rc_mode: "build_rc v b d = (Ok pq, d') \<Longrightarrow> qp_mode (pq_inner pq) = RC"
  by (auto simp: build_rc_def build_inner_def Let_def split: prod.splits result.splits option.splits)

lemma server_registers:
  assumes js: "json_law js" and law: "qp_state_law v st" and ready: "server_ready arc v st h d sqp d1 lid gid"
    and raw: "js_conn_of js raw = Some data"
  obtains d2 s where
    "bring_up_rc_inner User v sqp (rd_lid data) (rd_gid data) (rd_qpn data) (rd_starting_psn data) d1 = (Ok (), d2)"
    and "st d2 (inner_qp sqp) = IB_QPS_RTS"
    and "handle_reg_rc_req js arc v raw h d =
      (Ok \<lparr> message_type = RegRCRes, serialized = s \<rparr>,
       h \<lparr> registered_rc := (registered_rc h)(arc d2 \<mapsto> sqp) \<rparr>, d2)"
    and "js_conn_of js s = Some \<lparr> rd_lid = ucast lid, rd_gid = gid, rd_qpn = qp_num v sqp d2,
      rd_starting_psn = qp_num v sqp d2, rd_rnr_retry_count = rd_rnr_retry_count data, rd_rc_key = arc d2 \<rparr>"
    and "\<And>ty. length (the (js_msg js \<lparr> message_type = ty, serialized = s \<rparr>)) \<le> 1024"
proof -
  from ready obtain pq where pq: "build_rc v (reg_builder h) d = (Ok pq, d1)" "sqp = pq_inner pq"
    unfolding server_ready_def by blast
  have mode: "qp_mode sqp = RC" using build_rc_mode [OF pq(1)] pq(2) by simp
  have acc: "qp_accepts_law v st RC (inner_qp sqp)" and reset: "st d1 (inner_qp sqp) = IB_QPS_RESET"
    using ready unfolding server_ready_def by blast+
  obtain d2 where d2: "bring_up_rc_inner User v sqp (rd_lid data) (rd_gid data) (rd_qpn data) (rd_starting_psn data) d1
      = (Ok (), d2)" "st d2 = (st d1)(inner_qp sqp := IB_QPS_RTS)"
    using rc_accepted [OF acc law mode reset] by blast
  obtain pa where pa: "get_port_attr v (ch_port_num h) d2 = Ok pa" "pa_lid pa = lid"
    using ready unfolding server_ready_def by blast
  have g: "query_gid v (ch_port_num h) 0 d2 = Ok gid" "length gid = 16" "registered_rc h (arc d2) = None"
    using ready unfolding server_ready_def by blast+
  let ?data = "\<lparr> rd_lid = ucast lid, rd_gid = gid, rd_qpn = qp_num v sqp d2,
      rd_starting_psn = qp_num v sqp d2, rd_rnr_retry_count = rd_rnr_retry_count data, rd_rc_key = arc d2 \<rparr>"
  obtain s where s: "js_conn js ?data = Some s" "js_conn_of js s = Some ?data"
    "\<And>ty. length (the (js_msg js \<lparr> message_type = ty, serialized = s \<rparr>)) \<le> 1024"
    using json_conn [OF js, of ?data] g(2) by auto
  have "handle_reg_rc_req js arc v raw h d =
      (Ok \<lparr> message_type = RegRCRes, serialized = s \<rparr>,
       h \<lparr> registered_rc := (registered_rc h)(arc d2 \<mapsto> sqp) \<rparr>, d2)"
    using raw pq d2(1) pa g s(1)
    by (simp add: handle_reg_rc_req_def bring_up_rc_def consume_def drop_registered_def)
  then show thesis using that d2 s(2,3) by simp
qed

text \<open>The handshake over the wire, and the drop that undoes it.\<close>

lemma handshake_over_wire:
  assumes js: "json_law js"
    and conn: "js_conn js \<lparr> rd_lid = ucast (pa_lid pa), rd_gid = gid, rd_qpn = qp_num v (pq_inner pq) d,
       rd_starting_psn = qp_num v (pq_inner pq) d, rd_rnr_retry_count = pq_retry_count pq, rd_rc_key = 0 \<rparr> = Some raw"
    and len: "\<And>ty. length (the (js_msg js \<lparr> message_type = ty, serialized = raw \<rparr>)) \<le> 1024"
    and port: "get_port_attr v (pq_port_num pq) d = Ok pa" "query_gid v (pq_port_num pq) 0 d = Ok gid"
    and mode: "qp_mode (pq_inner pq) = RC"
    and reg: "handle_reg_rc_req js arc sv raw h sd = (Ok \<lparr> message_type = RegRCRes, serialized = s \<rparr>, h', sd')"
    and s: "js_conn_of js s = Some data" "\<And>ty. length (the (js_msg js \<lparr> message_type = ty, serialized = s \<rparr>)) \<le> 1024"
    and up: "bring_up_rc_inner User v (pq_inner pq) (rd_lid data) (rd_gid data) (rd_qpn data) (rd_starting_psn data) d = (Ok (), d')"
  shows "handshake js (wire js arc sv addr) v pq addr d \<lparr> pe_handler = h, pe_driver = sd, pe_inbox = inb \<rparr> =
    Some (Ok \<lparr> uq_qp = pq_inner pq, uq_comm = Some \<lparr> cs_qp_type = RC, cs_addr = addr, cs_key = rd_rc_key data \<rparr> \<rparr>,
          d', \<lparr> pe_handler = h', pe_driver = sd', pe_inbox = [] \<rparr>)"
proof -
  have ex: "exchange js (wire js arc sv addr) st \<lparr> message_type = RegRCReq, serialized = raw \<rparr> RegRCRes msgs
      \<lparr> pe_handler = h, pe_driver = sd, pe_inbox = [] \<rparr> =
      Some (Ok s, \<lparr> pe_handler = h', pe_driver = sd', pe_inbox = [] \<rparr>)" for st msgs
    using wire_exchange [OF js _ len [of RegRCReq], of arc sv h sd "\<lparr> message_type = RegRCRes, serialized = s \<rparr>" h' sd' addr st msgs]
      reg s(2) by (simp add: dispatch_def should_send_back_def)
  have "nt_connect (wire js arc sv addr) addr \<lparr> pe_handler = h, pe_driver = sd, pe_inbox = inb \<rparr> =
      (Some 3, \<lparr> pe_handler = h, pe_driver = sd, pe_inbox = [] \<rparr>)"
    and "nt_close (wire js arc sv addr) st n = n" for st n
    by (simp_all add: wire_def)
  with conn port mode ex s(1) up show ?thesis by (simp add: handshake_def)
qed

lemma drop_over_wire:
  assumes js: "json_law js"
  shows "UserQueuePair_drop js (wire js arc sv addr) v
      \<lparr> uq_qp = qp, uq_comm = Some \<lparr> cs_qp_type = RC, cs_addr = addr, cs_key = key \<rparr> \<rparr> d
      \<lparr> pe_handler = h, pe_driver = sd, pe_inbox = inb \<rparr> =
    Some (QueuePair_drop v qp d,
      \<lparr> pe_handler = h \<lparr> registered_rc := (registered_rc h)(key := None) \<rparr>,
        pe_driver = drop_registered sv (registered_rc h key) sd, pe_inbox = [] \<rparr>)"
proof -
  obtain s where s: "js_key js key = Some s" "js_key_of js s = Some key"
    "\<And>ty. length (the (js_msg js \<lparr> message_type = ty, serialized = s \<rparr>)) \<le> 1024"
    using json_key [OF js, of key] by blast
  let ?m = "\<lparr> message_type = DeregRCReq, serialized = s \<rparr>"
  obtain bs where bs: "js_msg js ?m = Some bs" by (rule json_msg [OF js])
  have "dispatch js arc sv ?m h sd =
      Some (Ok \<lparr> message_type = NeverSend, serialized = [] \<rparr>,
        h \<lparr> registered_rc := (registered_rc h)(key := None) \<rparr>, drop_registered sv (registered_rc h key) sd)"
    using s(2) by (simp add: dispatch_def handle_dereg_rc_req_def)
  from wire_turn(1) [OF js bs _ this, of addr] s(3) [of DeregRCReq] bs
  have w: "snd (nt_write (wire js arc sv addr) st bs \<lparr> pe_handler = h, pe_driver = sd, pe_inbox = [] \<rparr>) =
      \<lparr> pe_handler = h \<lparr> registered_rc := (registered_rc h)(key := None) \<rparr>,
        pe_driver = drop_registered sv (registered_rc h key) sd, pe_inbox = [] \<rparr>" for st
    by (simp add: should_send_back_def)
  have "nt_connect (wire js arc sv addr) addr \<lparr> pe_handler = h, pe_driver = sd, pe_inbox = inb \<rparr> =
      (Some 3, \<lparr> pe_handler = h, pe_driver = sd, pe_inbox = [] \<rparr>)"
    and "nt_close (wire js arc sv addr) st n = n" for st n
    by (simp_all add: wire_def)
  with s(1) bs w show ?thesis by (simp add: UserQueuePair_drop_def dereg_def)
qed

lemma query_over_wire:
  assumes js: "json_law js"
    and enc: "js_infos js (to_mrinfos sv sd (registered_mr h)) = Some s"
      "js_infos_of js s = Some (to_mrinfos sv sd (registered_mr h))"
      "length (the (js_msg js \<lparr> message_type = QueryMRReq, serialized = [] \<rparr>)) \<le> 1024"
      "length (the (js_msg js \<lparr> message_type = QueryMRRes, serialized = s \<rparr>)) \<le> 1024"
  shows "query_mr_info js (wire js arc sv addr)
      \<lparr> uq_qp = qp, uq_comm = Some \<lparr> cs_qp_type = RC, cs_addr = addr, cs_key = key \<rparr> \<rparr>
      \<lparr> pe_handler = h, pe_driver = sd, pe_inbox = inb \<rparr> =
    Some (Ok (to_mrinfos sv sd (registered_mr h)), \<lparr> pe_handler = h, pe_driver = sd, pe_inbox = [] \<rparr>)"
proof -
  have ex: "exchange js (wire js arc sv addr) st \<lparr> message_type = QueryMRReq, serialized = [] \<rparr> QueryMRRes msgs
      \<lparr> pe_handler = h, pe_driver = sd, pe_inbox = [] \<rparr> =
      Some (Ok s, \<lparr> pe_handler = h, pe_driver = sd, pe_inbox = [] \<rparr>)" for st msgs
    using wire_exchange [OF js _ enc(3), of arc sv h sd "\<lparr> message_type = QueryMRRes, serialized = s \<rparr>" h sd addr st msgs]
      enc by (simp add: dispatch_def should_send_back_def handle_query_mr_req_def)
  have "nt_connect (wire js arc sv addr) addr \<lparr> pe_handler = h, pe_driver = sd, pe_inbox = inb \<rparr> =
      (Some 3, \<lparr> pe_handler = h, pe_driver = sd, pe_inbox = [] \<rparr>)"
    and "nt_close (wire js arc sv addr) st n = n" for st n
    by (simp_all add: wire_def)
  with ex enc(2) show ?thesis by (simp add: query_mr_info_def)
qed

section \<open>A concrete codec\<close>

text \<open>For the witnesses: numbers little-endian, the type of a message as a leading
  byte.  It keeps the law of serde_json that the properties ask for.\<close>

definition byte_char :: "u8 \<Rightarrow> char" where "byte_char b = char_of (unat b)"
definition char_byte :: "char \<Rightarrow> u8" where "char_byte c = word_of_nat (of_char c)"

lemma char_byte_inverse [simp]: "char_byte (byte_char b) = b" "byte_char (char_byte c) = c"
proof -
  have "unat b mod 256 = unat b" using unat_less_size [of b] by simp
  then show "char_byte (byte_char b) = b" by (simp add: char_byte_def byte_char_def)
  show "byte_char (char_byte c) = c" by (simp add: char_byte_def byte_char_def unat_of_nat)
qed

definition message_types :: "CMMessageType list" where
  "message_types = [RegRCReq, DeregRCReq, QueryMRReq, RegRCRes, QueryMRRes, MsgError, NeverSend,
     UserSlotA, UserSlotB, UserSlotC, UserSlotD, UserSlotE, UserSlotF]"

definition demo_conn_bytes :: "RCConnectionData \<Rightarrow> u8 list" where
  "demo_conn_bytes x = bytes32 (rd_lid x) @ bytes32 (rd_qpn x) @ bytes32 (rd_starting_psn x) @ bytes64 (rd_rc_key x)
     @ rd_rnr_retry_count x # rd_gid x"

definition demo_conn_of :: "u8 list \<Rightarrow> RCConnectionData" where
  "demo_conn_of bs = \<lparr> rd_lid = u32_at 0 bs, rd_gid = drop 21 bs, rd_qpn = u32_at 4 bs, rd_starting_psn = u32_at 8 bs,
     rd_rnr_retry_count = u8_at 20 bs, rd_rc_key = u64_at 12 bs \<rparr>"

definition demo_json :: json where
  "demo_json =
     \<lparr> js_conn = (\<lambda>x. Some (map byte_char (demo_conn_bytes x))),
       js_conn_of = (\<lambda>s. Some (demo_conn_of (map char_byte s))),
       js_key = (\<lambda>k. Some (map byte_char (bytes64 k))),
       js_key_of = (\<lambda>s. Some (u64_at 0 (map char_byte s))),
       js_infos = (\<lambda>_. Some []), js_infos_of = (\<lambda>_. Some Map.empty),
       js_msg = (\<lambda>m. Some (word_of_nat (index_of message_types (message_type m)) # map char_byte (serialized m))),
       js_msg_of = (\<lambda>bs. case bs of
          [] \<Rightarrow> None
        | t # s \<Rightarrow> Some \<lparr> message_type = message_types ! unat t, serialized = map byte_char s \<rparr>) \<rparr>"

lemma demo_conn_inverse: "demo_conn_of (demo_conn_bytes x) = x"
proof -
  have "u32_at 4 (demo_conn_bytes x) = rd_qpn x"
    using u32_at_bytes [of "bytes32 (rd_lid x)" 4 "rd_qpn x"] by (simp add: demo_conn_bytes_def)
  moreover have "u32_at 8 (demo_conn_bytes x) = rd_starting_psn x"
    using u32_at_bytes [of "bytes32 (rd_lid x) @ bytes32 (rd_qpn x)" 8 "rd_starting_psn x"]
    by (simp add: demo_conn_bytes_def)
  moreover have "u64_at 12 (demo_conn_bytes x) = rd_rc_key x"
    using u64_at_bytes [of "bytes32 (rd_lid x) @ bytes32 (rd_qpn x) @ bytes32 (rd_starting_psn x)" 12 "rd_rc_key x"]
    by (simp add: demo_conn_bytes_def)
  moreover have "u32_at 0 (demo_conn_bytes x) = rd_lid x"
    using u32_at_bytes [of "[]" 0 "rd_lid x"] by (simp add: demo_conn_bytes_def)
  moreover have "u8_at 20 (demo_conn_bytes x) = rd_rnr_retry_count x" "drop 21 (demo_conn_bytes x) = rd_gid x"
    by (simp_all add: demo_conn_bytes_def u8_at_def nth_append)
  ultimately show ?thesis by (simp add: demo_conn_of_def)
qed

lemma demo_type_inverse: "message_types ! unat (word_of_nat (index_of message_types ty) :: u8) = ty"
  by (cases ty) (simp_all add: message_types_def)

lemma demo_json_law: "json_law demo_json"
proof -
  have conn: "js_conn_of demo_json (map byte_char (demo_conn_bytes x)) = Some x" for x
    by (simp add: demo_json_def demo_conn_inverse comp_def)
  have key: "js_key_of demo_json (map byte_char (bytes64 k)) = Some k" for k
    using u64_at_bytes [of "[]" 0 k "[]"] by (simp add: demo_json_def comp_def)
  have msg: "js_msg_of demo_json (the (js_msg demo_json m)) = Some m" for m
    by (simp add: demo_json_def demo_type_inverse comp_def)
  have "length (demo_conn_bytes x) = 37" if "length (rd_gid x) = 16" for x
    using that by (simp add: demo_conn_bytes_def)
  with conn key msg show ?thesis unfolding json_law_def by (simp add: demo_json_def)
qed

definition demo_addr :: SocketAddr where "demo_addr = SocketV4 [127, 0, 0, 1] 10001"

definition demo_handler :: DefaultConnectionManagerHandler where "demo_handler = Handler_new demo_ctx 1"

definition demo_wire :: "ref_state peer net" where "demo_wire = wire demo_json (\<lambda>_. 4096) ref_verbs demo_addr"

lemma demo_server_ready:
  "\<exists>sqp sd1. server_ready (\<lambda>_. 4096) ref_verbs rs_qp demo_handler (ref_init 9) sqp sd1 7 (replicate 16 9)"
proof -
  obtain pq d1 where pq: "build_rc ref_verbs (reg_builder demo_handler) (ref_init 9) = (Ok pq, d1)"
    "rs_qp d1 (inner_qp (pq_inner pq)) = IB_QPS_RESET"
    by (simp add: build_rc_def create_cqs_def CompletionQueue_create_def ref_verbs_def ref_alloc_def
        ref_init_def build_inner_def NonNull_new_def)
  then have "server_ready (\<lambda>_. 4096) ref_verbs rs_qp demo_handler (ref_init 9) (pq_inner pq) d1 7 (replicate 16 9)"
    unfolding server_ready_def using ref_qp_accepts_law
    by (simp add: demo_handler_def Handler_new_def get_port_attr_def query_gid_def ref_verbs_def)
  then show ?thesis by blast
qed

text \<open>C5. A handshake with the service connects the two queue pairs to each other, and
  dropping the client's queue pair undoes it on both sides.  The server brings
  its new queue pair up with the LID, GID and number of the client's, the client
  brings its own up with those of the server's, both are ready to send, and the
  server has registered its queue pair under the key that the client holds.
  While the connection stands the client can ask for the regions the server
  offers, as long as the answer fits in its buffer.  Dropping the client's queue
  pair removes the registration and leaves the registry of the server and the
  resources of its driver as they were before the handshake.\<close>

theorem handshake_round_trip:
  assumes js: "json_law js"
    and client: "qp_state_law cv cst" "qp_accepts_law cv cst RC (inner_qp (pq_inner pq))"
      "qp_mode (pq_inner pq) = RC" "cst d (inner_qp (pq_inner pq)) = IB_QPS_RESET"
      "get_port_attr cv (pq_port_num pq) d = Ok pa" "query_gid cv (pq_port_num pq) 0 d = Ok gid" "length gid = 16"
    and server: "verbs_lifetimes sv slive" "qp_state_law sv sst" "server_ready arc sv sst h sd sqp sd1 slid sgid"
  shows "\<exists>sd2 d' uq n1.
      bring_up_rc_inner User sv sqp (ucast (pa_lid pa)) gid (qp_num cv (pq_inner pq) d) (qp_num cv (pq_inner pq) d) sd1
        = (Ok (), sd2) \<and> sst sd2 (inner_qp sqp) = IB_QPS_RTS
    \<and> bring_up_rc_inner User cv (pq_inner pq) (ucast slid) sgid (qp_num sv sqp sd2) (qp_num sv sqp sd2) d
        = (Ok (), d') \<and> cst d' (inner_qp (pq_inner pq)) = IB_QPS_RTS
    \<and> uq = \<lparr> uq_qp = pq_inner pq, uq_comm = Some \<lparr> cs_qp_type = RC, cs_addr = addr, cs_key = arc sd2 \<rparr> \<rparr>
    \<and> n1 = \<lparr> pe_handler = h \<lparr> registered_rc := (registered_rc h)(arc sd2 \<mapsto> sqp) \<rparr>, pe_driver = sd2, pe_inbox = [] \<rparr>
    \<and> handshake js (wire js arc sv addr) cv pq addr d \<lparr> pe_handler = h, pe_driver = sd, pe_inbox = inb \<rparr>
        = Some (Ok uq, d', n1)
    \<and> (\<forall>s. js_infos js (to_mrinfos sv sd2 (registered_mr h)) = Some s \<and>
           js_infos_of js s = Some (to_mrinfos sv sd2 (registered_mr h)) \<and>
           length (the (js_msg js \<lparr> message_type = QueryMRReq, serialized = [] \<rparr>)) \<le> 1024 \<and>
           length (the (js_msg js \<lparr> message_type = QueryMRRes, serialized = s \<rparr>)) \<le> 1024 \<longrightarrow>
         query_mr_info js (wire js arc sv addr) uq n1 = Some (Ok (to_mrinfos sv sd2 (registered_mr h)), n1))
    \<and> (\<exists>sd3. UserQueuePair_drop js (wire js arc sv addr) cv uq d' n1
           = Some (QueuePair_drop cv (pq_inner pq) d', \<lparr> pe_handler = h, pe_driver = sd3, pe_inbox = [] \<rparr>)
         \<and> slive sd3 = slive sd)"
proof -
  let ?data = "\<lparr> rd_lid = ucast (pa_lid pa), rd_gid = gid, rd_qpn = qp_num cv (pq_inner pq) d,
       rd_starting_psn = qp_num cv (pq_inner pq) d, rd_rnr_retry_count = pq_retry_count pq, rd_rc_key = 0 \<rparr>"
  obtain raw where raw: "js_conn js ?data = Some raw" "js_conn_of js raw = Some ?data"
    "\<And>ty. length (the (js_msg js \<lparr> message_type = ty, serialized = raw \<rparr>)) \<le> 1024"
    using json_conn [OF js, of ?data] client(7) by auto
  obtain sd2 s where sd2: "bring_up_rc_inner User sv sqp (rd_lid ?data) (rd_gid ?data) (rd_qpn ?data) (rd_starting_psn ?data) sd1
      = (Ok (), sd2)" "sst sd2 (inner_qp sqp) = IB_QPS_RTS"
    and reg: "handle_reg_rc_req js arc sv raw h sd = (Ok \<lparr> message_type = RegRCRes, serialized = s \<rparr>,
       h \<lparr> registered_rc := (registered_rc h)(arc sd2 \<mapsto> sqp) \<rparr>, sd2)"
    and s: "js_conn_of js s = Some \<lparr> rd_lid = ucast slid, rd_gid = sgid, rd_qpn = qp_num sv sqp sd2,
      rd_starting_psn = qp_num sv sqp sd2, rd_rnr_retry_count = rd_rnr_retry_count ?data, rd_rc_key = arc sd2 \<rparr>"
      "\<And>ty. length (the (js_msg js \<lparr> message_type = ty, serialized = s \<rparr>)) \<le> 1024"
    by (rule server_registers [OF js server(2,3) raw(2)]) blast
  obtain d' where d': "bring_up_rc_inner User cv (pq_inner pq) (ucast slid) sgid (qp_num sv sqp sd2) (qp_num sv sqp sd2) d
      = (Ok (), d')" "cst d' = (cst d)(inner_qp (pq_inner pq) := IB_QPS_RTS)"
    using rc_accepted [OF client(2,1,3,4)] by blast
  have free: "registered_rc h (arc sd2) = None" using server(3) unfolding server_ready_def by blast
  from server(3) obtain spq where spq: "build_rc sv (reg_builder h) sd = (Ok spq, sd1)" "sqp = pq_inner spq"
    unfolding server_ready_def by blast
  have "slive sd2 = slive sd1" using live_bring_up_rc_inner [OF server(1)] sd2(1) by (metis snd_conv)
  from rc.create_drop [OF server(1) spq(1) this] have undone: "slive (QueuePair_drop sv sqp sd2) = slive sd"
    by (simp add: spq(2))
  note hs = handshake_over_wire [OF js raw(1,3) client(5,6,3) reg s(1,2), of d' addr inb]
  define h1 where "h1 = h \<lparr> registered_rc := (registered_rc h)(arc sd2 \<mapsto> sqp) \<rparr>"
  have restored: "h1 \<lparr> registered_rc := (registered_rc h1)(arc sd2 := None) \<rparr> = h"
    using free by (simp add: h1_def fun_upd_idem)
  have query: "query_mr_info js (wire js arc sv addr)
      \<lparr> uq_qp = pq_inner pq, uq_comm = Some \<lparr> cs_qp_type = RC, cs_addr = addr, cs_key = arc sd2 \<rparr> \<rparr>
      \<lparr> pe_handler = h1, pe_driver = sd2, pe_inbox = [] \<rparr> =
      Some (Ok (to_mrinfos sv sd2 (registered_mr h)), \<lparr> pe_handler = h1, pe_driver = sd2, pe_inbox = [] \<rparr>)"
    if "js_infos js (to_mrinfos sv sd2 (registered_mr h)) = Some s \<and>
        js_infos_of js s = Some (to_mrinfos sv sd2 (registered_mr h)) \<and>
        length (the (js_msg js \<lparr> message_type = QueryMRReq, serialized = [] \<rparr>)) \<le> 1024 \<and>
        length (the (js_msg js \<lparr> message_type = QueryMRRes, serialized = s \<rparr>)) \<le> 1024" for s
    using query_over_wire [OF js, of sv sd2 h1 s arc addr "pq_inner pq" "arc sd2" "[]"] that by (simp add: h1_def)
  have drop: "UserQueuePair_drop js (wire js arc sv addr) cv
      \<lparr> uq_qp = pq_inner pq, uq_comm = Some \<lparr> cs_qp_type = RC, cs_addr = addr, cs_key = arc sd2 \<rparr> \<rparr> d'
      \<lparr> pe_handler = h1, pe_driver = sd2, pe_inbox = [] \<rparr> =
      Some (QueuePair_drop cv (pq_inner pq) d',
        \<lparr> pe_handler = h, pe_driver = QueuePair_drop sv sqp sd2, pe_inbox = [] \<rparr>)"
    using drop_over_wire [OF js, of arc sv addr cv "pq_inner pq" "arc sd2" d' h1 sd2 "[]"]
    by (simp add: restored) (simp add: h1_def drop_registered_def)
  have d1: "cst d' (inner_qp (pq_inner pq)) = IB_QPS_RTS" using d'(2) by simp
  have hs1: "handshake js (wire js arc sv addr) cv pq addr d \<lparr> pe_handler = h, pe_driver = sd, pe_inbox = inb \<rparr> =
      Some (Ok \<lparr> uq_qp = pq_inner pq, uq_comm = Some \<lparr> cs_qp_type = RC, cs_addr = addr, cs_key = arc sd2 \<rparr> \<rparr>, d',
            \<lparr> pe_handler = h1, pe_driver = sd2, pe_inbox = [] \<rparr>)"
    using hs d'(1) by (simp add: h1_def)
  have up: "bring_up_rc_inner User sv sqp (ucast (pa_lid pa)) gid (qp_num cv (pq_inner pq) d) (qp_num cv (pq_inner pq) d) sd1
      = (Ok (), sd2)"
    using sd2(1) by simp
  show ?thesis
    apply (rule exI [of _ sd2], rule exI [of _ d'], rule exI, rule exI)
    apply (intro conjI allI impI, rule up, rule sd2(2), rule d'(1), rule d1, rule refl, rule refl)
    unfolding h1_def [symmetric]
      apply (rule hs1)
     apply (erule query)
    apply (intro exI conjI, rule drop, rule undone)
    done
qed

theorem handshake_round_trip_witness:
  "\<exists>uq d' n1 n2. handshake demo_json demo_wire ref_verbs (demo_pq RC) demo_addr (ref_init 9)
       \<lparr> pe_handler = demo_handler, pe_driver = ref_init 9, pe_inbox = [] \<rparr> = Some (Ok uq, d', n1)
     \<and> rs_qp d' 9 = IB_QPS_RTS \<and> dom (registered_rc (pe_handler n1)) = {4096}
     \<and> query_mr_info demo_json demo_wire uq n1 = Some (Ok Map.empty, n1)
     \<and> UserQueuePair_drop demo_json demo_wire ref_verbs uq d' n1 = Some (QueuePair_drop ref_verbs (demo_qp RC) d', n2)
     \<and> pe_handler n2 = demo_handler \<and> rs_live (pe_driver n2) = {}"
proof -
  obtain sqp sd1 where ready:
    "server_ready (\<lambda>_. 4096) ref_verbs rs_qp demo_handler (ref_init 9) sqp sd1 7 (replicate 16 9)"
    using demo_server_ready by blast
  have port: "get_port_attr ref_verbs (pq_port_num (demo_pq RC)) (ref_init 9) = Ok \<lparr> pa_state = IB_PORT_ACTIVE, pa_lid = 7 \<rparr>"
    "query_gid ref_verbs (pq_port_num (demo_pq RC)) 0 (ref_init 9) = Ok (replicate 16 9)"
    by (simp_all add: get_port_attr_def query_gid_def ref_verbs_def demo_pq_def)
  have infos: "js_infos demo_json i = Some []" "js_infos_of demo_json [] = Some Map.empty"
    "length (the (js_msg demo_json \<lparr> message_type = ty, serialized = [] \<rparr>)) \<le> 1024" for i ty
    by (simp_all add: demo_json_def)
  have none: "to_mrinfos v d (registered_mr demo_handler) = Map.empty" for v :: "ref_state verbs" and d
    by (simp add: to_mrinfos_def demo_handler_def Handler_new_def)
  have empty: "registered_rc demo_handler = Map.empty" "rs_live (ref_init 9) = {}"
    by (simp_all add: demo_handler_def Handler_new_def ref_init_def)
  have pq: "qp_mode (pq_inner (demo_pq RC)) = RC" "rs_qp (ref_init 9) (inner_qp (pq_inner (demo_pq RC))) = IB_QPS_RESET"
    "length (replicate 16 (9 :: u8)) = 16"
    by simp_all
  from handshake_round_trip [OF demo_json_law ref_qp_state_law ref_qp_accepts_law pq(1,2) port pq(3) ref_verbs_lifetimes
      ref_qp_state_law ready, of demo_addr "[]", folded demo_wire_def, unfolded none empty(1)]
  obtain sd2 d' uq n1 sd3 where
    1: "rs_qp d' (inner_qp (pq_inner (demo_pq RC))) = IB_QPS_RTS"
    and 2: "n1 = \<lparr> pe_handler = demo_handler \<lparr> registered_rc := [4096 \<mapsto> sqp] \<rparr>, pe_driver = sd2, pe_inbox = [] \<rparr>"
    and 3: "handshake demo_json demo_wire ref_verbs (demo_pq RC) demo_addr (ref_init 9)
       \<lparr> pe_handler = demo_handler, pe_driver = ref_init 9, pe_inbox = [] \<rparr> = Some (Ok uq, d', n1)"
    and 4: "\<forall>s. js_infos demo_json Map.empty = Some s \<and> js_infos_of demo_json s = Some Map.empty \<and>
       length (the (js_msg demo_json \<lparr> message_type = QueryMRReq, serialized = [] \<rparr>)) \<le> 1024 \<and>
       length (the (js_msg demo_json \<lparr> message_type = QueryMRRes, serialized = s \<rparr>)) \<le> 1024 \<longrightarrow>
       query_mr_info demo_json demo_wire uq n1 = Some (Ok Map.empty, n1)"
    and 5: "UserQueuePair_drop demo_json demo_wire ref_verbs uq d' n1 =
       Some (QueuePair_drop ref_verbs (pq_inner (demo_pq RC)) d', \<lparr> pe_handler = demo_handler, pe_driver = sd3, pe_inbox = [] \<rparr>)"
    and 6: "rs_live sd3 = rs_live (ref_init 9)"
    by (elim exE conjE) blast
  have "query_mr_info demo_json demo_wire uq n1 = Some (Ok Map.empty, n1)" using 4 infos by blast
  moreover have "dom (registered_rc (pe_handler n1)) = {4096}" by (simp add: 2)
  ultimately show ?thesis using 1 3 5 6 empty(2) by (intro exI conjI) (assumption | simp)+
qed

theorem handshake_outcome_witness:
  "(\<exists>r d' n'. handshake demo_json demo_wire ref_verbs (demo_pq RC) demo_addr (ref_init 9)
       \<lparr> pe_handler = demo_handler, pe_driver = ref_init 9, pe_inbox = [] \<rparr> = Some (r, d', n')
     \<and> handshake_result ref_verbs rs_live rs_qp (demo_pq RC) demo_addr (ref_init 9) r d')
   \<and> (\<exists>r d' n'. handshake demo_json demo_wire ref_verbs (demo_pq UD) demo_addr (ref_init 9)
       \<lparr> pe_handler = demo_handler, pe_driver = ref_init 9, pe_inbox = [] \<rparr> = Some (r, d', n')
     \<and> \<not> is_ok r \<and> handshake_result ref_verbs rs_live rs_qp (demo_pq UD) demo_addr (ref_init 9) r d')"
proof -
  have "\<forall>m. js_msg demo_json m \<noteq> None" by (simp add: demo_json_def)
  note out = handshake_outcome [OF ref_verbs_lifetimes ref_qp_state_law this, of demo_wire _ demo_addr "ref_init 9"
      "\<lparr> pe_handler = demo_handler, pe_driver = ref_init 9, pe_inbox = [] \<rparr>"]
  have "\<not> is_ok r" if "handshake demo_json demo_wire ref_verbs (demo_pq UD) demo_addr (ref_init 9)
      \<lparr> pe_handler = demo_handler, pe_driver = ref_init 9, pe_inbox = [] \<rparr> = Some (r, d', n')" for r d' n'
    using that by (auto simp: handshake_def)
  with out [of "demo_pq RC"] out [of "demo_pq UD"] show ?thesis by blast
qed

theorem service_registry_owned_witness:
  "\<exists>h d. cm_reach demo_json (\<lambda>_. 4096) ref_verbs demo_handler (ref_init 9) h d
     \<and> dom (registered_rc h) = {4096} \<and> registry_owns rs_live {} (registered_rc h) d"
proof -
  let ?data = "\<lparr> rd_lid = 7, rd_gid = replicate 16 9, rd_qpn = 9, rd_starting_psn = 9, rd_rnr_retry_count = 7, rd_rc_key = 0 \<rparr>"
  obtain sqp sd1 where ready:
    "server_ready (\<lambda>_. 4096) ref_verbs rs_qp demo_handler (ref_init 9) sqp sd1 7 (replicate 16 9)"
    using demo_server_ready by blast
  obtain raw where raw: "js_conn_of demo_json raw = Some ?data"
    using json_conn [OF demo_json_law, of ?data] by auto
  obtain d2 s where reg: "handle_reg_rc_req demo_json (\<lambda>_. 4096) ref_verbs raw demo_handler (ref_init 9) =
      (Ok \<lparr> message_type = RegRCRes, serialized = s \<rparr>,
       demo_handler \<lparr> registered_rc := (registered_rc demo_handler)(4096 \<mapsto> sqp) \<rparr>, d2)"
    by (rule server_registers [OF demo_json_law ref_qp_state_law ready raw]) blast
  let ?m = "\<lparr> message_type = RegRCReq, serialized = raw \<rparr>"
  obtain bs where bs: "bs \<noteq> []" "js_msg_of demo_json bs = Some ?m" by (rule json_msg [OF demo_json_law])
  have "\<exists>r replies. service_handler demo_json (\<lambda>_. 4096) ref_verbs [(Some bs, False)] demo_handler (ref_init 9) =
      Some (r, replies, demo_handler \<lparr> registered_rc := (registered_rc demo_handler)(4096 \<mapsto> sqp) \<rparr>, d2)"
    using bs reg by (simp add: dispatch_def should_send_back_def) (simp add: demo_json_def)
  then have reach: "cm_reach demo_json (\<lambda>_. 4096) ref_verbs demo_handler (ref_init 9)
      (demo_handler \<lparr> registered_rc := (registered_rc demo_handler)(4096 \<mapsto> sqp) \<rparr>) d2"
    by (elim exE) (rule cm_reach.turns [OF cm_reach.start])
  have "registry_owns rs_live (rs_live (ref_init 9))
      (registered_rc (demo_handler \<lparr> registered_rc := (registered_rc demo_handler)(4096 \<mapsto> sqp) \<rparr>)) d2"
    using service_registry_owned [OF ref_verbs_lifetimes reach [unfolded demo_handler_def]] by (simp only: demo_handler_def)
  moreover have "rs_live (ref_init 9) = {}" by (simp add: ref_init_def)
  moreover have "dom (registered_rc (demo_handler \<lparr> registered_rc := (registered_rc demo_handler)(4096 \<mapsto> sqp) \<rparr>)) = {4096}"
    by (simp add: demo_handler_def Handler_new_def)
  ultimately show ?thesis using reach by metis
qed

end
