(* ===== verification/Spec2Isabelle.thy ===== *)
theory Spec2Isabelle
  imports Net_Props Qp_Props Resource_Props Doorbell_Props Recv_Props Kit_Props Rctrl_Props Syscall_User_Props Connect_Props Push_Props Pop_Props Client_Props Vq_Props Cm_Props
begin

text \<open>
  \<^bold>\<open>KRCore: kernel-space RDMA control plane.\<close>
\<close>

end
